(* ===== verification/Prelude.thy ===== *)
theory Prelude
  imports Main "HOL-Library.Word" "HOL-Library.State_Monad" "HOL-Library.Signed_Division"
begin

text \<open>
  Shared vocabulary of the development.

  \<^item> C arithmetic: the kernel macros \<open>DIV_ROUND_UP\<close>, \<open>DIV_ROUND_CLOSEST\<close>, \<open>clamp\<close> and the errno
    values the drivers return.
  \<^item> The world a driver runs in. A driver owns some memory (\<open>dev\<close>) and calls code that is not part
    of the repository: the I2C core, regmap, the power-supply core, the IIO core, the TCPM, a
    transport. Each such call is an event; the answer comes from \<open>env\<close>, an arbitrary function of
    the history of events and answers so far and of the event. A theorem that holds for every
    \<open>env\<close> holds for every behaviour of the hardware and of the kernel services, failures included.
  \<^item> Drivers are computations of the library's state monad over that world. \<open>wp\<close> is the weakest
    precondition of a computation; the rules of the collections \<open>wp_intros\<close>, \<open>keeps_rules\<close>,
    \<open>observer_rules\<close> and \<open>emits_rules\<close> carry the component proofs. They give the answer of a call
    a fresh name, so a proof considers every answer and never the function that produced it.
\<close>

named_theorems wp_intros \<open>introduction rules that compute weakest preconditions\<close>
named_theorems observer_rules \<open>introduction rules for computations that only look\<close>
named_theorems emits_rules \<open>introduction rules for the set of events a computation can issue\<close>
named_theorems keeps_rules \<open>introduction rules for what a computation leaves unchanged\<close>

unbundle bit_operations_syntax

type_synonym u8 = "8 word"
type_synonym u16 = "16 word"
type_synonym u32 = "32 word"

subsection \<open>C arithmetic\<close>

text \<open>Linux errno values (returned negated).\<close>

abbreviation EAGAIN :: int where "EAGAIN \<equiv> 11"
abbreviation ENOMEM :: int where "ENOMEM \<equiv> 12"
abbreviation EBUSY :: int where "EBUSY \<equiv> 16"
abbreviation ENODEV :: int where "ENODEV \<equiv> 19"
abbreviation EINVAL :: int where "EINVAL \<equiv> 22"
abbreviation ERANGE :: int where "ERANGE \<equiv> 34"
abbreviation ENODATA :: int where "ENODATA \<equiv> 61"
abbreviation ENOLINK :: int where "ENOLINK \<equiv> 67"
abbreviation EOPNOTSUPP :: int where "EOPNOTSUPP \<equiv> 95"
abbreviation ETIMEDOUT :: int where "ETIMEDOUT \<equiv> 110"
abbreviation EPROBE_DEFER :: int where "EPROBE_DEFER \<equiv> 517"

text \<open>Signed division of C truncates towards zero: \<open>sdiv\<close> of the library.\<close>

definition DIV_ROUND_UP :: "int \<Rightarrow> int \<Rightarrow> int" where
  "DIV_ROUND_UP n d = (n + d - 1) sdiv d"

definition DIV_ROUND_CLOSEST :: "int \<Rightarrow> int \<Rightarrow> int" where
  "DIV_ROUND_CLOSEST x d =
     (if (x > 0) = (d > 0) then (x + d sdiv 2) sdiv d else (x - d sdiv 2) sdiv d)"

definition clamp :: "'a::linorder \<Rightarrow> 'a \<Rightarrow> 'a \<Rightarrow> 'a" where
  "clamp v lo hi = min (max v lo) hi"

lemma clamp_bounds: "lo \<le> hi \<Longrightarrow> lo \<le> clamp v lo hi \<and> clamp v lo hi \<le> hi"
  by (simp add: clamp_def)

lemma clamp_id: "lo \<le> v \<Longrightarrow> v \<le> hi \<Longrightarrow> clamp v lo hi = v"
  by (simp add: clamp_def)

lemma sdiv_nonneg [simp]: "0 \<le> a \<Longrightarrow> 0 < b \<Longrightarrow> a sdiv b = a div (b::int)"
  by (cases "a = 0") (simp_all add: signed_divide_int_def)

text \<open>A value an \<open>int\<close> variable of the C code holds.\<close>

definition to_int32 :: "int \<Rightarrow> int" where
  "to_int32 v = sint (word_of_int v :: 32 word)"

lemma to_int32_range: "- 2147483648 \<le> to_int32 v \<and> to_int32 v < 2147483648"
  using sint_ge [of "word_of_int v :: 32 word"] sint_lt [of "word_of_int v :: 32 word"]
  by (simp add: to_int32_def)

lemma to_int32_id: "- 2147483648 \<le> v \<Longrightarrow> v < 2147483648 \<Longrightarrow> to_int32 v = v"
  by (simp add: to_int32_def signed_of_int signed_take_bit_int_eq_self)

subsection \<open>The world and the driver monad\<close>

record ('d, 'e, 'a) world =
  dev :: 'd
  hist :: "('e \<times> 'a) list"
  env :: "('e \<times> 'a) list \<Rightarrow> 'e \<Rightarrow> 'a"

abbreviation return :: "'a \<Rightarrow> ('s, 'a) state" where
  "return \<equiv> State_Monad.return"

text \<open>One call of code outside the repository. The newest event is the head of the history.\<close>

definition call :: "'e \<Rightarrow> (('d, 'e, 'a) world, 'a) state" where
  "call e = State (\<lambda>w. let a = env w (hist w) e in (a, w\<lparr>hist := (e, a) # hist w\<rparr>))"

definition gets :: "('d \<Rightarrow> 'b) \<Rightarrow> (('d, 'e, 'a) world, 'b) state" where
  "gets f = State (\<lambda>w. (f (dev w), w))"

definition modify :: "('d \<Rightarrow> 'd) \<Rightarrow> (('d, 'e, 'a) world, unit) state" where
  "modify f = State (\<lambda>w. ((), w\<lparr>dev := f (dev w)\<rparr>))"

lemma run_call [simp]:
  "run_state (call e) w =
     (env w (hist w) e, w\<lparr>hist := (e, env w (hist w) e) # hist w\<rparr>)"
  by (simp add: call_def Let_def)

lemma run_gets [simp]: "run_state (gets f) w = (f (dev w), w)"
  by (simp add: gets_def)

lemma run_modify [simp]: "run_state (modify f) w = ((), w\<lparr>dev := f (dev w)\<rparr>)"
  by (simp add: modify_def)

abbreviation exec :: "('s, 'a) state \<Rightarrow> 's \<Rightarrow> 's" where
  "exec m w \<equiv> snd (run_state m w)"

abbreviation result :: "('s, 'a) state \<Rightarrow> 's \<Rightarrow> 'a" where
  "result m w \<equiv> fst (run_state m w)"

subsection \<open>Weakest preconditions\<close>

definition wp :: "('s, 'a) state \<Rightarrow> ('a \<Rightarrow> 's \<Rightarrow> bool) \<Rightarrow> 's \<Rightarrow> bool" where
  "wp m Q w = Q (result m w) (exec m w)"

lemma wp_returnI [wp_intros]: "Q x w \<Longrightarrow> wp (return x) Q w"
  by (simp add: wp_def)

lemma wp_bind: "wp (State_Monad.bind m f) Q w = wp m (\<lambda>r. wp (f r) Q) w"
  by (simp add: wp_def split: prod.splits)

lemma wp_bindI [wp_intros]: "wp m (\<lambda>r. wp (f r) Q) w \<Longrightarrow> wp (State_Monad.bind m f) Q w"
  by (simp add: wp_bind)

lemma wp_callI [wp_intros]:
  "(\<And>a. Q a (w\<lparr>hist := (e, a) # hist w\<rparr>)) \<Longrightarrow> wp (call e) Q w"
  by (simp add: wp_def)

lemma wp_getsI [wp_intros]: "Q (f (dev w)) w \<Longrightarrow> wp (gets f) Q w"
  by (simp add: wp_def)

lemma wp_modifyI [wp_intros]: "Q () (w\<lparr>dev := f (dev w)\<rparr>) \<Longrightarrow> wp (modify f) Q w"
  by (simp add: wp_def)

lemma wp_ifI [wp_intros]:
  "(b \<Longrightarrow> wp m Q w) \<Longrightarrow> (\<not> b \<Longrightarrow> wp n Q w) \<Longrightarrow> wp (if b then m else n) Q w"
  by simp

lemma wp_LetI [wp_intros]: "(\<And>y. y = x \<Longrightarrow> wp (f y) Q w) \<Longrightarrow> wp (Let x f) Q w"
  by (simp add: Let_def)

lemma wp_sumI [wp_intros]:
  "(\<And>e. s = Inl e \<Longrightarrow> wp (f e) Q w) \<Longrightarrow> (\<And>v. s = Inr v \<Longrightarrow> wp (g v) Q w) \<Longrightarrow>
   wp (case s of Inl e \<Rightarrow> f e | Inr v \<Rightarrow> g v) Q w"
  by (simp split: sum.splits)

lemma wp_optionI [wp_intros]:
  "(s = None \<Longrightarrow> wp f Q w) \<Longrightarrow> (\<And>v. s = Some v \<Longrightarrow> wp (g v) Q w) \<Longrightarrow>
   wp (case s of None \<Rightarrow> f | Some v \<Rightarrow> g v) Q w"
  by (simp split: option.splits)

lemma wp_prodI [wp_intros]:
  "(\<And>a b. p = (a, b) \<Longrightarrow> wp (f a b) Q w) \<Longrightarrow> wp (case p of (a, b) \<Rightarrow> f a b) Q w"
  by (simp split: prod.splits)

lemma wp_mono: "wp m Q w \<Longrightarrow> (\<And>r w'. Q r w' \<Longrightarrow> R r w') \<Longrightarrow> wp m R w"
  by (simp add: wp_def)

lemma wp_conj: "wp m (\<lambda>r w'. Q r w' \<and> R r w') w = (wp m Q w \<and> wp m R w)"
  by (simp add: wp_def)

lemma wp_exec: "wp m (\<lambda>_. I) w = I (exec m w)"
  by (simp add: wp_def)

subsection \<open>Invariants of computations\<close>

text \<open>\<open>keeps I m\<close>: running \<open>m\<close> from a world that satisfies \<open>I\<close> ends in one that does.\<close>

definition keeps :: "('s \<Rightarrow> bool) \<Rightarrow> ('s, 'a) state \<Rightarrow> bool" where
  "keeps I m = (\<forall>w. I w \<longrightarrow> I (exec m w))"

lemma keepsI: "(\<And>w. I w \<Longrightarrow> wp m (\<lambda>_. I) w) \<Longrightarrow> keeps I m"
  by (simp add: keeps_def wp_exec)

lemma keepsD: "keeps I m \<Longrightarrow> I w \<Longrightarrow> I (exec m w)"
  by (simp add: keeps_def)

lemma keeps_wp: "keeps I m \<Longrightarrow> I w \<Longrightarrow> wp m (\<lambda>_. I) w"
  by (simp add: keeps_def wp_exec)

lemma keeps_return [keeps_rules]: "keeps I (return x)"
  by (simp add: keeps_def)

lemma keeps_bind [keeps_rules]:
  "keeps I m \<Longrightarrow> (\<And>r. keeps I (f r)) \<Longrightarrow> keeps I (State_Monad.bind m f)"
  by (simp add: keeps_def split: prod.splits) (metis snd_conv)

lemma keeps_gets [keeps_rules]: "keeps I (gets f)"
  by (simp add: keeps_def)

lemma keeps_if [keeps_rules]:
  "(b \<Longrightarrow> keeps I m) \<Longrightarrow> (\<not> b \<Longrightarrow> keeps I n) \<Longrightarrow> keeps I (if b then m else n)"
  by simp

lemma keeps_Let [keeps_rules]: "(\<And>y. y = x \<Longrightarrow> keeps I (f y)) \<Longrightarrow> keeps I (Let x f)"
  by (simp add: Let_def)

lemma keeps_sum [keeps_rules]:
  "(\<And>e. s = Inl e \<Longrightarrow> keeps I (f e)) \<Longrightarrow> (\<And>v. s = Inr v \<Longrightarrow> keeps I (g v)) \<Longrightarrow>
   keeps I (case s of Inl e \<Rightarrow> f e | Inr v \<Rightarrow> g v)"
  by (simp split: sum.splits)

lemma keeps_option [keeps_rules]:
  "(s = None \<Longrightarrow> keeps I f) \<Longrightarrow> (\<And>v. s = Some v \<Longrightarrow> keeps I (g v)) \<Longrightarrow>
   keeps I (case s of None \<Rightarrow> f | Some v \<Rightarrow> g v)"
  by (simp split: option.splits)

lemma keeps_prod [keeps_rules]:
  "(\<And>a b. p = (a, b) \<Longrightarrow> keeps I (f a b)) \<Longrightarrow> keeps I (case p of (a, b) \<Rightarrow> f a b)"
  by (simp split: prod.splits)

subsection \<open>Which events a computation can issue\<close>

definition emits :: "('e \<Rightarrow> bool) \<Rightarrow> (('d, 'e, 'a) world, 'b) state \<Rightarrow> bool" where
  "emits E m = (\<forall>w. env (exec m w) = env w \<and>
     (\<exists>new. hist (exec m w) = new @ hist w \<and> (\<forall>x \<in> set new. E (fst x))))"

definition observer :: "('e \<Rightarrow> bool) \<Rightarrow> (('d, 'e, 'a) world, 'b) state \<Rightarrow> bool" where
  "observer E m = (emits E m \<and> (\<forall>w. dev (exec m w) = dev w))"

lemma emitsD:
  assumes "emits E m"
  obtains new where "hist (exec m w) = new @ hist w" "\<forall>x \<in> set new. E (fst x)"
    "env (exec m w) = env w"
  using assms unfolding emits_def by blast

lemma emits_return [emits_rules]: "emits E (return x)"
  by (simp add: emits_def)

lemma emits_call [emits_rules]: "E e \<Longrightarrow> emits E (call e)"
  by (simp add: emits_def)

lemma emits_gets [emits_rules]: "emits E (gets f)"
  by (simp add: emits_def)

lemma emits_modify [emits_rules]: "emits E (modify f)"
  by (simp add: emits_def)

lemma exec_bind: "exec (State_Monad.bind m f) w = exec (f (result m w)) (exec m w)"
  by (simp split: prod.splits)

lemma emits_bind [emits_rules]:
  assumes "emits E m" and "\<And>r. emits E (f r)"
  shows "emits E (State_Monad.bind m f)"
  unfolding emits_def
proof
  fix w
  from assms(1) obtain n1 where n1: "hist (exec m w) = n1 @ hist w" "\<forall>x \<in> set n1. E (fst x)"
    "env (exec m w) = env w" by (rule emitsD)
  from assms(2) obtain n2 where n2:
    "hist (exec (f (result m w)) (exec m w)) = n2 @ hist (exec m w)" "\<forall>x \<in> set n2. E (fst x)"
    "env (exec (f (result m w)) (exec m w)) = env (exec m w)" by (rule emitsD)
  from n1 n2 show "env (exec (State_Monad.bind m f) w) = env w \<and>
    (\<exists>new. hist (exec (State_Monad.bind m f) w) = new @ hist w \<and> (\<forall>x \<in> set new. E (fst x)))"
    by (intro conjI exI [of _ "n2 @ n1"]) (auto simp: exec_bind simp del: run_state_bind)
qed

lemma emits_if [emits_rules]:
  "(b \<Longrightarrow> emits E m) \<Longrightarrow> (\<not> b \<Longrightarrow> emits E n) \<Longrightarrow> emits E (if b then m else n)"
  by simp

lemma emits_Let [emits_rules]: "(\<And>y. y = x \<Longrightarrow> emits E (f y)) \<Longrightarrow> emits E (Let x f)"
  by (simp add: Let_def)

lemma emits_sum [emits_rules]:
  "(\<And>e. s = Inl e \<Longrightarrow> emits E (f e)) \<Longrightarrow> (\<And>v. s = Inr v \<Longrightarrow> emits E (g v)) \<Longrightarrow>
   emits E (case s of Inl e \<Rightarrow> f e | Inr v \<Rightarrow> g v)"
  by (simp split: sum.splits)

lemma emits_option [emits_rules]:
  "(s = None \<Longrightarrow> emits E f) \<Longrightarrow> (\<And>v. s = Some v \<Longrightarrow> emits E (g v)) \<Longrightarrow>
   emits E (case s of None \<Rightarrow> f | Some v \<Rightarrow> g v)"
  by (simp split: option.splits)

lemma emits_prod [emits_rules]:
  "(\<And>a b. p = (a, b) \<Longrightarrow> emits E (f a b)) \<Longrightarrow> emits E (case p of (a, b) \<Rightarrow> f a b)"
  by (simp split: prod.splits)

lemma emits_mono: "emits E m \<Longrightarrow> (\<And>e. E e \<Longrightarrow> F e) \<Longrightarrow> emits F m"
  unfolding emits_def by meson

lemma observer_return [observer_rules]: "observer E (return x)"
  by (simp add: observer_def emits_return)

lemma observer_call [observer_rules]: "E e \<Longrightarrow> observer E (call e)"
  by (simp add: observer_def emits_call)

lemma observer_gets [observer_rules]: "observer E (gets f)"
  by (simp add: observer_def emits_gets)

lemma observer_bind [observer_rules]:
  "observer E m \<Longrightarrow> (\<And>r. observer E (f r)) \<Longrightarrow> observer E (State_Monad.bind m f)"
  by (simp add: observer_def emits_bind exec_bind del: run_state_bind)

lemma observer_if [observer_rules]:
  "(b \<Longrightarrow> observer E m) \<Longrightarrow> (\<not> b \<Longrightarrow> observer E n) \<Longrightarrow> observer E (if b then m else n)"
  by simp

lemma observer_Let [observer_rules]: "(\<And>y. y = x \<Longrightarrow> observer E (f y)) \<Longrightarrow> observer E (Let x f)"
  by (simp add: Let_def)

lemma observer_sum [observer_rules]:
  "(\<And>e. s = Inl e \<Longrightarrow> observer E (f e)) \<Longrightarrow> (\<And>v. s = Inr v \<Longrightarrow> observer E (g v)) \<Longrightarrow>
   observer E (case s of Inl e \<Rightarrow> f e | Inr v \<Rightarrow> g v)"
  by (simp split: sum.splits)

lemma observer_option [observer_rules]:
  "(s = None \<Longrightarrow> observer E f) \<Longrightarrow> (\<And>v. s = Some v \<Longrightarrow> observer E (g v)) \<Longrightarrow>
   observer E (case s of None \<Rightarrow> f | Some v \<Rightarrow> g v)"
  by (simp split: option.splits)

lemma observer_mono: "observer E m \<Longrightarrow> (\<And>e. E e \<Longrightarrow> F e) \<Longrightarrow> observer F m"
  unfolding observer_def by (blast intro: emits_mono)

text \<open>
  The rule that lets a proof step over a call of a computation that only looks: all that is known
  afterwards is that some events of the given kind were added to the history.
\<close>

lemma wp_observed:
  assumes "observer E m"
    and "\<And>new. \<forall>x \<in> set new. E (fst x) \<Longrightarrow> Q (result m w) (w\<lparr>hist := new @ hist w\<rparr>)"
  shows "wp m Q w"
proof -
  from assms(1) have "emits E m" and d: "dev (exec m w) = dev w"
    by (auto simp: observer_def)
  from \<open>emits E m\<close> obtain new where new: "hist (exec m w) = new @ hist w" "env (exec m w) = env w"
    and all: "\<forall>x \<in> set new. E (fst x)" by (rule emitsD)
  have "exec m w = w\<lparr>hist := new @ hist w\<rparr>"
    using new d by (cases "exec m w", cases w) simp
  with assms(2) [OF all] show ?thesis by (simp add: wp_def)
qed

lemma wp_observer:
  assumes "observer E m"
    and "\<And>r new. \<forall>x \<in> set new. E (fst x) \<Longrightarrow> Q r (w\<lparr>hist := new @ hist w\<rparr>)"
  shows "wp m Q w"
  using assms by (rule wp_observed)

text \<open>Stepping over a computation that only looks and keeps the invariant in use.\<close>

lemma wp_look:
  assumes "keeps I m" and "observer E m" and "I w"
    and "\<And>r w'. I w' \<Longrightarrow> dev w' = dev w \<Longrightarrow> Q r w'"
  shows "wp m Q w"
  using assms by (simp add: wp_def keeps_def observer_def)

lemma wp_keeps: "keeps I m \<Longrightarrow> I w \<Longrightarrow> (\<And>r w'. I w' \<Longrightarrow> Q r w') \<Longrightarrow> wp m Q w"
  by (simp add: wp_def keeps_def)

subsection \<open>Histories\<close>

text \<open>
  A policy says which event may be issued after which history. \<open>obeys\<close>: every event of a
  history was allowed when it was issued.
\<close>

primrec obeys :: "(('e \<times> 'a) list \<Rightarrow> 'e \<Rightarrow> bool) \<Rightarrow> ('e \<times> 'a) list \<Rightarrow> bool" where
  "obeys A [] = True"
| "obeys A (x # h) = (A h (fst x) \<and> obeys A h)"

lemma obeys_append:
  "(\<forall>x \<in> set new. \<forall>h. A h (fst x)) \<Longrightarrow> obeys A (new @ h) = obeys A h"
  by (induction new) auto

lemma obeys_suffix: "obeys A (new @ h) \<Longrightarrow> obeys A h"
  by (induction new) auto

text \<open>Events a policy never restricts keep it.\<close>

lemma emits_keeps_obeys:
  fixes m :: "(('d, 'e, 'a) world, 'b) state"
  assumes "emits E m" and "\<And>e h. E e \<Longrightarrow> A h e"
  shows "keeps (\<lambda>w. obeys A (hist w)) m"
  unfolding keeps_def
proof (intro allI impI)
  fix w :: "('d, 'e, 'a) world"
  assume r: "obeys A (hist w)"
  from assms(1) obtain new where "hist (exec m w) = new @ hist w" "\<forall>x \<in> set new. E (fst x)"
    by (rule emitsD)
  with assms(2) r show "obeys A (hist (exec m w))"
    by (simp add: obeys_append)
qed

end
