(* ===== verification/Board.thy ===== *)
theory Board
  imports Prelude
begin

text \<open>
  The charging board: the memory of the three drivers that share it (the SM5714 charger and fuel
  gauge, the SM5440 direct charger, the SM5714 Type-C/PD controller) and the kernel services they
  call. The structs are those of \<open>sm5714_battery.c\<close>, \<open>sm5440_direct.c\<close> and \<open>sm5714_usbpd.c\<close> without
  the handles (device, client, regmap, work and mutex objects), which name other code's objects.
  One SM5714 exists (its probe refuses a second one), so \<open>sm5714_primary\<close> is the flag that the
  global pointer refers to it.
\<close>

subsection \<open>Driver memory\<close>

datatype sm5714_charge_thermal_state =
  SM5714_THERMAL_NORMAL | SM5714_THERMAL_REDUCED | SM5714_THERMAL_STOP

record battery_info =
  charge_full_design_uah :: int
  voltage_max_design_uv :: int
  voltage_min_design_uv :: int

record sm5714_battery =
  battery_temp :: bool
  info :: "battery_info option"
  float_uv :: u32
  last_status :: int
  last_capacity :: int
  last_online :: bool
  last_usb_type :: int
  poll_count :: u32
  typec_mv :: u32
  typec_ma :: u32
  thermal_state :: sm5714_charge_thermal_state
  direct_charging :: bool
  otg_active :: bool
  fast_charge :: bool

record sm5440_direct =
  target_mv :: int
  target_ma :: int
  pps_ticks :: u32
  fails :: u32
  active :: bool
  suspending :: bool

datatype typec_cc_polarity = TYPEC_POLARITY_CC1 | TYPEC_POLARITY_CC2

record sm5714_usbpd =
  port :: bool
  otg_det_gpio :: bool
  polarity :: typec_cc_polarity
  pr_swap_src_to_snk :: bool
  pr_swap_snk_to_src :: bool
  retained_sink_dfp :: bool
  retained_dock_reset :: bool
  negotiated_mv :: u32
  negotiated_ma :: u32

record board =
  battery :: sm5714_battery
  sm5714_primary :: bool
  pump :: sm5440_direct
  max_pps_ma :: u32
  usbpd :: sm5714_usbpd

subsection \<open>Calls into the kernel\<close>

text \<open>The four I2C addresses the charger drivers talk to.\<close>

datatype client = Chg | Fg | Muic | Pump

datatype power_supply = PsyTcpm | PsyBat | PsyUsb

datatype power_supply_property =
  POWER_SUPPLY_PROP_STATUS | POWER_SUPPLY_PROP_PRESENT | POWER_SUPPLY_PROP_TECHNOLOGY
| POWER_SUPPLY_PROP_CAPACITY | POWER_SUPPLY_PROP_VOLTAGE_NOW | POWER_SUPPLY_PROP_VOLTAGE_AVG
| POWER_SUPPLY_PROP_VOLTAGE_OCV | POWER_SUPPLY_PROP_CURRENT_NOW | POWER_SUPPLY_PROP_CURRENT_AVG
| POWER_SUPPLY_PROP_TEMP | POWER_SUPPLY_PROP_CHARGE_FULL_DESIGN
| POWER_SUPPLY_PROP_VOLTAGE_MAX_DESIGN | POWER_SUPPLY_PROP_VOLTAGE_MIN_DESIGN
| POWER_SUPPLY_PROP_ONLINE | POWER_SUPPLY_PROP_USB_TYPE | POWER_SUPPLY_PROP_VOLTAGE_MAX
| POWER_SUPPLY_PROP_CURRENT_MAX

datatype delayed_work = PollWork | PumpWork | CcResyncWork | OtgDetWork

datatype tcpm_transmit_type =
  TCPC_TX_SOP | TCPC_TX_SOP_PRIME | TCPC_TX_SOP_PRIME_PRIME | TCPC_TX_SOP_DEBUG_PRIME
| TCPC_TX_SOP_DEBUG_PRIME_PRIME | TCPC_TX_HARD_RESET | TCPC_TX_CABLE_RESET | TCPC_TX_BIST_MODE_2

datatype tcpm_transmit_status = TCPC_TX_SUCCESS | TCPC_TX_DISCARDED | TCPC_TX_FAILED

text \<open>A USB-PD message: the 16-bit header and the payload bytes that follow it.\<close>

record pd_message =
  header :: u16
  payload :: "u8 list"

datatype event =
  ReadByte client u8
| WriteByte client u8 u8
| ReadWord client u8
| WriteWord client u8 u16
| RegmapRead u8
| RegmapWrite u8 u8
| RegmapUpdateBits u8 u8 u8
| RegmapBulkRead u8 nat
| RegmapBulkWrite u8 "u8 list"
| Devm string
| IioRead
| PsyGet power_supply power_supply_property
| PsySet power_supply power_supply_property int
| PsyChanged power_supply
| Msleep int
| ScheduleWork delayed_work int
| CancelWork delayed_work
| SetOtgDet bool
| TcpmCcChange
| TcpmVbusChange
| TcpmPdReceive pd_message tcpm_transmit_type
| TcpmPdTransmitComplete tcpm_transmit_status
| TcpmPdHardReset

text \<open>An answer: the return code and the data the call delivers.\<close>

type_synonym answer = "int \<times> int list"
type_synonym history = "(event \<times> answer) list"
type_synonym board_world = "(board, event, answer) world"
type_synonym 'a io = "(board_world, 'a) state"

text \<open>
  The documented ranges of the return values: the SMBus reads return a byte or word or a negative
  errno, the writes zero or a negative errno; \<open>regmap\<close> and the power-supply core return zero or a
  negative errno. The answer of the environment is cut to them, so that the model has exactly the
  documented behaviours and no hypothesis about the environment is needed.
\<close>

definition err_or_zero :: "int \<Rightarrow> int" where
  "err_or_zero r = (if r < 0 then r else 0)"

definition byte_result :: "int \<Rightarrow> int" where
  "byte_result r = (if r < 0 then r else r mod 256)"

definition word_result :: "int \<Rightarrow> int" where
  "word_result r = (if r < 0 then r else r mod 65536)"

definition first_value :: "int list \<Rightarrow> int" where
  "first_value vs = (case vs of [] \<Rightarrow> 0 | v # _ \<Rightarrow> v)"

definition i2c_smbus_read_byte_data :: "client \<Rightarrow> u8 \<Rightarrow> int io" where
  "i2c_smbus_read_byte_data c reg = do { a \<leftarrow> call (ReadByte c reg); return (byte_result (fst a)) }"

definition i2c_smbus_write_byte_data :: "client \<Rightarrow> u8 \<Rightarrow> u8 \<Rightarrow> int io" where
  "i2c_smbus_write_byte_data c reg v =
     do { a \<leftarrow> call (WriteByte c reg v); return (err_or_zero (fst a)) }"

definition i2c_smbus_read_word_data :: "client \<Rightarrow> u8 \<Rightarrow> int io" where
  "i2c_smbus_read_word_data c reg = do { a \<leftarrow> call (ReadWord c reg); return (word_result (fst a)) }"

definition i2c_smbus_write_word_data :: "client \<Rightarrow> u8 \<Rightarrow> u16 \<Rightarrow> int io" where
  "i2c_smbus_write_word_data c reg v =
     do { a \<leftarrow> call (WriteWord c reg v); return (err_or_zero (fst a)) }"

definition regmap_read :: "u8 \<Rightarrow> (int + u32) io" where
  "regmap_read reg =
     do { a \<leftarrow> call (RegmapRead reg);
          return (if fst a < 0 then Inl (fst a)
                  else Inr (word_of_int (first_value (snd a) mod 256))) }"

definition regmap_write :: "u8 \<Rightarrow> u8 \<Rightarrow> int io" where
  "regmap_write reg v = do { a \<leftarrow> call (RegmapWrite reg v); return (err_or_zero (fst a)) }"

definition regmap_update_bits :: "u8 \<Rightarrow> u8 \<Rightarrow> u8 \<Rightarrow> int io" where
  "regmap_update_bits reg msk v =
     do { a \<leftarrow> call (RegmapUpdateBits reg msk v); return (err_or_zero (fst a)) }"

definition regmap_bulk_read :: "u8 \<Rightarrow> nat \<Rightarrow> (int + u8 list) io" where
  "regmap_bulk_read reg n =
     do { a \<leftarrow> call (RegmapBulkRead reg n);
          return (if fst a < 0 then Inl (fst a)
                  else Inr (map word_of_int (take n (snd a @ replicate n 0)))) }"

definition regmap_bulk_write :: "u8 \<Rightarrow> u8 list \<Rightarrow> int io" where
  "regmap_bulk_write reg vs = do { a \<leftarrow> call (RegmapBulkWrite reg vs); return (err_or_zero (fst a)) }"

text \<open>Acquiring a resource at probe time (allocations, handles, registrations).\<close>

definition devm :: "string \<Rightarrow> int io" where
  "devm what = do { a \<leftarrow> call (Devm what); return (err_or_zero (fst a)) }"

definition iio_read_channel_processed :: "(int + int) io" where
  "iio_read_channel_processed =
     do { a \<leftarrow> call IioRead;
          return (if fst a < 0 then Inl (fst a) else Inr (to_int32 (first_value (snd a)))) }"

definition power_supply_get_property ::
  "power_supply \<Rightarrow> power_supply_property \<Rightarrow> (int + int) io" where
  "power_supply_get_property psy p =
     do { a \<leftarrow> call (PsyGet psy p);
          return (if fst a < 0 then Inl (fst a) else Inr (to_int32 (first_value (snd a)))) }"

definition power_supply_set_property ::
  "power_supply \<Rightarrow> power_supply_property \<Rightarrow> int \<Rightarrow> int io" where
  "power_supply_set_property psy p v =
     do { a \<leftarrow> call (PsySet psy p v); return (err_or_zero (fst a)) }"

definition power_supply_changed :: "power_supply \<Rightarrow> unit io" where
  "power_supply_changed psy = do { _ \<leftarrow> call (PsyChanged psy); return () }"

definition msleep :: "int \<Rightarrow> unit io" where
  "msleep ms = do { _ \<leftarrow> call (Msleep ms); return () }"

text \<open>\<open>schedule_delayed_work\<close> and \<open>mod_delayed_work\<close>, with the delay in milliseconds.\<close>

definition schedule_delayed_work :: "delayed_work \<Rightarrow> int \<Rightarrow> unit io" where
  "schedule_delayed_work wk ms = do { _ \<leftarrow> call (ScheduleWork wk ms); return () }"

definition cancel_delayed_work :: "delayed_work \<Rightarrow> unit io" where
  "cancel_delayed_work wk = do { _ \<leftarrow> call (CancelWork wk); return () }"

lemmas kernel_call_defs =
  i2c_smbus_read_byte_data_def i2c_smbus_write_byte_data_def
  i2c_smbus_read_word_data_def i2c_smbus_write_word_data_def
  regmap_read_def regmap_write_def regmap_update_bits_def
  regmap_bulk_read_def regmap_bulk_write_def devm_def
  iio_read_channel_processed_def power_supply_get_property_def
  power_supply_set_property_def power_supply_changed_def msleep_def
  schedule_delayed_work_def cancel_delayed_work_def

lemma err_or_zero_le [simp]: "err_or_zero r \<le> 0"
  by (simp add: err_or_zero_def)

lemma err_or_zero_eq_0 [simp]: "err_or_zero r = 0 \<longleftrightarrow> 0 \<le> r"
  by (simp add: err_or_zero_def)

lemma byte_result_neg [simp]: "byte_result r < 0 \<longleftrightarrow> r < 0"
  by (simp add: byte_result_def not_less)

lemma byte_result_err [simp]: "r < 0 \<Longrightarrow> byte_result r = r"
  by (simp add: byte_result_def)

lemma byte_result_less: "byte_result r < 256"
  by (simp add: byte_result_def)

lemma word_result_neg [simp]: "word_result r < 0 \<longleftrightarrow> r < 0"
  by (simp add: word_result_def not_less)

lemma word_result_less: "word_result r < 65536"
  by (simp add: word_result_def)

lemma byte_result_nonneg: "0 \<le> byte_result r \<Longrightarrow> byte_result r = r mod 256 \<and> 0 \<le> r"
  by (simp add: byte_result_def split: if_splits)

lemma byte_byte_result [simp]:
  "0 \<le> r \<Longrightarrow> (word_of_int (byte_result r) :: u8) = word_of_int r"
  by (simp add: byte_result_def word_of_int_eq_iff take_bit_eq_mod)

subsection \<open>The kinds of events\<close>

text \<open>Events that read and events that only notify or wait: none of them programs a chip.\<close>

fun is_read :: "event \<Rightarrow> bool" where
  "is_read (ReadByte _ _) = True"
| "is_read (ReadWord _ _) = True"
| "is_read (RegmapRead _) = True"
| "is_read (RegmapBulkRead _ _) = True"
| "is_read IioRead = True"
| "is_read (PsyGet _ _) = True"
| "is_read _ = False"

text \<open>
  Events that program neither of the two chargers nor the USB-PD contract: everything but the byte
  writes to the charger block and to the pump and the property writes to the TCPM.
\<close>

fun neutral :: "event \<Rightarrow> bool" where
  "neutral (WriteByte c _ _) = (c \<noteq> Chg \<and> c \<noteq> Pump)"
| "neutral (PsySet _ _ _) = False"
| "neutral _ = True"

text \<open>Memory access to the three structs.\<close>

definition upd_bat :: "(sm5714_battery \<Rightarrow> sm5714_battery) \<Rightarrow> unit io" where
  "upd_bat f = modify (\<lambda>b. b\<lparr>battery := f (battery b)\<rparr>)"

definition get_bat :: "(sm5714_battery \<Rightarrow> 'a) \<Rightarrow> 'a io" where
  "get_bat f = gets (\<lambda>b. f (battery b))"

definition upd_pump :: "(sm5440_direct \<Rightarrow> sm5440_direct) \<Rightarrow> unit io" where
  "upd_pump f = modify (\<lambda>b. b\<lparr>pump := f (pump b)\<rparr>)"

definition get_pump :: "(sm5440_direct \<Rightarrow> 'a) \<Rightarrow> 'a io" where
  "get_pump f = gets (\<lambda>b. f (pump b))"

definition upd_pd :: "(sm5714_usbpd \<Rightarrow> sm5714_usbpd) \<Rightarrow> unit io" where
  "upd_pd f = modify (\<lambda>b. b\<lparr>usbpd := f (usbpd b)\<rparr>)"

definition get_pd :: "(sm5714_usbpd \<Rightarrow> 'a) \<Rightarrow> 'a io" where
  "get_pd f = gets (\<lambda>b. f (usbpd b))"

lemmas memory_defs = upd_bat_def get_bat_def upd_pump_def get_pump_def upd_pd_def get_pd_def

subsection \<open>Rules for the kernel calls\<close>

lemma wp_read_byteI [wp_intros]:
  "(\<And>a. Q (byte_result (fst a)) (w\<lparr>hist := (ReadByte c reg, a) # hist w\<rparr>)) \<Longrightarrow>
   wp (i2c_smbus_read_byte_data c reg) Q w"
  unfolding i2c_smbus_read_byte_data_def by (intro wp_intros)

lemma wp_write_byteI [wp_intros]:
  "(\<And>a. Q (err_or_zero (fst a)) (w\<lparr>hist := (WriteByte c reg v, a) # hist w\<rparr>)) \<Longrightarrow>
   wp (i2c_smbus_write_byte_data c reg v) Q w"
  unfolding i2c_smbus_write_byte_data_def by (intro wp_intros)

lemma wp_read_wordI [wp_intros]:
  "(\<And>a. Q (word_result (fst a)) (w\<lparr>hist := (ReadWord c reg, a) # hist w\<rparr>)) \<Longrightarrow>
   wp (i2c_smbus_read_word_data c reg) Q w"
  unfolding i2c_smbus_read_word_data_def by (intro wp_intros)

lemma wp_write_wordI [wp_intros]:
  "(\<And>a. Q (err_or_zero (fst a)) (w\<lparr>hist := (WriteWord c reg v, a) # hist w\<rparr>)) \<Longrightarrow>
   wp (i2c_smbus_write_word_data c reg v) Q w"
  unfolding i2c_smbus_write_word_data_def by (intro wp_intros)

lemma wp_psy_setI [wp_intros]:
  "(\<And>a. Q (err_or_zero (fst a)) (w\<lparr>hist := (PsySet psy p v, a) # hist w\<rparr>)) \<Longrightarrow>
   wp (power_supply_set_property psy p v) Q w"
  unfolding power_supply_set_property_def by (intro wp_intros)

lemma wp_psy_changedI [wp_intros]:
  "(\<And>a. Q () (w\<lparr>hist := (PsyChanged psy, a) # hist w\<rparr>)) \<Longrightarrow> wp (power_supply_changed psy) Q w"
  unfolding power_supply_changed_def by (intro wp_intros)

lemma wp_msleepI [wp_intros]:
  "(\<And>a. Q () (w\<lparr>hist := (Msleep ms, a) # hist w\<rparr>)) \<Longrightarrow> wp (msleep ms) Q w"
  unfolding msleep_def by (intro wp_intros)

lemma wp_upd_batI [wp_intros]:
  "Q () (w\<lparr>dev := (dev w)\<lparr>battery := f (battery (dev w))\<rparr>\<rparr>) \<Longrightarrow> wp (upd_bat f) Q w"
  unfolding upd_bat_def by (rule wp_modifyI)

lemma wp_get_batI [wp_intros]: "Q (f (battery (dev w))) w \<Longrightarrow> wp (get_bat f) Q w"
  unfolding get_bat_def by (rule wp_getsI)

lemma wp_upd_pumpI [wp_intros]:
  "Q () (w\<lparr>dev := (dev w)\<lparr>pump := f (pump (dev w))\<rparr>\<rparr>) \<Longrightarrow> wp (upd_pump f) Q w"
  unfolding upd_pump_def by (rule wp_modifyI)

lemma wp_get_pumpI [wp_intros]: "Q (f (pump (dev w))) w \<Longrightarrow> wp (get_pump f) Q w"
  unfolding get_pump_def by (rule wp_getsI)

lemma wp_upd_pdI [wp_intros]:
  "Q () (w\<lparr>dev := (dev w)\<lparr>usbpd := f (usbpd (dev w))\<rparr>\<rparr>) \<Longrightarrow> wp (upd_pd f) Q w"
  unfolding upd_pd_def by (rule wp_modifyI)

lemma wp_get_pdI [wp_intros]: "Q (f (usbpd (dev w))) w \<Longrightarrow> wp (get_pd f) Q w"
  unfolding get_pd_def by (rule wp_getsI)

lemma observer_read_byte [observer_rules]:
  "E (ReadByte c reg) \<Longrightarrow> observer E (i2c_smbus_read_byte_data c reg)"
  unfolding i2c_smbus_read_byte_data_def by (intro observer_rules)

lemma observer_write_byte [observer_rules]:
  "E (WriteByte c reg v) \<Longrightarrow> observer E (i2c_smbus_write_byte_data c reg v)"
  unfolding i2c_smbus_write_byte_data_def by (intro observer_rules)

lemma observer_msleep [observer_rules]: "E (Msleep ms) \<Longrightarrow> observer E (msleep ms)"
  unfolding msleep_def by (intro observer_rules)

lemma observer_psy_changed [observer_rules]:
  "E (PsyChanged psy) \<Longrightarrow> observer E (power_supply_changed psy)"
  unfolding power_supply_changed_def by (intro observer_rules)

lemma observer_read_word [observer_rules]:
  "E (ReadWord c reg) \<Longrightarrow> observer E (i2c_smbus_read_word_data c reg)"
  unfolding i2c_smbus_read_word_data_def by (intro observer_rules)

lemma observer_write_word [observer_rules]:
  "E (WriteWord c reg v) \<Longrightarrow> observer E (i2c_smbus_write_word_data c reg v)"
  unfolding i2c_smbus_write_word_data_def by (intro observer_rules)

lemma observer_iio [observer_rules]: "E IioRead \<Longrightarrow> observer E iio_read_channel_processed"
  unfolding iio_read_channel_processed_def by (intro observer_rules)

lemma observer_get_bat [observer_rules]: "observer E (get_bat f)"
  unfolding get_bat_def by (intro observer_rules)

lemma observer_get_pump [observer_rules]: "observer E (get_pump f)"
  unfolding get_pump_def by (intro observer_rules)

lemma observer_psy_get [observer_rules]:
  "E (PsyGet psy p) \<Longrightarrow> observer E (power_supply_get_property psy p)"
  unfolding power_supply_get_property_def by (intro observer_rules)

subsection \<open>Invariants of the board\<close>

text \<open>
  The contract between an invariant of the board and the drivers: neutral events, and more
  generally the events the invariant calls harmless, keep it, and so do updates of the battery
  struct that leave the OTG flag alone. The drivers' helper operations are proved to keep every
  such invariant once, here and in the component theories.
\<close>

locale board_invariant =
  fixes inv :: "board_world \<Rightarrow> bool"
    and harmless :: "event \<Rightarrow> bool"
  assumes harmless_call: "harmless e \<Longrightarrow> keeps inv (call e)"
    and neutral_harmless: "neutral e \<Longrightarrow> harmless e"
    and bat_update: "(\<And>s. otg_active (f s) = otg_active s) \<Longrightarrow> keeps inv (upd_bat f)"
begin

lemma keeps_neutral: "neutral e \<Longrightarrow> keeps inv (call e)"
  by (simp add: harmless_call neutral_harmless)

lemma keeps_read_byte [keeps_rules]: "keeps inv (i2c_smbus_read_byte_data c reg)"
  unfolding i2c_smbus_read_byte_data_def by (intro keeps_rules keeps_neutral) simp

lemma keeps_write_byte:
  "harmless (WriteByte c reg v) \<Longrightarrow> keeps inv (i2c_smbus_write_byte_data c reg v)"
  unfolding i2c_smbus_write_byte_data_def by (intro keeps_rules harmless_call)

lemma keeps_write_muic [keeps_rules]: "keeps inv (i2c_smbus_write_byte_data Muic reg v)"
  by (intro keeps_write_byte neutral_harmless) simp

lemma keeps_read_word [keeps_rules]: "keeps inv (i2c_smbus_read_word_data c reg)"
  unfolding i2c_smbus_read_word_data_def by (intro keeps_rules keeps_neutral) simp

lemma keeps_write_word [keeps_rules]: "keeps inv (i2c_smbus_write_word_data c reg v)"
  unfolding i2c_smbus_write_word_data_def by (intro keeps_rules keeps_neutral) simp

lemma keeps_regmap_read [keeps_rules]: "keeps inv (regmap_read reg)"
  unfolding regmap_read_def by (intro keeps_rules keeps_neutral) simp

lemma keeps_regmap_write [keeps_rules]: "keeps inv (regmap_write reg v)"
  unfolding regmap_write_def by (intro keeps_rules keeps_neutral) simp

lemma keeps_regmap_update_bits [keeps_rules]: "keeps inv (regmap_update_bits reg msk v)"
  unfolding regmap_update_bits_def by (intro keeps_rules keeps_neutral) simp

lemma keeps_regmap_bulk_read [keeps_rules]: "keeps inv (regmap_bulk_read reg n)"
  unfolding regmap_bulk_read_def by (intro keeps_rules keeps_neutral) simp

lemma keeps_regmap_bulk_write [keeps_rules]: "keeps inv (regmap_bulk_write reg vs)"
  unfolding regmap_bulk_write_def by (intro keeps_rules keeps_neutral) simp

lemma keeps_devm [keeps_rules]: "keeps inv (devm what)"
  unfolding devm_def by (intro keeps_rules keeps_neutral) simp

lemma keeps_iio [keeps_rules]: "keeps inv iio_read_channel_processed"
  unfolding iio_read_channel_processed_def by (intro keeps_rules keeps_neutral) simp

lemma keeps_psy_get [keeps_rules]: "keeps inv (power_supply_get_property psy p)"
  unfolding power_supply_get_property_def by (intro keeps_rules keeps_neutral) simp

lemma keeps_psy_changed [keeps_rules]: "keeps inv (power_supply_changed psy)"
  unfolding power_supply_changed_def by (intro keeps_rules keeps_neutral) simp

lemma keeps_msleep [keeps_rules]: "keeps inv (msleep ms)"
  unfolding msleep_def by (intro keeps_rules keeps_neutral) simp

lemma keeps_schedule [keeps_rules]: "keeps inv (schedule_delayed_work wk ms)"
  unfolding schedule_delayed_work_def by (intro keeps_rules keeps_neutral) simp

lemma keeps_cancel [keeps_rules]: "keeps inv (cancel_delayed_work wk)"
  unfolding cancel_delayed_work_def by (intro keeps_rules keeps_neutral) simp

lemma keeps_get_bat [keeps_rules]: "keeps inv (get_bat f)"
  unfolding get_bat_def by (rule keeps_gets)

lemma keeps_get_pump [keeps_rules]: "keeps inv (get_pump f)"
  unfolding get_pump_def by (rule keeps_gets)

lemma keeps_get_pd [keeps_rules]: "keeps inv (get_pd f)"
  unfolding get_pd_def by (rule keeps_gets)

end

end
