(* ===== verification/Sm5714_Battery.thy ===== *)
theory Sm5714_Battery
  imports Board
begin

text \<open>
  The SM5714 charger and fuel gauge (\<open>kernel/files/sm5714_battery.c\<close>): every operation of the driver
  in the order of the source. Mutexes are not part of the model: an operation is one computation,
  as the locks make it. Log messages are left out.
\<close>

subsection \<open>Registers\<close>

abbreviation (input) SM5714_CHG_REG_STATUS1 :: u8 where "SM5714_CHG_REG_STATUS1 \<equiv> 0x0d"
abbreviation (input) SM5714_CHG_STATUS1_VBUS_POK :: u8 where "SM5714_CHG_STATUS1_VBUS_POK \<equiv> 0x01"
abbreviation (input) SM5714_CHG_REG_STATUS2 :: u8 where "SM5714_CHG_REG_STATUS2 \<equiv> 0x0e"
abbreviation (input) SM5714_CHG_STATUS2_CHG_ON :: u8 where "SM5714_CHG_STATUS2_CHG_ON \<equiv> 0x08"
abbreviation (input) SM5714_CHG_STATUS2_TOPOFF :: u8 where "SM5714_CHG_STATUS2_TOPOFF \<equiv> 0x20"
abbreviation (input) SM5714_CHG_REG_CNTL1 :: u8 where "SM5714_CHG_REG_CNTL1 \<equiv> 0x13"
abbreviation (input) SM5714_CHG_CNTL1_ENQ4FET :: u8 where "SM5714_CHG_CNTL1_ENQ4FET \<equiv> 0x08"
abbreviation (input) SM5714_CHG_REG_CNTL2 :: u8 where "SM5714_CHG_REG_CNTL2 \<equiv> 0x14"
abbreviation (input) SM5714_CHG_CNTL2_MODE_MASK :: u8 where "SM5714_CHG_CNTL2_MODE_MASK \<equiv> 0x0f"
abbreviation (input) SM5714_CHG_CNTL2_CHARGING :: u8 where "SM5714_CHG_CNTL2_CHARGING \<equiv> 0x05"
abbreviation (input) SM5714_CHG_CNTL2_USB_OTG :: u8 where "SM5714_CHG_CNTL2_USB_OTG \<equiv> 0x07"
abbreviation (input) SM5714_CHG_REG_VBUSCNTL :: u8 where "SM5714_CHG_REG_VBUSCNTL \<equiv> 0x15"
abbreviation (input) SM5714_CHG_REG_CHGCNTL2 :: u8 where "SM5714_CHG_REG_CHGCNTL2 \<equiv> 0x18"
abbreviation (input) SM5714_CHG_REG_CHGCNTL4 :: u8 where "SM5714_CHG_REG_CHGCNTL4 \<equiv> 0x1a"
abbreviation (input) SM5714_CHG_BATREG_MASK :: u8 where "SM5714_CHG_BATREG_MASK \<equiv> 0x3f"
abbreviation (input) SM5714_CHG_REG_BSTCNTL1 :: u8 where "SM5714_CHG_REG_BSTCNTL1 \<equiv> 0x23"
abbreviation (input) SM5714_CHG_BSTCNTL1_OTG_MASK :: u8 where "SM5714_CHG_BSTCNTL1_OTG_MASK \<equiv> 0xcf"
abbreviation (input) SM5714_CHG_BSTCNTL1_5V1_900MA :: u8 where "SM5714_CHG_BSTCNTL1_5V1_900MA \<equiv> 0x46"
abbreviation (input) SM5714_CHG_REG_DEVICEID :: u8 where "SM5714_CHG_REG_DEVICEID \<equiv> 0x50"

abbreviation (input) SM5714_MUIC_REG_DEVICE_ID :: u8 where "SM5714_MUIC_REG_DEVICE_ID \<equiv> 0x00"
abbreviation (input) SM5714_MUIC_REG_CNTL :: u8 where "SM5714_MUIC_REG_CNTL \<equiv> 0x05"
abbreviation (input) SM5714_MUIC_CNTL_BC12OFF :: u8 where "SM5714_MUIC_CNTL_BC12OFF \<equiv> 0x02"
abbreviation (input) SM5714_MUIC_REG_MANUAL_SW :: u8 where "SM5714_MUIC_REG_MANUAL_SW \<equiv> 0x06"
abbreviation (input) SM5714_MUIC_MANUAL_SW_MANUAL :: u8 where "SM5714_MUIC_MANUAL_SW_MANUAL \<equiv> 0x80"
abbreviation (input) SM5714_MUIC_MANUAL_SW_PATH_MASK :: u8 where "SM5714_MUIC_MANUAL_SW_PATH_MASK \<equiv> 0x3f"
abbreviation (input) SM5714_MUIC_MANUAL_SW_USB :: u8 where "SM5714_MUIC_MANUAL_SW_USB \<equiv> 0x09"
abbreviation (input) SM5714_MUIC_REG_DEVICE_TYPE1 :: u8 where "SM5714_MUIC_REG_DEVICE_TYPE1 \<equiv> 0x07"
abbreviation (input) SM5714_MUIC_TYPE_DCD_OUT_SDP :: u8 where "SM5714_MUIC_TYPE_DCD_OUT_SDP \<equiv> 0x01"
abbreviation (input) SM5714_MUIC_TYPE_SDP :: u8 where "SM5714_MUIC_TYPE_SDP \<equiv> 0x02"
abbreviation (input) SM5714_MUIC_TYPE_DCP :: u8 where "SM5714_MUIC_TYPE_DCP \<equiv> 0x04"
abbreviation (input) SM5714_MUIC_TYPE_CDP :: u8 where "SM5714_MUIC_TYPE_CDP \<equiv> 0x08"
abbreviation (input) SM5714_MUIC_TYPE_U200 :: u8 where "SM5714_MUIC_TYPE_U200 \<equiv> 0x10"
abbreviation (input) SM5714_MUIC_TYPE_AFC :: u8 where "SM5714_MUIC_TYPE_AFC \<equiv> 0x20"
abbreviation (input) SM5714_MUIC_TYPE_QC20 :: u8 where "SM5714_MUIC_TYPE_QC20 \<equiv> 0x40"
abbreviation (input) SM5714_MUIC_TYPE_LO_TA :: u8 where "SM5714_MUIC_TYPE_LO_TA \<equiv> 0x80"

abbreviation (input) SM5714_FG_REG_DEVICE_ID :: u8 where "SM5714_FG_REG_DEVICE_ID \<equiv> 0x00"
abbreviation (input) SM5714_FG_REG_SRAM_RADDR :: u8 where "SM5714_FG_REG_SRAM_RADDR \<equiv> 0x8c"
abbreviation (input) SM5714_FG_REG_SRAM_RDATA :: u8 where "SM5714_FG_REG_SRAM_RDATA \<equiv> 0x8d"
abbreviation (input) SM5714_FG_SRAM_SOC :: u8 where "SM5714_FG_SRAM_SOC \<equiv> 0x00"
abbreviation (input) SM5714_FG_SRAM_OCV :: u8 where "SM5714_FG_SRAM_OCV \<equiv> 0x01"
abbreviation (input) SM5714_FG_SRAM_VBAT :: u8 where "SM5714_FG_SRAM_VBAT \<equiv> 0x03"
abbreviation (input) SM5714_FG_SRAM_CURRENT :: u8 where "SM5714_FG_SRAM_CURRENT \<equiv> 0x05"
abbreviation (input) SM5714_FG_SRAM_TEMPERATURE :: u8 where "SM5714_FG_SRAM_TEMPERATURE \<equiv> 0x07"
abbreviation (input) SM5714_FG_SRAM_VBAT_AVG :: u8 where "SM5714_FG_SRAM_VBAT_AVG \<equiv> 0x08"
abbreviation (input) SM5714_FG_SRAM_CURRENT_AVG :: u8 where "SM5714_FG_SRAM_CURRENT_AVG \<equiv> 0x09"

abbreviation (input) SM5714_POLL_INTERVAL_MS :: int where "SM5714_POLL_INTERVAL_MS \<equiv> 1000"
abbreviation (input) SM5714_CAPACITY_POLL_DIVIDER :: u32 where "SM5714_CAPACITY_POLL_DIVIDER \<equiv> 10"

text \<open>Values of the power-supply class the driver reports.\<close>

abbreviation (input) POWER_SUPPLY_STATUS_CHARGING :: int where "POWER_SUPPLY_STATUS_CHARGING \<equiv> 1"
abbreviation (input) POWER_SUPPLY_STATUS_DISCHARGING :: int where "POWER_SUPPLY_STATUS_DISCHARGING \<equiv> 2"
abbreviation (input) POWER_SUPPLY_STATUS_NOT_CHARGING :: int where "POWER_SUPPLY_STATUS_NOT_CHARGING \<equiv> 3"
abbreviation (input) POWER_SUPPLY_STATUS_FULL :: int where "POWER_SUPPLY_STATUS_FULL \<equiv> 4"
abbreviation (input) POWER_SUPPLY_TECHNOLOGY_LION :: int where "POWER_SUPPLY_TECHNOLOGY_LION \<equiv> 2"
abbreviation (input) POWER_SUPPLY_USB_TYPE_UNKNOWN :: int where "POWER_SUPPLY_USB_TYPE_UNKNOWN \<equiv> 0"
abbreviation (input) POWER_SUPPLY_USB_TYPE_SDP :: int where "POWER_SUPPLY_USB_TYPE_SDP \<equiv> 1"
abbreviation (input) POWER_SUPPLY_USB_TYPE_DCP :: int where "POWER_SUPPLY_USB_TYPE_DCP \<equiv> 2"
abbreviation (input) POWER_SUPPLY_USB_TYPE_CDP :: int where "POWER_SUPPLY_USB_TYPE_CDP \<equiv> 3"
abbreviation (input) POWER_SUPPLY_USB_TYPE_PD :: int where "POWER_SUPPLY_USB_TYPE_PD \<equiv> 6"

text \<open>A byte that a read delivered as a nonnegative int, tested against a msk.\<close>

abbreviation (input) byte :: "int \<Rightarrow> u8" where
  "byte v \<equiv> word_of_int v"

abbreviation (input) has :: "int \<Rightarrow> u8 \<Rightarrow> bool" where
  "has v msk \<equiv> byte v AND msk \<noteq> 0"

subsection \<open>Register access, voltage and current codes\<close>

definition sm5714_chg_update_bits :: "u8 \<Rightarrow> u8 \<Rightarrow> u8 \<Rightarrow> int io" where
  "sm5714_chg_update_bits reg msk val = do {
     old \<leftarrow> i2c_smbus_read_byte_data Chg reg;
     if old < 0 then return old
     else do {
       let new = (byte old AND NOT msk) OR (val AND msk);
       if new = byte old then return 0
       else i2c_smbus_write_byte_data Chg reg new
     }
   }"

definition sm5714_batreg_offset :: "u32 \<Rightarrow> u8" where
  "sm5714_batreg_offset uv = (let mv = uv div 1000 in
     if mv \<le> 3700 then 0x00
     else if mv < 3900 then ucast ((mv - 3700) div 50)
     else if mv < 4050 then ucast ((mv - 3900) div 100 + 4)
     else if mv < 4630 then ucast ((mv - 4050) div 10 + 6)
     else 0x15)"

definition sm5714_set_float_voltage :: "int io" where
  "sm5714_set_float_voltage = do {
     uv \<leftarrow> get_bat float_uv;
     if uv = 0 then return 0
     else sm5714_chg_update_bits SM5714_CHG_REG_CHGCNTL4 SM5714_CHG_BATREG_MASK
            (sm5714_batreg_offset uv)
   }"

definition sm5714_muic_set_otg_path :: "bool \<Rightarrow> int io" where
  "sm5714_muic_set_otg_path on =
    (if on then do {
       old_cntl \<leftarrow> i2c_smbus_read_byte_data Muic SM5714_MUIC_REG_CNTL;
       if old_cntl < 0 then return old_cntl
       else do {
         ret \<leftarrow> i2c_smbus_write_byte_data Muic SM5714_MUIC_REG_CNTL
                 (byte old_cntl OR SM5714_MUIC_CNTL_BC12OFF);
         if ret \<noteq> 0 then return ret
         else do {
           old \<leftarrow> i2c_smbus_read_byte_data Muic SM5714_MUIC_REG_MANUAL_SW;
           if old < 0 then do {
             _ \<leftarrow> i2c_smbus_write_byte_data Muic SM5714_MUIC_REG_CNTL (byte old_cntl);
             return old
           }
           else do {
             ret \<leftarrow> i2c_smbus_write_byte_data Muic SM5714_MUIC_REG_MANUAL_SW
                     ((byte old AND NOT (SM5714_MUIC_MANUAL_SW_MANUAL OR
                         SM5714_MUIC_MANUAL_SW_PATH_MASK)) OR
                       SM5714_MUIC_MANUAL_SW_MANUAL OR SM5714_MUIC_MANUAL_SW_USB);
             if ret = 0 then return 0
             else do {
               _ \<leftarrow> i2c_smbus_write_byte_data Muic SM5714_MUIC_REG_CNTL (byte old_cntl);
               return ret
             }
           }
         }
       }
     }
     else do {
       old \<leftarrow> i2c_smbus_read_byte_data Muic SM5714_MUIC_REG_MANUAL_SW;
       if old < 0 then return old
       else do {
         ret \<leftarrow> i2c_smbus_write_byte_data Muic SM5714_MUIC_REG_MANUAL_SW
                 (byte old AND NOT (SM5714_MUIC_MANUAL_SW_MANUAL OR
                     SM5714_MUIC_MANUAL_SW_PATH_MASK));
         if ret \<noteq> 0 then return ret
         else do {
           old \<leftarrow> i2c_smbus_read_byte_data Muic SM5714_MUIC_REG_CNTL;
           if old < 0 then return old
           else i2c_smbus_write_byte_data Muic SM5714_MUIC_REG_CNTL
                  (byte old AND NOT SM5714_MUIC_CNTL_BC12OFF)
         }
       }
     })"

definition sm5714_get_online_raw :: "int io" where
  "sm5714_get_online_raw = do {
     ret \<leftarrow> i2c_smbus_read_byte_data Chg SM5714_CHG_REG_STATUS1;
     if ret < 0 then return ret
     else return (if has ret SM5714_CHG_STATUS1_VBUS_POK then 1 else 0)
   }"

definition sm5714_get_online :: "int io" where
  "sm5714_get_online = do {
     otg \<leftarrow> get_bat otg_active;
     if otg then return 0 else sm5714_get_online_raw
   }"

definition sm5714_get_usb_type :: "int io" where
  "sm5714_get_usb_type = do {
     online \<leftarrow> sm5714_get_online;
     if online \<le> 0 then return (if online < 0 then online else POWER_SUPPLY_USB_TYPE_UNKNOWN)
     else do {
       mv \<leftarrow> get_bat typec_mv;
       if mv > 5000 then return POWER_SUPPLY_USB_TYPE_PD
       else do {
         type \<leftarrow> i2c_smbus_read_byte_data Muic SM5714_MUIC_REG_DEVICE_TYPE1;
         return
          (if type < 0 then type
           else if has type SM5714_MUIC_TYPE_CDP then POWER_SUPPLY_USB_TYPE_CDP
           else if has type (SM5714_MUIC_TYPE_SDP OR SM5714_MUIC_TYPE_DCD_OUT_SDP)
             then POWER_SUPPLY_USB_TYPE_SDP
           else if has type (SM5714_MUIC_TYPE_DCP OR SM5714_MUIC_TYPE_U200 OR
                  SM5714_MUIC_TYPE_AFC OR SM5714_MUIC_TYPE_QC20 OR SM5714_MUIC_TYPE_LO_TA)
             then POWER_SUPPLY_USB_TYPE_DCP
           else POWER_SUPPLY_USB_TYPE_UNKNOWN)
       }
     }
   }"

definition sm5714_input_current_reg :: "u32 \<Rightarrow> u8" where
  "sm5714_input_current_reg ma = ucast (clamp ((ma - 100) div 25) 0 0x7f)"

definition sm5714_fast_current_reg :: "u32 \<Rightarrow> u8" where
  "sm5714_fast_current_reg ma = (let ua = ma * 1000 in
     if ua \<le> 109375 then 0x07
     else ucast (clamp (7 + (ua - 109375) div 15625) 0x07 0xe0))"

text \<open>The function \<open>sm5714_charge_thermal_state\<close> shares its name with the enum; here \<open>_next\<close>.\<close>

definition sm5714_charge_thermal_state_next ::
  "sm5714_charge_thermal_state \<Rightarrow> int \<Rightarrow> sm5714_charge_thermal_state" where
  "sm5714_charge_thermal_state_next state temp =
    (if state = SM5714_THERMAL_STOP \<and> temp \<ge> 460 then SM5714_THERMAL_STOP
     else if state = SM5714_THERMAL_STOP \<and> temp > 420 then SM5714_THERMAL_REDUCED
     else if state = SM5714_THERMAL_REDUCED \<and> temp > 420 then
       (if temp \<ge> 500 then SM5714_THERMAL_STOP else SM5714_THERMAL_REDUCED)
     else if temp \<ge> 500 then SM5714_THERMAL_STOP
     else if temp \<ge> 460 then SM5714_THERMAL_REDUCED
     else SM5714_THERMAL_NORMAL)"

subsection \<open>The fuel gauge\<close>

definition sm5714_fg_read_sram :: "u8 \<Rightarrow> int io" where
  "sm5714_fg_read_sram addr = do {
     ret \<leftarrow> i2c_smbus_write_word_data Fg SM5714_FG_REG_SRAM_RADDR (ucast addr);
     if ret < 0 then return ret
     else i2c_smbus_read_word_data Fg SM5714_FG_REG_SRAM_RDATA
   }"

text \<open>
  The conversions, on a raw word \<open>0 \<le> raw < 65536\<close>: nothing overflows an \<open>int\<close>, so they are
  computed on \<open>int\<close>. \<open>raw & 0x8000\<close> is \<open>raw \<ge> 0x8000\<close> and \<open>raw & 0x7fff\<close> is \<open>raw mod 0x8000\<close> there.
\<close>

definition capacity_of_raw :: "int \<Rightarrow> int" where
  "capacity_of_raw raw = clamp ((raw * 10) div 256 div 10) 0 100"

definition voltage_of_raw :: "int \<Rightarrow> int" where
  "voltage_of_raw raw =
     (if raw AND 0x8000 \<noteq> 0 then 2700 - ((raw AND 0x7fff) * 10) div 109
      else (raw * 10) div 109 + 2700) * 1000"

definition ocv_of_raw :: "int \<Rightarrow> int" where
  "ocv_of_raw raw = ((raw * 1000) div 2048) * 1000"

definition current_of_raw :: "int \<Rightarrow> int" where
  "current_of_raw raw = (let ma = ((raw AND 0x7fff) * 1000) div 2044 in
     (if raw AND 0x8000 \<noteq> 0 then - ma else ma) * 1000)"

definition die_temp_of_raw :: "int \<Rightarrow> int" where
  "die_temp_of_raw raw = (let temp = (((raw AND 0x7fff) * 10) * 2989) div 2048 div 256 in
     if raw AND 0x8000 \<noteq> 0 then - temp else temp)"

definition sram_value :: "u8 \<Rightarrow> (int \<Rightarrow> int) \<Rightarrow> (int + int) io" where
  "sram_value addr conv = do {
     raw \<leftarrow> sm5714_fg_read_sram addr;
     return (if raw < 0 then Inl raw else Inr (conv raw))
   }"

definition sm5714_get_capacity :: "(int + int) io" where
  "sm5714_get_capacity = sram_value SM5714_FG_SRAM_SOC capacity_of_raw"

definition sm5714_get_voltage :: "u8 \<Rightarrow> (int + int) io" where
  "sm5714_get_voltage sram_addr = sram_value sram_addr voltage_of_raw"

definition sm5714_get_ocv :: "(int + int) io" where
  "sm5714_get_ocv = sram_value SM5714_FG_SRAM_OCV ocv_of_raw"

definition sm5714_get_current :: "u8 \<Rightarrow> (int + int) io" where
  "sm5714_get_current sram_addr = sram_value sram_addr current_of_raw"

definition sm5714_get_temp :: "(int + int) io" where
  "sm5714_get_temp = do {
     present \<leftarrow> get_bat battery_temp;
     pack \<leftarrow> (if present then iio_read_channel_processed else return (Inl 0));
     (case pack of
        Inr temp_mc \<Rightarrow>
          (let temp = DIV_ROUND_CLOSEST temp_mc 100 in
           if temp \<ge> - 200 \<and> temp \<le> 900 then return (Inr temp)
           else sram_value SM5714_FG_SRAM_TEMPERATURE die_temp_of_raw)
      | Inl _ \<Rightarrow> sram_value SM5714_FG_SRAM_TEMPERATURE die_temp_of_raw)
   }"

definition sm5714_get_status :: "int io" where
  "sm5714_get_status = do {
     otg \<leftarrow> get_bat otg_active;
     if otg then return POWER_SUPPLY_STATUS_DISCHARGING
     else do {
       st1 \<leftarrow> i2c_smbus_read_byte_data Chg SM5714_CHG_REG_STATUS1;
       if st1 < 0 then return st1
       else do {
         st2 \<leftarrow> i2c_smbus_read_byte_data Chg SM5714_CHG_REG_STATUS2;
         if st2 < 0 then return st2
         else do {
           direct \<leftarrow> get_bat direct_charging;
           return
            (if has st2 SM5714_CHG_STATUS2_TOPOFF then POWER_SUPPLY_STATUS_FULL
             else if direct \<and> has st1 SM5714_CHG_STATUS1_VBUS_POK then POWER_SUPPLY_STATUS_CHARGING
             else if has st2 SM5714_CHG_STATUS2_CHG_ON then POWER_SUPPLY_STATUS_CHARGING
             else if has st1 SM5714_CHG_STATUS1_VBUS_POK then POWER_SUPPLY_STATUS_NOT_CHARGING
             else POWER_SUPPLY_STATUS_DISCHARGING)
         }
       }
     }
   }"

subsection \<open>Programming the switching charger\<close>

text \<open>
  The input limit and the battery current \<open>sm5714_configure_charging\<close> chooses from the contract,
  the MUIC classification, the fast-charge switch and the thermal state.
\<close>

definition charge_limits ::
  "u32 \<Rightarrow> u32 \<Rightarrow> int \<Rightarrow> bool \<Rightarrow> sm5714_charge_thermal_state \<Rightarrow> u32 \<times> u32" where
  "charge_limits mv ma usb_type fast state =
    (let (input_ma, fast_ma) =
       (if mv \<ge> 5000 \<and> ma \<ge> 500 then
          (if fast then (min ma 3000, 3150)
           else (min ma (if mv > 5000 then 1660 else 3000), 2800))
        else if usb_type = POWER_SUPPLY_USB_TYPE_DCP then (1800, 2100)
        else if usb_type = POWER_SUPPLY_USB_TYPE_CDP then (1500, 1500)
        else (500, 500))
     in (input_ma, if state = SM5714_THERMAL_REDUCED then min fast_ma 2100 else fast_ma))"

definition program_charger :: "u32 \<Rightarrow> u32 \<Rightarrow> int io" where
  "program_charger input_ma fast_ma = do {
     ret \<leftarrow> i2c_smbus_write_byte_data Chg SM5714_CHG_REG_VBUSCNTL (sm5714_input_current_reg 500);
     if ret \<noteq> 0 then return ret
     else do {
       ret \<leftarrow> i2c_smbus_write_byte_data Chg SM5714_CHG_REG_CHGCNTL2
               (sm5714_fast_current_reg fast_ma);
       if ret \<noteq> 0 then return ret
       else do {
         ret \<leftarrow> sm5714_set_float_voltage;
         if ret \<noteq> 0 then return ret
         else do {
           (if input_ma > 500 then msleep (DIV_ROUND_UP (uint input_ma - 500) 250) else return ());
           ret \<leftarrow> sm5714_chg_update_bits SM5714_CHG_REG_CNTL1 SM5714_CHG_CNTL1_ENQ4FET
                   SM5714_CHG_CNTL1_ENQ4FET;
           if ret \<noteq> 0 then return ret
           else i2c_smbus_write_byte_data Chg SM5714_CHG_REG_VBUSCNTL
                  (sm5714_input_current_reg input_ma)
         }
       }
     }
   }"

definition sm5714_configure_charging :: "int io" where
  "sm5714_configure_charging = do {
     otg \<leftarrow> get_bat otg_active;
     if otg then return (- EBUSY)
     else do {
       mv \<leftarrow> get_bat typec_mv;
       ma \<leftarrow> get_bat typec_ma;
       usb_type \<leftarrow> sm5714_get_usb_type;
       if usb_type < 0 then return usb_type
       else do {
         state \<leftarrow> get_bat thermal_state;
         temp \<leftarrow> sm5714_get_temp;
         let state = (case temp of Inl _ \<Rightarrow> state
                      | Inr t \<Rightarrow> sm5714_charge_thermal_state_next state t);
         upd_bat (\<lambda>s. s\<lparr>thermal_state := state\<rparr>);
         if state = SM5714_THERMAL_STOP then
           sm5714_chg_update_bits SM5714_CHG_REG_CNTL1 SM5714_CHG_CNTL1_ENQ4FET 0
         else do {
           fast \<leftarrow> get_bat fast_charge;
           (case charge_limits mv ma usb_type fast state of
              (input_ma, fast_ma) \<Rightarrow> program_charger input_ma fast_ma)
         }
       }
     }
   }"

definition notify_both :: "unit io" where
  "notify_both = do { power_supply_changed PsyUsb; power_supply_changed PsyBat }"

definition sm5714_battery_set_pd_contract :: "u32 \<Rightarrow> u32 \<Rightarrow> int io" where
  "sm5714_battery_set_pd_contract mv ma =
    (if (mv \<noteq> 0 \<and> (mv < 5000 \<or> mv > 9000)) \<or> ma > 3000 then return (- ERANGE)
     else do {
       primary \<leftarrow> gets sm5714_primary;
       if \<not> primary then return (- EPROBE_DEFER)
       else do {
         upd_bat (\<lambda>s. s\<lparr>typec_mv := mv\<rparr>);
         upd_bat (\<lambda>s. s\<lparr>typec_ma := ma\<rparr>);
         ret \<leftarrow> (if mv \<noteq> 0 \<and> ma \<noteq> 0 then do {
                   online \<leftarrow> sm5714_get_online;
                   direct \<leftarrow> get_bat direct_charging;
                   if online > 0 \<and> \<not> direct then sm5714_configure_charging else return 0
                 } else return 0);
         notify_both;
         return ret
       }
     })"

definition sm5714_battery_set_direct_charge :: "bool \<Rightarrow> int io" where
  "sm5714_battery_set_direct_charge on = do {
     primary \<leftarrow> gets sm5714_primary;
     if \<not> primary then return (- EPROBE_DEFER)
     else if on then do {
       temp \<leftarrow> sm5714_get_temp;
       (case temp of
          Inl err \<Rightarrow> return err
        | Inr temp \<Rightarrow>
            if temp < 100 \<or> temp \<ge> 420 then return (- ERANGE)
            else do {
              upd_bat (\<lambda>s. s\<lparr>direct_charging := True\<rparr>);
              ret \<leftarrow> sm5714_chg_update_bits SM5714_CHG_REG_CNTL1 SM5714_CHG_CNTL1_ENQ4FET 0;
              (if ret \<noteq> 0 then upd_bat (\<lambda>s. s\<lparr>direct_charging := False\<rparr>) else return ());
              notify_both;
              return ret
            })
     }
     else do {
       upd_bat (\<lambda>s. s\<lparr>direct_charging := False\<rparr>);
       online \<leftarrow> sm5714_get_online;
       ret \<leftarrow> (if online > 0 then sm5714_configure_charging else return 0);
       notify_both;
       return ret
     }
   }"

text \<open>The two directions of \<open>sm5714_battery_set_otg\<close> once the checks have passed.\<close>

definition otg_boost_on :: "int io" where
  "otg_boost_on = do {
     ret \<leftarrow> sm5714_muic_set_otg_path True;
     ret \<leftarrow> (if ret = 0 then
               sm5714_chg_update_bits SM5714_CHG_REG_CNTL1 SM5714_CHG_CNTL1_ENQ4FET 0
             else return ret);
     ret \<leftarrow> (if ret = 0 then
               sm5714_chg_update_bits SM5714_CHG_REG_BSTCNTL1 SM5714_CHG_BSTCNTL1_OTG_MASK
                 SM5714_CHG_BSTCNTL1_5V1_900MA
             else return ret);
     ret \<leftarrow> (if ret = 0 then
               sm5714_chg_update_bits SM5714_CHG_REG_CNTL2 SM5714_CHG_CNTL2_MODE_MASK
                 SM5714_CHG_CNTL2_USB_OTG
             else return ret);
     (if ret = 0 then upd_bat (\<lambda>s. s\<lparr>otg_active := True\<rparr>)
      else do { _ \<leftarrow> sm5714_muic_set_otg_path False; return () });
     return ret
   }"

definition otg_boost_off :: "(int \<times> bool) io" where
  "otg_boost_off = do {
     ret \<leftarrow> sm5714_chg_update_bits SM5714_CHG_REG_CNTL2 SM5714_CHG_CNTL2_MODE_MASK
             SM5714_CHG_CNTL2_CHARGING;
     ret \<leftarrow> (if ret = 0 then do {
               upd_bat (\<lambda>s. s\<lparr>otg_active := False\<rparr>);
               sm5714_muic_set_otg_path False
             } else return ret);
     if ret = 0 then do {
       online \<leftarrow> sm5714_get_online_raw;
       return (ret, online > 0)
     } else return (ret, False)
   }"

definition sm5714_battery_set_otg :: "bool \<Rightarrow> int io" where
  "sm5714_battery_set_otg on = do {
     primary \<leftarrow> gets sm5714_primary;
     if \<not> primary then return (- EPROBE_DEFER)
     else do {
       current \<leftarrow> get_bat otg_active;
       if on = current then do { notify_both; return 0 }
       else if on then do {
         direct \<leftarrow> get_bat direct_charging;
         if direct then return (- EBUSY)
         else do {
           online \<leftarrow> sm5714_get_online_raw;
           if online < 0 then return online
           else if online \<noteq> 0 then return (- EBUSY)
           else do { ret \<leftarrow> otg_boost_on; notify_both; return ret }
         }
       }
       else do {
         (ret, restore_charging) \<leftarrow> otg_boost_off;
         notify_both;
         if ret = 0 \<and> restore_charging then sm5714_configure_charging else return ret
       }
     }
   }"

definition sm5714_battery_is_otg_active :: "bool io" where
  "sm5714_battery_is_otg_active = do {
     primary \<leftarrow> gets sm5714_primary;
     if primary then get_bat otg_active else return False
   }"

subsection \<open>The power-supply interface\<close>

definition design_value :: "(battery_info \<Rightarrow> int) \<Rightarrow> (int + int) io" where
  "design_value field = do {
     i \<leftarrow> get_bat info;
     return (case i of None \<Rightarrow> Inl (- ENODATA)
             | Some d \<Rightarrow> if field d < 0 then Inl (- ENODATA) else Inr (field d))
   }"

definition sm5714_bat_get_property :: "power_supply_property \<Rightarrow> (int + int) io" where
  "sm5714_bat_get_property psp =
    (case psp of
       POWER_SUPPLY_PROP_STATUS \<Rightarrow> do {
         ret \<leftarrow> sm5714_get_status;
         return (if ret < 0 then Inl ret else Inr ret)
       }
     | POWER_SUPPLY_PROP_PRESENT \<Rightarrow> return (Inr 1)
     | POWER_SUPPLY_PROP_TECHNOLOGY \<Rightarrow> return (Inr POWER_SUPPLY_TECHNOLOGY_LION)
     | POWER_SUPPLY_PROP_CAPACITY \<Rightarrow> sm5714_get_capacity
     | POWER_SUPPLY_PROP_VOLTAGE_NOW \<Rightarrow> sm5714_get_voltage SM5714_FG_SRAM_VBAT
     | POWER_SUPPLY_PROP_VOLTAGE_AVG \<Rightarrow> sm5714_get_voltage SM5714_FG_SRAM_VBAT_AVG
     | POWER_SUPPLY_PROP_VOLTAGE_OCV \<Rightarrow> sm5714_get_ocv
     | POWER_SUPPLY_PROP_CURRENT_NOW \<Rightarrow> sm5714_get_current SM5714_FG_SRAM_CURRENT
     | POWER_SUPPLY_PROP_CURRENT_AVG \<Rightarrow> sm5714_get_current SM5714_FG_SRAM_CURRENT_AVG
     | POWER_SUPPLY_PROP_TEMP \<Rightarrow> sm5714_get_temp
     | POWER_SUPPLY_PROP_CHARGE_FULL_DESIGN \<Rightarrow> design_value charge_full_design_uah
     | POWER_SUPPLY_PROP_VOLTAGE_MAX_DESIGN \<Rightarrow> design_value voltage_max_design_uv
     | POWER_SUPPLY_PROP_VOLTAGE_MIN_DESIGN \<Rightarrow> design_value voltage_min_design_uv
     | _ \<Rightarrow> return (Inl (- EINVAL)))"

definition sm5714_usb_get_property :: "power_supply_property \<Rightarrow> (int + int) io" where
  "sm5714_usb_get_property psp =
    (case psp of
       POWER_SUPPLY_PROP_ONLINE \<Rightarrow> do {
         ret \<leftarrow> sm5714_get_online;
         return (if ret < 0 then Inl ret else Inr ret)
       }
     | POWER_SUPPLY_PROP_USB_TYPE \<Rightarrow> do {
         ret \<leftarrow> sm5714_get_usb_type;
         return (if ret < 0 then Inl ret else Inr ret)
       }
     | POWER_SUPPLY_PROP_VOLTAGE_MAX \<Rightarrow> do {
         mv \<leftarrow> get_bat typec_mv;
         return (Inr (sint ((if mv \<noteq> 0 then mv else 5000) * 1000)))
       }
     | POWER_SUPPLY_PROP_CURRENT_MAX \<Rightarrow> do {
         ma \<leftarrow> get_bat typec_ma;
         return (Inr (sint (ma * 1000)))
       }
     | _ \<Rightarrow> return (Inl (- EINVAL)))"

subsection \<open>The one-second poll\<close>

text \<open>The four parts of \<open>sm5714_poll_work\<close>, in its order.\<close>

definition poll_capacity :: "int io" where
  "poll_capacity = do {
     capacity \<leftarrow> get_bat last_capacity;
     count \<leftarrow> get_bat poll_count;
     upd_bat (\<lambda>s. s\<lparr>poll_count := poll_count s + 1\<rparr>);
     if count mod SM5714_CAPACITY_POLL_DIVIDER = 0 then do {
       c \<leftarrow> sm5714_get_capacity;
       return (case c of Inl _ \<Rightarrow> capacity | Inr v \<Rightarrow> v)
     } else return capacity
   }"

definition poll_thermal :: "int \<Rightarrow> int \<Rightarrow> int io" where
  "poll_thermal online status =
    (if online > 0 then do {
       old \<leftarrow> get_bat thermal_state;
       temp \<leftarrow> sm5714_get_temp;
       let state = (case temp of Inl _ \<Rightarrow> old | Inr t \<Rightarrow> sm5714_charge_thermal_state_next old t);
       upd_bat (\<lambda>s. s\<lparr>thermal_state := state\<rparr>);
       if state \<noteq> old then do {
         _ \<leftarrow> sm5714_configure_charging;
         sm5714_get_status
       } else return status
     } else return status)"

definition poll_recover :: "int \<Rightarrow> int \<Rightarrow> int io" where
  "poll_recover online status = do {
     direct \<leftarrow> get_bat direct_charging;
     state \<leftarrow> get_bat thermal_state;
     if online > 0 \<and> \<not> direct \<and> status = POWER_SUPPLY_STATUS_NOT_CHARGING \<and>
        state \<noteq> SM5714_THERMAL_STOP then do {
       cntl1 \<leftarrow> i2c_smbus_read_byte_data Chg SM5714_CHG_REG_CNTL1;
       if cntl1 \<ge> 0 \<and> \<not> has cntl1 SM5714_CHG_CNTL1_ENQ4FET then do {
         ret \<leftarrow> sm5714_configure_charging;
         if ret = 0 then sm5714_get_status else return status
       } else return status
     } else return status
   }"

definition poll_report :: "int \<Rightarrow> int \<Rightarrow> int \<Rightarrow> int \<Rightarrow> unit io" where
  "poll_report status online usb_type capacity = do {
     old_status \<leftarrow> get_bat last_status;
     old_capacity \<leftarrow> get_bat last_capacity;
     (if status \<ge> 0 \<and> (status \<noteq> old_status \<or> capacity \<noteq> old_capacity) then do {
        upd_bat (\<lambda>s. s\<lparr>last_status := status, last_capacity := capacity\<rparr>);
        power_supply_changed PsyBat
      } else return ());
     old_online \<leftarrow> get_bat last_online;
     (if online \<ge> 0 \<and> (online \<noteq> 0) \<noteq> old_online then do {
        upd_bat (\<lambda>s. s\<lparr>last_online := (online \<noteq> 0)\<rparr>);
        (if online = 0 then do {
           _ \<leftarrow> sm5714_chg_update_bits SM5714_CHG_REG_CNTL1 SM5714_CHG_CNTL1_ENQ4FET 0;
           return ()
         } else return ());
        notify_both
      } else return ());
     old_type \<leftarrow> get_bat last_usb_type;
     (if usb_type \<ge> 0 \<and> usb_type \<noteq> old_type then do {
        upd_bat (\<lambda>s. s\<lparr>last_usb_type := usb_type\<rparr>);
        power_supply_changed PsyUsb
      } else return ())
   }"

definition sm5714_poll_work :: "unit io" where
  "sm5714_poll_work = do {
     status \<leftarrow> sm5714_get_status;
     online \<leftarrow> sm5714_get_online;
     usb_type \<leftarrow> sm5714_get_usb_type;
     capacity \<leftarrow> poll_capacity;
     status \<leftarrow> poll_thermal online status;
     status \<leftarrow> poll_recover online status;
     poll_report status online usb_type capacity;
     schedule_delayed_work PollWork SM5714_POLL_INTERVAL_MS
   }"

subsection \<open>Suspend, the fast-charge switch, probe and removal\<close>

definition sm5714_cancel_poll :: "unit io" where
  "sm5714_cancel_poll = cancel_delayed_work PollWork"

definition sm5714_clear_primary :: "unit io" where
  "sm5714_clear_primary = modify (\<lambda>b. b\<lparr>sm5714_primary := False\<rparr>)"

definition sm5714_suspend :: "int io" where
  "sm5714_suspend = do { cancel_delayed_work PollWork; return 0 }"

definition sm5714_resume :: "int io" where
  "sm5714_resume = do { schedule_delayed_work PollWork 0; return 0 }"

definition fast_charge_show :: "string io" where
  "fast_charge_show = do {
     fast \<leftarrow> get_bat fast_charge;
     return ((if fast then CHR ''1'' else CHR ''0'') # [CHR 0x0A])
   }"

text \<open>\<open>fast_charge_store\<close> after \<open>kstrtobool\<close> has parsed the buffer of \<open>count\<close> bytes.\<close>

definition fast_charge_store :: "int + bool \<Rightarrow> int \<Rightarrow> int io" where
  "fast_charge_store parsed count =
    (case parsed of
       Inl err \<Rightarrow> return err
     | Inr enabled \<Rightarrow> do {
         fast \<leftarrow> get_bat fast_charge;
         if fast = enabled then return count
         else do {
           upd_bat (\<lambda>s. s\<lparr>fast_charge := enabled\<rparr>);
           _ \<leftarrow> sm5714_configure_charging;
           return count
         }
       })"

definition sm5714_battery_fast_charge_enabled :: "bool io" where
  "sm5714_battery_fast_charge_enabled = do {
     primary \<leftarrow> gets sm5714_primary;
     fast \<leftarrow> get_bat fast_charge;
     return (primary \<and> fast)
   }"

text \<open>\<open>devm_kzalloc\<close> delivers a zeroed struct; \<open>battery_temp\<close> is the channel the probe acquires.\<close>

definition zero_battery :: sm5714_battery where
  "zero_battery = \<lparr>battery_temp = False, info = None, float_uv = 0, last_status = 0,
     last_capacity = 0, last_online = False, last_usb_type = 0, poll_count = 0, typec_mv = 0,
     typec_ma = 0, thermal_state = SM5714_THERMAL_NORMAL, direct_charging = False,
     otg_active = False, fast_charge = False\<rparr>"

definition power_supply_get_battery_info :: "battery_info option io" where
  "power_supply_get_battery_info = do {
     a \<leftarrow> call (Devm ''battery_info'');
     return (if fst a \<noteq> 0 then None else
       (case snd a of
          [q, vmax, vmin] \<Rightarrow> Some \<lparr>charge_full_design_uah = to_int32 q,
            voltage_max_design_uv = to_int32 vmax, voltage_min_design_uv = to_int32 vmin\<rparr>
        | _ \<Rightarrow> None))
   }"

text \<open>The part of \<open>sm5714_probe\<close> after the global pointer is set: the state it starts polling from.\<close>

definition sm5714_probe_start :: "int io" where
  "sm5714_probe_start = do {
     i \<leftarrow> power_supply_get_battery_info;
     upd_bat (\<lambda>s. s\<lparr>info := i\<rparr>);
     (case i of
        Some d \<Rightarrow>
          if voltage_max_design_uv d > 0 then do {
            upd_bat (\<lambda>s. s\<lparr>float_uv := word_of_int (voltage_max_design_uv d)\<rparr>);
            _ \<leftarrow> sm5714_set_float_voltage;
            return ()
          } else return ()
      | None \<Rightarrow> return ());
     status \<leftarrow> sm5714_get_status;
     upd_bat (\<lambda>s. s\<lparr>last_status := status\<rparr>);
     capacity \<leftarrow> sm5714_get_capacity;
     upd_bat (\<lambda>s. s\<lparr>last_capacity := (case capacity of Inl _ \<Rightarrow> - 1 | Inr c \<Rightarrow> c)\<rparr>);
     online \<leftarrow> sm5714_get_online;
     upd_bat (\<lambda>s. s\<lparr>last_online := (online > 0)\<rparr>);
     usb_type \<leftarrow> sm5714_get_usb_type;
     upd_bat (\<lambda>s. s\<lparr>last_usb_type := usb_type\<rparr>);
     (if online > 0 \<and> status = POWER_SUPPLY_STATUS_NOT_CHARGING then do {
        ret \<leftarrow> sm5714_configure_charging;
        if ret = 0 then do {
          status \<leftarrow> sm5714_get_status;
          upd_bat (\<lambda>s. s\<lparr>last_status := status\<rparr>)
        } else return ()
      } else return ());
     ret \<leftarrow> devm ''cancel_poll_action'';
     if ret \<noteq> 0 then do { sm5714_cancel_poll; sm5714_clear_primary; return ret }
     else do {
       schedule_delayed_work PollWork SM5714_POLL_INTERVAL_MS;
       return 0
     }
   }"

text \<open>
  \<open>sm5714_probe\<close>: the resources in the order of the source (\<open>devm_kzalloc\<close> fails with
  \<open>-ENOMEM\<close>, the others with the error they return), the three device-ID reads, then the global
  pointer, which refuses a second instance.
\<close>

definition sm5714_probe :: "int io" where
  "sm5714_probe = do {
     ok \<leftarrow> devm ''i2c_check_functionality'';
     if ok \<noteq> 0 then return (- EOPNOTSUPP)
     else do {
     ok \<leftarrow> devm ''kzalloc'';
     if ok \<noteq> 0 then return (- ENOMEM)
     else do {
     ret \<leftarrow> devm ''iio_channel_get'';
     if ret \<noteq> 0 then return ret
     else do {
     ret \<leftarrow> devm ''sram_lock'';
     if ret \<noteq> 0 then return ret
     else do {
     ret \<leftarrow> devm ''chg_lock'';
     if ret \<noteq> 0 then return ret
     else do {
     ret \<leftarrow> i2c_smbus_read_byte_data Chg SM5714_CHG_REG_DEVICEID;
     if ret < 0 then return ret
     else do {
     ret \<leftarrow> devm ''fg_client'';
     if ret \<noteq> 0 then return ret
     else do {
     ret \<leftarrow> i2c_smbus_read_word_data Fg SM5714_FG_REG_DEVICE_ID;
     if ret < 0 then return ret
     else do {
     ret \<leftarrow> devm ''muic_client'';
     if ret \<noteq> 0 then return ret
     else do {
     ret \<leftarrow> i2c_smbus_read_byte_data Muic SM5714_MUIC_REG_DEVICE_ID;
     if ret < 0 then return ret
     else do {
     ret \<leftarrow> devm ''psy_bat'';
     if ret \<noteq> 0 then return ret
     else do {
     ret \<leftarrow> devm ''psy_usb'';
     if ret \<noteq> 0 then return ret
     else do {
     ret \<leftarrow> devm ''attr_group'';
     if ret \<noteq> 0 then return ret
     else do {
     primary \<leftarrow> gets sm5714_primary;
     if primary then return (- EBUSY)
     else do {
       modify (\<lambda>b. b\<lparr>battery := zero_battery\<lparr>battery_temp := True\<rparr>, sm5714_primary := True\<rparr>);
       ret \<leftarrow> devm ''clear_primary_action'';
       if ret \<noteq> 0 then do { sm5714_clear_primary; return ret }
       else sm5714_probe_start
     }}}}}}}}}}}}}}
   }"

end
