(* ===== verification/Sm5714_Charging.thy ===== *)
theory Sm5714_Charging
  imports Sm5714_Battery
begin

text \<open>
  Correctness of the SM5714 driver: the codes it writes to the chip, the thermal policy, the limits
  it programs, and the order in which it programs them.
\<close>

subsection \<open>Words\<close>

lemma unat_ucast_small: "unat x < 256 \<Longrightarrow> unat (ucast (x::u32) :: u8) = unat x"
  by (simp add: unsigned_ucast_eq take_bit_nat_eq_self)

lemma unat_min: "unat (min a b :: 'a::len word) = min (unat a) (unat b)"
  by (simp add: min_def word_le_nat_alt)

lemma unat_max: "unat (max a b :: 'a::len word) = max (unat a) (unat b)"
  by (simp add: max_def word_le_nat_alt)

lemma unat_clamp: "unat (clamp v lo hi :: 'a::len word) = clamp (unat v) (unat lo) (unat hi)"
  by (simp add: clamp_def unat_min unat_max)

lemma unat_sub_wrap:
  "unat (x - y :: u32) = (if unat y \<le> unat x then unat x - unat y else unat x + 2 ^ 32 - unat y)"
  using unat_sub_if' [of x y] by simp

lemma and_not_clears: "((x::'a::len word) AND NOT m) AND m = 0"
  by (rule bit_word_eqI) (simp add: bit_simps)

lemma clear_bit3 [simp]: "((x::u8) AND - 9) AND 8 = 0"
  using and_not_clears [of x 8] by simp

lemma bit3_clearD: "(x::u8) = x AND - 9 \<Longrightarrow> x AND 8 = 0"
  by (metis clear_bit3)

subsection \<open>Policies\<close>

text \<open>The value of the input-current register the last write to it left, if that write succeeded.\<close>

primrec last_vbus :: "history \<Rightarrow> u8 option" where
  "last_vbus [] = None"
| "last_vbus (x # h) =
    (case fst x of
       WriteByte c reg v \<Rightarrow>
         if c = Chg \<and> reg = SM5714_CHG_REG_VBUSCNTL then (if 0 \<le> fst (snd x) then Some v else None)
         else last_vbus h
     | _ \<Rightarrow> last_vbus h)"

text \<open>
  Whether Q4, the switch between the switching charger and the pack, may be closed: no read or
  successful write has shown it open since the driver last tried to close it.
\<close>

primrec q4_maybe_closed :: "history \<Rightarrow> bool" where
  "q4_maybe_closed [] = True"
| "q4_maybe_closed (x # h) =
    (case fst x of
       WriteByte c reg v \<Rightarrow>
         if c = Chg \<and> reg = SM5714_CHG_REG_CNTL1 then
           (v AND SM5714_CHG_CNTL1_ENQ4FET \<noteq> 0 \<or> (fst (snd x) < 0 \<and> q4_maybe_closed h))
         else q4_maybe_closed h
     | ReadByte c reg \<Rightarrow>
         if c = Chg \<and> reg = SM5714_CHG_REG_CNTL1 then
           ((fst (snd x) < 0 \<or> has (fst (snd x)) SM5714_CHG_CNTL1_ENQ4FET) \<and> q4_maybe_closed h)
         else q4_maybe_closed h
     | _ \<Rightarrow> q4_maybe_closed h)"

text \<open>
  What the charger block may be asked to do: never more than 3 A input and 3.15 A battery current;
  Q4 is closed only with the input limit at 500 mA; the OTG boost is started only with Q4 open.
\<close>

definition charge_policy :: "history \<Rightarrow> event \<Rightarrow> bool" where
  "charge_policy h e =
    (case e of
       WriteByte c reg v \<Rightarrow>
         c = Chg \<longrightarrow>
         (reg = SM5714_CHG_REG_VBUSCNTL \<longrightarrow> v \<le> sm5714_input_current_reg 3000) \<and>
         (reg = SM5714_CHG_REG_CHGCNTL2 \<longrightarrow> v \<le> sm5714_fast_current_reg 3150) \<and>
         (reg = SM5714_CHG_REG_CNTL1 \<and> v AND SM5714_CHG_CNTL1_ENQ4FET \<noteq> 0 \<longrightarrow>
            last_vbus h = Some (sm5714_input_current_reg 500)) \<and>
         (reg = SM5714_CHG_REG_CNTL2 \<and>
            v AND SM5714_CHG_CNTL2_MODE_MASK = SM5714_CHG_CNTL2_USB_OTG \<longrightarrow>
            \<not> q4_maybe_closed h)
     | _ \<Rightarrow> True)"

definition charge_inv :: "board_world \<Rightarrow> bool" where
  "charge_inv w = (obeys charge_policy (hist w) \<and>
     (otg_active (battery (dev w)) \<longrightarrow> \<not> q4_maybe_closed (hist w)))"

text \<open>Events the policy allows after every history and that never close Q4.\<close>

definition charge_harmless :: "event \<Rightarrow> bool" where
  "charge_harmless e = (\<forall>h. charge_policy h e)"

lemma charge_harmless_not_closing:
  "charge_harmless (WriteByte Chg SM5714_CHG_REG_CNTL1 v) \<longleftrightarrow> v AND SM5714_CHG_CNTL1_ENQ4FET = 0"
  unfolding charge_harmless_def charge_policy_def
  by (auto dest: spec [of _ "[]"])

lemma charge_harmless_keeps: "charge_harmless e \<Longrightarrow> keeps charge_inv (call e)"
proof (rule keepsI, intro wp_intros)
  fix w :: board_world and a
  assume h: "charge_harmless e" and i: "charge_inv w"
  have "\<not> q4_maybe_closed (hist w) \<Longrightarrow> \<not> q4_maybe_closed ((e, a) # hist w)"
    using h charge_harmless_not_closing by (auto split: event.splits)
  with h i show "charge_inv (w\<lparr>hist := (e, a) # hist w\<rparr>)"
    by (auto simp: charge_inv_def charge_harmless_def)
qed

lemma neutral_charge_harmless: "neutral e \<Longrightarrow> charge_harmless e"
  by (cases e) (auto simp: charge_harmless_def charge_policy_def)

interpretation charge: board_invariant charge_inv charge_harmless
proof unfold_locales
  fix f :: "sm5714_battery \<Rightarrow> sm5714_battery"
  assume "\<And>s. otg_active (f s) = otg_active s"
  then show "keeps charge_inv (upd_bat f)"
    by (intro keepsI wp_intros) (simp add: charge_inv_def)
qed (simp_all add: charge_harmless_keeps neutral_charge_harmless)

subsection \<open>Operations that keep every invariant of the board\<close>

context board_invariant begin

lemma keeps_update_bits:
  assumes "\<And>old. harmless (WriteByte Chg reg ((old AND NOT msk) OR (val AND msk)))"
  shows "keeps inv (sm5714_chg_update_bits reg msk val)"
  unfolding sm5714_chg_update_bits_def by (intro keeps_rules keeps_write_byte assms) (simp add: assms)

lemma keeps_muic_set_otg_path [keeps_rules]: "keeps inv (sm5714_muic_set_otg_path on)"
  unfolding sm5714_muic_set_otg_path_def by (intro keeps_rules)

lemma keeps_get_online_raw [keeps_rules]: "keeps inv sm5714_get_online_raw"
  unfolding sm5714_get_online_raw_def by (intro keeps_rules)

lemma keeps_get_online [keeps_rules]: "keeps inv sm5714_get_online"
  unfolding sm5714_get_online_def by (intro keeps_rules)

lemma keeps_get_usb_type [keeps_rules]: "keeps inv sm5714_get_usb_type"
  unfolding sm5714_get_usb_type_def by (intro keeps_rules)

lemma keeps_sram_value [keeps_rules]: "keeps inv (sram_value addr conv)"
  unfolding sram_value_def sm5714_fg_read_sram_def by (intro keeps_rules)

lemma keeps_get_temp [keeps_rules]: "keeps inv sm5714_get_temp"
  unfolding sm5714_get_temp_def by (intro keeps_rules)

lemma keeps_get_status [keeps_rules]: "keeps inv sm5714_get_status"
  unfolding sm5714_get_status_def by (intro keeps_rules)

lemma keeps_get_capacity [keeps_rules]: "keeps inv sm5714_get_capacity"
  unfolding sm5714_get_capacity_def by (intro keeps_rules)

lemma keeps_notify_both [keeps_rules]: "keeps inv notify_both"
  unfolding notify_both_def by (intro keeps_rules)

lemma keeps_poll_capacity [keeps_rules]: "keeps inv poll_capacity"
  unfolding poll_capacity_def by (intro keeps_rules bat_update) simp

end

lemma observer_get_online_raw [observer_rules]: "observer neutral sm5714_get_online_raw"
  unfolding sm5714_get_online_raw_def by (intro observer_rules) simp_all

lemma observer_get_online [observer_rules]: "observer neutral sm5714_get_online"
  unfolding sm5714_get_online_def by (intro observer_rules)

lemma observer_get_usb_type [observer_rules]: "observer neutral sm5714_get_usb_type"
  unfolding sm5714_get_usb_type_def by (intro observer_rules) simp_all

lemma observer_sram_value [observer_rules]: "observer neutral (sram_value addr conv)"
  unfolding sram_value_def sm5714_fg_read_sram_def by (intro observer_rules) simp_all

lemma observer_get_temp [observer_rules]: "observer neutral sm5714_get_temp"
  unfolding sm5714_get_temp_def by (intro observer_rules) simp_all

lemma observer_get_status [observer_rules]: "observer neutral sm5714_get_status"
  unfolding sm5714_get_status_def by (intro observer_rules) simp_all

subsection \<open>The codes written to the chip\<close>

lemma unat_input_reg: "unat (sm5714_input_current_reg ma) =
  (if 100 \<le> unat ma then min ((unat ma - 100) div 25) 127 else 127)"
proof -
  have b: "unat (clamp ((ma - 100) div 25) 0 0x7f :: u32) = min (unat (ma - 100) div 25) 127"
    by (simp add: unat_clamp unat_div) (simp add: clamp_def)
  show ?thesis
    unfolding sm5714_input_current_reg_def
    by (subst unat_ucast_small) (simp_all add: b unat_sub_wrap)
qed

lemma unat_fast_reg:
  assumes "unat ma \<le> 4000000"
  shows "unat (sm5714_fast_current_reg ma) =
    (if unat ma * 1000 \<le> 109375 then 7 else min (7 + (unat ma * 1000 - 109375) div 15625) 224)"
proof -
  define ua where "ua = ma * 1000"
  have u: "unat ua = unat ma * 1000"
    using assms by (simp add: ua_def unat_word_ariths)
  have b: "unat ((ua - 109375) div 15625) = (unat ua - 109375) div 15625" if "109375 < unat ua"
    using that by (simp add: unat_div unat_sub word_le_nat_alt)
  have s: "7 + (unat ua - 109375) div 15625 < 4294967296"
    using u assms div_le_dividend [of "unat ua - 109375" 15625] by linarith
  have c: "unat (clamp (7 + (ua - 109375) div 15625) 0x07 0xe0 :: u32) =
     min (7 + (unat ua - 109375) div 15625) 224" if "109375 < unat ua"
    using b [OF that] s by (simp add: unat_clamp unat_word_ariths) (simp add: clamp_def)
  show ?thesis
    unfolding sm5714_fast_current_reg_def Let_def ua_def [symmetric]
    by (auto simp add: word_le_nat_alt unat_ucast_small c u [symmetric])
qed

lemma input_reg_mono:
  assumes "100 \<le> unat a" and "unat a \<le> unat b"
  shows "sm5714_input_current_reg a \<le> sm5714_input_current_reg b"
  using assms by (simp add: word_le_nat_alt unat_input_reg div_le_mono diff_le_mono min.coboundedI1)

lemma fast_reg_mono:
  assumes "unat a \<le> unat b" and "unat b \<le> 4000000"
  shows "sm5714_fast_current_reg a \<le> sm5714_fast_current_reg b"
proof -
  have "(unat a * 1000 - 109375) div 15625 \<le> (unat b * 1000 - 109375) div 15625"
    using assms by (simp add: div_le_mono diff_le_mono)
  with assms show ?thesis
    by (auto simp: word_le_nat_alt unat_fast_reg min_le_iff_disj)
qed

subsection \<open>The limits\<close>

lemma charge_limits_bounds:
  assumes "charge_limits mv ma usb_type fast state = (input_ma, fast_ma)"
  shows "500 \<le> unat input_ma" "unat input_ma \<le> 3000" "500 \<le> unat fast_ma" "unat fast_ma \<le> 3150"
    "state = SM5714_THERMAL_REDUCED \<Longrightarrow> unat fast_ma \<le> 2100"
  using assms
  by (auto simp: charge_limits_def unat_min word_le_nat_alt split: if_splits)

lemma charge_limits_regs:
  assumes "charge_limits mv ma usb_type fast state = (input_ma, fast_ma)"
  shows "sm5714_input_current_reg input_ma \<le> sm5714_input_current_reg 3000"
    "sm5714_fast_current_reg fast_ma \<le> sm5714_fast_current_reg 3150"
  using charge_limits_bounds [OF assms]
  by (auto intro!: input_reg_mono fast_reg_mono)

subsection \<open>Programming order\<close>

lemma program_charger_obeys:
  assumes "sm5714_input_current_reg i \<le> sm5714_input_current_reg 3000"
    and "sm5714_fast_current_reg f \<le> sm5714_fast_current_reg 3150"
    and "obeys charge_policy (hist w)"
  shows "wp (program_charger i f) (\<lambda>_ w'. obeys charge_policy (hist w') \<and> dev w' = dev w) w"
proof -
  have "sm5714_input_current_reg 500 \<le> sm5714_input_current_reg 3000"
    by (rule input_reg_mono) simp_all
  then show ?thesis
    using assms
    unfolding program_charger_def sm5714_set_float_voltage_def sm5714_chg_update_bits_def
    by (intro wp_intros) (simp_all add: charge_policy_def)
qed

lemma keeps_charge_program_charger:
  assumes "charge_limits mv ma usb_type fast state = (i, f)"
    and "charge_inv w" and "\<not> otg_active (battery (dev w))"
  shows "wp (program_charger i f) (\<lambda>_. charge_inv) w"
  using assms charge_limits_regs [OF assms(1)]
  by (intro wp_mono [OF program_charger_obeys]) (auto simp: charge_inv_def)

lemma open_q4_harmless:
  "charge_harmless (WriteByte Chg SM5714_CHG_REG_CNTL1 ((old AND NOT SM5714_CHG_CNTL1_ENQ4FET) OR
     (0 AND SM5714_CHG_CNTL1_ENQ4FET)))"
  by (simp add: charge_harmless_not_closing)

lemma keeps_charge_open_q4 [keeps_rules]:
  "keeps charge_inv (sm5714_chg_update_bits SM5714_CHG_REG_CNTL1 SM5714_CHG_CNTL1_ENQ4FET 0)"
  by (rule charge.keeps_update_bits) (rule open_q4_harmless)

lemma keeps_charge_configure: "keeps charge_inv sm5714_configure_charging"
  unfolding sm5714_configure_charging_def
  by (intro keepsI wp_intros wp_look [OF charge.keeps_get_usb_type observer_get_usb_type]
        wp_look [OF charge.keeps_get_temp observer_get_temp]
        wp_keeps [OF keeps_charge_open_q4] keeps_charge_program_charger)
     (simp_all add: charge_inv_def)

text \<open>
  The OTG boost: after the muic path, Q4 is opened and only then the boost is configured and
  started. \<open>q4_open_inv\<close> is what holds in between.
\<close>

definition q4_open_inv :: "board_world \<Rightarrow> bool" where
  "q4_open_inv w = (charge_inv w \<and> \<not> q4_maybe_closed (hist w))"

lemma open_q4_opens:
  assumes "charge_inv w"
  shows "wp (sm5714_chg_update_bits SM5714_CHG_REG_CNTL1 SM5714_CHG_CNTL1_ENQ4FET 0)
    (\<lambda>r w'. charge_inv w' \<and> dev w' = dev w \<and> (r = 0 \<longrightarrow> \<not> q4_maybe_closed (hist w'))) w"
  using assms unfolding sm5714_chg_update_bits_def
  by (intro wp_intros)
     (auto simp: charge_inv_def charge_policy_def not_less dest!: bit3_clearD split: if_splits)

lemma keeps_q4_open_bits:
  assumes "reg \<noteq> SM5714_CHG_REG_CNTL1" "reg \<noteq> SM5714_CHG_REG_VBUSCNTL" "reg \<noteq> SM5714_CHG_REG_CHGCNTL2"
  shows "keeps q4_open_inv (sm5714_chg_update_bits reg msk val)"
  using assms unfolding sm5714_chg_update_bits_def
  by (intro keepsI wp_intros) (simp_all add: q4_open_inv_def charge_inv_def charge_policy_def)

lemma boost_stage:
  assumes "charge_inv w" and "r = 0 \<Longrightarrow> \<not> q4_maybe_closed (hist w)"
    and "reg \<noteq> SM5714_CHG_REG_CNTL1" "reg \<noteq> SM5714_CHG_REG_VBUSCNTL" "reg \<noteq> SM5714_CHG_REG_CHGCNTL2"
    and "\<And>r w'. charge_inv w' \<Longrightarrow> (r = 0 \<Longrightarrow> \<not> q4_maybe_closed (hist w')) \<Longrightarrow> Q r w'"
  shows "wp (if r = 0 then sm5714_chg_update_bits reg msk val else return r) Q w"
  using assms(1,2,6)
  by (intro wp_ifI wp_returnI wp_keeps [OF keeps_q4_open_bits [OF assms(3-5)]])
     (auto simp: q4_open_inv_def)

lemma keeps_charge_otg_boost_on [keeps_rules]: "keeps charge_inv otg_boost_on"
proof -
  have "wp (if r = 0 then
          sm5714_chg_update_bits SM5714_CHG_REG_CNTL1 SM5714_CHG_CNTL1_ENQ4FET 0 else return r)
        (\<lambda>r w'. charge_inv w' \<and> (r = 0 \<longrightarrow> \<not> q4_maybe_closed (hist w'))) w"
    if "charge_inv w" for r w
    using that by (intro wp_ifI wp_returnI) (auto elim!: wp_mono [OF open_q4_opens])
  note open_stage = wp_mono [OF this]
  show ?thesis
    unfolding otg_boost_on_def
    by (intro keepsI wp_bindI wp_keeps [OF charge.keeps_muic_set_otg_path]
          open_stage boost_stage wp_ifI wp_upd_batI wp_returnI)
       (auto simp: charge_inv_def)
qed

lemma keeps_charge_leave_otg [keeps_rules]:
  "keeps charge_inv (upd_bat (\<lambda>s. s\<lparr>otg_active := False\<rparr>))"
  by (intro keepsI wp_intros) (simp add: charge_inv_def)

lemma mode_charging_harmless:
  "charge_harmless (WriteByte Chg SM5714_CHG_REG_CNTL2 ((old AND NOT SM5714_CHG_CNTL2_MODE_MASK) OR
     (SM5714_CHG_CNTL2_CHARGING AND SM5714_CHG_CNTL2_MODE_MASK)))"
proof -
  have "((old AND NOT 0x0f) OR 5) AND 0x0f = (5::u8)"
    using and_not_clears [of old "0x0f"] by (simp add: bit.conj_disj_distrib2)
  then show ?thesis
    by (simp add: charge_harmless_def charge_policy_def)
qed

lemma keeps_charge_otg_boost_off [keeps_rules]: "keeps charge_inv otg_boost_off"
  unfolding otg_boost_off_def
  by (intro keeps_rules charge.keeps_update_bits mode_charging_harmless)

subsection \<open>The operations of the driver keep the charging invariants\<close>

text \<open>
  What an invariant of the board has to know about the switching charger: opening Q4 is always
  allowed, and programming the charger and switching the boost keep the invariant. Then every
  operation other code calls keeps it.
\<close>

locale charger_invariant = board_invariant +
  assumes open_q4: "v AND SM5714_CHG_CNTL1_ENQ4FET = 0 \<Longrightarrow> harmless (WriteByte Chg SM5714_CHG_REG_CNTL1 v)"
    and float_voltage: "harmless (WriteByte Chg SM5714_CHG_REG_CHGCNTL4 v)"
    and configure: "keeps inv sm5714_configure_charging"
    and boost_on: "keeps inv otg_boost_on"
    and boost_off: "keeps inv otg_boost_off"
    and primary_update: "keeps inv (modify (\<lambda>b. b\<lparr>sm5714_primary := False\<rparr>))"
    and fresh_battery: "keeps inv (modify (\<lambda>b. b\<lparr>battery := zero_battery\<lparr>battery_temp := True\<rparr>,
                          sm5714_primary := True\<rparr>))"
begin

lemma keeps_open_q4 [keeps_rules]:
  "keeps inv (sm5714_chg_update_bits SM5714_CHG_REG_CNTL1 SM5714_CHG_CNTL1_ENQ4FET 0)"
  by (rule keeps_update_bits) (rule open_q4, simp)

lemma keeps_set_float_voltage [keeps_rules]: "keeps inv sm5714_set_float_voltage"
  unfolding sm5714_set_float_voltage_def
  by (intro keeps_rules keeps_update_bits float_voltage)

lemma keeps_set_pd_contract: "keeps inv (sm5714_battery_set_pd_contract mv ma)"
  unfolding sm5714_battery_set_pd_contract_def
  by (intro keeps_rules configure bat_update) simp_all

lemma keeps_set_direct_charge: "keeps inv (sm5714_battery_set_direct_charge on)"
  unfolding sm5714_battery_set_direct_charge_def
  by (intro keeps_rules configure bat_update) simp_all

lemma keeps_set_otg: "keeps inv (sm5714_battery_set_otg on)"
  unfolding sm5714_battery_set_otg_def
  by (intro keeps_rules configure boost_on boost_off)

lemma keeps_poll_work: "keeps inv sm5714_poll_work"
  unfolding sm5714_poll_work_def poll_thermal_def poll_recover_def poll_report_def
  by (intro keeps_rules configure bat_update) simp_all

lemma keeps_fast_charge_store: "keeps inv (fast_charge_store parsed count)"
  unfolding fast_charge_store_def
  by (intro keeps_rules configure bat_update) simp_all

lemma keeps_probe: "keeps inv sm5714_probe"
  unfolding sm5714_probe_def sm5714_probe_start_def power_supply_get_battery_info_def
    sm5714_clear_primary_def sm5714_cancel_poll_def
  by (intro keeps_rules keeps_neutral configure bat_update primary_update fresh_battery) simp_all

lemma keeps_suspend: "keeps inv sm5714_suspend"
  unfolding sm5714_suspend_def by (intro keeps_rules)

lemma keeps_resume: "keeps inv sm5714_resume"
  unfolding sm5714_resume_def by (intro keeps_rules)

end

interpretation charge: charger_invariant charge_inv charge_harmless
  by unfold_locales
     (auto simp: charge_harmless_not_closing keeps_charge_configure keeps_charge_otg_boost_on
        keeps_charge_otg_boost_off charge_harmless_def charge_policy_def charge_inv_def
        zero_battery_def intro!: keepsI wp_modifyI)

end
