(* ===== verification/Sm5714_Usbpd.thy ===== *)
theory Sm5714_Usbpd
  imports Sm5714_Charging
begin

text \<open>
  The SM5714 Type-C / USB-PD controller (\<open>kernel/files/sm5714_usbpd.c\<close>): every operation the driver
  gives the kernel's Type-C port manager (TCPM), its interrupt handler, its two delayed works and
  its probe, in the order of the source. The policy engine itself is TCPM, which is not part of the
  repository: its calls come in any order, and what the driver tells it is an event.
\<close>

subsection \<open>Registers\<close>

abbreviation (input) SM5714_REG_INT1 :: u8 where "SM5714_REG_INT1 \<equiv> 0x01"
abbreviation (input) SM5714_REG_MASK1 :: u8 where "SM5714_REG_MASK1 \<equiv> 0x06"
abbreviation (input) SM5714_REG_STATUS1 :: u8 where "SM5714_REG_STATUS1 \<equiv> 0x0b"
abbreviation (input) SM5714_INT1_VBUS_POK :: u8 where "SM5714_INT1_VBUS_POK \<equiv> 0x01"
abbreviation (input) SM5714_INT1_ATTACH :: u8 where "SM5714_INT1_ATTACH \<equiv> 0x08"
abbreviation (input) SM5714_INT1_DETACH :: u8 where "SM5714_INT1_DETACH \<equiv> 0x10"
abbreviation (input) SM5714_INT2_SRC_ADV :: u8 where "SM5714_INT2_SRC_ADV \<equiv> 0x10"
abbreviation (input) SM5714_INT2_VBUS_0V :: u8 where "SM5714_INT2_VBUS_0V \<equiv> 0x20"
abbreviation (input) SM5714_INT4_RX_DONE :: u8 where "SM5714_INT4_RX_DONE \<equiv> 0x01"
abbreviation (input) SM5714_INT4_TX_DONE :: u8 where "SM5714_INT4_TX_DONE \<equiv> 0x02"
abbreviation (input) SM5714_INT4_TX_SOP_ERR :: u8 where "SM5714_INT4_TX_SOP_ERR \<equiv> 0x04"
abbreviation (input) SM5714_INT4_HRST_RX :: u8 where "SM5714_INT4_HRST_RX \<equiv> 0x20"
abbreviation (input) SM5714_INT4_TX_DISCARD :: u8 where "SM5714_INT4_TX_DISCARD \<equiv> 0x80"
abbreviation (input) SM5714_REG_CORR_CNTL4 :: u8 where "SM5714_REG_CORR_CNTL4 \<equiv> 0x23"
abbreviation (input) SM5714_REG_CORR_CNTL5 :: u8 where "SM5714_REG_CORR_CNTL5 \<equiv> 0x24"
abbreviation (input) SM5714_REG_CC_STATUS :: u8 where "SM5714_REG_CC_STATUS \<equiv> 0x28"
abbreviation (input) SM5714_CC_ATTACH_MASK :: u32 where "SM5714_CC_ATTACH_MASK \<equiv> 0x07"
abbreviation (input) SM5714_CC_ATTACH_SOURCE :: u32 where "SM5714_CC_ATTACH_SOURCE \<equiv> 1"
abbreviation (input) SM5714_CC_ATTACH_SINK :: u32 where "SM5714_CC_ATTACH_SINK \<equiv> 2"
abbreviation (input) SM5714_CC_ATTACH_AUDIO :: u32 where "SM5714_CC_ATTACH_AUDIO \<equiv> 3"
abbreviation (input) SM5714_CC_RP_MASK :: u32 where "SM5714_CC_RP_MASK \<equiv> 0x18"
abbreviation (input) SM5714_CC_FLIPPED :: u32 where "SM5714_CC_FLIPPED \<equiv> 0x20"
abbreviation (input) SM5714_CC_POWERED_CABLE :: u32 where "SM5714_CC_POWERED_CABLE \<equiv> 0x40"
abbreviation (input) SM5714_REG_CC_CNTL1 :: u8 where "SM5714_REG_CC_CNTL1 \<equiv> 0x29"
abbreviation (input) SM5714_REG_CC_CNTL3 :: u8 where "SM5714_REG_CC_CNTL3 \<equiv> 0x2b"
abbreviation (input) SM5714_REG_CC_CNTL5 :: u8 where "SM5714_REG_CC_CNTL5 \<equiv> 0x2d"
abbreviation (input) SM5714_REG_CC_CNTL7 :: u8 where "SM5714_REG_CC_CNTL7 \<equiv> 0x2f"
abbreviation (input) SM5714_REG_PD_CNTL1 :: u8 where "SM5714_REG_PD_CNTL1 \<equiv> 0x38"
abbreviation (input) SM5714_REG_PD_CNTL2 :: u8 where "SM5714_REG_PD_CNTL2 \<equiv> 0x39"
abbreviation (input) SM5714_REG_PD_CNTL4 :: u8 where "SM5714_REG_PD_CNTL4 \<equiv> 0x3b"
abbreviation (input) SM5714_PD_HARD_RESET :: u8 where "SM5714_PD_HARD_RESET \<equiv> 0x04"
abbreviation (input) SM5714_REG_RX_SRC :: u8 where "SM5714_REG_RX_SRC \<equiv> 0x41"
abbreviation (input) SM5714_REG_RX_HEADER :: u8 where "SM5714_REG_RX_HEADER \<equiv> 0x42"
abbreviation (input) SM5714_REG_RX_PAYLOAD :: u8 where "SM5714_REG_RX_PAYLOAD \<equiv> 0x44"
abbreviation (input) SM5714_REG_RX_BUF :: u8 where "SM5714_REG_RX_BUF \<equiv> 0x5e"
abbreviation (input) SM5714_REG_RX_BUF_ST :: u8 where "SM5714_REG_RX_BUF_ST \<equiv> 0x5f"
abbreviation (input) SM5714_REG_TX_HEADER :: u8 where "SM5714_REG_TX_HEADER \<equiv> 0x60"
abbreviation (input) SM5714_REG_TX_PAYLOAD :: u8 where "SM5714_REG_TX_PAYLOAD \<equiv> 0x62"
abbreviation (input) SM5714_REG_TX_REQ :: u8 where "SM5714_REG_TX_REQ \<equiv> 0x7e"
abbreviation (input) SM5714_REG_PD_STATE3 :: u8 where "SM5714_REG_PD_STATE3 \<equiv> 0xd8"

text \<open>Constants and types of the kernel's Type-C and PD headers.\<close>

abbreviation (input) PD_MAX_PAYLOAD :: nat where "PD_MAX_PAYLOAD \<equiv> 7"
abbreviation (input) PD_CTRL_PS_RDY :: u16 where "PD_CTRL_PS_RDY \<equiv> 6"
abbreviation (input) PD_CTRL_PR_SWAP :: u16 where "PD_CTRL_PR_SWAP \<equiv> 10"

datatype typec_cc_status =
  TYPEC_CC_OPEN | TYPEC_CC_RA | TYPEC_CC_RD | TYPEC_CC_RP_DEF | TYPEC_CC_RP_1_5 | TYPEC_CC_RP_3_0

datatype typec_port_type = TYPEC_PORT_SRC | TYPEC_PORT_SNK | TYPEC_PORT_DRP
datatype typec_role = TYPEC_SINK | TYPEC_SOURCE
datatype typec_data_role = TYPEC_DEVICE | TYPEC_HOST

definition pd_header_cnt_le :: "u16 \<Rightarrow> nat" where
  "pd_header_cnt_le h = unat (drop_bit 12 h AND 7)"

definition pd_header_type_le :: "u16 \<Rightarrow> u16" where
  "pd_header_type_le h = h AND 0x1f"

text \<open>The header as it lies in memory and in the chip's window: little endian.\<close>

definition header_bytes :: "u16 \<Rightarrow> u8 list" where
  "header_bytes h = [ucast h, ucast (drop_bit 8 h)]"

definition header_of_bytes :: "u8 list \<Rightarrow> u16" where
  "header_of_bytes bs = ucast (bs ! 0) OR push_bit 8 (ucast (bs ! 1))"

text \<open>What the driver tells TCPM and its GPIO; a handle given back.\<close>

definition tell :: "event \<Rightarrow> unit io" where
  "tell e = do { _ \<leftarrow> call e; return () }"

subsection \<open>CC hold and the delayed works\<close>

definition sm5714_usbpd_set_cc_hold :: "u8 \<Rightarrow> int io" where
  "sm5714_usbpd_set_cc_hold hold = regmap_update_bits SM5714_REG_CC_CNTL3 0x30 hold"

definition sm5714_usbpd_cc_resync_work :: "unit io" where
  "sm5714_usbpd_cc_resync_work = do {
     have_port \<leftarrow> get_pd port;
     if \<not> have_port then return ()
     else do {
       _ \<leftarrow> regmap_read SM5714_REG_CC_STATUS;
       tell TcpmCcChange;
       tell TcpmVbusChange
     }
   }"

definition sm5714_usbpd_otg_det_work :: "unit io" where
  "sm5714_usbpd_otg_det_work = tell (SetOtgDet False)"

subsection \<open>Initialisation\<close>

definition init_masks :: "u8 list" where
  "init_masks = [0xe6, 0xcf, 0xff, 0x08, 0xff]"

definition sm5714_usbpd_init :: "int io" where
  "sm5714_usbpd_init = do {
     ret \<leftarrow> regmap_write SM5714_REG_CORR_CNTL5 0x00;
     if ret \<noteq> 0 then return ret
     else do {
     ret \<leftarrow> regmap_write SM5714_REG_CORR_CNTL4 0x00;
     if ret \<noteq> 0 then return ret
     else do {
     state3 \<leftarrow> regmap_read SM5714_REG_PD_STATE3;
     (case state3 of
        Inl err \<Rightarrow> return err
      | Inr state3 \<Rightarrow> do {
          ret \<leftarrow> regmap_write SM5714_REG_RX_BUF_ST 0x10;
          if ret \<noteq> 0 then return ret
          else do {
          ret \<leftarrow> (if state3 AND 0x06 \<noteq> 0 then regmap_write SM5714_REG_PD_CNTL4 0x01 else return 0);
          if ret \<noteq> 0 then return ret
          else do {
          pending \<leftarrow> regmap_bulk_read SM5714_REG_INT1 5;
          (case pending of
             Inl err \<Rightarrow> return err
           | Inr _ \<Rightarrow> regmap_bulk_write SM5714_REG_MASK1 init_masks)
          }}
        })
     }}
   }"

subsection \<open>Reading the port\<close>

definition sm5714_usbpd_get_vbus :: "int io" where
  "sm5714_usbpd_get_vbus = do {
     status \<leftarrow> regmap_read SM5714_REG_STATUS1;
     (case status of
        Inl err \<Rightarrow> return err
      | Inr status \<Rightarrow>
          if status AND 1 \<noteq> 0 then return 1
          else do {
            otg \<leftarrow> sm5714_battery_is_otg_active;
            return (if otg then 1 else 0)
          })
   }"

definition sm5714_usbpd_rp_status :: "u32 \<Rightarrow> typec_cc_status" where
  "sm5714_usbpd_rp_status cc =
    (let rp = cc AND SM5714_CC_RP_MASK in
     if rp = 0x08 then TYPEC_CC_RP_1_5
     else if rp = 0x10 \<or> rp = 0x18 then TYPEC_CC_RP_3_0
     else TYPEC_CC_RP_DEF)"

definition sm5714_usbpd_get_current_limit :: "int io" where
  "sm5714_usbpd_get_current_limit = do {
     cc \<leftarrow> regmap_read SM5714_REG_CC_STATUS;
     return (case cc of
        Inl err \<Rightarrow> err
      | Inr cc \<Rightarrow>
          (case sm5714_usbpd_rp_status cc of
             TYPEC_CC_RP_3_0 \<Rightarrow> 3000
           | TYPEC_CC_RP_1_5 \<Rightarrow> 1500
           | _ \<Rightarrow> 500))
   }"

text \<open>The two pins as the status register describes them: CC1 and CC2.\<close>

definition decode_cc :: "u32 \<Rightarrow> typec_cc_status \<times> typec_cc_status" where
  "decode_cc cc =
    (let attach = cc AND SM5714_CC_ATTACH_MASK in
     if attach = SM5714_CC_ATTACH_AUDIO then (TYPEC_CC_RA, TYPEC_CC_RA)
     else
       (let (active, inactive) =
          (if attach = SM5714_CC_ATTACH_SOURCE then (sm5714_usbpd_rp_status cc, TYPEC_CC_OPEN)
           else if attach = SM5714_CC_ATTACH_SINK then
             (TYPEC_CC_RD, if cc AND SM5714_CC_POWERED_CABLE \<noteq> 0 then TYPEC_CC_RA else TYPEC_CC_OPEN)
           else (TYPEC_CC_OPEN, TYPEC_CC_OPEN))
        in if cc AND SM5714_CC_FLIPPED \<noteq> 0 then (inactive, active) else (active, inactive)))"

definition sm5714_usbpd_get_cc :: "(int + typec_cc_status \<times> typec_cc_status) io" where
  "sm5714_usbpd_get_cc = do {
     cc \<leftarrow> regmap_read SM5714_REG_CC_STATUS;
     return (case cc of Inl err \<Rightarrow> Inl err | Inr cc \<Rightarrow> Inr (decode_cc cc))
   }"

subsection \<open>Driving the port\<close>

text \<open>Toggling bit 0 of \<open>CC_CNTL7\<close>, the in-place power role swap of both directions.\<close>

definition toggle_role :: "int io" where
  "toggle_role = do {
     role \<leftarrow> regmap_read SM5714_REG_CC_CNTL7;
     (case role of
        Inl err \<Rightarrow> return err
      | Inr role \<Rightarrow> regmap_write SM5714_REG_CC_CNTL7 (ucast (role XOR 1)))
   }"

definition force_cc :: "u8 \<Rightarrow> u8 \<Rightarrow> int io" where
  "force_cc cntl1 cntl3 = do {
     ret \<leftarrow> regmap_write SM5714_REG_CC_CNTL1 cntl1;
     if ret \<noteq> 0 then return ret else regmap_write SM5714_REG_CC_CNTL3 cntl3
   }"

text \<open>The three branches of \<open>sm5714_usbpd_set_cc\<close>.\<close>

definition set_cc_open :: "int io" where
  "set_cc_open = do {
     upd_pd (\<lambda>s. s\<lparr>pr_swap_src_to_snk := False\<rparr>);
     upd_pd (\<lambda>s. s\<lparr>pr_swap_snk_to_src := False\<rparr>);
     _ \<leftarrow> sm5714_usbpd_set_cc_hold 0;
     regmap_write SM5714_REG_CC_CNTL3 0x88
   }"

definition set_cc_rd :: "int io" where
  "set_cc_rd = do {
     status \<leftarrow> regmap_read SM5714_REG_CC_STATUS;
     (case status of
        Inl err \<Rightarrow> return err
      | Inr status \<Rightarrow>
          if status AND SM5714_CC_ATTACH_MASK = SM5714_CC_ATTACH_SOURCE then return 0
          else do {
            swap \<leftarrow> get_pd pr_swap_src_to_snk;
            if swap then do {
              ret \<leftarrow> sm5714_usbpd_set_cc_hold 0x10;
              if ret \<noteq> 0 then return ret else toggle_role
            }
            else force_cc 0x45 0x82
          })
   }"

definition set_cc_rp :: "int io" where
  "set_cc_rp = do {
     status \<leftarrow> regmap_read SM5714_REG_CC_STATUS;
     (case status of
        Inl err \<Rightarrow> return err
      | Inr status \<Rightarrow>
          if status AND SM5714_CC_ATTACH_MASK = SM5714_CC_ATTACH_SINK then
            regmap_update_bits SM5714_REG_CC_CNTL1 0x30 0
          else do {
            swap \<leftarrow> get_pd pr_swap_snk_to_src;
            if swap then toggle_role else force_cc 0x49 0x81
          })
   }"

definition sm5714_usbpd_set_cc :: "typec_cc_status \<Rightarrow> int io" where
  "sm5714_usbpd_set_cc cc =
    (case cc of
       TYPEC_CC_OPEN \<Rightarrow> set_cc_open
     | TYPEC_CC_RD \<Rightarrow> set_cc_rd
     | TYPEC_CC_RP_DEF \<Rightarrow> set_cc_rp
     | TYPEC_CC_RP_1_5 \<Rightarrow> set_cc_rp
     | TYPEC_CC_RP_3_0 \<Rightarrow> set_cc_rp
     | TYPEC_CC_RA \<Rightarrow> return (- EOPNOTSUPP))"

definition sm5714_usbpd_start_toggling :: "typec_port_type \<Rightarrow> typec_cc_status \<Rightarrow> int io" where
  "sm5714_usbpd_start_toggling port_type cc =
    (case port_type of
       TYPEC_PORT_SRC \<Rightarrow> sm5714_usbpd_set_cc cc
     | TYPEC_PORT_SNK \<Rightarrow> sm5714_usbpd_set_cc TYPEC_CC_RD
     | TYPEC_PORT_DRP \<Rightarrow> do {
         upd_pd (\<lambda>s. s\<lparr>pr_swap_src_to_snk := False\<rparr>);
         upd_pd (\<lambda>s. s\<lparr>pr_swap_snk_to_src := False\<rparr>);
         _ \<leftarrow> sm5714_usbpd_set_cc_hold 0;
         force_cc 0x40 0x80
       })"

definition sm5714_usbpd_set_polarity :: "typec_cc_polarity \<Rightarrow> int io" where
  "sm5714_usbpd_set_polarity pol = do { upd_pd (\<lambda>s. s\<lparr>polarity := pol\<rparr>); return 0 }"

definition sm5714_usbpd_set_vconn :: "bool \<Rightarrow> int io" where
  "sm5714_usbpd_set_vconn on = do {
     pol \<leftarrow> get_pd polarity;
     regmap_write SM5714_REG_CC_CNTL5
       (if \<not> on then 0x18 else if pol = TYPEC_POLARITY_CC1 then 0x19 else 0x1a)
   }"

text \<open>The part of \<open>sm5714_usbpd_set_vbus\<close> after the CC state has been frozen.\<close>

definition switch_vbus :: "bool \<Rightarrow> int io" where
  "switch_vbus on = do {
     gpio \<leftarrow> get_pd otg_det_gpio;
     (if on \<and> gpio then do {
        tell (SetOtgDet True);
        schedule_delayed_work OtgDetWork 130
      } else return ());
     ret \<leftarrow> sm5714_battery_set_otg on;
     swap \<leftarrow> get_pd pr_swap_snk_to_src;
     (if ret = 0 \<and> on \<and> swap then upd_pd (\<lambda>s. s\<lparr>pr_swap_snk_to_src := False\<rparr>) else return ());
     (if ret \<noteq> 0 \<or> \<not> on then do {
        cancel_delayed_work OtgDetWork;
        gpio \<leftarrow> get_pd otg_det_gpio;
        (if gpio then tell (SetOtgDet False) else return ())
      } else return ());
     return ret
   }"

definition sm5714_usbpd_set_vbus :: "bool \<Rightarrow> int io" where
  "sm5714_usbpd_set_vbus on = do {
     swap \<leftarrow> get_pd pr_swap_src_to_snk;
     ret \<leftarrow> (if \<not> on \<and> swap then sm5714_usbpd_set_cc_hold 0x20 else return 0);
     if ret \<noteq> 0 then return ret else switch_vbus on
   }"

definition sm5714_usbpd_set_current_limit :: "u32 \<Rightarrow> u32 \<Rightarrow> int io" where
  "sm5714_usbpd_set_current_limit max_ma mv = do {
     ret \<leftarrow> sm5714_battery_set_pd_contract mv max_ma;
     if ret \<noteq> 0 then return ret
     else do {
       upd_pd (\<lambda>s. s\<lparr>negotiated_mv := mv\<rparr>);
       upd_pd (\<lambda>s. s\<lparr>negotiated_ma := max_ma\<rparr>);
       return 0
     }
   }"

definition sm5714_usbpd_set_pd_rx :: "bool \<Rightarrow> int io" where
  "sm5714_usbpd_set_pd_rx on = regmap_write SM5714_REG_PD_CNTL1 (if on then 0x08 else 0x00)"

definition sm5714_usbpd_consume_retained_sink_dfp :: "bool io" where
  "sm5714_usbpd_consume_retained_sink_dfp = do {
     retained \<leftarrow> get_pd retained_sink_dfp;
     upd_pd (\<lambda>s. s\<lparr>retained_sink_dfp := False\<rparr>);
     return retained
   }"

definition role_bits :: "typec_role \<Rightarrow> typec_data_role \<Rightarrow> u32 \<Rightarrow> u32" where
  "role_bits role data v =
    (let v = (if role = TYPEC_SOURCE then v OR 2 else v AND NOT 2)
     in if data = TYPEC_HOST then v OR 1 else v AND NOT 1)"

definition sm5714_usbpd_set_roles :: "bool \<Rightarrow> typec_role \<Rightarrow> typec_data_role \<Rightarrow> int io" where
  "sm5714_usbpd_set_roles attached role data = do {
     val \<leftarrow> regmap_read SM5714_REG_PD_CNTL2;
     (case val of
        Inl err \<Rightarrow> return err
      | Inr val \<Rightarrow> regmap_write SM5714_REG_PD_CNTL2 (ucast (role_bits role data val)))
   }"

subsection \<open>Messages\<close>

fun tx_request :: "tcpm_transmit_type \<Rightarrow> u8 option" where
  "tx_request TCPC_TX_SOP = Some 0x07"
| "tx_request TCPC_TX_SOP_PRIME = Some 0x17"
| "tx_request TCPC_TX_SOP_PRIME_PRIME = Some 0x27"
| "tx_request _ = None"

definition sm5714_usbpd_transmit :: "tcpm_transmit_type \<Rightarrow> pd_message \<Rightarrow> int io" where
  "sm5714_usbpd_transmit type msg =
    (if type = TCPC_TX_HARD_RESET then
       regmap_update_bits SM5714_REG_PD_CNTL4 SM5714_PD_HARD_RESET SM5714_PD_HARD_RESET
     else
       (case tx_request type of
          None \<Rightarrow> return (- EOPNOTSUPP)
        | Some request \<Rightarrow> do {
            let count = pd_header_cnt_le (header msg);
            ret \<leftarrow> regmap_bulk_write SM5714_REG_TX_HEADER (header_bytes (header msg));
            if ret \<noteq> 0 then return ret
            else do {
              ret \<leftarrow> (if count \<noteq> 0 then
                        regmap_bulk_write SM5714_REG_TX_PAYLOAD (take (count * 4) (payload msg))
                      else return 0);
              if ret \<noteq> 0 then return ret
              else regmap_write SM5714_REG_TX_REQ request
            }
          }))"

definition rx_sop :: "u32 \<Rightarrow> tcpm_transmit_type option" where
  "rx_sop origin =
    (let o4 = origin AND 0x0f in
     if o4 = 0 then Some TCPC_TX_SOP
     else if o4 = 1 then Some TCPC_TX_SOP_PRIME
     else if o4 = 2 then Some TCPC_TX_SOP_PRIME_PRIME
     else None)"

text \<open>What the driver notes about a power role swap when the message is a \<open>PR_SWAP\<close> or \<open>PS_RDY\<close>.\<close>

definition note_pr_swap :: "bool \<Rightarrow> u16 \<Rightarrow> unit io" where
  "note_pr_swap sop_control type = do {
     (if sop_control \<and> type = PD_CTRL_PR_SWAP then do {
        status \<leftarrow> regmap_read SM5714_REG_CC_STATUS;
        (case status of
           Inl _ \<Rightarrow> return ()
         | Inr status \<Rightarrow>
             if status AND SM5714_CC_ATTACH_MASK = SM5714_CC_ATTACH_SINK then
               upd_pd (\<lambda>s. s\<lparr>pr_swap_src_to_snk := True\<rparr>)
             else if status AND SM5714_CC_ATTACH_MASK = SM5714_CC_ATTACH_SOURCE then
               upd_pd (\<lambda>s. s\<lparr>pr_swap_snk_to_src := True\<rparr>)
             else return ())
      } else return ());
     swap \<leftarrow> get_pd pr_swap_src_to_snk;
     (if sop_control \<and> type = PD_CTRL_PS_RDY \<and> swap then do {
        ret \<leftarrow> sm5714_usbpd_set_cc_hold 0;
        (if ret = 0 then upd_pd (\<lambda>s. s\<lparr>pr_swap_src_to_snk := False\<rparr>) else return ())
      } else return ())
   }"

text \<open>
  The message in the receive window, or \<open>None\<close> where the code jumps to its \<open>acknowledge\<close> label
  before it has one. \<open>msg\<close> starts out as zeros, so the payload is padded to its 28 bytes.
\<close>

definition rx_message :: "u16 \<Rightarrow> (pd_message \<times> tcpm_transmit_type) option io" where
  "rx_message hdr = do {
     let count = pd_header_cnt_le hdr;
     if count > PD_MAX_PAYLOAD then return None
     else do {
       bytes \<leftarrow> (if count \<noteq> 0 then regmap_bulk_read SM5714_REG_RX_PAYLOAD (count * 4)
                 else return (Inr []));
       (case bytes of
          Inl _ \<Rightarrow> return None
        | Inr bytes \<Rightarrow> do {
            origin \<leftarrow> regmap_read SM5714_REG_RX_SRC;
            return (case origin of
               Inl _ \<Rightarrow> None
             | Inr origin \<Rightarrow>
                 (case rx_sop origin of
                    None \<Rightarrow> None
                  | Some sop \<Rightarrow>
                      Some (\<lparr>header = hdr, payload = bytes @ replicate (28 - count * 4) 0\<rparr>, sop)))
          })
     }
   }"

definition sm5714_usbpd_receive :: "unit io" where
  "sm5714_usbpd_receive = do {
     bytes \<leftarrow> regmap_bulk_read SM5714_REG_RX_HEADER 2;
     (case bytes of
        Inl _ \<Rightarrow> return ()
      | Inr bytes \<Rightarrow> do {
          m \<leftarrow> rx_message (header_of_bytes bytes);
          (case m of
             None \<Rightarrow> return ()
           | Some (msg, sop) \<Rightarrow> do {
               note_pr_swap (sop = TCPC_TX_SOP \<and> pd_header_cnt_le (header msg) = 0)
                 (pd_header_type_le (header msg));
               tell (TcpmPdReceive msg sop)
             });
          _ \<leftarrow> regmap_write SM5714_REG_RX_BUF 0x80;
          return ()
        })
   }"

subsection \<open>The interrupt\<close>

definition tx_outcome :: "u8 \<Rightarrow> tcpm_transmit_status option" where
  "tx_outcome int4 =
    (if int4 AND SM5714_INT4_TX_DONE \<noteq> 0 then Some TCPC_TX_SUCCESS
     else if int4 AND SM5714_INT4_TX_DISCARD \<noteq> 0 then Some TCPC_TX_DISCARDED
     else if int4 AND SM5714_INT4_TX_SOP_ERR \<noteq> 0 then Some TCPC_TX_FAILED
     else None)"

datatype irqreturn = IRQ_NONE | IRQ_HANDLED

definition sm5714_usbpd_irq :: "irqreturn io" where
  "sm5714_usbpd_irq = do {
     intr \<leftarrow> regmap_bulk_read SM5714_REG_INT1 5;
     (case intr of
        Inl _ \<Rightarrow> return IRQ_NONE
      | Inr intr \<Rightarrow> do {
          (if intr ! 3 AND SM5714_INT4_RX_DONE \<noteq> 0 then sm5714_usbpd_receive else return ());
          (case tx_outcome (intr ! 3) of
             None \<Rightarrow> return ()
           | Some status \<Rightarrow> tell (TcpmPdTransmitComplete status));
          (if intr ! 3 AND SM5714_INT4_HRST_RX \<noteq> 0 then tell TcpmPdHardReset else return ());
          (if intr ! 0 AND (SM5714_INT1_ATTACH OR SM5714_INT1_DETACH) \<noteq> 0 \<or>
              intr ! 1 AND SM5714_INT2_SRC_ADV \<noteq> 0 then tell TcpmCcChange else return ());
          (if intr ! 0 AND SM5714_INT1_VBUS_POK \<noteq> 0 \<or> intr ! 1 AND SM5714_INT2_VBUS_0V \<noteq> 0
           then tell TcpmVbusChange else return ());
          return IRQ_HANDLED
        })
   }"

subsection \<open>Probe and remove\<close>

definition zero_usbpd :: sm5714_usbpd where
  "zero_usbpd = \<lparr>port = False, otg_det_gpio = False, polarity = TYPEC_POLARITY_CC1,
     pr_swap_src_to_snk = False, pr_swap_snk_to_src = False, retained_sink_dfp = False,
     retained_dock_reset = False, negotiated_mv = 0, negotiated_ma = 0\<rparr>"

definition put_fwnode :: "int \<Rightarrow> int io" where
  "put_fwnode ret = do { tell (Devm ''fwnode_handle_put''); return ret }"

text \<open>
  The CC detach that resets a dock which stayed powered through the reboot: Rp for 200 ms, then both
  pins open for 50 ms.
\<close>

definition reset_retained_dock :: "int io" where
  "reset_retained_dock = do {
     ret \<leftarrow> regmap_write SM5714_REG_CC_CNTL1 0x49;
     if ret \<noteq> 0 then return ret
     else do {
     ret \<leftarrow> regmap_write SM5714_REG_CC_CNTL3 0x81;
     if ret \<noteq> 0 then return ret
     else do {
     msleep 200;
     ret \<leftarrow> regmap_write SM5714_REG_CC_CNTL3 0x88;
     if ret \<noteq> 0 then return ret
     else do {
       msleep 50;
       upd_pd (\<lambda>s. s\<lparr>retained_sink_dfp := False\<rparr>);
       upd_pd (\<lambda>s. s\<lparr>retained_dock_reset := True\<rparr>);
       return 0
     }}}
   }"

text \<open>
  The probe up to \<open>tcpm_register_port\<close>, which starts to call the operations above, and from there
  to its end: TCPM may run any of them in between.
\<close>

definition sm5714_usbpd_probe_early :: "int io" where
  "sm5714_usbpd_probe_early = do {
     ok \<leftarrow> devm ''kzalloc'';
     if ok \<noteq> 0 then return (- ENOMEM)
     else do {
     modify (\<lambda>b. b\<lparr>usbpd := zero_usbpd\<rparr>);
     ret \<leftarrow> devm ''regmap_init_i2c'';
     if ret \<noteq> 0 then return ret
     else do {
     gpio \<leftarrow> call (Devm ''gpiod_get_optional otg-det'');
     if fst gpio < 0 then return (fst gpio)
     else do {
     upd_pd (\<lambda>s. s\<lparr>otg_det_gpio := (first_value (snd gpio) \<noteq> 0)\<rparr>);
     connector \<leftarrow> devm ''connector'';
     if connector \<noteq> 0 then return (- EINVAL)
     else do {
     roles \<leftarrow> regmap_read SM5714_REG_PD_CNTL2;
     (case roles of
        Inl err \<Rightarrow> put_fwnode err
      | Inr roles \<Rightarrow> do {
          cc \<leftarrow> regmap_read SM5714_REG_CC_STATUS;
          (case cc of
             Inl err \<Rightarrow> put_fwnode err
           | Inr cc \<Rightarrow> do {
               upd_pd (\<lambda>s. s\<lparr>retained_sink_dfp :=
                 (roles AND 1 \<noteq> 0 \<and> cc AND SM5714_CC_ATTACH_MASK = SM5714_CC_ATTACH_SOURCE)\<rparr>);
               retained \<leftarrow> get_pd retained_sink_dfp;
               ret \<leftarrow> (if retained then reset_retained_dock else return 0);
               if ret \<noteq> 0 then put_fwnode ret else return 0
             })
        })
     }}}}
   }"

definition sm5714_usbpd_probe_late :: "int io" where
  "sm5714_usbpd_probe_late = do {
     ret \<leftarrow> devm ''tcpm_register_port'';
     if ret \<noteq> 0 then put_fwnode ret
     else do {
       upd_pd (\<lambda>s. s\<lparr>port := True\<rparr>);
       ret \<leftarrow> devm ''request_threaded_irq'';
       if ret \<noteq> 0 then do { tell (Devm ''tcpm_unregister_port''); put_fwnode ret }
       else do {
         was_reset \<leftarrow> get_pd retained_dock_reset;
         schedule_delayed_work CcResyncWork (if was_reset then 3000 else 1500);
         return 0
       }
     }
   }"

definition sm5714_usbpd_probe :: "int io" where
  "sm5714_usbpd_probe = do {
     ret \<leftarrow> sm5714_usbpd_probe_early;
     if ret \<noteq> 0 then return ret else sm5714_usbpd_probe_late
   }"

definition sm5714_usbpd_remove :: "unit io" where
  "sm5714_usbpd_remove = do {
     cancel_delayed_work CcResyncWork;
     cancel_delayed_work OtgDetWork;
     gpio \<leftarrow> get_pd otg_det_gpio;
     (if gpio then tell (SetOtgDet False) else return ());
     tell (Devm ''tcpm_unregister_port'');
     tell (Devm ''fwnode_handle_put'')
   }"

end
