(* ===== verification/Sm5440_Direct.thy ===== *)
theory Sm5440_Direct
  imports Sm5714_Charging
begin

text \<open>
  The SM5440 direct charger (\<open>kernel/files/sm5440_direct.c\<close>): every operation of the driver in the
  order of the source. It calls the SM5714 driver's exported operations directly and reaches the
  TCPM and the battery through the power-supply core, whose answers are the environment's.
\<close>

subsection \<open>Registers and constants\<close>

abbreviation (input) SM5440_REG_INT1 :: u8 where "SM5440_REG_INT1 \<equiv> 0x00"
abbreviation (input) SM5440_REG_INT3 :: u8 where "SM5440_REG_INT3 \<equiv> 0x02"
abbreviation (input) SM5440_REG_STATUS3 :: u8 where "SM5440_REG_STATUS3 \<equiv> 0x0a"
abbreviation (input) SM5440_STATUS3_VBUSPOK :: u8 where "SM5440_STATUS3_VBUSPOK \<equiv> 0x20"
abbreviation (input) SM5440_REG_CNTL1 :: u8 where "SM5440_REG_CNTL1 \<equiv> 0x0c"
abbreviation (input) SM5440_CNTL1_SW_RESET :: u8 where "SM5440_CNTL1_SW_RESET \<equiv> 0x01"
abbreviation (input) SM5440_CNTL1_WDT_EN :: u8 where "SM5440_CNTL1_WDT_EN \<equiv> 0x80"
abbreviation (input) SM5440_CNTL1_WDT_30S :: u8 where "SM5440_CNTL1_WDT_30S \<equiv> 0x40"
abbreviation (input) SM5440_REG_CNTL2 :: u8 where "SM5440_REG_CNTL2 \<equiv> 0x0d"
abbreviation (input) SM5440_REG_CNTL3 :: u8 where "SM5440_REG_CNTL3 \<equiv> 0x0e"
abbreviation (input) SM5440_REG_CNTL4 :: u8 where "SM5440_REG_CNTL4 \<equiv> 0x0f"
abbreviation (input) SM5440_REG_CNTL5 :: u8 where "SM5440_REG_CNTL5 \<equiv> 0x10"
abbreviation (input) SM5440_CNTL5_OP_MODE_MASK :: u8 where "SM5440_CNTL5_OP_MODE_MASK \<equiv> 0x0c"
abbreviation (input) SM5440_CNTL5_CHG_ON :: u8 where "SM5440_CNTL5_CHG_ON \<equiv> 0x04"
abbreviation (input) SM5440_REG_CNTL6 :: u8 where "SM5440_REG_CNTL6 \<equiv> 0x11"
abbreviation (input) SM5440_REG_CNTL7 :: u8 where "SM5440_REG_CNTL7 \<equiv> 0x12"
abbreviation (input) SM5440_REG_VBUSCNTL :: u8 where "SM5440_REG_VBUSCNTL \<equiv> 0x13"
abbreviation (input) SM5440_REG_VBATCNTL :: u8 where "SM5440_REG_VBATCNTL \<equiv> 0x14"
abbreviation (input) SM5440_REG_VOUTCNTL :: u8 where "SM5440_REG_VOUTCNTL \<equiv> 0x15"
abbreviation (input) SM5440_REG_IBUSCNTL :: u8 where "SM5440_REG_IBUSCNTL \<equiv> 0x16"
abbreviation (input) SM5440_REG_PRTNCNTL :: u8 where "SM5440_REG_PRTNCNTL \<equiv> 0x19"
abbreviation (input) SM5440_REG_THEMCNTL1 :: u8 where "SM5440_REG_THEMCNTL1 \<equiv> 0x1a"
abbreviation (input) SM5440_REG_ADCCNTL1 :: u8 where "SM5440_REG_ADCCNTL1 \<equiv> 0x1c"
abbreviation (input) SM5440_ADCCNTL1_AVG_32 :: u8 where "SM5440_ADCCNTL1_AVG_32 \<equiv> 0x08"
abbreviation (input) SM5440_ADCCNTL1_CONTINUOUS :: u8 where "SM5440_ADCCNTL1_CONTINUOUS \<equiv> 0x02"
abbreviation (input) SM5440_ADCCNTL1_ENABLE :: u8 where "SM5440_ADCCNTL1_ENABLE \<equiv> 0x01"
abbreviation (input) SM5440_REG_ADCCNTL2 :: u8 where "SM5440_REG_ADCCNTL2 \<equiv> 0x1d"
abbreviation (input) SM5440_REG_ADC_VBUS1 :: u8 where "SM5440_REG_ADC_VBUS1 \<equiv> 0x1e"
abbreviation (input) SM5440_REG_ADC_VBUS2 :: u8 where "SM5440_REG_ADC_VBUS2 \<equiv> 0x1f"
abbreviation (input) SM5440_REG_ADC_IBUS1 :: u8 where "SM5440_REG_ADC_IBUS1 \<equiv> 0x22"
abbreviation (input) SM5440_REG_ADC_DIETEMP :: u8 where "SM5440_REG_ADC_DIETEMP \<equiv> 0x26"
abbreviation (input) SM5440_REG_ADC_VBAT1 :: u8 where "SM5440_REG_ADC_VBAT1 \<equiv> 0x27"
abbreviation (input) SM5440_REG_DEVICEID :: u8 where "SM5440_REG_DEVICEID \<equiv> 0x2b"

abbreviation (input) SM5440_POLL_MS :: int where "SM5440_POLL_MS \<equiv> 1000"
abbreviation (input) SM5440_RETRY_MS :: int where "SM5440_RETRY_MS \<equiv> 2000"
abbreviation (input) SM5440_MAX_RETRY_MS :: int where "SM5440_MAX_RETRY_MS \<equiv> 30000"
abbreviation (input) SM5440_QUIET_RETRY_MS :: int where "SM5440_QUIET_RETRY_MS \<equiv> 300000"
abbreviation (input) SM5440_MAX_FAILS :: u32 where "SM5440_MAX_FAILS \<equiv> 5"
abbreviation (input) SM5440_PD_RETRY_MS :: int where "SM5440_PD_RETRY_MS \<equiv> 200"
abbreviation (input) SM5440_PD_RETRIES :: nat where "SM5440_PD_RETRIES \<equiv> 5"
abbreviation (input) SM5440_INITIAL_IBUS_MA :: int where "SM5440_INITIAL_IBUS_MA \<equiv> 1800"
abbreviation (input) SM5440_VBATREG_MV :: int where "SM5440_VBATREG_MV \<equiv> 4400"
abbreviation (input) SM5440_PPS_CAP_MA :: u32 where "SM5440_PPS_CAP_MA \<equiv> 5000"
abbreviation (input) SM5440_MIN_PPS_MA :: int where "SM5440_MIN_PPS_MA \<equiv> 1800"
abbreviation (input) SM5440_PPS_STEP_MA :: int where "SM5440_PPS_STEP_MA \<equiv> 250"
abbreviation (input) SM5440_IBUS_MARGIN_MA :: int where "SM5440_IBUS_MARGIN_MA \<equiv> 300"
abbreviation (input) SM5440_PPS_V_STEP_MV :: int where "SM5440_PPS_V_STEP_MV \<equiv> 20"
abbreviation (input) SM5440_REFRESH_TICKS :: u32 where "SM5440_REFRESH_TICKS \<equiv> 4"
abbreviation (input) SM5440_FREQUENCY_KHZ :: int where "SM5440_FREQUENCY_KHZ \<equiv> 850"
abbreviation (input) SM5440_FREQUENCY_SIOP2_KHZ :: int where "SM5440_FREQUENCY_SIOP2_KHZ \<equiv> 650"
abbreviation (input) SM5440_FREQUENCY_SIOP1_KHZ :: int where "SM5440_FREQUENCY_SIOP1_KHZ \<equiv> 450"
abbreviation (input) SM5440_SIOP_LEV1_MA :: int where "SM5440_SIOP_LEV1_MA \<equiv> 1100"
abbreviation (input) SM5440_SIOP_LEV2_MA :: int where "SM5440_SIOP_LEV2_MA \<equiv> 1700"
abbreviation (input) SM5440_R_TTL_MILLIOHM :: int where "SM5440_R_TTL_MILLIOHM \<equiv> 320"
abbreviation (input) SM5440_EXTRA_HEADROOM_MV :: int where "SM5440_EXTRA_HEADROOM_MV \<equiv> 200"
abbreviation (input) SM5440_MAX_PPS_MV :: int where "SM5440_MAX_PPS_MV \<equiv> 10500"

subsection \<open>Register access and the ADC\<close>

definition sm5440_update_bits :: "u8 \<Rightarrow> u8 \<Rightarrow> u8 \<Rightarrow> int io" where
  "sm5440_update_bits reg msk val = do {
     old \<leftarrow> i2c_smbus_read_byte_data Pump reg;
     if old < 0 then return old
     else i2c_smbus_write_byte_data Pump reg ((byte old AND NOT msk) OR (val AND msk))
   }"

definition sm5440_read_adc_pair :: "u8 \<Rightarrow> int io" where
  "sm5440_read_adc_pair reg = do {
     high \<leftarrow> i2c_smbus_read_byte_data Pump reg;
     if high < 0 then return high
     else do {
       low \<leftarrow> i2c_smbus_read_byte_data Pump (reg + 1);
       if low < 0 then return low
       else return (push_bit 5 high OR drop_bit 3 low)
     }
   }"

definition sm5440_adc_vbus_mv :: "int io" where
  "sm5440_adc_vbus_mv = do {
     raw \<leftarrow> sm5440_read_adc_pair SM5440_REG_ADC_VBUS1;
     return (if raw < 0 then raw else 4096 + raw)
   }"

definition sm5440_adc_ibus_ma :: "int io" where
  "sm5440_adc_ibus_ma = do {
     raw \<leftarrow> sm5440_read_adc_pair SM5440_REG_ADC_IBUS1;
     return (if raw < 0 then raw else (raw * 625) div 1000)
   }"

definition sm5440_adc_vbat_mv :: "int io" where
  "sm5440_adc_vbat_mv = do {
     raw \<leftarrow> sm5440_read_adc_pair SM5440_REG_ADC_VBAT1;
     return (if raw < 0 then raw else 2048 + (raw * 500) div 1000)
   }"

definition sm5440_adc_die_temp :: "int io" where
  "sm5440_adc_die_temp = do {
     raw \<leftarrow> i2c_smbus_read_byte_data Pump SM5440_REG_ADC_DIETEMP;
     return (if raw < 0 then raw else 225 + raw * 5)
   }"

subsection \<open>The programmable contract\<close>

definition sm5440_psy_get :: "power_supply \<Rightarrow> power_supply_property \<Rightarrow> int io" where
  "sm5440_psy_get psy prop = do {
     r \<leftarrow> power_supply_get_property psy prop;
     return (case r of Inl err \<Rightarrow> err | Inr v \<Rightarrow> v)
   }"

definition sm5440_psy_set :: "power_supply \<Rightarrow> power_supply_property \<Rightarrow> int \<Rightarrow> int io" where
  "sm5440_psy_set psy prop v = power_supply_set_property psy prop v"

text \<open>The loop of \<open>sm5440_psy_retry\<close>: \<open>n\<close> attempts left, \<open>ret\<close> the answer so far.\<close>

primrec psy_retry_loop :: "nat \<Rightarrow> bool \<Rightarrow> power_supply_property \<Rightarrow> int \<Rightarrow> int \<Rightarrow> int io" where
  "psy_retry_loop 0 first prop v ret = return ret"
| "psy_retry_loop (Suc n) first prop v ret =
    (if ret = - EAGAIN then do {
       (if first then return () else msleep SM5440_PD_RETRY_MS);
       ret \<leftarrow> sm5440_psy_set PsyTcpm prop v;
       psy_retry_loop n False prop v ret
     } else return ret)"

definition sm5440_psy_retry :: "power_supply_property \<Rightarrow> int \<Rightarrow> int io" where
  "sm5440_psy_retry prop v = psy_retry_loop SM5440_PD_RETRIES True prop v (- EAGAIN)"

definition sm5440_pps_target_mv :: "int \<Rightarrow> int \<Rightarrow> int" where
  "sm5440_pps_target_mv ma vbat_uv =
    (let headroom = DIV_ROUND_UP (ma * SM5440_R_TTL_MILLIOHM) 1000 + SM5440_EXTRA_HEADROOM_MV;
         mv = DIV_ROUND_UP ((vbat_uv sdiv 1000) * 2 + headroom) SM5440_PPS_V_STEP_MV *
              SM5440_PPS_V_STEP_MV
     in clamp mv 8200 SM5440_MAX_PPS_MV)"

definition sm5440_set_ibus_limit :: "int \<Rightarrow> int io" where
  "sm5440_set_ibus_limit ma =
     i2c_smbus_write_byte_data Pump SM5440_REG_IBUSCNTL
       (word_of_int (clamp (ma + SM5440_IBUS_MARGIN_MA) 0 6350 sdiv 50))"

text \<open>The walk of \<open>sm5440_negotiate_pps\<close> down from the budget: the current it ends at, the answer.\<close>

function pps_walk :: "int \<Rightarrow> int \<Rightarrow> (int \<times> int) io" where
  "pps_walk ma ret =
    (if ma \<ge> SM5440_MIN_PPS_MA then do {
       ret \<leftarrow> sm5440_psy_retry POWER_SUPPLY_PROP_CURRENT_NOW (ma * 1000);
       if ret = 0 \<or> ret \<noteq> - EINVAL then return (ma, ret)
       else pps_walk (ma - SM5440_PPS_STEP_MA) ret
     } else return (ma, ret))"
  by pat_completeness auto
termination
  by (relation "measure (\<lambda>(ma, ret). nat ma)") auto

declare pps_walk.simps [simp del]

text \<open>The contract it reached, or the error.\<close>

definition sm5440_negotiate_pps :: "int \<Rightarrow> (int + int \<times> int) io" where
  "sm5440_negotiate_pps vbat_uv = do {
     cap \<leftarrow> gets max_pps_ma;
     ret \<leftarrow> sm5440_psy_retry POWER_SUPPLY_PROP_ONLINE 2;
     if ret \<noteq> 0 then return (Inl ret)
     else do {
       (ma, ret) \<leftarrow> pps_walk (uint (clamp cap (word_of_int SM5440_MIN_PPS_MA) SM5440_PPS_CAP_MA)) ret;
       if ret \<noteq> 0 then do {
         _ \<leftarrow> sm5440_psy_retry POWER_SUPPLY_PROP_ONLINE 1;
         return (Inl ret)
       }
       else do {
         let mv = sm5440_pps_target_mv ma vbat_uv;
         ret \<leftarrow> sm5440_psy_retry POWER_SUPPLY_PROP_VOLTAGE_NOW (mv * 1000);
         if ret \<noteq> 0 then do {
           _ \<leftarrow> sm5440_psy_retry POWER_SUPPLY_PROP_ONLINE 1;
           return (Inl ret)
         }
         else return (Inr (ma, mv))
       }
     }
   }"

definition sm5440_refresh_pps :: "int io" where
  "sm5440_refresh_pps = do {
     battery_uv \<leftarrow> sm5440_psy_get PsyBat POWER_SUPPLY_PROP_VOLTAGE_NOW;
     if battery_uv < 0 then return battery_uv
     else do {
       ma \<leftarrow> get_pump target_ma;
       old_mv \<leftarrow> get_pump target_mv;
       let mv = sm5440_pps_target_mv ma battery_uv;
       ret \<leftarrow> (if \<bar>mv - old_mv\<bar> \<ge> SM5440_PPS_V_STEP_MV then do {
                 ret \<leftarrow> sm5440_psy_retry POWER_SUPPLY_PROP_VOLTAGE_NOW (mv * 1000);
                 (if ret = 0 then upd_pump (\<lambda>s. s\<lparr>target_mv := mv\<rparr>) else return ());
                 return ret
               } else return 0);
       if ret \<noteq> 0 then return ret
       else sm5440_psy_retry POWER_SUPPLY_PROP_CURRENT_NOW (ma * 1000)
     }
   }"

subsection \<open>The pump\<close>

definition sm5440_set_freq :: "int \<Rightarrow> int io" where
  "sm5440_set_freq khz =
     i2c_smbus_write_byte_data Pump SM5440_REG_CNTL7 (word_of_int ((khz - 250) sdiv 50))"

definition sm5440_select_freq :: "int \<Rightarrow> int io" where
  "sm5440_select_freq ma =
    (if ma \<le> SM5440_SIOP_LEV1_MA then sm5440_set_freq SM5440_FREQUENCY_SIOP1_KHZ
     else if ma \<le> SM5440_SIOP_LEV2_MA then sm5440_set_freq SM5440_FREQUENCY_SIOP2_KHZ
     else sm5440_set_freq SM5440_FREQUENCY_KHZ)"

definition sm5440_pump_off :: "int io" where
  "sm5440_pump_off = sm5440_update_bits SM5440_REG_CNTL5 SM5440_CNTL5_OP_MODE_MASK 0"

primrec wait_vbuspok :: "nat \<Rightarrow> int io" where
  "wait_vbuspok 0 = return (- ENOLINK)"
| "wait_vbuspok (Suc n) = do {
     msleep 20;
     status3 \<leftarrow> i2c_smbus_read_byte_data Pump SM5440_REG_STATUS3;
     if status3 < 0 then return status3
     else if has status3 SM5440_STATUS3_VBUSPOK then return 0
     else wait_vbuspok n
   }"

definition sm5440_pump_on :: "int io" where
  "sm5440_pump_on = do {
     ret \<leftarrow> sm5440_update_bits SM5440_REG_CNTL5 SM5440_CNTL5_OP_MODE_MASK SM5440_CNTL5_CHG_ON;
     if ret \<noteq> 0 then return ret else wait_vbuspok 5
   }"

text \<open>The loop of \<open>sm5440_wait_vbus_settled\<close>: \<open>n\<close> looks left.\<close>

primrec settle_loop :: "nat \<Rightarrow> bool \<Rightarrow> int \<Rightarrow> int io" where
  "settle_loop 0 first mv = return (- ETIMEDOUT)"
| "settle_loop (Suc n) first mv = do {
     msleep (if first then 20 else 50);
     vbus_mv \<leftarrow> sm5440_adc_vbus_mv;
     if vbus_mv < 0 then return vbus_mv
     else if vbus_mv \<ge> mv - 500 then return 0
     else settle_loop n False mv
   }"

definition sm5440_wait_vbus_settled :: "int \<Rightarrow> int io" where
  "sm5440_wait_vbus_settled mv = settle_loop 30 True mv"

definition sm5440_renegotiate_pps :: "int io" where
  "sm5440_renegotiate_pps = do {
     ret \<leftarrow> sm5440_pump_off;
     if ret \<noteq> 0 then return ret
     else do {
       ret \<leftarrow> sm5440_refresh_pps;
       if ret \<noteq> 0 then return ret
       else do {
         mv \<leftarrow> get_pump target_mv;
         ret \<leftarrow> sm5440_wait_vbus_settled mv;
         if ret \<noteq> 0 then return ret else sm5440_pump_on
       }
     }
   }"

text \<open>\<open>sm5440_log_faults\<close> only logs, but its two reads clear the interrupt latches.\<close>

definition sm5440_log_faults :: "unit io" where
  "sm5440_log_faults = do {
     _ \<leftarrow> i2c_smbus_read_byte_data Pump SM5440_REG_INT1;
     _ \<leftarrow> i2c_smbus_read_byte_data Pump SM5440_REG_INT3;
     return ()
   }"

definition sm5440_restore_switching :: "unit io" where
  "sm5440_restore_switching = do {
     _ \<leftarrow> sm5440_update_bits SM5440_REG_CNTL5 SM5440_CNTL5_OP_MODE_MASK 0;
     _ \<leftarrow> sm5440_update_bits SM5440_REG_ADCCNTL1 SM5440_ADCCNTL1_ENABLE 0;
     _ \<leftarrow> sm5440_update_bits SM5440_REG_CNTL1 SM5440_CNTL1_WDT_EN 0;
     _ \<leftarrow> sm5440_psy_retry POWER_SUPPLY_PROP_ONLINE 1;
     _ \<leftarrow> sm5714_battery_set_direct_charge False;
     upd_pump (\<lambda>s. s\<lparr>pps_ticks := 0\<rparr>);
     upd_pump (\<lambda>s. s\<lparr>active := False\<rparr>)
   }"

primrec wait_reset :: "nat \<Rightarrow> int io" where
  "wait_reset 0 = return (- ETIMEDOUT)"
| "wait_reset (Suc n) = do {
     msleep 1;
     reg \<leftarrow> i2c_smbus_read_byte_data Pump SM5440_REG_CNTL1;
     if reg < 0 then return reg
     else if \<not> has reg SM5440_CNTL1_SW_RESET then return 0
     else wait_reset n
   }"

primrec write_all :: "(u8 \<times> u8) list \<Rightarrow> int io" where
  "write_all [] = return 0"
| "write_all (rv # rest) = do {
     ret \<leftarrow> i2c_smbus_write_byte_data Pump (fst rv) (snd rv);
     if ret \<noteq> 0 then return ret else write_all rest
   }"

definition hw_init_table :: "(u8 \<times> u8) list" where
  "hw_init_table =
    [(SM5440_REG_CNTL1, SM5440_CNTL1_WDT_30S),
     (SM5440_REG_CNTL2, 0xf2),
     (SM5440_REG_CNTL3, 0xb8),
     (SM5440_REG_CNTL4, 0xff),
     (SM5440_REG_CNTL6, 0x09),
     (SM5440_REG_VBUSCNTL, 0x07),
     (SM5440_REG_VBATCNTL, word_of_int (((SM5440_VBATREG_MV - 3800) * 10) div 125)),
     (SM5440_REG_VOUTCNTL, 0x3f),
     (SM5440_REG_IBUSCNTL, word_of_int (SM5440_INITIAL_IBUS_MA div 50)),
     (SM5440_REG_PRTNCNTL, 0xfe),
     (SM5440_REG_THEMCNTL1, 0x0c),
     (SM5440_REG_ADCCNTL1,
        SM5440_ADCCNTL1_AVG_32 OR SM5440_ADCCNTL1_CONTINUOUS OR SM5440_ADCCNTL1_ENABLE),
     (SM5440_REG_ADCCNTL2, 0xdf)]"

primrec read_latches :: "u8 list \<Rightarrow> int io" where
  "read_latches [] = return 0"
| "read_latches (r # rs) = do {
     ret \<leftarrow> i2c_smbus_read_byte_data Pump r;
     if ret < 0 then return ret else read_latches rs
   }"

definition sm5440_hw_init :: "int io" where
  "sm5440_hw_init = do {
     ret \<leftarrow> i2c_smbus_write_byte_data Pump SM5440_REG_CNTL1 SM5440_CNTL1_SW_RESET;
     if ret \<noteq> 0 then return ret
     else do {
       ret \<leftarrow> wait_reset 255;
       if ret \<noteq> 0 then return ret
       else do {
         ret \<leftarrow> write_all hw_init_table;
         if ret \<noteq> 0 then return ret
         else read_latches [0, 1, 2, 3]
       }
     }
   }"

text \<open>
  The sequence of \<open>sm5440_start\<close> between taking the pack over and its \<open>restore\<close> label, in two parts:
  up to the contract, and from the contract \<open>(ma, mv)\<close> to the running pump.
\<close>

definition start_pump :: "int \<times> int \<Rightarrow> (int + int \<times> int) io" where
  "start_pump c = do {
     ret \<leftarrow> sm5440_select_freq (fst c);
     if ret \<noteq> 0 then return (Inl ret)
     else do {
       ret \<leftarrow> sm5440_set_ibus_limit (fst c);
       if ret \<noteq> 0 then return (Inl ret)
       else do {
         ret \<leftarrow> sm5440_wait_vbus_settled (snd c);
         if ret \<noteq> 0 then return (Inl ret)
         else do {
           ret \<leftarrow> sm5440_update_bits SM5440_REG_CNTL1 SM5440_CNTL1_WDT_EN SM5440_CNTL1_WDT_EN;
           if ret \<noteq> 0 then return (Inl ret)
           else do {
             ret \<leftarrow> sm5440_pump_on;
             return (if ret \<noteq> 0 then Inl ret else Inr c)
           }
         }
       }
     }
   }"

definition start_sequence :: "int \<Rightarrow> (int + int \<times> int) io" where
  "start_sequence battery_uv = do {
     ret \<leftarrow> sm5440_hw_init;
     if ret \<noteq> 0 then return (Inl ret)
     else do {
       contract \<leftarrow> sm5440_negotiate_pps battery_uv;
       (case contract of Inl err \<Rightarrow> return (Inl err) | Inr c \<Rightarrow> start_pump c)
     }
   }"

definition sm5440_start :: "int io" where
  "sm5440_start = do {
     battery_uv \<leftarrow> sm5440_psy_get PsyBat POWER_SUPPLY_PROP_VOLTAGE_NOW;
     if battery_uv < 0 then return battery_uv
     else do {
       ret \<leftarrow> sm5714_battery_set_direct_charge True;
       if ret \<noteq> 0 then return ret
       else do {
         contract \<leftarrow> start_sequence battery_uv;
         (case contract of
            Inl err \<Rightarrow> do { sm5440_restore_switching; return err }
          | Inr c \<Rightarrow> do {
              upd_pump (\<lambda>s. s\<lparr>active := True, target_mv := snd c, target_ma := fst c, pps_ticks := 0\<rparr>);
              return 0
            })
       }
     }
   }"

subsection \<open>The poll\<close>

definition sm5440_eligible :: "bool io" where
  "sm5440_eligible = do {
     online \<leftarrow> sm5440_psy_get PsyTcpm POWER_SUPPLY_PROP_ONLINE;
     capacity \<leftarrow> sm5440_psy_get PsyBat POWER_SUPPLY_PROP_CAPACITY;
     temp \<leftarrow> sm5440_psy_get PsyBat POWER_SUPPLY_PROP_TEMP;
     voltage \<leftarrow> sm5440_psy_get PsyBat POWER_SUPPLY_PROP_VOLTAGE_NOW;
     return (online > 0 \<and> capacity \<ge> 5 \<and> capacity < 90 \<and> temp \<ge> 100 \<and> temp < 420 \<and>
             voltage \<ge> 3500000 \<and> voltage < 4350000)
   }"

definition backoff_ms :: "u32 \<Rightarrow> int" where
  "backoff_ms n =
    (if n \<ge> SM5440_MAX_FAILS then SM5440_QUIET_RETRY_MS
     else min (push_bit (unat n) SM5440_RETRY_MS) SM5440_MAX_RETRY_MS)"

definition sm5440_backoff :: "int io" where
  "sm5440_backoff = do {
     upd_pump (\<lambda>s. s\<lparr>fails := (if fails s < SM5440_MAX_FAILS then fails s + 1 else fails s)\<rparr>);
     n \<leftarrow> get_pump fails;
     return (backoff_ms n)
   }"

text \<open>The health check of a running pump: the readings and whether charging has to stop.\<close>

definition pump_unhealthy :: "int \<Rightarrow> int \<Rightarrow> int \<Rightarrow> int \<Rightarrow> int \<Rightarrow> int \<Rightarrow> int \<Rightarrow> int \<Rightarrow> bool" where
  "pump_unhealthy capacity pack_temp op_mode status3 vbus ibus vbat die_temp =
    (capacity < 0 \<or> pack_temp < 0 \<or> op_mode < 0 \<or> status3 < 0 \<or>
     vbus < 0 \<or> ibus < 0 \<or> vbat < 0 \<or> die_temp < 0 \<or>
     capacity \<ge> 90 \<or> pack_temp \<ge> 450 \<or>
     \<not> has op_mode SM5440_CNTL5_CHG_ON \<or>
     \<not> has status3 SM5440_STATUS3_VBUSPOK \<or>
     vbus > 10800 \<or> vbat > 4450 \<or> die_temp \<ge> 1100)"

definition check_pump :: "bool io" where
  "check_pump = do {
     capacity \<leftarrow> sm5440_psy_get PsyBat POWER_SUPPLY_PROP_CAPACITY;
     pack_temp \<leftarrow> sm5440_psy_get PsyBat POWER_SUPPLY_PROP_TEMP;
     op_mode \<leftarrow> i2c_smbus_read_byte_data Pump SM5440_REG_CNTL5;
     status3 \<leftarrow> i2c_smbus_read_byte_data Pump SM5440_REG_STATUS3;
     vbus \<leftarrow> sm5440_adc_vbus_mv;
     ibus \<leftarrow> sm5440_adc_ibus_ma;
     vbat \<leftarrow> sm5440_adc_vbat_mv;
     die_temp \<leftarrow> sm5440_adc_die_temp;
     return (\<not> pump_unhealthy capacity pack_temp op_mode status3 vbus ibus vbat die_temp)
   }"

text \<open>Handing the pack back after a failure, and the delay before the next attempt.\<close>

definition give_up :: "bool \<Rightarrow> int io" where
  "give_up log = do {
     (if log then sm5440_log_faults else return ());
     sm5440_restore_switching;
     sm5440_backoff
   }"

definition work_idle :: "int io" where
  "work_idle = do {
     enabled \<leftarrow> sm5714_battery_fast_charge_enabled;
     if \<not> enabled then return SM5440_RETRY_MS
     else do {
       ok \<leftarrow> sm5440_eligible;
       if \<not> ok then return SM5440_RETRY_MS
       else do {
         ret \<leftarrow> sm5440_start;
         if ret \<noteq> 0 then sm5440_backoff
         else do { upd_pump (\<lambda>s. s\<lparr>fails := 0\<rparr>); return SM5440_POLL_MS }
       }
     }
   }"

definition work_active :: "int io" where
  "work_active = do {
     enabled \<leftarrow> sm5714_battery_fast_charge_enabled;
     if \<not> enabled then do {
       sm5440_log_faults;
       sm5440_restore_switching;
       return SM5440_RETRY_MS
     }
     else do {
       upd_pump (\<lambda>s. s\<lparr>pps_ticks := pps_ticks s + 1\<rparr>);
       ticks \<leftarrow> get_pump pps_ticks;
       ret \<leftarrow> (if ticks \<ge> SM5440_REFRESH_TICKS then do {
                 upd_pump (\<lambda>s. s\<lparr>pps_ticks := 0\<rparr>);
                 sm5440_renegotiate_pps
               } else return 0);
       if ret \<noteq> 0 then give_up True
       else do {
         healthy \<leftarrow> check_pump;
         if \<not> healthy then give_up True
         else do {
           ret \<leftarrow> sm5440_update_bits SM5440_REG_CNTL1 SM5440_CNTL1_WDT_EN SM5440_CNTL1_WDT_EN;
           if ret \<noteq> 0 then give_up False
           else do { upd_pump (\<lambda>s. s\<lparr>fails := 0\<rparr>); return SM5440_POLL_MS }
         }
       }
     }
   }"

definition sm5440_work :: "unit io" where
  "sm5440_work = do {
     running \<leftarrow> get_pump active;
     delay \<leftarrow> (if running then work_active else work_idle);
     going_down \<leftarrow> get_pump suspending;
     (if going_down then return () else schedule_delayed_work PumpWork delay)
   }"

definition sm5440_cancel_work :: "unit io" where
  "sm5440_cancel_work = do {
     cancel_delayed_work PumpWork;
     running \<leftarrow> get_pump active;
     (if running then sm5440_restore_switching else return ())
   }"

datatype pm_action = PM_SUSPEND_PREPARE | PM_POST_SUSPEND | PM_OTHER

definition sm5440_pm_notify :: "pm_action \<Rightarrow> unit io" where
  "sm5440_pm_notify action =
    (case action of
       PM_SUSPEND_PREPARE \<Rightarrow> do {
         upd_pump (\<lambda>s. s\<lparr>suspending := True\<rparr>);
         cancel_delayed_work PumpWork;
         running \<leftarrow> get_pump active;
         (if running then do { _ \<leftarrow> sm5440_pump_off; sm5440_restore_switching } else return ())
       }
     | PM_POST_SUSPEND \<Rightarrow> do {
         upd_pump (\<lambda>s. s\<lparr>suspending := False\<rparr>);
         schedule_delayed_work PumpWork SM5440_POLL_MS
       }
     | PM_OTHER \<Rightarrow> return ())"

definition zero_pump :: sm5440_direct where
  "zero_pump = \<lparr>target_mv = 0, target_ma = 0, pps_ticks = 0, fails = 0, active = False,
     suspending = False\<rparr>"

definition sm5440_probe :: "int io" where
  "sm5440_probe = do {
     ok \<leftarrow> devm ''i2c_check_functionality'';
     if ok \<noteq> 0 then return (- EOPNOTSUPP)
     else do {
     ok \<leftarrow> devm ''kzalloc'';
     if ok \<noteq> 0 then return (- ENOMEM)
     else do {
     modify (\<lambda>b. b\<lparr>pump := zero_pump\<rparr>);
     devid \<leftarrow> i2c_smbus_read_byte_data Pump SM5440_REG_DEVICEID;
     if devid < 0 then return devid
     else if byte devid AND 0x0f \<noteq> 1 then return (- ENODEV)
     else do {
     ret \<leftarrow> devm ''tcpm-power-supply'';
     if ret \<noteq> 0 then return ret
     else do {
     ok \<leftarrow> devm ''sm5714-battery'';
     if ok \<noteq> 0 then return (- EPROBE_DEFER)
     else do {
     ret \<leftarrow> devm ''put_power_supply_action'';
     if ret \<noteq> 0 then return ret
     else do {
     ret \<leftarrow> devm ''cancel_work_action'';
     if ret \<noteq> 0 then do { sm5440_cancel_work; return ret }
     else do {
     ret \<leftarrow> devm ''pm_notifier'';
     if ret \<noteq> 0 then do { sm5440_cancel_work; return ret }
     else do {
     ret \<leftarrow> devm ''unregister_pm_action'';
     if ret \<noteq> 0 then do { sm5440_cancel_work; return ret }
     else do {
       schedule_delayed_work PumpWork 10000;
       return 0
     }}}}}}}}}
   }"

end
