(* ===== verification/Sm5440_Safety.thy ===== *)
theory Sm5440_Safety
  imports Sm5440_Direct
begin

text \<open>
  Correctness of the SM5440 driver: the operating point it asks for, the conditions under which it
  leaves the fixed contract and starts the pump, and that every failure hands the pack back.
\<close>

subsection \<open>Pump operations keep invariants that do not speak about the pump\<close>

context board_invariant begin

lemma keeps_psy_retry_loop:
  assumes "keeps inv (call (PsySet PsyTcpm prop v))"
  shows "keeps inv (psy_retry_loop n first prop v ret)"
  by (induction n arbitrary: first ret)
     (auto intro!: keeps_rules assms simp: sm5440_psy_set_def power_supply_set_property_def)

lemma keeps_psy_retry:
  "keeps inv (call (PsySet PsyTcpm prop v)) \<Longrightarrow> keeps inv (sm5440_psy_retry prop v)"
  by (simp add: sm5440_psy_retry_def keeps_psy_retry_loop)

lemma keeps_sm5440_psy_get [keeps_rules]: "keeps inv (sm5440_psy_get psy prop)"
  unfolding sm5440_psy_get_def by (intro keeps_rules)

lemma keeps_read_adc_pair [keeps_rules]: "keeps inv (sm5440_read_adc_pair reg)"
  unfolding sm5440_read_adc_pair_def by (intro keeps_rules)

lemma keeps_adc_vbus_mv [keeps_rules]: "keeps inv sm5440_adc_vbus_mv"
  unfolding sm5440_adc_vbus_mv_def by (intro keeps_rules)

lemma keeps_log_faults [keeps_rules]: "keeps inv sm5440_log_faults"
  unfolding sm5440_log_faults_def by (intro keeps_rules)

lemma keeps_settle_loop [keeps_rules]: "keeps inv (settle_loop n first mv)"
  by (induction n arbitrary: first) (auto intro!: keeps_rules)

lemma keeps_wait_vbus_settled [keeps_rules]: "keeps inv (sm5440_wait_vbus_settled mv)"
  unfolding sm5440_wait_vbus_settled_def by (intro keeps_rules)

lemma keeps_wait_vbuspok [keeps_rules]: "keeps inv (wait_vbuspok n)"
  by (induction n) (auto intro!: keeps_rules)

lemma keeps_wait_reset [keeps_rules]: "keeps inv (wait_reset n)"
  by (induction n) (auto intro!: keeps_rules)

lemma keeps_read_latches [keeps_rules]: "keeps inv (read_latches rs)"
  by (induction rs) (auto intro!: keeps_rules)

lemma keeps_check_pump [keeps_rules]: "keeps inv check_pump"
  unfolding check_pump_def sm5440_adc_ibus_ma_def sm5440_adc_vbat_mv_def sm5440_adc_die_temp_def
  by (intro keeps_rules)

lemma keeps_eligible [keeps_rules]: "keeps inv sm5440_eligible"
  unfolding sm5440_eligible_def by (intro keeps_rules)

lemma keeps_fast_charge_enabled [keeps_rules]: "keeps inv sm5714_battery_fast_charge_enabled"
  unfolding sm5714_battery_fast_charge_enabled_def by (intro keeps_rules)

lemma keeps_write_all:
  assumes "\<And>reg v. (reg, v) \<in> set rvs \<Longrightarrow> harmless (WriteByte Pump reg v)"
  shows "keeps inv (write_all rvs)"
  using assms
  by (induction rvs) (auto intro!: keeps_rules keeps_write_byte)

lemma keeps_pump_update_bits:
  assumes "\<And>old. harmless (WriteByte Pump reg ((old AND NOT msk) OR (val AND msk)))"
  shows "keeps inv (sm5440_update_bits reg msk val)"
  unfolding sm5440_update_bits_def by (intro keeps_rules keeps_write_byte assms)

end

text \<open>
  An invariant that is indifferent to the pump: every event that programs it and every update of
  its struct keeps the invariant. The whole SM5440 driver then does, because all it does to the
  switching charger goes through the SM5714 driver's operations.
\<close>

locale pump_indifferent = charger_invariant +
  assumes pump_harmless: "harmless (WriteByte Pump reg v)"
    and contract_harmless: "harmless (PsySet psy prop i)"
    and pump_update: "keeps inv (upd_pump f)"
    and pump_fresh: "keeps inv (modify (\<lambda>b. b\<lparr>pump := p\<rparr>))"
begin

lemmas pump_keeps = pump_update keeps_set_direct_charge
  keeps_psy_retry [OF harmless_call [OF contract_harmless]]
  keeps_pump_update_bits [OF pump_harmless] keeps_write_byte [OF pump_harmless]
  keeps_write_all [OF pump_harmless]

lemma keeps_restore_switching: "keeps inv sm5440_restore_switching"
  unfolding sm5440_restore_switching_def by (intro keeps_rules pump_keeps)

lemma keeps_pump_on: "keeps inv sm5440_pump_on"
  unfolding sm5440_pump_on_def by (intro keeps_rules pump_keeps)

lemma keeps_pps_walk: "keeps inv (pps_walk ma ret)"
proof (induction ma ret rule: pps_walk.induct)
  case (1 ma ret)
  then show ?case
    by (subst pps_walk.simps) (intro keeps_rules pump_keeps, auto)
qed

lemma keeps_start: "keeps inv sm5440_start"
  unfolding sm5440_start_def start_sequence_def start_pump_def sm5440_hw_init_def sm5440_negotiate_pps_def
    sm5440_select_freq_def sm5440_set_freq_def sm5440_set_ibus_limit_def
  by (intro keeps_rules pump_keeps keeps_pps_walk keeps_pump_on keeps_restore_switching)

lemma keeps_backoff: "keeps inv sm5440_backoff"
  unfolding sm5440_backoff_def by (intro keeps_rules pump_keeps)

lemma keeps_work: "keeps inv sm5440_work"
  unfolding sm5440_work_def work_active_def work_idle_def give_up_def sm5440_renegotiate_pps_def
    sm5440_pump_off_def sm5440_refresh_pps_def
  by (intro keeps_rules pump_keeps keeps_start keeps_pump_on keeps_restore_switching keeps_backoff)

lemma keeps_cancel_work: "keeps inv sm5440_cancel_work"
  unfolding sm5440_cancel_work_def by (intro keeps_rules keeps_restore_switching)

lemma keeps_pm_notify: "keeps inv (sm5440_pm_notify action)"
  unfolding sm5440_pm_notify_def sm5440_pump_off_def
  by (cases action) (auto intro!: keeps_rules pump_keeps keeps_restore_switching)

lemma keeps_pump_probe: "keeps inv sm5440_probe"
  unfolding sm5440_probe_def
  by (intro keeps_rules pump_fresh keeps_cancel_work)

end

interpretation charge: pump_indifferent charge_inv charge_harmless
  by unfold_locales
     (auto simp: charge_harmless_def charge_policy_def charge_inv_def
        intro!: keepsI wp_modifyI wp_upd_pumpI)

subsection \<open>The operating point\<close>

lemma pps_target_range: "8200 \<le> sm5440_pps_target_mv ma uv \<and> sm5440_pps_target_mv ma uv \<le> 10500"
  unfolding sm5440_pps_target_mv_def Let_def by (rule clamp_bounds) simp

subsection \<open>The pump policy\<close>

text \<open>The output voltage last asked of the source, in microvolts.\<close>

primrec last_pps_uv :: "history \<Rightarrow> int option" where
  "last_pps_uv [] = None"
| "last_pps_uv (x # h) =
    (case fst x of
       PsySet psy prop v \<Rightarrow>
         if psy = PsyTcpm \<and> prop = POWER_SUPPLY_PROP_VOLTAGE_NOW then Some v else last_pps_uv h
     | _ \<Rightarrow> last_pps_uv h)"

fun is_contract_request :: "event \<Rightarrow> bool" where
  "is_contract_request (PsySet _ _ _) = True"
| "is_contract_request _ = False"

text \<open>
  The bus is settled: the newest measurement of the pump's bus ADC is newer than the newest request
  to the source and at most 500 mV below the voltage requested.
\<close>

fun vbus_settled :: "history \<Rightarrow> bool" where
  "vbus_settled [] = False"
| "vbus_settled (x # h) =
    (if is_contract_request (fst x) then False
     else if fst x = ReadByte Pump SM5440_REG_ADC_VBUS2 then
       (case h of
          [] \<Rightarrow> False
        | y # h' \<Rightarrow>
            fst y = ReadByte Pump SM5440_REG_ADC_VBUS1 \<and> 0 \<le> fst (snd x) \<and> 0 \<le> fst (snd y) \<and>
            (case last_pps_uv h' of
               None \<Rightarrow> False
             | Some uv \<Rightarrow>
                 uv - 500000 \<le> 1000 * (4096 + (push_bit 5 (byte_result (fst (snd y))) OR
                                             drop_bit 3 (byte_result (fst (snd x)))))))
     else vbus_settled h)"

text \<open>
  The pump is switched on only over a settled bus; the fixed contract is left only while Q4 is
  open; no voltage outside 8.2 V to 10.5 V and no current outside 1.8 A to 5 A is requested.
\<close>

definition pump_policy :: "history \<Rightarrow> event \<Rightarrow> bool" where
  "pump_policy h e =
    (case e of
       WriteByte c reg v \<Rightarrow>
         c = Pump \<and> reg = SM5440_REG_CNTL5 \<and> v AND SM5440_CNTL5_OP_MODE_MASK \<noteq> 0 \<longrightarrow> vbus_settled h
     | PsySet psy prop v \<Rightarrow>
         psy = PsyTcpm \<longrightarrow>
         (prop = POWER_SUPPLY_PROP_ONLINE \<and> v = 2 \<longrightarrow> \<not> q4_maybe_closed h) \<and>
         (prop = POWER_SUPPLY_PROP_VOLTAGE_NOW \<longrightarrow> 8200000 \<le> v \<and> v \<le> 10500000) \<and>
         (prop = POWER_SUPPLY_PROP_CURRENT_NOW \<longrightarrow> 1800000 \<le> v \<and> v \<le> 5000000)
     | _ \<Rightarrow> True)"

text \<open>
  The policy together with what the driver knows: \<open>S\<close> relates the voltage last requested and the
  pump struct. \<open>pump_inv\<close> is the instance that holds between operations.
\<close>

definition pump_obeys :: "(int option \<Rightarrow> sm5440_direct \<Rightarrow> bool) \<Rightarrow> board_world \<Rightarrow> bool" where
  "pump_obeys S w = (obeys pump_policy (hist w) \<and> S (last_pps_uv (hist w)) (pump (dev w)))"

definition running_point :: "int option \<Rightarrow> sm5440_direct \<Rightarrow> bool" where
  "running_point uv p = (active p \<longrightarrow>
     uv = Some (target_mv p * 1000) \<and> 1800 \<le> target_ma p \<and> target_ma p \<le> 5000)"

definition pump_inv :: "board_world \<Rightarrow> bool" where
  "pump_inv = pump_obeys running_point"

definition pump_harmless :: "event \<Rightarrow> bool" where
  "pump_harmless e = ((\<forall>h. pump_policy h e) \<and>
     (\<forall>v. e \<noteq> PsySet PsyTcpm POWER_SUPPLY_PROP_VOLTAGE_NOW v))"

lemma pump_harmless_keeps: "pump_harmless e \<Longrightarrow> keeps (pump_obeys S) (call e)"
  by (intro keepsI wp_intros)
     (auto simp: pump_obeys_def pump_harmless_def split: event.splits)

text \<open>
  An invariant the charger block cannot disturb: then programming the charger and switching the
  boost keep it, and with them every operation of the SM5714 driver.
\<close>

locale charger_indifferent = board_invariant +
  assumes chg_harmless: "harmless (WriteByte Chg reg v)"
    and otg_update: "keeps inv (upd_bat (\<lambda>s. s\<lparr>otg_active := on\<rparr>))"
    and no_primary: "keeps inv (modify (\<lambda>b. b\<lparr>sm5714_primary := False\<rparr>))"
    and new_primary: "keeps inv (modify (\<lambda>b. b\<lparr>battery := zero_battery\<lparr>battery_temp := True\<rparr>,
                        sm5714_primary := True\<rparr>))"
begin

lemmas chg_keeps = keeps_write_byte [OF chg_harmless] keeps_update_bits [OF chg_harmless] otg_update

lemma keeps_configure: "keeps inv sm5714_configure_charging"
  unfolding sm5714_configure_charging_def program_charger_def sm5714_set_float_voltage_def
  by (intro keeps_rules chg_keeps bat_update) simp

lemma keeps_boost_on: "keeps inv otg_boost_on"
  unfolding otg_boost_on_def by (intro keeps_rules chg_keeps)

lemma keeps_boost_off: "keeps inv otg_boost_off"
  unfolding otg_boost_off_def by (intro keeps_rules chg_keeps)

end

sublocale charger_indifferent \<subseteq> charger_invariant
  by unfold_locales
     (auto intro: chg_harmless keeps_configure keeps_boost_on keeps_boost_off no_primary new_primary)

interpretation pumpi: charger_indifferent "pump_obeys S" pump_harmless for S
proof unfold_locales
  show "neutral e \<Longrightarrow> pump_harmless e" for e
    by (cases e) (auto simp: pump_harmless_def pump_policy_def)
qed (auto simp: pump_harmless_keeps pump_obeys_def pump_harmless_def pump_policy_def
       intro!: keepsI wp_modifyI wp_upd_batI)

subsection \<open>Requests to the source\<close>

definition q4_open_obeys :: "(int option \<Rightarrow> sm5440_direct \<Rightarrow> bool) \<Rightarrow> board_world \<Rightarrow> bool" where
  "q4_open_obeys S w = (pump_obeys S w \<and> \<not> q4_maybe_closed (hist w))"

interpretation q4i: board_invariant "q4_open_obeys S"
  "\<lambda>e. pump_harmless e \<and> (\<forall>reg v. e \<noteq> WriteByte Chg reg v)" for S
proof unfold_locales
  fix e
  assume "pump_harmless e \<and> (\<forall>reg v. e \<noteq> WriteByte Chg reg v)"
  then show "keeps (q4_open_obeys S) (call e)"
    by (intro keepsI wp_intros)
       (auto simp: q4_open_obeys_def pump_obeys_def pump_harmless_def split: event.splits)
next
  show "neutral e \<Longrightarrow> pump_harmless e \<and> (\<forall>reg v. e \<noteq> WriteByte Chg reg v)" for e
    using pumpi.neutral_harmless by (cases e) auto
qed (auto simp: q4_open_obeys_def pump_obeys_def intro!: keepsI wp_upd_batI)

lemma keeps_online_1 [keeps_rules]:
  "keeps (pump_obeys S) (sm5440_psy_retry POWER_SUPPLY_PROP_ONLINE 1)"
  by (intro pumpi.keeps_psy_retry pump_harmless_keeps)
     (simp add: pump_harmless_def pump_policy_def)

lemma keeps_online_2:
  "keeps (q4_open_obeys S) (sm5440_psy_retry POWER_SUPPLY_PROP_ONLINE 2)"
  by (intro q4i.keeps_psy_retry keepsI wp_intros)
     (auto simp: q4_open_obeys_def pump_obeys_def pump_policy_def)

lemma keeps_request_current:
  "1800 \<le> ma \<Longrightarrow> ma \<le> 5000 \<Longrightarrow>
   keeps (pump_obeys S) (sm5440_psy_retry POWER_SUPPLY_PROP_CURRENT_NOW (ma * 1000))"
  by (intro pumpi.keeps_psy_retry pump_harmless_keeps)
     (simp add: pump_harmless_def pump_policy_def)

lemma request_voltage:
  assumes "pump_obeys (\<lambda>_ p. p = p0) w" and "8200 \<le> mv" "mv \<le> 10500"
  shows "wp (sm5440_psy_retry POWER_SUPPLY_PROP_VOLTAGE_NOW (mv * 1000))
    (\<lambda>_. pump_obeys (\<lambda>uv p. uv = Some (mv * 1000) \<and> p = p0)) w"
proof -
  let ?I = "pump_obeys (\<lambda>uv p. uv = Some (mv * 1000) \<and> p = p0)"
  have "keeps ?I (call (PsySet PsyTcpm POWER_SUPPLY_PROP_VOLTAGE_NOW (mv * 1000)))"
    using assms by (intro keepsI wp_intros) (auto simp: pump_obeys_def pump_policy_def)
  note loop = pumpi.keeps_psy_retry_loop [OF this]
  have "wp (psy_retry_loop (Suc 4) True POWER_SUPPLY_PROP_VOLTAGE_NOW (mv * 1000) (- EAGAIN))
    (\<lambda>_. ?I) w"
    using assms unfolding psy_retry_loop.simps sm5440_psy_set_def
    by (intro wp_intros keeps_wp [OF loop]) (auto simp: pump_obeys_def pump_policy_def)
  then show ?thesis by (simp add: sm5440_psy_retry_def)
qed

lemma pps_walk_range:
  assumes "ma \<le> 5000" and "ma < 1800 \<Longrightarrow> ret \<noteq> 0" and "pump_obeys S w"
  shows "wp (pps_walk ma ret)
    (\<lambda>r w'. pump_obeys S w' \<and> (snd r = 0 \<longrightarrow> 1800 \<le> fst r \<and> fst r \<le> 5000)) w"
  using assms
proof (induction ma ret arbitrary: w rule: pps_walk.induct)
  case (1 ma ret)
  show ?case
  proof (cases "1800 \<le> ma")
    case True
    with "1.prems" show ?thesis
      by (subst pps_walk.simps)
         (intro wp_intros wp_keeps [OF keeps_request_current] "1.IH", auto)
  next
    case False
    with "1.prems" show ?thesis
      by (subst pps_walk.simps) (intro wp_intros, auto)
  qed
qed

lemma cap_range:
  "1800 \<le> uint (clamp cap 1800 5000 :: u32) \<and> uint (clamp cap 1800 5000 :: u32) \<le> 5000"
  using clamp_bounds [of "1800 :: u32" 5000 cap] by (simp add: word_le_def)

lemma negotiate_pps_ok:
  assumes "q4_open_obeys (\<lambda>_ p. p = p0) w"
  shows "wp (sm5440_negotiate_pps battery_uv)
    (\<lambda>r w'. pump_obeys (\<lambda>_ p. p = p0) w' \<and>
       (\<forall>c. r = Inr c \<longrightarrow> 1800 \<le> fst c \<and> fst c \<le> 5000 \<and>
         pump_obeys (\<lambda>uv p. uv = Some (snd c * 1000) \<and> p = p0) w')) w"
proof -
  let ?P = "pump_obeys (\<lambda>_ p. p = p0)"
  have revert: "wp (sm5440_psy_retry POWER_SUPPLY_PROP_ONLINE 1) (\<lambda>_. ?P) w'" if "?P w'" for w'
    using that by (rule keeps_wp [OF keeps_online_1])
  have walk: "wp (pps_walk (uint (clamp cap 1800 5000 :: u32)) 0)
      (\<lambda>r w'. ?P w' \<and> (snd r = 0 \<longrightarrow> 1800 \<le> fst r \<and> fst r \<le> 5000)) w'" if "?P w'" for w' cap
    using cap_range [of cap] that by (intro pps_walk_range) auto
  have weak: "pump_obeys (\<lambda>uv p. uv = u \<and> p = p0) w' \<Longrightarrow> ?P w'" for u w'
    by (simp add: pump_obeys_def)
  show ?thesis
    using assms pps_target_range
    unfolding sm5440_negotiate_pps_def
    by (intro wp_intros wp_keeps [OF keeps_online_2 [of "\<lambda>_ p. p = p0"]]
          wp_mono [OF revert] wp_mono [OF request_voltage])
       (auto simp: q4_open_obeys_def intro!: wp_mono [OF walk] wp_intros
          wp_mono [OF revert] wp_mono [OF request_voltage] dest: weak)
qed

subsection \<open>Starting the pump\<close>

lemma pump_obeys_weaken: "pump_obeys S w \<Longrightarrow> (\<And>u p. S u p \<Longrightarrow> T u p) \<Longrightarrow> pump_obeys T w"
  by (simp add: pump_obeys_def)

lemma get_temp_error: "wp sm5714_get_temp (\<lambda>r _. \<forall>e. r = Inl e \<longrightarrow> e < 0) w"
proof -
  have "wp (sram_value addr conv) (\<lambda>r _. \<forall>e. r = Inl e \<longrightarrow> e < 0) w" for addr conv w
    by (simp add: sram_value_def wp_bind) (simp add: wp_def)
  note fallback = wp_mono [OF this]
  show ?thesis
    unfolding sm5714_get_temp_def iio_read_channel_processed_def
    by (intro wp_intros fallback) auto
qed

lemma set_direct_charge_opens:
  "wp (sm5714_battery_set_direct_charge True) (\<lambda>r w'. r = 0 \<longrightarrow> \<not> q4_maybe_closed (hist w')) w"
proof -
  have bits: "wp (sm5714_chg_update_bits SM5714_CHG_REG_CNTL1 SM5714_CHG_CNTL1_ENQ4FET 0)
      (\<lambda>r w'. r = 0 \<longrightarrow> \<not> q4_maybe_closed (hist w')) w" for w
    unfolding sm5714_chg_update_bits_def
    by (intro wp_intros) (auto simp: not_less dest!: bit3_clearD split: if_splits)
  show ?thesis
    unfolding sm5714_battery_set_direct_charge_def notify_both_def
    by (intro wp_intros wp_mono [OF get_temp_error] wp_mono [OF bits]) auto
qed

lemma set_direct_charge_ok:
  assumes "pump_obeys S w"
  shows "wp (sm5714_battery_set_direct_charge True)
    (\<lambda>r w'. pump_obeys S w' \<and> (r = 0 \<longrightarrow> q4_open_obeys S w')) w"
  using keeps_wp [OF pumpi.keeps_set_direct_charge assms, of True]
    set_direct_charge_opens [of w] wp_conj [of "sm5714_battery_set_direct_charge True"]
  by (auto simp: q4_open_obeys_def wp_def)

lemma pump_write_harmless: "reg \<noteq> SM5440_REG_CNTL5 \<Longrightarrow> pump_harmless (WriteByte Pump reg v)"
  by (simp add: pump_harmless_def pump_policy_def)

lemma keeps_hw_init: "keeps (q4_open_obeys S) sm5440_hw_init"
  unfolding sm5440_hw_init_def
  by (intro keeps_rules q4i.keeps_write_byte q4i.keeps_write_all conjI
        q4i.keeps_wait_reset q4i.keeps_read_latches)
     (auto simp: hw_init_table_def intro!: pump_write_harmless)

lemma settle_loop_settles:
  "last_pps_uv (hist w) = Some (mv * 1000) \<Longrightarrow>
   wp (settle_loop n first mv) (\<lambda>r w'. r = 0 \<longrightarrow> vbus_settled (hist w')) w"
proof (induction n arbitrary: first w)
  case (Suc n)
  then show ?case
    unfolding settle_loop.simps sm5440_adc_vbus_mv_def sm5440_read_adc_pair_def
    by (intro wp_intros Suc.IH) auto
qed (auto intro: wp_intros)

lemma wait_settled:
  assumes "pump_obeys S w" and "last_pps_uv (hist w) = Some (mv * 1000)"
  shows "wp (sm5440_wait_vbus_settled mv)
    (\<lambda>r w'. pump_obeys S w' \<and> (r = 0 \<longrightarrow> vbus_settled (hist w'))) w"
  using keeps_wp [OF pumpi.keeps_wait_vbus_settled assms(1)]
    settle_loop_settles [OF assms(2), of 30 True]
  by (simp add: wp_conj sm5440_wait_vbus_settled_def)

text \<open>Arming the watchdog neither moves the bus nor hides that it settled.\<close>

lemma arm_watchdog:
  assumes "pump_obeys S w" and "vbus_settled (hist w)"
  shows "wp (sm5440_update_bits SM5440_REG_CNTL1 msk v)
    (\<lambda>_ w'. pump_obeys S w' \<and> vbus_settled (hist w')) w"
  using assms unfolding sm5440_update_bits_def
  by (intro wp_intros) (simp_all add: pump_obeys_def pump_policy_def)

lemma pump_on_settled:
  assumes "pump_obeys S w" and "vbus_settled (hist w)"
  shows "wp sm5440_pump_on (\<lambda>_. pump_obeys S) w"
  using assms unfolding sm5440_pump_on_def sm5440_update_bits_def
  by (intro wp_intros keeps_wp [OF pumpi.keeps_wait_vbuspok])
     (simp_all add: pump_obeys_def pump_policy_def)

lemma keeps_pump_setup [keeps_rules]:
  "keeps (pump_obeys S) (sm5440_select_freq ma)"
  "keeps (pump_obeys S) (sm5440_set_ibus_limit ma)"
  unfolding sm5440_select_freq_def sm5440_set_freq_def sm5440_set_ibus_limit_def
  by (intro keeps_rules pumpi.keeps_write_byte pump_write_harmless; simp)+

lemma start_pump_ok:
  assumes "pump_obeys (\<lambda>uv p. uv = Some (snd c * 1000) \<and> p = p0) w"
  shows "wp (start_pump c) (\<lambda>r w'. pump_obeys (\<lambda>uv p. uv = Some (snd c * 1000) \<and> p = p0) w' \<and>
    (r = Inr c \<or> isl r)) w"
proof -
  let ?S = "\<lambda>uv p. uv = Some (snd c * 1000) \<and> p = p0"
  have "pump_obeys ?S w' \<Longrightarrow> last_pps_uv (hist w') = Some (snd c * 1000)" for w'
    by (simp add: pump_obeys_def)
  then show ?thesis
    using assms unfolding start_pump_def
    by (intro wp_intros wp_keeps [OF keeps_pump_setup(1) [of ?S]] wp_keeps [OF keeps_pump_setup(2) [of ?S]]
          wp_mono [OF wait_settled] wp_mono [OF arm_watchdog] wp_mono [OF pump_on_settled]) auto
qed

lemma start_sequence_ok:
  assumes "q4_open_obeys (\<lambda>_ p. p = p0) w"
  shows "wp (start_sequence battery_uv)
    (\<lambda>r w'. pump_obeys (\<lambda>_ p. p = p0) w' \<and>
       (\<forall>c. r = Inr c \<longrightarrow> 1800 \<le> fst c \<and> fst c \<le> 5000 \<and>
         pump_obeys (\<lambda>uv p. uv = Some (snd c * 1000) \<and> p = p0) w')) w"
  using assms unfolding start_sequence_def
  by (intro wp_intros wp_keeps [OF keeps_hw_init, of "\<lambda>_ p. p = p0"]
        wp_mono [OF negotiate_pps_ok, of p0] wp_mono [OF start_pump_ok])
     (auto simp: q4_open_obeys_def elim: pump_obeys_weaken)

subsection \<open>Handing the pack back\<close>

lemma pump_off_harmless:
  "pump_harmless (WriteByte Pump SM5440_REG_CNTL5
     ((old AND NOT SM5440_CNTL5_OP_MODE_MASK) OR (0 AND SM5440_CNTL5_OP_MODE_MASK)))"
  using and_not_clears [of old SM5440_CNTL5_OP_MODE_MASK]
  by (simp add: pump_harmless_def pump_policy_def)

lemma keeps_pump_off [keeps_rules]: "keeps (pump_obeys S) sm5440_pump_off"
  unfolding sm5440_pump_off_def by (intro pumpi.keeps_pump_update_bits pump_off_harmless)

lemma keeps_pump_bits: "reg \<noteq> SM5440_REG_CNTL5 \<Longrightarrow> keeps (pump_obeys S) (sm5440_update_bits reg msk v)"
  by (intro pumpi.keeps_pump_update_bits pump_write_harmless)

lemma restore_switching_ok:
  assumes "pump_obeys S w"
  shows "wp sm5440_restore_switching (\<lambda>_ w'. pump_inv w' \<and> \<not> active (pump (dev w'))) w"
  using assms unfolding sm5440_restore_switching_def sm5440_pump_off_def [symmetric]
  by (intro wp_intros wp_keeps [OF keeps_pump_off [of S]] wp_keeps [OF keeps_pump_bits [of _ S]]
        wp_keeps [OF keeps_online_1 [of S]] wp_keeps [OF pumpi.keeps_set_direct_charge [of S]])
     (auto simp: pump_inv_def running_point_def pump_obeys_def)

lemma start_ok:
  assumes "pump_inv w" and "\<not> active (pump (dev w))"
  shows "wp sm5440_start (\<lambda>_. pump_inv) w"
proof -
  let ?S = "\<lambda>_ p. p = pump (dev w)"
  have i: "pump_obeys ?S w' \<Longrightarrow> pump_inv w'" for w'
    using assms by (simp add: pump_inv_def pump_obeys_def running_point_def)
  have "pump_obeys ?S w" using assms by (simp add: pump_inv_def pump_obeys_def)
  then show ?thesis
    using assms(2) unfolding sm5440_start_def
    by (intro wp_intros wp_keeps [OF pumpi.keeps_sm5440_psy_get [of ?S]]
          wp_mono [OF set_direct_charge_ok [of ?S]]
          wp_mono [OF start_sequence_ok [of "pump (dev w)"]] wp_mono [OF restore_switching_ok [of ?S]])
       (auto simp: i pump_inv_def running_point_def pump_obeys_def)
qed

subsection \<open>The running pump\<close>

abbreviation running :: "int option \<Rightarrow> sm5440_direct \<Rightarrow> bool" where
  "running \<equiv> \<lambda>uv p. running_point uv p \<and> active p"

lemma refresh_pps_ok:
  assumes "pump_obeys running w"
  shows "wp sm5440_refresh_pps
    (\<lambda>r w'. pump_obeys (\<lambda>_ _. True) w' \<and> (r = 0 \<longrightarrow> pump_obeys running w')) w"
proof -
  have current: "wp (sm5440_psy_retry POWER_SUPPLY_PROP_CURRENT_NOW (target_ma (pump (dev w0)) * 1000))
      (\<lambda>_. pump_obeys running) w'"
    if "pump_obeys running w0" "target_ma (pump (dev w0)) = target_ma (pump (dev w'))"
      "pump_obeys running w'" for w0 w'
    using that
    by (intro keeps_wp [OF keeps_request_current]) (auto simp: pump_obeys_def running_point_def)
  have voltage: "wp (sm5440_psy_retry POWER_SUPPLY_PROP_VOLTAGE_NOW (mv * 1000))
      (\<lambda>_. pump_obeys (\<lambda>u p. u = Some (mv * 1000) \<and> p = pump (dev w'))) w'"
    if "pump_obeys running w'" "mv = sm5440_pps_target_mv ma uv" for mv ma uv w'
    using that pps_target_range [of ma uv] by (intro request_voltage) (auto simp: pump_obeys_def)
  show ?thesis
    using assms unfolding sm5440_refresh_pps_def
    by (intro wp_intros wp_keeps [OF pumpi.keeps_sm5440_psy_get [of running]]
          wp_mono [OF current] wp_mono [OF voltage])
       (auto simp: pump_obeys_def running_point_def)
qed

lemma renegotiate_pps_ok:
  assumes "pump_obeys running w"
  shows "wp sm5440_renegotiate_pps
    (\<lambda>r w'. pump_obeys (\<lambda>_ _. True) w' \<and> (r = 0 \<longrightarrow> pump_obeys running w')) w"
proof -
  have weak: "pump_obeys running w' \<Longrightarrow> pump_obeys (\<lambda>_ _. True) w'" for w'
    by (simp add: pump_obeys_def)
  have uv: "pump_obeys running w' \<Longrightarrow> last_pps_uv (hist w') = Some (target_mv (pump (dev w')) * 1000)"
    for w' by (simp add: pump_obeys_def running_point_def)
  show ?thesis
    using assms unfolding sm5440_renegotiate_pps_def
    by (intro wp_intros wp_keeps [OF keeps_pump_off [of running]] wp_mono [OF refresh_pps_ok]
          wp_mono [OF wait_settled [of running]] wp_mono [OF pump_on_settled [of running]])
       (auto dest: weak uv)
qed

lemma keeps_pump_backoff [keeps_rules]: "keeps pump_inv sm5440_backoff"
  unfolding sm5440_backoff_def
  by (intro keepsI wp_intros) (auto simp: pump_inv_def pump_obeys_def running_point_def)

lemma give_up_ok:
  assumes "pump_obeys (\<lambda>_ _. True) w"
  shows "wp (give_up log) (\<lambda>_ w'. pump_inv w' \<and> \<not> active (pump (dev w'))) w"
proof -
  have backoff: "wp sm5440_backoff (\<lambda>_ w'. pump_inv w' \<and> \<not> active (pump (dev w'))) w'"
    if "pump_inv w' \<and> \<not> active (pump (dev w'))" for w'
    using that unfolding sm5440_backoff_def
    by (intro wp_intros) (auto simp: pump_inv_def pump_obeys_def running_point_def)
  show ?thesis
    using assms unfolding give_up_def
    by (intro wp_intros wp_keeps [OF pumpi.keeps_log_faults [of "\<lambda>_ _. True"]]
          wp_mono [OF restore_switching_ok] wp_mono [OF backoff]) auto
qed

lemma work_active_ok:
  assumes "pump_obeys running w"
  shows "wp work_active (\<lambda>_. pump_inv) w"
proof -
  have enabled: "wp sm5714_battery_fast_charge_enabled (\<lambda>_. pump_obeys running) w'"
    if "pump_obeys running w'" for w'
    by (rule keeps_wp [OF pumpi.keeps_fast_charge_enabled that])
  have give_up: "wp (give_up log) (\<lambda>_. pump_inv) w'" if "pump_obeys (\<lambda>_ _. True) w'" for log w'
    by (rule wp_mono [OF give_up_ok [OF that]]) simp
  show ?thesis
    using assms unfolding work_active_def
    by (intro wp_intros wp_mono [OF enabled] wp_keeps [OF pumpi.keeps_log_faults [of running]]
          wp_mono [OF restore_switching_ok [of running]] wp_mono [OF renegotiate_pps_ok]
          give_up wp_keeps [OF pumpi.keeps_check_pump [of running]]
          wp_keeps [OF keeps_pump_bits [of _ running]])
       (auto simp: pump_inv_def pump_obeys_def running_point_def)
qed

lemma work_idle_ok:
  assumes "pump_inv w" and "\<not> active (pump (dev w))"
  shows "wp work_idle (\<lambda>_. pump_inv) w"
proof -
  let ?S = "\<lambda>uv p. running_point uv p \<and> \<not> active p"
  have i: "pump_obeys ?S w' = (pump_inv w' \<and> \<not> active (pump (dev w')))" for w'
    by (auto simp: pump_inv_def pump_obeys_def)
  have started: "pump_inv w' \<Longrightarrow> pump_inv (w'\<lparr>dev := (dev w')\<lparr>pump := pump (dev w')\<lparr>fails := 0\<rparr>\<rparr>\<rparr>)" for w'
    by (simp add: pump_inv_def pump_obeys_def running_point_def)
  show ?thesis
    using assms unfolding work_idle_def
    by (intro wp_intros wp_keeps [OF pumpi.keeps_fast_charge_enabled [of ?S]]
          wp_keeps [OF pumpi.keeps_eligible [of ?S]] wp_mono [OF start_ok]
          wp_keeps [OF keeps_pump_backoff])
       (simp_all add: i started)
qed

lemma keeps_pump_work: "keeps pump_inv sm5440_work"
proof -
  have sched: "keeps pump_inv (schedule_delayed_work wk ms)" for wk ms
    unfolding pump_inv_def by (rule pumpi.keeps_schedule)
  show ?thesis
    unfolding sm5440_work_def
    by (intro keepsI wp_intros wp_mono [OF work_active_ok] wp_mono [OF work_idle_ok]
          wp_keeps [OF sched])
       (auto simp: pump_inv_def pump_obeys_def)
qed

lemma keeps_pump_cancel_work: "keeps pump_inv sm5440_cancel_work"
proof -
  have cancel: "keeps pump_inv (cancel_delayed_work wk)" for wk
    unfolding pump_inv_def by (rule pumpi.keeps_cancel)
  show ?thesis
    unfolding sm5440_cancel_work_def
    by (intro keepsI wp_intros wp_keeps [OF cancel] wp_mono [OF restore_switching_ok [of running_point]])
       (auto simp: pump_inv_def)
qed

lemma keeps_pump_pm_notify: "keeps pump_inv (sm5440_pm_notify action)"
proof (cases action)
  case PM_SUSPEND_PREPARE
  then show ?thesis
    unfolding sm5440_pm_notify_def pump_inv_def
    by (auto intro!: keepsI wp_intros wp_keeps [OF pumpi.keeps_cancel [of running_point]]
          wp_keeps [OF keeps_pump_off [of running_point]] wp_mono [OF restore_switching_ok [of running_point]]
          simp: pump_inv_def pump_obeys_def running_point_def)
next
  case PM_POST_SUSPEND
  then show ?thesis
    unfolding sm5440_pm_notify_def pump_inv_def
    by (auto intro!: keepsI wp_intros wp_keeps [OF pumpi.keeps_schedule [of running_point]]
          simp: pump_obeys_def running_point_def)
qed (simp add: sm5440_pm_notify_def keeps_return)

lemma keeps_sm5440_probe: "keeps pump_inv sm5440_probe"
proof -
  have fresh: "keeps pump_inv (modify (\<lambda>b. b\<lparr>pump := zero_pump\<rparr>))"
    by (intro keepsI wp_intros)
       (simp add: pump_inv_def pump_obeys_def running_point_def zero_pump_def)
  show ?thesis
    unfolding sm5440_probe_def
    by (intro keeps_rules fresh keeps_pump_cancel_work
          pumpi.keeps_devm [of running_point, folded pump_inv_def]
          pumpi.keeps_read_byte [of running_point, folded pump_inv_def]
          pumpi.keeps_schedule [of running_point, folded pump_inv_def])
qed

end
