(* ===== verification/Charge_System.thy ===== *)
theory Charge_System
  imports Usbpd_Protocol
begin

text \<open>
  The three drivers together on one board. A step is one operation that other code starts: a work
  item, a callback of TCPM, of the power-supply core or of the power-management core, an interrupt,
  a sysfs write, a probe. Operations run in any order and any number of times, each to its end (the
  drivers serialise them with their mutexes), and every call they make is answered by an arbitrary
  environment. A device is probed only while no driver is bound to it, and unbinding the SM5440 runs
  \<open>sm5440_cancel_work\<close>, so its probe finds the pump inactive.
\<close>

inductive step :: "board_world \<Rightarrow> board_world \<Rightarrow> bool" where
  battery_probe: "step w (exec sm5714_probe w)"
| battery_poll: "step w (exec sm5714_poll_work w)"
| battery_suspend: "step w (exec sm5714_suspend w)"
| battery_resume: "step w (exec sm5714_resume w)"
| battery_property: "step w (exec (sm5714_bat_get_property psp) w)"
| usb_property: "step w (exec (sm5714_usb_get_property psp) w)"
| fast_charge_write: "step w (exec (fast_charge_store parsed count) w)"
| pump_probe: "\<not> active (pump (dev w)) \<Longrightarrow> step w (exec sm5440_probe w)"
| pump_work: "step w (exec sm5440_work w)"
| pump_remove: "step w (exec sm5440_cancel_work w)"
| pump_notifier: "step w (exec (sm5440_pm_notify action) w)"
| pump_parameter: "step w (w\<lparr>dev := (dev w)\<lparr>max_pps_ma := ma\<rparr>\<rparr>)"
| port_probe_early: "step w (exec sm5714_usbpd_probe_early w)"
| port_probe_late: "step w (exec sm5714_usbpd_probe_late w)"
| port_remove: "step w (exec sm5714_usbpd_remove w)"
| port_irq: "step w (exec sm5714_usbpd_irq w)"
| port_resync: "step w (exec sm5714_usbpd_cc_resync_work w)"
| port_otg_det: "step w (exec sm5714_usbpd_otg_det_work w)"
| tcpm_init: "step w (exec sm5714_usbpd_init w)"
| tcpm_get_vbus: "step w (exec sm5714_usbpd_get_vbus w)"
| tcpm_get_current_limit: "step w (exec sm5714_usbpd_get_current_limit w)"
| tcpm_get_cc: "step w (exec sm5714_usbpd_get_cc w)"
| tcpm_set_cc: "step w (exec (sm5714_usbpd_set_cc cc) w)"
| tcpm_start_toggling: "step w (exec (sm5714_usbpd_start_toggling port_type cc) w)"
| tcpm_set_polarity: "step w (exec (sm5714_usbpd_set_polarity pol) w)"
| tcpm_set_vconn: "step w (exec (sm5714_usbpd_set_vconn on) w)"
| tcpm_set_vbus: "step w (exec (sm5714_usbpd_set_vbus on) w)"
| tcpm_set_current_limit: "step w (exec (sm5714_usbpd_set_current_limit limit_ma mv) w)"
| tcpm_set_pd_rx: "step w (exec (sm5714_usbpd_set_pd_rx on) w)"
| tcpm_consume_retained: "step w (exec sm5714_usbpd_consume_retained_sink_dfp w)"
| tcpm_set_roles: "step w (exec (sm5714_usbpd_set_roles attached role data) w)"
| tcpm_transmit: "step w (exec (sm5714_usbpd_transmit type msg) w)"

text \<open>Before any driver has run: nothing has been programmed and no boost or pump is recorded.\<close>

definition boot :: "board_world \<Rightarrow> bool" where
  "boot w = (hist w = [] \<and> \<not> otg_active (battery (dev w)) \<and> \<not> active (pump (dev w)))"

inductive reachable :: "board_world \<Rightarrow> bool" where
  start: "boot w \<Longrightarrow> reachable w"
| more: "reachable w \<Longrightarrow> step w w' \<Longrightarrow> reachable w'"

inductive_cases step_cases: "step w w'"

subsection \<open>Every step keeps the invariants\<close>

context board_invariant begin

lemma keeps_property_reads:
  "keeps inv (sm5714_bat_get_property psp)" "keeps inv (sm5714_usb_get_property psp)"
  unfolding sm5714_bat_get_property_def sm5714_usb_get_property_def design_value_def
    sm5714_get_voltage_def sm5714_get_ocv_def sm5714_get_current_def
  by (cases psp; auto intro!: keeps_rules)+

end

text \<open>
  An invariant of the whole board: the charging path and the port cannot break it, the pump's own
  operations keep it, and it does not depend on the module parameter.
\<close>

locale board_safe = port_indifferent +
  assumes work: "keeps inv sm5440_work"
    and cancel: "keeps inv sm5440_cancel_work"
    and pm_notify: "keeps inv (sm5440_pm_notify action)"
    and pump_probe: "inv w \<Longrightarrow> \<not> active (pump (dev w)) \<Longrightarrow> inv (exec sm5440_probe w)"
    and parameter: "inv w \<Longrightarrow> inv (w\<lparr>dev := (dev w)\<lparr>max_pps_ma := ma\<rparr>\<rparr>)"
    and boot: "boot w \<Longrightarrow> inv w"
begin

lemma step_inv: "step w w' \<Longrightarrow> inv w \<Longrightarrow> inv w'"
  by (induction rule: step.induct)
     (blast intro: keepsD work cancel pm_notify pump_probe parameter keeps_probe keeps_poll_work
        keeps_suspend keeps_resume keeps_property_reads keeps_fast_charge_store
        keeps_usbpd_probe keeps_remove keeps_irq keeps_cc_resync_work keeps_otg_det_work
        keeps_init keeps_port_reads keeps_set_cc keeps_start_toggling keeps_small_port_ops
        keeps_set_vbus keeps_set_current_limit keeps_transmit)+

theorem reachable_inv: "reachable w \<Longrightarrow> inv w"
  by (induction rule: reachable.induct) (auto intro: boot step_inv)

end

interpretation charge: board_safe charge_inv charge_harmless
proof -
  have "boot w \<Longrightarrow> charge_inv w"
    and "charge_inv w \<Longrightarrow> charge_inv (w\<lparr>dev := (dev w)\<lparr>max_pps_ma := ma\<rparr>\<rparr>)" for w ma
    by (auto simp: charge_inv_def boot_def)
  then show "board_safe charge_inv charge_harmless"
    by (intro board_safe.intro board_safe_axioms.intro charge.port_indifferent_axioms
          charge.keeps_work charge.keeps_cancel_work charge.keeps_pm_notify
          keepsD [OF charge.keeps_pump_probe])
qed


subsection \<open>Safety of the system\<close>

text \<open>An environment in which everything works: a 50 % pack at 30 C and 3.9 V on a PPS source.\<close>

fun demo_env :: "history \<Rightarrow> event \<Rightarrow> answer" where
  "demo_env h (PsyGet psy POWER_SUPPLY_PROP_CAPACITY) = (0, [50])"
| "demo_env h (PsyGet psy POWER_SUPPLY_PROP_TEMP) = (0, [300])"
| "demo_env h (PsyGet psy POWER_SUPPLY_PROP_ONLINE) = (0, [1])"
| "demo_env h (PsyGet psy POWER_SUPPLY_PROP_VOLTAGE_NOW) = (0, [3900000])"
| "demo_env h (ReadByte c reg) = (if c = Pump then (if reg = 0x1e then 0xff else 0x20) else 0, [])"
| "demo_env h IioRead = (0, [30000])"
| "demo_env h e = (0, [0])"

definition demo :: board_world where
  "demo = \<lparr>dev = \<lparr>battery = zero_battery\<lparr>battery_temp := True, fast_charge := True\<rparr>,
     sm5714_primary = True, pump = zero_pump, max_pps_ma = 5000, usbpd = zero_usbpd\<rparr>,
     hist = [], env = demo_env\<rparr>"

lemma demo_boot: "boot demo"
  by (simp add: boot_def demo_def zero_battery_def zero_pump_def)

lemma demo_step: "step demo w \<Longrightarrow> reachable w"
  using demo_boot by (blast intro: reachable.intros)

text \<open>
  C1. In every reachable state, however operations of the three drivers interleave and whatever
  the hardware answered: no write to the charger ever asked for more than 3 A from the bus or 3.15 A
  into the pack, Q4 was only ever closed with the input limit at 500 mA, the boost was only ever
  started with Q4 known to be open, and while the driver believes the boost is on, Q4 is open.
\<close>

theorem charging_safe:
  "reachable w \<Longrightarrow> obeys charge_policy (hist w) \<and>
     (otg_active (battery (dev w)) \<longrightarrow> \<not> q4_maybe_closed (hist w))"
  by (drule charge.reachable_inv) (simp add: charge_inv_def)

theorem charging_safe_witness:
  "otg_active (battery (dev (exec (sm5714_usbpd_set_vbus True) demo))) \<and>
   \<not> q4_maybe_closed (hist (exec (sm5714_usbpd_set_vbus True) demo))"
proof -
  have "otg_active (battery (dev (exec (sm5714_usbpd_set_vbus True) demo)))" by code_simp
  then show ?thesis
    using charging_safe [OF demo_step [OF tcpm_set_vbus [of demo True]]] by simp
qed



end
