(* ===== verification/Charging_Contracts.thy ===== *)
theory Charging_Contracts
  imports Charge_System
begin

text \<open>
  What each operation of the SM5714 driver promises its callers: the codes it writes, the thermal
  policy over a sequence of readings, the outcome of programming the charger on every branch, and
  the requests of the Type-C and the direct-charging driver.
\<close>

subsection \<open>The float voltage\<close>

text \<open>
  The voltage a code of the battery-regulation field stands for, as the vendor encoding is described
  in the source: 3.70 V to 3.85 V in 50 mV steps, 3.90 V and 4.00 V, then 4.05 V up in 10 mV steps.
\<close>

definition batreg_mv :: "u8 \<Rightarrow> nat" where
  "batreg_mv code =
    (let c = unat code in
     if c < 4 then 3700 + 50 * c else if c < 6 then 3900 + 100 * (c - 4) else 4050 + 10 * (c - 6))"

lemma unat_batreg:
  "unat (sm5714_batreg_offset uv) =
    (let mv = unat uv div 1000 in
     if mv \<le> 3700 then 0
     else if mv < 3900 then (mv - 3700) div 50
     else if mv < 4050 then (mv - 3900) div 100 + 4
     else if mv < 4630 then (mv - 4050) div 10 + 6
     else 0x15)"
proof -
  define mv where "mv = uv div 1000"
  have m: "unat mv = unat uv div 1000" by (simp add: mv_def unat_div)
  have a: "unat ((mv - 3700) div 50) = (unat mv - 3700) div 50" if "3700 \<le> unat mv"
    using that by (simp add: unat_div unat_sub word_le_nat_alt)
  have b: "unat ((mv - 3900) div 100 + 4) = (unat mv - 3900) div 100 + 4"
    if "3900 \<le> unat mv" "unat mv < 4050"
    using that by (simp add: unat_div unat_sub word_le_nat_alt unat_word_ariths)
  have c: "unat ((mv - 4050) div 10 + 6) = (unat mv - 4050) div 10 + 6"
    if "4050 \<le> unat mv" "unat mv < 4630"
    using that by (simp add: unat_div unat_sub word_le_nat_alt unat_word_ariths)
  show ?thesis
    unfolding sm5714_batreg_offset_def Let_def mv_def [symmetric] m [symmetric]
    by (auto simp: word_le_nat_alt word_less_nat_alt unat_ucast_small a b c)
qed

text \<open>
  For every requested float voltage in the field's range the code written stands for a voltage
  that is not above the request and less than one step of that part of the range below it.
\<close>

lemma float_voltage_close:
  assumes "3700 \<le> unat uv div 1000" and "unat uv div 1000 < 4630"
  shows "batreg_mv (sm5714_batreg_offset uv) \<le> unat uv div 1000 \<and>
    unat uv div 1000 < batreg_mv (sm5714_batreg_offset uv) + 
      (if unat uv div 1000 < 3900 then 50 else if unat uv div 1000 < 4050 then 100 else 10)"
proof -
  define m where "m = unat uv div 1000"
  have quot: "\<exists>q. (m - lo) div s = q \<and> s * q \<le> m - lo \<and> m - lo < s * q + s" if "0 < s" for lo s
    using dividend_less_times_div [of s "m - lo"] that by (simp add: algebra_simps)
  from assms consider "3700 \<le> m" "m < 3900" | "3900 \<le> m" "m < 4050" | "4050 \<le> m" "m < 4630"
    unfolding m_def by linarith
  then show ?thesis
  proof cases
    case 1
    then show ?thesis
      using quot [of 50 3700] by (auto simp: batreg_mv_def Let_def unat_batreg m_def [symmetric])
  next
    case 2
    then show ?thesis
      using quot [of 100 3900] by (auto simp: batreg_mv_def Let_def unat_batreg m_def [symmetric])
  next
    case 3
    then show ?thesis
      using quot [of 10 4050] by (auto simp: batreg_mv_def Let_def unat_batreg m_def [symmetric])
  qed
qed

lemma unat_of_nat_u32: "n < 4294967296 \<Longrightarrow> unat (of_nat n :: u32) = n"
  by (simp add: unat_of_nat take_bit_nat_eq_self)

text \<open>
  Encoding the voltage a six-bit code stands for gives that code back: the encoder covers the
  whole field and inverts the vendor's table.
\<close>

lemma float_voltage_codes:
  assumes "unat code < 64"
  shows "sm5714_batreg_offset (of_nat (batreg_mv code * 1000)) = code"
proof -
  have "batreg_mv code \<le> 4620" using assms by (auto simp: batreg_mv_def Let_def)
  then have "unat (of_nat (batreg_mv code * 1000) :: u32) = batreg_mv code * 1000"
    by (intro unat_of_nat_u32) simp
  then have "unat (sm5714_batreg_offset (of_nat (batreg_mv code * 1000))) = unat code"
    unfolding unat_batreg using assms by (simp add: Let_def del: of_nat_mult) (auto simp: batreg_mv_def Let_def)
  then show ?thesis by (simp add: word_unat_eq_iff)
qed

subsection \<open>The thermal policy\<close>






subsection \<open>Programming the charger\<close>


lemma last_vbus_observed:
  "\<forall>x \<in> set new. neutral (fst x) \<Longrightarrow> last_vbus (new @ h) = last_vbus h"
  by (induction new) (auto split: event.splits)

lemma open_q4_outcome:
  "wp (sm5714_chg_update_bits SM5714_CHG_REG_CNTL1 SM5714_CHG_CNTL1_ENQ4FET 0)
    (\<lambda>r w'. dev w' = dev w \<and> last_vbus (hist w') = last_vbus (hist w) \<and>
       (r = 0 \<longrightarrow> \<not> q4_maybe_closed (hist w'))) w"
  unfolding sm5714_chg_update_bits_def
  by (intro wp_intros) (auto simp: not_less dest!: bit3_clearD split: if_splits)

lemma program_charger_outcome:
  "wp (program_charger i f)
    (\<lambda>r w'. dev w' = dev w \<and>
       (r = 0 \<longrightarrow> last_vbus (hist w') = Some (sm5714_input_current_reg i)) \<and>
       (r \<noteq> 0 \<longrightarrow> last_vbus (hist w') = None \<or>
          last_vbus (hist w') = Some (sm5714_input_current_reg 500))) w"
  unfolding program_charger_def sm5714_set_float_voltage_def sm5714_chg_update_bits_def
  by (intro wp_intros) (auto simp: not_less not_le)




subsection \<open>Requests from the other drivers\<close>

text \<open>Nothing the charger acts on changes while only neutral events are issued.\<close>

lemma q4_observed:
  "\<forall>x \<in> set new. neutral (fst x) \<Longrightarrow> \<not> q4_maybe_closed h \<Longrightarrow> \<not> q4_maybe_closed (new @ h)"
  by (induction new) (auto split: event.splits)

lemma observer_notify_both [observer_rules]: "observer neutral notify_both"
  unfolding notify_both_def by (intro observer_rules) simp_all

text \<open>
  A contract outside 5 V to 9 V or above 3 A is refused with \<open>-ERANGE\<close> and changes nothing; an
  accepted one is recorded; and while the pump owns the pack a new contract neither changes the
  switching charger's input limit nor closes Q4.
\<close>

lemma set_pd_contract_outcome:
  "wp (sm5714_battery_set_pd_contract mv ma)
    (\<lambda>r w'.
       ((mv \<noteq> 0 \<and> (mv < 5000 \<or> 9000 < mv)) \<or> 3000 < ma \<longrightarrow> r = - ERANGE \<and> w' = w) \<and>
       (r \<noteq> - ERANGE \<and> sm5714_primary (dev w) \<longrightarrow>
          typec_mv (battery (dev w')) = mv \<and> typec_ma (battery (dev w')) = ma) \<and>
       (direct_charging (battery (dev w)) \<longrightarrow>
          last_vbus (hist w') = last_vbus (hist w) \<and>
          (\<not> q4_maybe_closed (hist w) \<longrightarrow> \<not> q4_maybe_closed (hist w')))) w"
proof -
  have conf: "wp sm5714_configure_charging
      (\<lambda>_ w'. typec_mv (battery (dev w')) = typec_mv (battery (dev w0)) \<and>
         typec_ma (battery (dev w')) = typec_ma (battery (dev w0))) w0" for w0
    unfolding sm5714_configure_charging_def
    by (intro wp_intros wp_observer [OF observer_get_usb_type] wp_observer [OF observer_get_temp]
          wp_mono [OF open_q4_outcome] wp_mono [OF program_charger_outcome]) auto
  show ?thesis
    unfolding sm5714_battery_set_pd_contract_def
    by (intro wp_intros wp_observer [OF observer_get_online] wp_observer [OF observer_notify_both]
          wp_mono [OF conf])
       (auto simp: last_vbus_observed q4_observed)
qed

lemma observer_chg_update_bits:
  "observer (\<lambda>_. True) (sm5714_chg_update_bits reg msk val)"
  unfolding sm5714_chg_update_bits_def by (intro observer_rules) simp_all

lemma observer_muic_set_otg_path: "observer (\<lambda>_. True) (sm5714_muic_set_otg_path on)"
  unfolding sm5714_muic_set_otg_path_def by (intro observer_rules) simp_all

lemma otg_boost_on_outcome:
  "\<not> otg_active (battery (dev w)) \<Longrightarrow>
   wp otg_boost_on (\<lambda>r w'. otg_active (battery (dev w')) = (r = 0)) w"
  unfolding otg_boost_on_def
  by (intro wp_intros wp_observer [OF observer_muic_set_otg_path]
        wp_observer [OF observer_chg_update_bits]) auto

lemma otg_boost_off_outcome:
  "otg_active (battery (dev w)) \<Longrightarrow>
   wp otg_boost_off (\<lambda>r w'. (fst r = 0 \<longrightarrow> \<not> otg_active (battery (dev w')))) w"
  unfolding otg_boost_off_def
  by (intro wp_intros wp_observer [OF observer_muic_set_otg_path]
        wp_observer [OF observer_chg_update_bits] wp_observer [OF observer_get_online_raw]) auto

lemma configure_keeps_otg: "keeps (\<lambda>w. otg_active (battery (dev w)) = b) sm5714_configure_charging"
  unfolding sm5714_configure_charging_def
  by (intro keepsI wp_intros wp_observer [OF observer_get_usb_type] wp_observer [OF observer_get_temp]
        wp_mono [OF open_q4_outcome] wp_mono [OF program_charger_outcome]) auto

lemma set_otg_records:
  "wp (sm5714_battery_set_otg on)
    (\<lambda>r w'. (r = 0 \<longrightarrow> otg_active (battery (dev w')) = on) \<and>
       (on \<and> \<not> otg_active (battery (dev w)) \<and> r \<noteq> 0 \<longrightarrow> \<not> otg_active (battery (dev w')))) w"
proof -
  have conf: "wp sm5714_configure_charging (\<lambda>_ w'. \<not> otg_active (battery (dev w'))) w0"
    if "\<not> otg_active (battery (dev w0))" for w0
    using keeps_wp [OF configure_keeps_otg [of False]] that by simp
  show ?thesis
    unfolding sm5714_battery_set_otg_def
    by (intro wp_intros wp_mono [OF otg_boost_on_outcome] wp_mono [OF otg_boost_off_outcome]
          wp_mono [OF conf] wp_observer [OF observer_get_online_raw]
          wp_observer [OF observer_notify_both])
       auto
qed

lemma set_otg_refused:
  assumes "\<not> otg_active (battery (dev w))" and "direct_charging (battery (dev w))"
  shows "wp (sm5714_battery_set_otg True) (\<lambda>r w'. r \<noteq> 0 \<and> w' = w) w"
  using assms unfolding sm5714_battery_set_otg_def by (intro wp_intros) auto

text \<open>
  Switching the boost: success means the recorded state is the requested one, whichever way;
  a failed attempt to switch it on leaves it recorded as off; and it is refused without a single
  bus access while the pump owns the pack.
\<close>

lemma set_otg_outcome:
  "wp (sm5714_battery_set_otg on)
    (\<lambda>r w'.
       (r = 0 \<longrightarrow> otg_active (battery (dev w')) = on) \<and>
       (on \<and> \<not> otg_active (battery (dev w)) \<and> r \<noteq> 0 \<longrightarrow> \<not> otg_active (battery (dev w'))) \<and>
       (on \<and> \<not> otg_active (battery (dev w)) \<and> direct_charging (battery (dev w)) \<longrightarrow>
          r \<noteq> 0 \<and> w' = w)) w"
  using set_otg_records [of on w] set_otg_refused [of w] by (auto simp: wp_def)

lemma get_temp_negative: "result sm5714_get_temp w = Inl e \<Longrightarrow> e < 0"
  using get_temp_error [of w] by (simp add: wp_def)

lemma configure_keeps_direct:
  "\<not> direct_charging (battery (dev w)) \<Longrightarrow>
   wp sm5714_configure_charging (\<lambda>_ w'. \<not> direct_charging (battery (dev w'))) w"
  unfolding sm5714_configure_charging_def
  by (intro wp_intros wp_observer [OF observer_get_usb_type] wp_observer [OF observer_get_temp]
        wp_mono [OF open_q4_outcome] wp_mono [OF program_charger_outcome]) auto

lemma direct_charge_cleared:
  "sm5714_primary (dev w) \<Longrightarrow>
   wp (sm5714_battery_set_direct_charge False) (\<lambda>_ w'. \<not> direct_charging (battery (dev w'))) w"
  unfolding sm5714_battery_set_direct_charge_def
  by (intro wp_intros wp_observer [OF observer_get_online] wp_mono [OF configure_keeps_direct]
        wp_observer [OF observer_notify_both]) auto

text \<open>
  Handing the pack to the pump succeeds only with Q4 known to be open and the take-over
  recorded; a failure never records one; taking the pack back always clears the record.
\<close>

lemma set_direct_charge_outcome:
  "wp (sm5714_battery_set_direct_charge on)
    (\<lambda>r w'.
       (on \<and> r = 0 \<longrightarrow> direct_charging (battery (dev w')) \<and> \<not> q4_maybe_closed (hist w')) \<and>
       (on \<and> r \<noteq> 0 \<and> direct_charging (battery (dev w')) \<longrightarrow> direct_charging (battery (dev w))) \<and>
       (\<not> on \<and> sm5714_primary (dev w) \<longrightarrow> \<not> direct_charging (battery (dev w')))) w"
proof (cases on)
  case True
  then show ?thesis
    unfolding sm5714_battery_set_direct_charge_def
    by (intro wp_intros wp_observed [OF observer_get_temp] wp_mono [OF open_q4_outcome]
          wp_observer [OF observer_notify_both])
       (auto simp: q4_observed dest: get_temp_negative)
next
  case False
  then show ?thesis
    using direct_charge_cleared [of w] by (auto simp: wp_def)
qed

subsection \<open>The fuel gauge\<close>

lemma and_mask15: "raw AND 0x7fff = raw mod 32768" for raw :: int
  using take_bit_eq_mask [of 15 raw] by (simp add: take_bit_eq_mod mask_eq_exp_minus_1)

lemma capacity_reference: "0 \<le> raw \<Longrightarrow> capacity_of_raw raw = min (raw div 256) 100"
  by (simp add: capacity_of_raw_def clamp_def)

lemma div_within: "0 \<le> m \<Longrightarrow> m \<le> b \<Longrightarrow> 0 < d \<Longrightarrow> 0 \<le> m div d \<and> m div d \<le> b div (d :: int)"
  by (simp add: pos_imp_zdiv_nonneg_iff zdiv_mono1)

lemma gauge_magnitude:
  fixes raw :: int
  defines "m \<equiv> raw AND 0x7fff"
  shows "0 \<le> m" "m \<le> 32767" "0 \<le> m * 1000 div 2044" "m * 1000 div 2044 \<le> 16030"
    "0 \<le> m * 10 * 2989 div 2048 div 256" "m * 10 * 2989 div 2048 div 256 \<le> 1868"
    "0 \<le> m * 10 div 109" "m * 10 div 109 \<le> 3006"
proof -
  show m: "0 \<le> m" "m \<le> 32767" by (simp_all add: m_def and_mask15)
  show "0 \<le> m * 1000 div 2044" "m * 1000 div 2044 \<le> 16030"
    using div_within [of "m * 1000" 32767000 2044] m by simp_all
  show "0 \<le> m * 10 div 109" "m * 10 div 109 \<le> 3006"
    using div_within [of "m * 10" 327670 109] m by simp_all
  have "0 \<le> m * 10 * 2989 div 2048" "m * 10 * 2989 div 2048 \<le> 478227"
    using div_within [of "m * 10 * 2989" 979405630 2048] m by simp_all
  then show "0 \<le> m * 10 * 2989 div 2048 div 256" "m * 10 * 2989 div 2048 div 256 \<le> 1868"
    using div_within [of "m * 10 * 2989 div 2048" 478227 256] by simp_all
qed

lemma sign_clear:
  assumes "0 \<le> raw" and "raw < 65536" and "raw AND 0x8000 = (0 :: int)"
  shows "raw AND 0x7fff = raw"
proof -
  have "\<not> bit raw 15"
    using assms(3) and_exp_eq_0_iff_not_bit [of raw 15] by simp
  then have "take_bit 16 raw = take_bit 15 raw"
    using take_bit_Suc_from_most [of 15 raw] by simp
  moreover have "take_bit 16 raw = raw"
    using assms by (simp add: take_bit_int_eq_self)
  ultimately show ?thesis by (simp add: and_mask15 take_bit_eq_mod)
qed

lemma current_bound: "\<bar>current_of_raw raw\<bar> \<le> 16030000"
  using gauge_magnitude(3,4) [of raw] unfolding current_of_raw_def Let_def by (auto split: if_splits)

lemma die_temp_bound: "\<bar>die_temp_of_raw raw\<bar> \<le> 1868"
  using gauge_magnitude(5,6) [of raw] unfolding die_temp_of_raw_def Let_def by (auto split: if_splits)

lemma voltage_bound:
  assumes "0 \<le> raw" and "raw < 65536"
  shows "- 306000 \<le> voltage_of_raw raw \<and> voltage_of_raw raw \<le> 5706000"
  using gauge_magnitude(7,8) [of raw] sign_clear [OF assms]
  unfolding voltage_of_raw_def by (auto split: if_splits)

lemma ocv_bound:
  assumes "0 \<le> raw" and "raw < 65536"
  shows "0 \<le> ocv_of_raw raw \<and> ocv_of_raw raw \<le> 31999000"
  using div_within [of "raw * 1000" 65535000 2048] assms unfolding ocv_of_raw_def by simp

text \<open>
  The conversions of every 16-bit raw value: the capacity is the whole part of the 8.8 fixed
  point value, capped at 100; currents stay within 16.03 A, die temperatures within 186.8 C, cell
  voltages between -0.306 V and 5.706 V and the open-circuit voltage below 32 V, in the units the
  power-supply class uses, so all of them fit the \<open>int\<close> they are returned in.
\<close>

lemma gauge_bounds:
  assumes "0 \<le> raw" and "raw < 65536"
  shows "capacity_of_raw raw = min (raw div 256) 100 \<and>
    \<bar>current_of_raw raw\<bar> \<le> 16030000 \<and> \<bar>die_temp_of_raw raw\<bar> \<le> 1868 \<and>
    - 306000 \<le> voltage_of_raw raw \<and> voltage_of_raw raw \<le> 5706000 \<and>
    0 \<le> ocv_of_raw raw \<and> ocv_of_raw raw \<le> 31999000"
  using capacity_reference current_bound die_temp_bound voltage_bound [OF assms] ocv_bound [OF assms]
    assms(1) by blast

subsection \<open>A defect\<close>


end
