(* ===== verification/Pump_Contracts.thy ===== *)
theory Pump_Contracts
  imports Charging_Contracts
begin

text \<open>
  What the SM5440 driver promises: the operating point it asks for, bounded retries, the back-off
  schedule, the ranges of its measurements, and that the pack is always handed back.
\<close>

subsection \<open>The operating point\<close>

text \<open>
  What a current \<open>ma\<close> into a pack at \<open>vbat_uv\<close> needs at the bus: twice the pack voltage, the drop over
  320 mOhm rounded up, and 200 mV of headroom.
\<close>

definition pps_need :: "int \<Rightarrow> int \<Rightarrow> int" where
  "pps_need ma vbat_uv = 2 * (vbat_uv div 1000) + (ma * 320 + 999) div 1000 + 200"

lemma round_up_20:
  assumes "0 \<le> x"
  obtains q where "DIV_ROUND_UP x 20 = q" "x \<le> q * 20" "q * 20 < x + 20"
proof
  show "DIV_ROUND_UP x 20 = (x + 19) div 20" using assms by (simp add: DIV_ROUND_UP_def)
  show "x \<le> (x + 19) div 20 * 20" "(x + 19) div 20 * 20 < x + 20"
    using mult_div_mod_eq [of 20 "x + 19"] pos_mod_bound [of 20 "x + 19"] pos_mod_sign [of 20 "x + 19"]
    by linarith+
qed

text \<open>
  The voltage requested is a multiple of the 20 mV step of PPS; unless the 10.5 V cap forbids it,
  it covers what the operating point needs; and unless the 8.2 V floor lifts it, it is less than one
  step above that need.
\<close>

lemma pps_target_correct:
  assumes "0 \<le> ma" and "0 \<le> vbat_uv"
  shows "sm5440_pps_target_mv ma vbat_uv mod 20 = 0 \<and>
    (pps_need ma vbat_uv \<le> 10500 \<longrightarrow> pps_need ma vbat_uv \<le> sm5440_pps_target_mv ma vbat_uv) \<and>
    (8200 \<le> pps_need ma vbat_uv \<longrightarrow> sm5440_pps_target_mv ma vbat_uv < pps_need ma vbat_uv + 20)"
proof -
  have "0 \<le> pps_need ma vbat_uv" using assms by (simp add: pps_need_def)
  then obtain q where q: "DIV_ROUND_UP (pps_need ma vbat_uv) 20 = q"
      "pps_need ma vbat_uv \<le> q * 20" "q * 20 < pps_need ma vbat_uv + 20"
    by (rule round_up_20)
  have t: "sm5440_pps_target_mv ma vbat_uv = clamp (q * 20) 8200 10500"
    using assms unfolding q(1) [symmetric]
    by (simp add: sm5440_pps_target_mv_def pps_need_def DIV_ROUND_UP_def Let_def algebra_simps)
  show ?thesis
    unfolding t clamp_def using q(2,3) by (auto simp: min_def max_def)
qed

subsection \<open>Retries and back-off\<close>

text \<open>Requests made to the source and time slept, over a history.\<close>

fun attempts :: "history \<Rightarrow> nat" where
  "attempts [] = 0"
| "attempts (x # h) = (if is_contract_request (fst x) then 1 else 0) + attempts h"

fun slept_ms :: "history \<Rightarrow> int" where
  "slept_ms [] = 0"
| "slept_ms (x # h) = (case fst x of Msleep ms \<Rightarrow> ms | _ \<Rightarrow> 0) + slept_ms h"

lemma retry_loop_bounded:
  "wp (psy_retry_loop n first psp v ret)
    (\<lambda>r w'. attempts (hist w') \<le> attempts (hist w) + n \<and>
       slept_ms (hist w') \<le> slept_ms (hist w) + 200 * int (if first then n - 1 else n) \<and>
       (r = - EAGAIN \<longrightarrow> attempts (hist w') = attempts (hist w) + n)) w"
proof (induction n arbitrary: first ret w)
  case (Suc n)
  show ?case
    unfolding psy_retry_loop.simps sm5440_psy_set_def
    by (intro wp_intros wp_mono [OF Suc.IH]) (auto split: if_splits)
qed (auto intro: wp_intros)

text \<open>
  C32. One request to the source takes at most five attempts and sleeps at most 800 ms in total, and
  it reports \<open>-EAGAIN\<close> only after all five.
\<close>

theorem psy_retry_bounded:
  "wp (sm5440_psy_retry psp v)
    (\<lambda>r w'. attempts (hist w') \<le> attempts (hist w) + 5 \<and>
       slept_ms (hist w') \<le> slept_ms (hist w) + 800 \<and>
       (r = - EAGAIN \<longrightarrow> attempts (hist w') = attempts (hist w) + 5)) w"
  using retry_loop_bounded [of 5 True psp v "- EAGAIN" w] by (simp add: sm5440_psy_retry_def)

theorem psy_retry_bounded_witness:
  "attempts (hist (exec (sm5440_psy_retry POWER_SUPPLY_PROP_ONLINE 2)
     (demo\<lparr>env := (\<lambda>_ _. (- EAGAIN, []))\<rparr>))) = 5"
proof -
  let ?w = "demo\<lparr>env := (\<lambda>_ _. (- EAGAIN, []))\<rparr>"
  have "result (sm5440_psy_retry POWER_SUPPLY_PROP_ONLINE 2) ?w = - EAGAIN" by code_simp
  moreover have "hist ?w = []" by (simp add: demo_def)
  ultimately show ?thesis
    using psy_retry_bounded [of POWER_SUPPLY_PROP_ONLINE 2 ?w] by (simp add: wp_def)
qed

text \<open>The delays of consecutive failures.\<close>

primrec backoff_delays :: "nat \<Rightarrow> board_world \<Rightarrow> int list" where
  "backoff_delays 0 w = []"
| "backoff_delays (Suc n) w = result sm5440_backoff w # backoff_delays n (exec sm5440_backoff w)"

lemma run_backoff:
  "run_state sm5440_backoff w =
    (let n = (if fails (pump (dev w)) < 5 then fails (pump (dev w)) + 1 else fails (pump (dev w)))
     in (backoff_ms n, w\<lparr>dev := (dev w)\<lparr>pump := (pump (dev w))\<lparr>fails := n\<rparr>\<rparr>\<rparr>))"
  by (simp add: sm5440_backoff_def upd_pump_def get_pump_def Let_def)

lemma backoff_quiet:
  "fails (pump (dev w)) = 4 \<or> fails (pump (dev w)) = 5 \<Longrightarrow> backoff_delays n w = replicate n 300000"
  by (induction n arbitrary: w) (auto simp: run_backoff Let_def backoff_ms_def)

lemma backoff_values:
  "backoff_ms 1 = 4000" "backoff_ms 2 = 8000" "backoff_ms 3 = 16000" "backoff_ms 4 = 30000"
  by code_simp+

text \<open>
  From a clean record, consecutive failures are retried after 4 s, 8 s, 16 s and 30 s, and from
  the fifth on every five minutes.
\<close>

lemma backoff_schedule:
  assumes "fails (pump (dev w)) = 0"
  shows "backoff_delays (4 + n) w = [4000, 8000, 16000, 30000] @ replicate n 300000"
proof -
  have "4 + n = Suc (Suc (Suc (Suc n)))" by simp
  then show ?thesis
    using assms by (simp only: backoff_delays.simps run_backoff Let_def)
      (simp add: backoff_values backoff_quiet)
qed

subsection \<open>Measurements\<close>

lemma adc_pair_value:
  assumes "0 \<le> h" "h < 256" "0 \<le> l" "l < 256"
  shows "0 \<le> (push_bit 5 h OR drop_bit 3 l :: int)" "push_bit 5 h OR drop_bit 3 l < (8192 :: int)"
proof -
  have a: "0 \<le> push_bit 5 h" "push_bit 5 h < 2 ^ 13" using assms by (simp_all add: push_bit_eq_mult)
  have b: "0 \<le> drop_bit 3 l" "drop_bit 3 l < 2 ^ 13"
    using assms by (simp_all add: drop_bit_eq_div pos_imp_zdiv_nonneg_iff)
  show "0 \<le> (push_bit 5 h OR drop_bit 3 l :: int)" using a b by simp
  show "push_bit 5 h OR drop_bit 3 l < (8192 :: int)" using OR_upper [OF a b(2)] by simp
qed

lemma adc_pair_range: "wp (sm5440_read_adc_pair reg) (\<lambda>r _. r < 8192) w"
  unfolding sm5440_read_adc_pair_def
  by (intro wp_intros) (auto simp: byte_result_def not_less intro!: adc_pair_value)

text \<open>
  Whatever the two ADC bytes are, a measurement that does not fail is in the range of its
  channel: the bus between 4.096 V and 12.287 V, the bus current at most 5.119 A, the pack between
  2.048 V and 6.143 V, the die between 22.5 C and 150 C.
\<close>

lemma adc_ranges:
  "wp sm5440_adc_vbus_mv (\<lambda>r _. r < 0 \<or> (4096 \<le> r \<and> r \<le> 12287)) w \<and>
   wp sm5440_adc_ibus_ma (\<lambda>r _. r \<le> 5119) w \<and>
   wp sm5440_adc_vbat_mv (\<lambda>r _. r < 0 \<or> (2048 \<le> r \<and> r \<le> 6143)) w \<and>
   wp sm5440_adc_die_temp (\<lambda>r _. r < 0 \<or> (225 \<le> r \<and> r \<le> 1500)) w"
  unfolding sm5440_adc_vbus_mv_def sm5440_adc_ibus_ma_def sm5440_adc_vbat_mv_def sm5440_adc_die_temp_def
  by (intro conjI wp_intros wp_mono [OF adc_pair_range])
     (auto simp: byte_result_def)


subsection \<open>Handing the pack back\<close>

text \<open>The source mode last asked for: 1 the fixed contract, 2 the programmable one.\<close>

primrec last_online_request :: "history \<Rightarrow> int option" where
  "last_online_request [] = None"
| "last_online_request (x # h) =
    (case fst x of
       PsySet psy psp v \<Rightarrow>
         if psy = PsyTcpm \<and> psp = POWER_SUPPLY_PROP_ONLINE then Some v else last_online_request h
     | _ \<Rightarrow> last_online_request h)"

text \<open>What nothing but the pump driver changes: the source mode last asked for and the pump struct.\<close>

definition handover :: "(int option \<Rightarrow> bool \<Rightarrow> bool) \<Rightarrow> board_world \<Rightarrow> bool" where
  "handover S w = S (last_online_request (hist w)) (active (pump (dev w)))"

definition handover_harmless :: "event \<Rightarrow> bool" where
  "handover_harmless e = (\<forall>psy v. e \<noteq> PsySet psy POWER_SUPPLY_PROP_ONLINE v)"

interpretation handover: charger_indifferent "handover S" handover_harmless for S
proof unfold_locales
  show "neutral e \<Longrightarrow> handover_harmless e" for e
    by (cases e) (auto simp: handover_harmless_def)
  show "handover_harmless e \<Longrightarrow> keeps (handover S) (call e)" for e
    by (intro keepsI wp_intros)
       (auto simp: handover_def handover_harmless_def split: event.splits)
qed (auto simp: handover_def handover_harmless_def intro!: keepsI wp_modifyI wp_upd_batI)

interpretation handover: port_indifferent "handover S" handover_harmless for S
  by unfold_locales (auto simp: handover_def intro!: keepsI wp_modifyI wp_upd_pdI)

text \<open>Where the pump is not running, the source was last asked for something else than PPS.\<close>

definition handed_back :: "int option \<Rightarrow> bool \<Rightarrow> bool" where
  "handed_back mode on = (on \<or> mode \<noteq> Some 2)"

definition handback :: "board_world \<Rightarrow> bool" where
  "handback = handover handed_back"

definition idle_back :: "board_world \<Rightarrow> bool" where
  "idle_back = handover (\<lambda>mode running. \<not> running \<and> mode \<noteq> Some 2)"

lemmas handback_keeps =
  handover.keeps_schedule [of handed_back, folded handback_def]
  handover.keeps_cancel [of handed_back, folded handback_def]
  handover.keeps_cancel [of "\<lambda>mode running. \<not> running \<and> mode \<noteq> Some 2", folded idle_back_def]
  handover.keeps_schedule [of "\<lambda>mode running. \<not> running \<and> mode \<noteq> Some 2", folded idle_back_def]
  handover.keeps_devm [of "\<lambda>mode running. \<not> running \<and> mode \<noteq> Some 2", folded idle_back_def]
  handover.keeps_read_byte [of "\<lambda>mode running. \<not> running \<and> mode \<noteq> Some 2", folded idle_back_def]

lemma online_retry_asks:
  "wp (sm5440_psy_retry POWER_SUPPLY_PROP_ONLINE v) (\<lambda>_. handover (\<lambda>mode _. mode = Some v)) w"
proof -
  let ?I = "handover (\<lambda>mode _. mode = Some v)"
  have "keeps ?I (call (PsySet PsyTcpm POWER_SUPPLY_PROP_ONLINE v))"
    by (intro keepsI wp_intros) (auto simp: handover_def handed_back_def)
  note loop = handover.keeps_psy_retry_loop [OF this]
  have "wp (psy_retry_loop (Suc 4) True POWER_SUPPLY_PROP_ONLINE v (- EAGAIN)) (\<lambda>_. ?I) w"
    unfolding psy_retry_loop.simps sm5440_psy_set_def
    by (intro wp_intros keeps_wp [OF loop]) (auto simp: handover_def handed_back_def)
  then show ?thesis by (simp add: sm5440_psy_retry_def)
qed

lemma keeps_handover_true [keeps_rules]: "keeps (handover (\<lambda>_ _. True)) m"
  by (simp add: keeps_def handover_def)

lemma keeps_handover_upd_pump:
  "(\<And>p. active (f p) = active p) \<Longrightarrow> keeps (handover S) (upd_pump f)"
  by (intro keepsI wp_intros) (simp add: handover_def)

lemma restore_hands_back:
  "wp sm5440_restore_switching (\<lambda>_. handover (\<lambda>mode running. mode = Some 1 \<and> \<not> running)) w"
  unfolding sm5440_restore_switching_def
  by (intro wp_intros wp_keeps [OF keeps_handover_true [of "sm5440_update_bits reg msk v" for reg msk v]]
        wp_mono [OF online_retry_asks] wp_keeps [OF handover.keeps_set_direct_charge [of "\<lambda>mode _. mode = Some 1"]])
     (auto simp: handover_def handed_back_def)

lemma start_hands_back:
  assumes "handback w"
  shows "wp sm5440_start (\<lambda>_. handback) w"
  using assms unfolding sm5440_start_def handback_def
  by (intro wp_intros wp_keeps [OF handover.keeps_sm5440_psy_get [of handed_back]]
        wp_keeps [OF handover.keeps_set_direct_charge [of handed_back]]
        wp_keeps [OF keeps_handover_true [of "start_sequence uv" for uv]]
        wp_mono [OF restore_hands_back])
     (auto simp: handover_def handed_back_def)

lemma request_harmless:
  "psp \<noteq> POWER_SUPPLY_PROP_ONLINE \<Longrightarrow> keeps (handover S) (sm5440_psy_retry psp v)"
  by (intro handover.keeps_psy_retry handover.harmless_call) (simp add: handover_harmless_def)

lemma pump_write_handover: "handover_harmless (WriteByte Pump reg v)"
  by (simp add: handover_harmless_def)

lemma keeps_handover_renegotiate: "keeps (handover S) sm5440_renegotiate_pps"
  unfolding sm5440_renegotiate_pps_def sm5440_pump_off_def sm5440_refresh_pps_def sm5440_pump_on_def
  by (intro keeps_rules handover.keeps_pump_update_bits pump_write_handover
        handover.keeps_wait_vbus_settled handover.keeps_wait_vbuspok handover.keeps_sm5440_psy_get
        handover.keeps_get_pump request_harmless keeps_handover_upd_pump)
     simp_all

lemma give_up_hands_back: "wp (give_up log) (\<lambda>_. handback) w"
  unfolding give_up_def handback_def sm5440_backoff_def
  by (intro wp_intros wp_keeps [OF keeps_handover_true [of sm5440_log_faults]]
        wp_mono [OF restore_hands_back]) (auto simp: handover_def handed_back_def)

lemma work_hands_back: "keeps handback sm5440_work"
proof -
  let ?R = "handover (\<lambda>_ running. running)"
  have active: "wp work_active (\<lambda>_. handback) w" if "?R w" for w
    using that unfolding work_active_def handback_def
    by (intro wp_intros wp_keeps [OF handover.keeps_fast_charge_enabled [of "\<lambda>_ running. running"]]
          wp_keeps [OF keeps_handover_true [of sm5440_log_faults]]
          wp_mono [OF restore_hands_back] wp_mono [OF give_up_hands_back]
          wp_keeps [OF keeps_handover_renegotiate [of "\<lambda>_ running. running"]]
          wp_keeps [OF handover.keeps_check_pump [of "\<lambda>_ running. running"]]
          wp_keeps [OF handover.keeps_pump_update_bits [OF pump_write_handover, of "\<lambda>_ running. running"]])
       (auto simp: handover_def handback_def handed_back_def)
  have idle: "wp work_idle (\<lambda>_. handback) w" if "handback w" for w
    using that unfolding work_idle_def handback_def sm5440_backoff_def
    by (intro wp_intros wp_keeps [OF handover.keeps_fast_charge_enabled]
          wp_keeps [OF handover.keeps_eligible] wp_mono [OF start_hands_back])
       (auto simp: handover_def handback_def handed_back_def)
  show ?thesis
    unfolding sm5440_work_def
    by (intro keepsI wp_intros wp_mono [OF active] wp_mono [OF idle]
          wp_keeps [OF handback_keeps(1)])
       (auto simp: handover_def handed_back_def)
qed

lemma cancel_hands_back: "keeps handback sm5440_cancel_work"
  unfolding sm5440_cancel_work_def
  by (intro keepsI wp_intros wp_keeps [OF handback_keeps(2)] wp_mono [OF restore_hands_back])
     (auto simp: handback_def handover_def handed_back_def)

lemma pm_notify_hands_back: "keeps handback (sm5440_pm_notify action)"
proof (cases action)
  case PM_SUSPEND_PREPARE
  then show ?thesis
    unfolding sm5440_pm_notify_def sm5440_pump_off_def
    by (auto intro!: keepsI wp_intros wp_keeps [OF handback_keeps(2)]
          wp_keeps [OF keeps_handover_true [of "sm5440_update_bits reg msk v" for reg msk v]]
          wp_mono [OF restore_hands_back] simp: handback_def handover_def handed_back_def)
next
  case PM_POST_SUSPEND
  then show ?thesis
    unfolding sm5440_pm_notify_def
    by (auto intro!: keepsI wp_intros wp_keeps [OF handback_keeps(1)]
          simp: handback_def handover_def)
qed (simp add: sm5440_pm_notify_def keeps_return)

lemma pump_probe_hands_back:
  assumes "handback w" and "\<not> active (pump (dev w))"
  shows "handback (exec sm5440_probe w)"
proof -
  have fresh: "keeps idle_back (modify (\<lambda>b. b\<lparr>pump := zero_pump\<rparr>))"
    by (intro keepsI wp_intros) (simp add: idle_back_def handover_def zero_pump_def)
  have cancel: "keeps idle_back sm5440_cancel_work"
    unfolding sm5440_cancel_work_def
    by (intro keepsI wp_intros wp_keeps [OF handback_keeps(3)]) (auto simp: idle_back_def handover_def)
  have "keeps idle_back sm5440_probe"
    unfolding sm5440_probe_def by (intro keeps_rules handback_keeps fresh cancel)
  then have "idle_back (exec sm5440_probe w)"
    by (rule keepsD) (use assms in \<open>simp add: idle_back_def handback_def handover_def handed_back_def\<close>)
  then show ?thesis by (simp add: idle_back_def handback_def handover_def handed_back_def)
qed

interpretation handback: board_safe handback handover_harmless
proof -
  have "port_indifferent handback handover_harmless"
    unfolding handback_def by unfold_locales
  moreover have "boot w \<Longrightarrow> handback w"
    and "handback w \<Longrightarrow> handback (w\<lparr>dev := (dev w)\<lparr>max_pps_ma := ma\<rparr>\<rparr>)" for w ma
    by (auto simp: handback_def handover_def handed_back_def boot_def)
  ultimately show "board_safe handback handover_harmless"
    by (intro board_safe.intro board_safe_axioms.intro work_hands_back cancel_hands_back
          pm_notify_hands_back pump_probe_hands_back)
qed

text \<open>
  C5. In every reachable state in which the pump is not running, the last mode the driver asked the
  source for is not the programmable one: every way out of direct charging - a failed start, a
  fault, an unhealthy reading, suspend, unbinding - asks for the fixed contract again.
\<close>

theorem idle_pump_left_pps:
  "reachable w \<Longrightarrow> \<not> active (pump (dev w)) \<Longrightarrow> last_online_request (hist w) \<noteq> Some 2"
  by (drule handback.reachable_inv) (simp add: handback_def handover_def handed_back_def)

theorem idle_pump_left_pps_witness:
  "last_online_request (hist (exec (sm5440_pm_notify PM_SUSPEND_PREPARE) (exec sm5440_work demo))) \<noteq> Some 2"
proof -
  let ?w = "exec (sm5440_pm_notify PM_SUSPEND_PREPARE) (exec sm5440_work demo)"
  have "reachable ?w"
    by (rule reachable.more [OF demo_step [OF pump_work] pump_notifier])
  moreover have "\<not> active (pump (dev ?w))" by code_simp
  ultimately show ?thesis by (rule idle_pump_left_pps)
qed






end
