(* ===== verification/Usbpd_Contracts.thy ===== *)
theory Usbpd_Contracts
  imports Charging_Contracts
begin

text \<open>
  What the Type-C / USB-PD driver promises TCPM: messages arrive unchanged, the CC pins are reported
  and driven consistently, the boost follows the request.
\<close>

subsection \<open>Messages\<close>

text \<open>The messages handed to TCPM, and the last bytes written to a register, over a history.\<close>

primrec delivered :: "history \<Rightarrow> (pd_message \<times> tcpm_transmit_type) list" where
  "delivered [] = []"
| "delivered (x # h) = (case fst x of TcpmPdReceive m t \<Rightarrow> (m, t) # delivered h | _ \<Rightarrow> delivered h)"

primrec last_bulk_write :: "u8 \<Rightarrow> history \<Rightarrow> u8 list" where
  "last_bulk_write reg [] = []"
| "last_bulk_write reg (x # h) =
    (case fst x of
       RegmapBulkWrite r bs \<Rightarrow> if r = reg then bs else last_bulk_write reg h
     | _ \<Rightarrow> last_bulk_write reg h)"

primrec last_write :: "u8 \<Rightarrow> history \<Rightarrow> u8" where
  "last_write reg [] = 0"
| "last_write reg (x # h) =
    (case fst x of
       RegmapWrite r b \<Rightarrow> if r = reg then b else last_write reg h
     | _ \<Rightarrow> last_write reg h)"

text \<open>
  A chip that receives what it was last asked to send: the receive window holds the bytes last
  written to the transmit window, and the origin is the SOP type of the last request.
\<close>

fun loopback :: "history \<Rightarrow> event \<Rightarrow> answer" where
  "loopback h (RegmapBulkRead reg n) =
    (0, map uint (last_bulk_write (if reg = SM5714_REG_RX_HEADER then SM5714_REG_TX_HEADER
                                   else SM5714_REG_TX_PAYLOAD) h))"
| "loopback h (RegmapRead reg) =
    (0, [if reg = SM5714_REG_RX_SRC then uint (drop_bit 4 (last_write SM5714_REG_TX_REQ h)) else 0])"
| "loopback h e = (0, [])"

lemma header_roundtrip: "header_of_bytes (header_bytes h) = h"
  unfolding header_of_bytes_def header_bytes_def
  by (rule bit_word_eqI) (auto simp: bit_simps)

lemma pd_header_cnt_le_bound: "pd_header_cnt_le h \<le> 7"
proof -
  have "drop_bit 12 h AND 7 \<le> (7 :: u16)" by (rule word_and_le1)
  then show ?thesis by (simp add: pd_header_cnt_le_def word_le_nat_alt)
qed

lemma note_pr_swap_delivers:
  "wp (note_pr_swap b ty) (\<lambda>_ w'. delivered (hist w') = delivered (hist w)) w"
  unfolding note_pr_swap_def sm5714_usbpd_set_cc_hold_def regmap_read_def regmap_update_bits_def
  by (intro wp_intros) auto

text \<open>A message as TCPM builds it: the payload array is full length and zero beyond its objects.\<close>

definition wf_message :: "pd_message \<Rightarrow> bool" where
  "wf_message m = (length (payload m) = 28 \<and>
     drop (4 * pd_header_cnt_le (header m)) (payload m) =
       replicate (28 - 4 * pd_header_cnt_le (header m)) 0)"

lemma rx_sop_request: "tx_request t = Some req \<Longrightarrow>
   rx_sop (word_of_int (uint (drop_bit 4 req) mod 256)) = Some t"
  by (cases t; simp; code_simp)

lemma transmit_loads:
  assumes "env w = loopback" and "tx_request t = Some req" and "wf_message m"
  shows "let w' = exec (sm5714_usbpd_transmit t m) w in
     env w' = loopback \<and> dev w' = dev w \<and> delivered (hist w') = delivered (hist w) \<and>
     last_bulk_write SM5714_REG_TX_HEADER (hist w') = header_bytes (header m) \<and>
     (pd_header_cnt_le (header m) \<noteq> 0 \<longrightarrow>
        last_bulk_write SM5714_REG_TX_PAYLOAD (hist w') = take (pd_header_cnt_le (header m) * 4) (payload m)) \<and>
     last_write SM5714_REG_TX_REQ (hist w') = req"
  using assms
  by (cases "t = TCPC_TX_HARD_RESET")
     (simp_all add: sm5714_usbpd_transmit_def regmap_bulk_write_def regmap_write_def err_or_zero_def Let_def)


lemma rx_message_loopback:
  assumes "env w = loopback" and "tx_request t = Some req" and "wf_message m"
    and "last_write SM5714_REG_TX_REQ (hist w) = req"
    and "pd_header_cnt_le (header m) \<noteq> 0 \<longrightarrow>
        last_bulk_write SM5714_REG_TX_PAYLOAD (hist w) = take (pd_header_cnt_le (header m) * 4) (payload m)"
  shows "result (rx_message (header m)) w = Some (m, t) \<and>
    delivered (hist (exec (rx_message (header m)) w)) = delivered (hist w)"
proof -
  let ?n = "pd_header_cnt_le (header m)"
  have pad: "take (?n * 4) (payload m) @ replicate (28 - ?n * 4) 0 = payload m"
    using assms(3) append_take_drop_id [of "?n * 4" "payload m"] by (simp add: wf_message_def mult.commute)
  have l28: "length (payload m) = 28" "min 28 (?n * 4) = ?n * 4"
    using assms(3) pd_header_cnt_le_bound [of "header m"] by (simp_all add: wf_message_def)
  have pad0: "?n = 0 \<Longrightarrow> replicate 28 0 = payload m" using pad by simp
  show ?thesis
    using assms pad0 pad pd_header_cnt_le_bound [of "header m"] rx_sop_request [OF assms(2)]
    unfolding rx_message_def regmap_bulk_read_def regmap_read_def Let_def
    by (simp add: first_value_def comp_def l28)
qed

lemma receive_delivers:
  assumes "result (regmap_bulk_read SM5714_REG_RX_HEADER 2) w = Inr (header_bytes (header m))"
    and "result (rx_message (header m)) (exec (regmap_bulk_read SM5714_REG_RX_HEADER 2) w) = Some (m, t)"
    and "delivered (hist (exec (rx_message (header m)) (exec (regmap_bulk_read SM5714_REG_RX_HEADER 2) w)))
      = delivered (hist w)"
  shows "wp sm5714_usbpd_receive (\<lambda>_ w'. delivered (hist w') = (m, t) # delivered (hist w)) w"
  unfolding sm5714_usbpd_receive_def wp_bind [of "regmap_bulk_read SM5714_REG_RX_HEADER 2"]
    wp_def [of "regmap_bulk_read SM5714_REG_RX_HEADER 2"] assms(1) sum.case header_roundtrip
    wp_bind [of "rx_message (header m)"] wp_def [of "rx_message (header m)"] assms(2) option.case
    prod.case tell_def regmap_write_def
  by (intro wp_intros wp_mono [OF note_pr_swap_delivers]) (simp add: assms(3))

text \<open>
  C12. Over a chip that loops messages back, what \<open>sm5714_usbpd_transmit\<close> sends is exactly what
  \<open>sm5714_usbpd_receive\<close> hands to TCPM: header, payload and SOP type, once.
\<close>

theorem message_roundtrip:
  assumes "env w = loopback" and "tx_request t \<noteq> None" and "wf_message m"
  shows "delivered (hist (exec sm5714_usbpd_receive (exec (sm5714_usbpd_transmit t m) w))) =
    (m, t) # delivered (hist w)"
proof -
  obtain req where req: "tx_request t = Some req" using assms(2) by blast
  define w1 where "w1 = exec (sm5714_usbpd_transmit t m) w"
  note tx = transmit_loads [OF assms(1) req assms(3), unfolded Let_def w1_def [symmetric]]
  let ?w2 = "exec (regmap_bulk_read SM5714_REG_RX_HEADER 2) w1"
  have hdr: "result (regmap_bulk_read SM5714_REG_RX_HEADER 2) w1 = Inr (header_bytes (header m))"
    and w2: "?w2 = w1\<lparr>hist := (RegmapBulkRead SM5714_REG_RX_HEADER 2,
      (0, map uint (header_bytes (header m)))) # hist w1\<rparr>"
    using tx by (simp_all add: regmap_bulk_read_def header_bytes_def)
  have rx: "result (rx_message (header m)) ?w2 = Some (m, t) \<and>
      delivered (hist (exec (rx_message (header m)) ?w2)) = delivered (hist ?w2)"
    by (rule rx_message_loopback [OF _ req assms(3)]) (use tx in \<open>simp_all add: w2\<close>)
  then have "delivered (hist (exec sm5714_usbpd_receive w1)) = (m, t) # delivered (hist w1)"
    using receive_delivers [OF hdr, of t] by (simp add: w2 wp_def)
  with tx show ?thesis by (simp add: w1_def)
qed

theorem message_roundtrip_witness:
  "delivered (hist (exec sm5714_usbpd_receive (exec (sm5714_usbpd_transmit TCPC_TX_SOP_PRIME
     \<lparr>header = 0x1042, payload = [0x2c, 0x91, 0x01, 0x0a] @ replicate 24 0\<rparr>)
     (demo\<lparr>env := loopback\<rparr>)))) =
   [(\<lparr>header = 0x1042, payload = [0x2c, 0x91, 0x01, 0x0a] @ replicate 24 0\<rparr>, TCPC_TX_SOP_PRIME)]"
proof -
  let ?m = "\<lparr>header = 0x1042, payload = [0x2c, 0x91, 0x01, 0x0a] @ replicate 24 0\<rparr> :: pd_message"
  have "wf_message ?m" by code_simp
  then show ?thesis
    using message_roundtrip [of "demo\<lparr>env := loopback\<rparr>" TCPC_TX_SOP_PRIME ?m] by (simp add: demo_def)
qed

text \<open>
  A receive interrupt either fails to read the header and touches nothing else, or ends by
  releasing the receive buffer after handing at most one message of full length to TCPM.
\<close>

lemma receive_acknowledges:
  "wp sm5714_usbpd_receive
    (\<lambda>_ w'. (\<exists>a. hist w' = (RegmapBulkRead SM5714_REG_RX_HEADER 2, a) # hist w \<and> fst a < 0) \<or>
       (\<exists>a h. hist w' = (RegmapWrite SM5714_REG_RX_BUF 0x80, a) # h \<and>
          (delivered h = delivered (hist w) \<or>
           (\<exists>m t. delivered h = (m, t) # delivered (hist w) \<and> length (payload m) = 28)))) w"
proof -
  have msg: "wp (rx_message hdr) (\<lambda>r w'. delivered (hist w') = delivered (hist w0) \<and>
      (\<forall>m t. r = Some (m, t) \<longrightarrow> length (payload m) = 28)) w0" for hdr w0
    unfolding rx_message_def regmap_bulk_read_def regmap_read_def
    by (intro wp_intros) (auto split: option.splits if_splits)
  show ?thesis
    unfolding sm5714_usbpd_receive_def regmap_bulk_read_def tell_def regmap_write_def
    by (intro wp_intros wp_mono [OF msg] wp_mono [OF note_pr_swap_delivers]) (auto split: if_splits)
qed


subsection \<open>The CC pins\<close>

text \<open>A pin that carries Rp or Rd.\<close>

definition driven :: "typec_cc_status \<Rightarrow> bool" where
  "driven s = (s \<notin> {TYPEC_CC_OPEN, TYPEC_CC_RA})"

lemma flip_keeps:
  "(cc XOR 0x20) AND 7 = cc AND (7 :: u32)" "(cc XOR 0x20) AND 0x18 = cc AND (0x18 :: u32)"
  "(cc XOR 0x20) AND 0x40 = cc AND (0x40 :: u32)"
  "((cc XOR 0x20) AND 0x20 = (0 :: u32)) = (cc AND 0x20 \<noteq> 0)"
proof -
  show "(cc XOR 0x20) AND 7 = cc AND (7 :: u32)" "(cc XOR 0x20) AND 0x18 = cc AND (0x18 :: u32)"
    "(cc XOR 0x20) AND 0x40 = cc AND (0x40 :: u32)"
    by (simp_all add: bit.conj_xor_distrib2)
  have "bit (0x20 :: u32) 5" by code_simp
  then show "((cc XOR 0x20) AND 0x20 = (0 :: u32)) = (cc AND 0x20 \<noteq> 0)"
    using and_exp_eq_0_iff_not_bit [of cc 5] and_exp_eq_0_iff_not_bit [of "cc XOR 0x20" 5]
    by (simp add: bit_xor_iff)
qed

text \<open>
  The pins reported to TCPM: the orientation bit swaps them and changes nothing else, never do
  both carry Rp or Rd, and Rd is reported only for an attached sink.
\<close>

lemma decode_cc_orientation:
  "decode_cc (cc XOR SM5714_CC_FLIPPED) = prod.swap (decode_cc cc) \<and>
   \<not> (driven (fst (decode_cc cc)) \<and> driven (snd (decode_cc cc))) \<and>
   (fst (decode_cc cc) = TYPEC_CC_RD \<longrightarrow> cc AND SM5714_CC_ATTACH_MASK = SM5714_CC_ATTACH_SINK) "
  unfolding decode_cc_def Let_def sm5714_usbpd_rp_status_def driven_def flip_keeps
  by (auto simp: flip_keeps)

text \<open>
  Setting the roles changes bits 0 and 1 of the control register to the requested data and power
  role and no other bit.
\<close>

lemma role_bits_exact:
  "role_bits role data v AND NOT 3 = v AND NOT 3 \<and>
   (bit (role_bits role data v) 1 \<longleftrightarrow> role = TYPEC_SOURCE) \<and>
   (bit (role_bits role data v) 0 \<longleftrightarrow> data = TYPEC_HOST)"
proof -
  have b: "bit (2 :: u32) 1" "\<not> bit (2 :: u32) 0" "bit (1 :: u32) 0" "\<not> bit (1 :: u32) 1"
    by code_simp+
  have "role_bits role data v AND NOT 3 = v AND NOT 3"
    by (cases role; cases data) (simp_all add: role_bits_def bit.conj_disj_distrib2 and.assoc)
  moreover have "bit (role_bits role data v) 1 \<longleftrightarrow> role = TYPEC_SOURCE"
    and "bit (role_bits role data v) 0 \<longleftrightarrow> data = TYPEC_HOST"
    unfolding role_bits_def Let_def using b
    by (cases role; cases data; simp only: bit_or_iff bit_and_iff bit_not_iff; simp)+
  ultimately show ?thesis by blast
qed

text \<open>What the chip answers when it is asked for its CC status now.\<close>

definition cc_status :: "board_world \<Rightarrow> answer" where
  "cc_status w = env w (hist w) (RegmapRead SM5714_REG_CC_STATUS)"

definition attach_of :: "answer \<Rightarrow> u32" where
  "attach_of a = word_of_int (first_value (snd a) mod 256) AND SM5714_CC_ATTACH_MASK"

text \<open>
  A natural attachment is never forced: with a source attached, a request for Rd only reads the
  status; with a sink attached, a request for any Rp only selects the default Rp in place. The
  control registers that would detach the partner are not written.
\<close>

lemma set_cc_respects_attachment:
  assumes "0 \<le> fst (cc_status w)"
  shows "(attach_of (cc_status w) = SM5714_CC_ATTACH_SOURCE \<longrightarrow>
      run_state (sm5714_usbpd_set_cc TYPEC_CC_RD) w =
        (0, w\<lparr>hist := (RegmapRead SM5714_REG_CC_STATUS, cc_status w) # hist w\<rparr>)) \<and>
    (attach_of (cc_status w) = SM5714_CC_ATTACH_SINK \<and>
       rp \<in> {TYPEC_CC_RP_DEF, TYPEC_CC_RP_1_5, TYPEC_CC_RP_3_0} \<longrightarrow>
      map fst (hist (exec (sm5714_usbpd_set_cc rp) w)) =
        RegmapUpdateBits SM5714_REG_CC_CNTL1 0x30 0 # RegmapRead SM5714_REG_CC_STATUS # map fst (hist w))"
  using assms
  by (auto simp: sm5714_usbpd_set_cc_def set_cc_rd_def set_cc_rp_def regmap_read_def
        regmap_update_bits_def cc_status_def attach_of_def)

subsection \<open>VBUS and the retained dock\<close>

text \<open>
  Sourcing VBUS: success means the boost is in the requested state, and a failed attempt to
  switch it on ends with the OTG-detect line pulled low again.
\<close>

lemma set_vbus_outcome:
  "wp (sm5714_usbpd_set_vbus on)
    (\<lambda>r w'. (r = 0 \<longrightarrow> otg_active (battery (dev w')) = on) \<and>
       (on \<and> r \<noteq> 0 \<and> otg_det_gpio (usbpd (dev w')) \<longrightarrow> fst (hd (hist w')) = SetOtgDet False)) w"
  unfolding sm5714_usbpd_set_vbus_def switch_vbus_def sm5714_usbpd_set_cc_hold_def tell_def
    schedule_delayed_work_def cancel_delayed_work_def regmap_update_bits_def
  by (intro wp_intros wp_mono [OF set_otg_records]) auto

lemma put_fwnode_returns: "wp (put_fwnode ret) (\<lambda>r _. r = ret) w"
  unfolding put_fwnode_def tell_def by (intro wp_intros) simp

lemma reset_dock_clears:
  "wp reset_retained_dock (\<lambda>r w'. r = 0 \<longrightarrow> \<not> retained_sink_dfp (usbpd (dev w')) \<and>
     retained_dock_reset (usbpd (dev w'))) w"
  unfolding reset_retained_dock_def regmap_write_def by (intro wp_intros) simp_all

text \<open>
  When the probe gets as far as registering the port, the retained-dock flag is clear again:
  the dock was reset by a CC detach. \<open>sm5714_usbpd_consume_retained_sink_dfp\<close> therefore never reports
  a retained role to TCPM.
\<close>

lemma probe_resets_dock:
  "wp sm5714_usbpd_probe_early
    (\<lambda>r w'. r = 0 \<longrightarrow> \<not> retained_sink_dfp (usbpd (dev w'))) w"
  unfolding sm5714_usbpd_probe_early_def devm_def regmap_read_def
  by (intro wp_intros wp_mono [OF put_fwnode_returns] wp_mono [OF reset_dock_clears])
     (simp_all split: if_splits)

end
