(* ===== verification/Ese_Data.thy ===== *)
theory Ese_Data
  imports Prelude
begin

text \<open>
  The secure element's packet store (\<open>kernel/files/snvm/protocol/ese_data.c\<close>) and its transport
  (\<open>snvm/hal/ese_hal.c\<close>), with the calls they make: the I2C or SPI transfer, the delay and the
  allocator. The linked list below a head node is the list of its packets. An access outside an
  object is an event of its own, \<open>OutOfBounds\<close>: from there on the C program's behaviour is not
  defined, and a theorem that no such event occurs is a memory-safety theorem.
\<close>

subsection \<open>Status codes and calls\<close>

text \<open>
  The calls of the whole secure-element driver: the transfer, the delay and the allocator used by the
  protocol, and those of the character device and the board code (\<open>Ese_Star\<close>): power, pins, user
  memory, and the objects of the device model it acquires and releases.
\<close>

datatype ESE_STATUS =
  ESESTATUS_SUCCESS | ESESTATUS_FAILED | ESESTATUS_NOT_INITIALISED | ESESTATUS_ALREADY_INITIALISED
| ESESTATUS_INVALID_PARAMETER | ESESTATUS_INVALID_DEVICE | ESESTATUS_INVALID_STATE
| ESESTATUS_FEATURE_NOT_SUPPORTED | ESESTATUS_INVALID_BUFFER | ESESTATUS_NOT_ENOUGH_MEMORY
| ESESTATUS_MEMORY_ALLOCATION_FAIL | ESESTATUS_INVALID_CLA | ESESTATUS_INVALID_CPDU_TYPE
| ESESTATUS_INVALID_LE_TYPE | ESESTATUS_INVALID_FORMAT | ESESTATUS_INVALID_FRAME
| ESESTATUS_SEND_FAILED | ESESTATUS_RECEIVE_FAILED | ESESTATUS_RESPONSE_TIMEOUT
| ESESTATUS_INVALID_SEND_LENGTH | ESESTATUS_INVALID_RECEIVE_LENGTH

datatype bus_resource =
  Node | Changeset | Applied_Changeset | Device_Ref | Platform_Device | Adapter_Ref | Compat_Client
| Driver | Provider_Node

datatype setup_call =
  Alloc_Hal | Alloc_Star | Get_Vdd | Read_Reset_Gpio | Request_Gpio | Gpio_Output | Free_Gpio | Get_Pinctrl
| Lookup_On | Lookup_Off | Changeset_Update

datatype ese_event =
  HalSend "u8 list"
| HalReceive nat
| Udelay u32
| Malloc nat
| OutOfBounds
| Msleep nat
| RpmhWrite "(u32 \<times> u32) list"
| Regulator bool
| Pinctrl bool
| Gpio_Reset bool
| CopyFromUser nat
| CopyToUser "u8 list"
| Misc bool
| Acquire bus_resource
| Release bus_resource
| Compatible_Nodes
| Cmd_Db
| Has_Driver
| Setup setup_call

type_synonym ese_answer = "int \<times> u8 list"
type_synonym ese_history = "(ese_event \<times> ese_answer) list"
type_synonym ('d, 'a) ese_io = "(('d, ese_event, ese_answer) world, 'a) state"

text \<open>\<open>ESE_MALLOC\<close>: whether the allocation succeeded.\<close>

definition ese_malloc :: "nat \<Rightarrow> ('d, bool) ese_io" where
  "ese_malloc n = do { a \<leftarrow> call (Malloc n); return (0 \<le> fst a) }"

definition PROTOCOL_UDELAY :: "u32 \<Rightarrow> ('d, unit) ese_io" where
  "PROTOCOL_UDELAY us = do { _ \<leftarrow> call (Udelay us); return () }"

text \<open>\<open>memcpy\<close> of \<open>n\<close> bytes from a pointer with the bytes \<open>src\<close> behind it.\<close>

definition read_bytes :: "u8 list \<Rightarrow> nat \<Rightarrow> ('d, u8 list) ese_io" where
  "read_bytes src n =
    (if n \<le> length src then return (take n src)
     else do { _ \<leftarrow> call OutOfBounds; return src })"

text \<open>Reading the byte at an index.\<close>

definition peek :: "u8 list \<Rightarrow> nat \<Rightarrow> ('d, u8) ese_io" where
  "peek buf n =
    (if n < length buf then return (buf ! n) else do { _ \<leftarrow> call OutOfBounds; return 0 })"

subsection \<open>The transport\<close>

text \<open>
  \<open>valid\<close>: the context, its client and its two functions are set. The transfer functions return a
  negative errno or the size. A failed receive may have delivered some bytes.
\<close>

definition ese_hal_send :: "bool \<Rightarrow> u8 list \<Rightarrow> ('d, int) ese_io" where
  "ese_hal_send valid buf =
    (if \<not> valid \<or> buf = [] then return (- EINVAL)
     else do {
       a \<leftarrow> call (HalSend buf);
       return (if fst a < 0 then fst a else int (length buf))
     })"

definition ese_hal_receive :: "bool \<Rightarrow> nat \<Rightarrow> ('d, int \<times> u8 list) ese_io" where
  "ese_hal_receive valid n =
    (if \<not> valid \<or> n = 0 then return (- EINVAL, [])
     else do {
       a \<leftarrow> call (HalReceive n);
       return (if fst a < 0 then (fst a, take n (snd a))
               else (int n, take n (snd a @ replicate n 0)))
     })"

subsection \<open>The packet list\<close>

record data_list =
  packets :: "u8 list list"
  head_size :: u32

definition ese_data_init :: data_list where
  "ese_data_init = \<lparr>packets = [], head_size = 0\<rparr>"

definition ese_data_delete :: "data_list \<Rightarrow> data_list" where
  "ese_data_delete head = \<lparr>packets = [], head_size = 0\<rparr>"

text \<open>
  \<open>ese_data_store\<close>: \<open>src\<close> are the bytes behind the data pointer. Without \<open>copy\<close> the node keeps the
  pointer; the bytes behind it are the caller's and do not change before they are collected.
\<close>

definition ese_data_store ::
  "data_list \<Rightarrow> u8 list \<Rightarrow> u32 \<Rightarrow> bool \<Rightarrow> ('d, ESE_STATUS \<times> data_list) ese_io" where
  "ese_data_store head src data_size copy = do {
     node \<leftarrow> ese_malloc 24;
     if \<not> node then return (ESESTATUS_MEMORY_ALLOCATION_FAIL, head)
     else do {
       room \<leftarrow> (if copy then ese_malloc (unat data_size) else return True);
       if \<not> room then return (ESESTATUS_MEMORY_ALLOCATION_FAIL, head)
       else do {
         bytes \<leftarrow> read_bytes src (unat data_size);
         return (ESESTATUS_SUCCESS,
           head\<lparr>packets := packets head @ [bytes], head_size := head_size head + data_size\<rparr>)
       }
     }
   }"

text \<open>\<open>_ese_data_get_from_list\<close> into a buffer of \<open>room\<close> bytes: the bytes and their 32-bit count.\<close>

definition ese_data_get_from_list :: "data_list \<Rightarrow> nat \<Rightarrow> ('d, u8 list \<times> u32) ese_io" where
  "ese_data_get_from_list head room = do {
     let bytes = concat (packets head);
     (if length bytes \<le> room then return () else do { _ \<leftarrow> call OutOfBounds; return () });
     return (bytes, of_nat (length bytes))
   }"

text \<open>
  \<open>ese_data_get\<close>: \<open>want\<close> says that both result pointers are given. The bytes it delivers through
  them, or \<open>None\<close> where it leaves them alone.
\<close>

definition ese_data_get ::
  "data_list \<Rightarrow> bool \<Rightarrow> ('d, ESE_STATUS \<times> u8 list option \<times> data_list) ese_io" where
  "ese_data_get head want =
    (if want then
       if head_size head = 0 then return (ESESTATUS_INVALID_BUFFER, Some [], head)
       else do {
         room \<leftarrow> ese_malloc (unat (head_size head));
         if \<not> room then return (ESESTATUS_MEMORY_ALLOCATION_FAIL, None, ese_data_delete head)
         else do {
           (bytes, total_size) \<leftarrow> ese_data_get_from_list head (unat (head_size head));
           if total_size \<noteq> head_size head
           then return (ESESTATUS_INVALID_BUFFER, None, ese_data_delete head)
           else return (ESESTATUS_SUCCESS, Some bytes, ese_data_delete head)
         }
       }
     else return (ESESTATUS_SUCCESS, None, ese_data_delete head))"

subsection \<open>Rules for the calls\<close>

lemma wp_ese_mallocI [wp_intros]:
  "(\<And>a. Q (0 \<le> fst a) (w\<lparr>hist := (Malloc n, a) # hist w\<rparr>)) \<Longrightarrow> wp (ese_malloc n) Q w"
  unfolding ese_malloc_def by (intro wp_intros)

lemma wp_udelayI [wp_intros]:
  "(\<And>a. Q () (w\<lparr>hist := (Udelay us, a) # hist w\<rparr>)) \<Longrightarrow> wp (PROTOCOL_UDELAY us) Q w"
  unfolding PROTOCOL_UDELAY_def by (intro wp_intros)

lemma wp_read_bytesI [wp_intros]:
  "(n \<le> length src \<Longrightarrow> Q (take n src) w) \<Longrightarrow>
   (\<And>a. \<not> n \<le> length src \<Longrightarrow> Q src (w\<lparr>hist := (OutOfBounds, a) # hist w\<rparr>)) \<Longrightarrow>
   wp (read_bytes src n) Q w"
  unfolding read_bytes_def by (intro wp_intros)

lemma wp_hal_sendI [wp_intros]:
  "(\<not> valid \<or> buf = [] \<Longrightarrow> Q (- EINVAL) w) \<Longrightarrow>
   (\<And>a. valid \<Longrightarrow> buf \<noteq> [] \<Longrightarrow>
      Q (if fst a < 0 then fst a else int (length buf)) (w\<lparr>hist := (HalSend buf, a) # hist w\<rparr>)) \<Longrightarrow>
   wp (ese_hal_send valid buf) Q w"
  unfolding ese_hal_send_def by (intro wp_intros) auto

lemma wp_hal_receiveI [wp_intros]:
  "(\<not> valid \<or> n = 0 \<Longrightarrow> Q (- EINVAL, []) w) \<Longrightarrow>
   (\<And>a. valid \<Longrightarrow> 0 < n \<Longrightarrow> fst a < 0 \<Longrightarrow>
      Q (fst a, take n (snd a)) (w\<lparr>hist := (HalReceive n, a) # hist w\<rparr>)) \<Longrightarrow>
   (\<And>a. valid \<Longrightarrow> 0 < n \<Longrightarrow> 0 \<le> fst a \<Longrightarrow>
      Q (int n, take n (snd a @ replicate n 0)) (w\<lparr>hist := (HalReceive n, a) # hist w\<rparr>)) \<Longrightarrow>
   wp (ese_hal_receive valid n) Q w"
  unfolding ese_hal_receive_def by (intro wp_intros) auto

end
