(* ===== verification/Ese_T1.thy ===== *)
theory Ese_T1
  imports Ese_Data
begin

text \<open>
  The ISO 7816-3 T=1 protocol to the secure element
  (\<open>kernel/files/snvm/protocol/ese_iso7816_t1.c\<close> and \<open>.h\<close>): blocks with a checksum, chaining,
  acknowledgements and the recovery counters, function by function. The element at the other end of
  the transport is the environment.
\<close>

subsection \<open>Data\<close>

text \<open>The enums of the header; \<open>SFRAME_INVALID_REQ_RES\<close>, which no code uses, is left out.\<close>

datatype sframe_type =
  SFRAME_RESYNCH_REQ | SFRAME_RESYNCH_RSP | SFRAME_IFSC_REQ | SFRAME_IFSC_RES
| SFRAME_ABORT_REQ | SFRAME_ABORT_RES | SFRAME_WTX_REQ | SFRAME_WTX_RSP

fun sframe_code :: "sframe_type \<Rightarrow> u8" where
  "sframe_code SFRAME_RESYNCH_REQ = 0x00"
| "sframe_code SFRAME_RESYNCH_RSP = 0x20"
| "sframe_code SFRAME_IFSC_REQ = 0x01"
| "sframe_code SFRAME_IFSC_RES = 0x21"
| "sframe_code SFRAME_ABORT_REQ = 0x02"
| "sframe_code SFRAME_ABORT_RES = 0x22"
| "sframe_code SFRAME_WTX_REQ = 0x03"
| "sframe_code SFRAME_WTX_RSP = 0x23"

datatype rframe_error =
  RFRAME_ERROR_NO | RFRAME_ERROR_PARITY | RFRAME_ERROR_OTHER | RFRAME_ERROR_SOF_MISSED
| RFRAME_ERROR_UNDEFINED

fun rframe_code :: "rframe_error \<Rightarrow> u8" where
  "rframe_code RFRAME_ERROR_NO = 0"
| "rframe_code RFRAME_ERROR_PARITY = 1"
| "rframe_code RFRAME_ERROR_OTHER = 2"
| "rframe_code RFRAME_ERROR_SOF_MISSED = 3"
| "rframe_code RFRAME_ERROR_UNDEFINED = 4"

datatype frame_type = FRAME_IFRAME | FRAME_SFRAME | FRAME_RFRAME | FRAME_INVALID | FRAME_UNKNOWN

record iframe_info =
  i_data :: "u8 list option"
  i_offset :: u32
  i_total_size :: u32
  i_send_size :: u32
  i_chain :: u8
  i_seq_no :: u8

record sframe_info =
  s_data :: "u8 list option"
  s_send_size :: u32
  s_type :: sframe_type

record rframe_info =
  r_seq_no :: u8
  r_error :: rframe_error

record frame_info =
  iframe :: iframe_info
  rframe :: rframe_info
  sframe :: sframe_info
  f_type :: frame_type

datatype state_t = STATE_IDLE | STATE_SEND_IFRAME | STATE_SEND_RFRAME | STATE_SEND_SFRAME

text \<open>The 260 bytes of \<open>proc_buf\<close>; the empty list is the null pointer. \<open>hal\<close>: the transport is set up.\<close>

record iso7816_t1 =
  last_tx :: frame_info
  next_tx :: frame_info
  last_rx :: frame_info
  recv_data :: data_list
  proc_buf :: "u8 list"
  cur_buf :: "u8 list option"
  cur_size :: u32
  wtx_counter :: u32
  timeout_counter :: u32
  rnack_counter :: u32
  recovery_counter :: u32
  last_frame :: frame_type
  t1_state :: state_t
  send_address :: u8
  receive_address :: u8
  hal :: bool

abbreviation (input) PROTOCOL_SEND_SIZE :: u32 where "PROTOCOL_SEND_SIZE \<equiv> 254"
abbreviation (input) PROTOCOL_CHAINING :: u8 where "PROTOCOL_CHAINING \<equiv> 0x20"
abbreviation (input) PROTOCOL_S_BLOCK_REQ :: u8 where "PROTOCOL_S_BLOCK_REQ \<equiv> 0xC0"
abbreviation (input) PROTOCOL_S_BLOCK_RSP :: u8 where "PROTOCOL_S_BLOCK_RSP \<equiv> 0xE0"
abbreviation (input) PROTOCOL_FRAME_RETRY_COUNT :: u32 where "PROTOCOL_FRAME_RETRY_COUNT \<equiv> 3"
abbreviation (input) PROTOCOL_MAX_RNACK_RETRY_LIMIT :: u32 where "PROTOCOL_MAX_RNACK_RETRY_LIMIT \<equiv> 2"
abbreviation (input) PROTOCOL_TIMEOUT_RETRY_COUNT :: u32 where "PROTOCOL_TIMEOUT_RETRY_COUNT \<equiv> 3"
abbreviation (input) PROTOCOL_ADDRESS_POLLING_COUNT :: nat where "PROTOCOL_ADDRESS_POLLING_COUNT \<equiv> 100"

type_synonym t1_world = "(iso7816_t1, ese_event, ese_answer) world"
type_synonym 'a t1 = "(t1_world, 'a) state"

abbreviation upd_next :: "(frame_info \<Rightarrow> frame_info) \<Rightarrow> iso7816_t1 \<Rightarrow> iso7816_t1" where
  "upd_next f p \<equiv> p\<lparr>next_tx := f (next_tx p)\<rparr>"

abbreviation upd_last_rx :: "(frame_info \<Rightarrow> frame_info) \<Rightarrow> iso7816_t1 \<Rightarrow> iso7816_t1" where
  "upd_last_rx f p \<equiv> p\<lparr>last_rx := f (last_rx p)\<rparr>"

definition ESE_BIT :: "u8 \<Rightarrow> nat \<Rightarrow> u8" where
  "ESE_BIT v n = drop_bit n v AND 1"

subsection \<open>The checksum\<close>

definition iso7816_t1_compute_lrc :: "u8 list \<Rightarrow> nat \<Rightarrow> nat \<Rightarrow> u8" where
  "iso7816_t1_compute_lrc data offset n = foldl (XOR) 0 (take n (drop offset data))"

definition iso7816_t1_check_lrc :: "u8 list \<Rightarrow> nat \<Rightarrow> ESE_STATUS" where
  "iso7816_t1_check_lrc data data_size =
    (if data ! (data_size - 1) \<noteq> iso7816_t1_compute_lrc data 0 (data_size - 1)
     then ESESTATUS_FAILED else ESESTATUS_SUCCESS)"

subsection \<open>The next block\<close>

definition iso7816_t1_reset_params :: "iso7816_t1 \<Rightarrow> iso7816_t1" where
  "iso7816_t1_reset_params p =
    p\<lparr>t1_state := STATE_IDLE,
      last_rx := (last_rx p)\<lparr>f_type := FRAME_INVALID,
        iframe := (iframe (last_rx p))\<lparr>i_seq_no := 1\<rparr>\<rparr>,
      next_tx := (next_tx p)\<lparr>f_type := FRAME_INVALID,
        iframe := (iframe (next_tx p))\<lparr>i_data := None, i_seq_no := 1\<rparr>,
        sframe := (sframe (next_tx p))\<lparr>s_data := None, s_send_size := 0\<rparr>\<rparr>,
      last_tx := (last_tx p)\<lparr>f_type := FRAME_INVALID,
        iframe := (iframe (last_tx p))\<lparr>i_data := None, i_seq_no := 1\<rparr>\<rparr>,
      recovery_counter := 0, timeout_counter := 0, wtx_counter := 0,
      last_frame := FRAME_UNKNOWN, rnack_counter := 0\<rparr>"

definition iso7816_t1_set_iframe :: "iso7816_t1 \<Rightarrow> iso7816_t1" where
  "iso7816_t1_set_iframe p =
    (let i = iframe (next_tx p);
         i = i\<lparr>i_offset := 0, i_seq_no := i_seq_no (iframe (last_tx p)) XOR 1\<rparr>;
         i = (if i_total_size i > PROTOCOL_SEND_SIZE
              then i\<lparr>i_chain := 1, i_send_size := PROTOCOL_SEND_SIZE,
                     i_total_size := i_total_size i - PROTOCOL_SEND_SIZE\<rparr>
              else i\<lparr>i_send_size := i_total_size i, i_chain := 0\<rparr>)
     in p\<lparr>next_tx := (next_tx p)\<lparr>f_type := FRAME_IFRAME, iframe := i\<rparr>, t1_state := STATE_SEND_IFRAME\<rparr>)"

definition iso7816_t1_next_iframe :: "iso7816_t1 \<Rightarrow> iso7816_t1" where
  "iso7816_t1_next_iframe p =
    (let last = iframe (last_tx p);
         i = (iframe (next_tx p))\<lparr>i_seq_no := i_seq_no last XOR 1,
               i_offset := i_offset last + PROTOCOL_SEND_SIZE, i_data := i_data last\<rparr>;
         i = (if i_total_size last > PROTOCOL_SEND_SIZE
              then i\<lparr>i_chain := 1, i_send_size := PROTOCOL_SEND_SIZE,
                     i_total_size := i_total_size last - PROTOCOL_SEND_SIZE\<rparr>
              else i\<lparr>i_chain := 0, i_send_size := i_total_size last\<rparr>)
     in p\<lparr>next_tx := (next_tx p)\<lparr>f_type := FRAME_IFRAME, iframe := i\<rparr>, t1_state := STATE_SEND_IFRAME\<rparr>)"

definition iso7816_t1_finish_recovery :: "iso7816_t1 \<Rightarrow> iso7816_t1" where
  "iso7816_t1_finish_recovery p = p\<lparr>t1_state := STATE_IDLE, recovery_counter := 0\<rparr>"

text \<open>\<open>memcpy(&next_tx, &last_tx, sizeof(frame_info_t))\<close> and the other direction.\<close>

definition retransmit :: "iso7816_t1 \<Rightarrow> iso7816_t1" where
  "retransmit p = p\<lparr>next_tx := last_tx p\<rparr>"

definition remember_tx :: "iso7816_t1 \<Rightarrow> iso7816_t1" where
  "remember_tx p = p\<lparr>last_tx := next_tx p\<rparr>"

subsection \<open>Sending\<close>

text \<open>The bytes of a block: the three header bytes, the information field and the checksum.\<close>

definition with_lrc :: "u8 list \<Rightarrow> u8 list" where
  "with_lrc bs = bs @ [iso7816_t1_compute_lrc bs 0 (length bs)]"

definition hal_send_frame :: "u8 list \<Rightarrow> ESE_STATUS t1" where
  "hal_send_frame buf = do {
     valid \<leftarrow> gets hal;
     ret \<leftarrow> ese_hal_send valid buf;
     return (if ret \<noteq> int (length buf) then ESESTATUS_SEND_FAILED else ESESTATUS_SUCCESS)
   }"

text \<open>
  \<open>iso7816_t1_send_sframe\<close>. The types are requests without bit 5 and responses with it; the source's
  third branch (neither) cannot be reached.
\<close>

definition sframe_pcb :: "sframe_type \<Rightarrow> u8" where
  "sframe_pcb ty =
    (let code = sframe_code ty
     in if code AND 0x20 = 0 then PROTOCOL_S_BLOCK_REQ OR code
        else PROTOCOL_S_BLOCK_RSP OR (code AND 0x0F))"

definition iso7816_t1_send_sframe :: "ESE_STATUS t1" where
  "iso7816_t1_send_sframe = do {
     modify (\<lambda>p. p\<lparr>last_frame := FRAME_SFRAME\<rparr>);
     s \<leftarrow> gets (\<lambda>p. sframe (next_tx p));
     inf \<leftarrow> (case s_data s of
               Some bytes \<Rightarrow>
                 if s_send_size s > 0 then do {
                   let n = (if s_send_size s > 4 then 4 else s_send_size s);
                   bs \<leftarrow> read_bytes bytes (unat n);
                   modify (upd_next (\<lambda>f. f\<lparr>sframe := (sframe f)\<lparr>s_send_size := 0\<rparr>\<rparr>));
                   return bs
                 } else return []
             | None \<Rightarrow> return []);
     addr \<leftarrow> gets send_address;
     hal_send_frame (with_lrc ([addr, sframe_pcb (s_type s), of_nat (length inf)] @ inf))
   }"

definition iso7816_t1_send_rframe :: "ESE_STATUS t1" where
  "iso7816_t1_send_rframe = do {
     e \<leftarrow> gets (\<lambda>p. r_error (rframe (next_tx p)));
     (if e \<noteq> RFRAME_ERROR_NO then return () else modify (\<lambda>p. p\<lparr>last_frame := FRAME_RFRAME\<rparr>));
     addr \<leftarrow> gets send_address;
     seq \<leftarrow> gets (\<lambda>p. i_seq_no (iframe (last_rx p)));
     hal_send_frame (with_lrc [addr, 0x80 OR rframe_code e OR push_bit 4 (seq XOR 1), 0])
   }"

definition iso7816_t1_send_iframe :: "ESE_STATUS t1" where
  "iso7816_t1_send_iframe = do {
     buf \<leftarrow> gets proc_buf;
     i \<leftarrow> gets (\<lambda>p. iframe (next_tx p));
     if buf = [] then return ESESTATUS_NOT_ENOUGH_MEMORY
     else if i_send_size i = 0 then return ESESTATUS_INVALID_SEND_LENGTH
     else (case i_data i of
       None \<Rightarrow> return ESESTATUS_NOT_ENOUGH_MEMORY
     | Some data \<Rightarrow> do {
         modify (\<lambda>p. p\<lparr>last_frame := FRAME_IFRAME\<rparr>);
         addr \<leftarrow> gets send_address;
         let pcb = (if i_chain i \<noteq> 0 then PROTOCOL_CHAINING else 0) OR push_bit 6 (i_seq_no i);
         bytes \<leftarrow> read_bytes (drop (unat (i_offset i)) data) (unat (i_send_size i));
         let frame = with_lrc ([addr, pcb, ucast (i_send_size i)] @ bytes);
         (if length frame \<le> length buf then return () else do { _ \<leftarrow> call OutOfBounds; return () });
         modify (\<lambda>p. p\<lparr>proc_buf := frame @ drop (length frame) (proc_buf p)\<rparr>);
         hal_send_frame frame
       })
   }"

definition iso7816_t1_send :: "u8 list option \<Rightarrow> ESE_STATUS t1" where
  "iso7816_t1_send data = do {
     st \<leftarrow> gets t1_state;
     (case data of
        Some bytes \<Rightarrow>
          if st = STATE_IDLE then do {
            modify (upd_next (\<lambda>f. f\<lparr>iframe := (iframe f)\<lparr>i_data := Some bytes,
                      i_total_size := of_nat (length bytes)\<rparr>\<rparr>));
            modify iso7816_t1_set_iframe
          } else return ()
      | None \<Rightarrow> return ());
     modify remember_tx;
     st \<leftarrow> gets t1_state;
     (case st of
        STATE_SEND_IFRAME \<Rightarrow> iso7816_t1_send_iframe
      | STATE_SEND_RFRAME \<Rightarrow> iso7816_t1_send_rframe
      | STATE_SEND_SFRAME \<Rightarrow> iso7816_t1_send_sframe
      | STATE_IDLE \<Rightarrow> do { modify (\<lambda>p. p\<lparr>t1_state := STATE_IDLE\<rparr>); return ESESTATUS_FAILED })
   }"

subsection \<open>Decoding a received block\<close>

text \<open>The three parts of \<open>iso7816_t1_decode_frame\<close>. First, an information block.\<close>

definition request_rframe :: "rframe_error \<Rightarrow> iso7816_t1 \<Rightarrow> iso7816_t1" where
  "request_rframe e p =
     p\<lparr>next_tx := (next_tx p)\<lparr>f_type := FRAME_RFRAME, rframe := (rframe (next_tx p))\<lparr>r_error := e\<rparr>\<rparr>,
       t1_state := STATE_SEND_RFRAME\<rparr>"

definition accept_iframe :: "u8 \<Rightarrow> iso7816_t1 \<Rightarrow> iso7816_t1" where
  "accept_iframe pcb p =
    (let p = p\<lparr>recovery_counter := 0\<rparr>;
         p = upd_last_rx (\<lambda>f. f\<lparr>iframe := (iframe f)\<lparr>i_seq_no := ESE_BIT pcb 6\<rparr>\<rparr>) p
     in if ESE_BIT pcb 5 \<noteq> 0
        then request_rframe RFRAME_ERROR_NO
               (upd_last_rx (\<lambda>f. f\<lparr>iframe := (iframe f)\<lparr>i_chain := 1\<rparr>\<rparr>) p)
        else (upd_last_rx (\<lambda>f. f\<lparr>iframe := (iframe f)\<lparr>i_chain := 0\<rparr>\<rparr>) p)\<lparr>t1_state := STATE_IDLE\<rparr>)"

definition refuse_iframe :: "iso7816_t1 \<Rightarrow> iso7816_t1" where
  "refuse_iframe p =
    (if recovery_counter p < PROTOCOL_FRAME_RETRY_COUNT
     then (request_rframe RFRAME_ERROR_OTHER p)\<lparr>recovery_counter := recovery_counter p + 1\<rparr>
     else iso7816_t1_finish_recovery p)"

definition decode_iframe :: "u8 \<Rightarrow> u8 list \<Rightarrow> u32 \<Rightarrow> ESE_STATUS t1" where
  "decode_iframe pcb data data_size = do {
     modify (\<lambda>p. p\<lparr>wtx_counter := 0\<rparr>);
     modify (upd_last_rx (\<lambda>f. f\<lparr>f_type := FRAME_IFRAME\<rparr>));
     seq \<leftarrow> gets (\<lambda>p. i_seq_no (iframe (last_rx p)));
     if seq \<noteq> ESE_BIT pcb 6 then do {
       modify (accept_iframe pcb);
       stored \<leftarrow> gets recv_data;
       (status, stored) \<leftarrow> ese_data_store stored (drop 3 data) (data_size - 4) True;
       modify (\<lambda>p. p\<lparr>recv_data := stored\<rparr>);
       return status
     }
     else do {
       modify refuse_iframe;
       return ESESTATUS_SUCCESS
     }
   }"

text \<open>Second, a receive-ready block: bits 0 and 1 of the PCB are its error code.\<close>

definition rnack_retry :: "iso7816_t1 \<Rightarrow> iso7816_t1" where
  "rnack_retry p =
    (if f_type (last_tx p) = FRAME_IFRAME then
       upd_next (\<lambda>f. f\<lparr>f_type := FRAME_IFRAME\<rparr>) ((retransmit p)\<lparr>t1_state := STATE_SEND_IFRAME\<rparr>)
     else if f_type (last_tx p) = FRAME_RFRAME then
       if r_seq_no (rframe (last_rx p)) = i_seq_no (iframe (last_tx p)) \<and> last_frame p = FRAME_IFRAME
       then upd_next (\<lambda>f. f\<lparr>f_type := FRAME_IFRAME\<rparr>) ((retransmit p)\<lparr>t1_state := STATE_SEND_IFRAME\<rparr>)
       else if r_seq_no (rframe (last_rx p)) \<noteq> i_seq_no (iframe (last_tx p)) \<and> last_frame p = FRAME_RFRAME
       then request_rframe RFRAME_ERROR_NO p
       else request_rframe RFRAME_ERROR_OTHER p
     else if f_type (last_tx p) = FRAME_SFRAME then retransmit p
     else p)"

definition count_recovery :: "(iso7816_t1 \<Rightarrow> iso7816_t1) \<Rightarrow> iso7816_t1 \<Rightarrow> iso7816_t1" where
  "count_recovery f p =
    (if recovery_counter p < PROTOCOL_FRAME_RETRY_COUNT
     then (f p)\<lparr>recovery_counter := recovery_counter p + 1\<rparr>
     else iso7816_t1_finish_recovery p)"

definition set_rx_error :: "rframe_error \<Rightarrow> iso7816_t1 \<Rightarrow> iso7816_t1" where
  "set_rx_error e p = upd_last_rx (\<lambda>f. f\<lparr>rframe := (rframe f)\<lparr>r_error := e\<rparr>\<rparr>) p"

definition decode_rframe :: "u8 \<Rightarrow> iso7816_t1 \<Rightarrow> iso7816_t1" where
  "decode_rframe pcb p =
    (let p = p\<lparr>wtx_counter := 0\<rparr>;
         p = upd_last_rx (\<lambda>f. f\<lparr>f_type := FRAME_RFRAME,
               rframe := (rframe f)\<lparr>r_seq_no := ESE_BIT pcb 4\<rparr>\<rparr>) p;
         b0 = ESE_BIT pcb 0; b1 = ESE_BIT pcb 1
     in if b0 = 0 \<and> b1 = 0 then
          (let p = (set_rx_error RFRAME_ERROR_NO p)\<lparr>recovery_counter := 0\<rparr>
           in if r_seq_no (rframe (last_rx p)) \<noteq> i_seq_no (iframe (last_tx p))
              then iso7816_t1_next_iframe p else p)
        else if (b0 = 1 \<and> b1 = 0) \<or> (b0 = 0 \<and> b1 = 1) then
          count_recovery rnack_retry
            (set_rx_error (if b0 = 0 \<and> b1 = 1 then RFRAME_ERROR_OTHER else RFRAME_ERROR_PARITY) p)
        else if b0 = 1 \<and> b1 = 1 then
          count_recovery (\<lambda>p. retransmit (set_rx_error RFRAME_ERROR_SOF_MISSED p)) p
        else
          count_recovery (\<lambda>p. retransmit (set_rx_error RFRAME_ERROR_UNDEFINED p)) p)"

text \<open>Third, a supervisory block.\<close>

definition set_rx_sframe :: "sframe_type \<Rightarrow> iso7816_t1 \<Rightarrow> iso7816_t1" where
  "set_rx_sframe ty p = upd_last_rx (\<lambda>f. f\<lparr>sframe := (sframe f)\<lparr>s_type := ty\<rparr>\<rparr>) p"

definition request_sframe :: "sframe_type \<Rightarrow> u8 list option \<Rightarrow> u32 \<Rightarrow> iso7816_t1 \<Rightarrow> iso7816_t1" where
  "request_sframe ty data n p =
     p\<lparr>next_tx := (next_tx p)\<lparr>f_type := FRAME_SFRAME,
         sframe := \<lparr>s_data = data, s_send_size = n, s_type = ty\<rparr>\<rparr>,
       t1_state := STATE_SEND_SFRAME\<rparr>"

definition wtx_wait_us :: "u8 list \<Rightarrow> u32 \<Rightarrow> u32" where
  "wtx_wait_us data data_size =
    (if data_size = 8
     then (push_bit 24 (ucast (data ! 3)) OR push_bit 16 (ucast (data ! 4)) OR
           push_bit 8 (ucast (data ! 5)) OR ucast (data ! 6)) * 1000
     else 0)"

definition decode_wtx_request :: "u8 list \<Rightarrow> u32 \<Rightarrow> unit t1" where
  "decode_wtx_request data data_size = do {
     pending \<leftarrow> gets (\<lambda>p. f_type (last_tx p) = FRAME_SFRAME \<and>
                         s_type (sframe (last_tx p)) \<noteq> SFRAME_WTX_RSP);
     if pending then modify (count_recovery retransmit)
     else do {
       modify (\<lambda>p. p\<lparr>wtx_counter := wtx_counter p + 1\<rparr>);
       PROTOCOL_UDELAY (wtx_wait_us data data_size);
       modify (\<lambda>p. request_sframe SFRAME_WTX_RSP None 0 (set_rx_sframe SFRAME_WTX_REQ p))
     }
   }"

definition decode_sframe :: "u8 \<Rightarrow> u8 list \<Rightarrow> u32 \<Rightarrow> unit t1" where
  "decode_sframe pcb data data_size = do {
     let ty = pcb AND 0x3F;
     modify (upd_last_rx (\<lambda>f. f\<lparr>f_type := FRAME_SFRAME\<rparr>));
     (if ty \<noteq> sframe_code SFRAME_WTX_REQ then modify (\<lambda>p. p\<lparr>wtx_counter := 0\<rparr>) else return ());
     if ty = sframe_code SFRAME_RESYNCH_REQ then
       modify (\<lambda>p. request_sframe SFRAME_RESYNCH_RSP None 0
                 (set_rx_sframe SFRAME_RESYNCH_REQ (iso7816_t1_reset_params p)))
     else if ty = sframe_code SFRAME_RESYNCH_RSP then
       modify (\<lambda>p. (upd_next (\<lambda>f. f\<lparr>f_type := FRAME_UNKNOWN\<rparr>)
                 (set_rx_sframe SFRAME_RESYNCH_RSP p))\<lparr>t1_state := STATE_IDLE\<rparr>)
     else if ty = sframe_code SFRAME_ABORT_REQ then modify (set_rx_sframe SFRAME_ABORT_REQ)
     else if ty = sframe_code SFRAME_ABORT_RES then
       modify (\<lambda>p. (upd_next (\<lambda>f. f\<lparr>f_type := FRAME_UNKNOWN\<rparr>)
                 (set_rx_sframe SFRAME_ABORT_RES p))\<lparr>t1_state := STATE_IDLE\<rparr>)
     else if ty = sframe_code SFRAME_WTX_REQ then decode_wtx_request data data_size
     else if ty = sframe_code SFRAME_WTX_RSP then modify (set_rx_sframe SFRAME_WTX_RSP)
     else return ()
   }"

text \<open>The two top bits of the PCB tell the kinds apart; the source's last branch cannot be reached.\<close>

definition iso7816_t1_decode_frame :: "u8 list \<Rightarrow> u32 \<Rightarrow> ESE_STATUS t1" where
  "iso7816_t1_decode_frame data data_size = do {
     let pcb = data ! 1;
     if ESE_BIT pcb 7 = 0 then decode_iframe pcb data data_size
     else if ESE_BIT pcb 6 = 0 then do { modify (decode_rframe pcb); return ESESTATUS_SUCCESS }
     else do { decode_sframe pcb data data_size; return ESESTATUS_SUCCESS }
   }"

subsection \<open>Receiving one block\<close>

definition store_at :: "nat \<Rightarrow> u8 list \<Rightarrow> u8 list \<Rightarrow> u8 list" where
  "store_at off bs buf = take off buf @ bs @ drop (off + length bs) buf"

text \<open>A receive of \<open>n\<close> bytes into \<open>proc_buf + off\<close>: whether exactly \<open>n\<close> bytes came.\<close>

definition receive_at :: "nat \<Rightarrow> nat \<Rightarrow> bool t1" where
  "receive_at off n = do {
     valid \<leftarrow> gets hal;
     (ret, bs) \<leftarrow> ese_hal_receive valid n;
     room \<leftarrow> gets (\<lambda>p. length (proc_buf p));
     (if off + n \<le> room then return () else do { _ \<leftarrow> call OutOfBounds; return () });
     modify (\<lambda>p. p\<lparr>proc_buf := store_at off bs (proc_buf p)\<rparr>);
     return (ret = int n)
   }"

text \<open>Polling for the address byte: the error, or success.\<close>

primrec poll_address :: "nat \<Rightarrow> ESE_STATUS t1" where
  "poll_address 0 = return ESESTATUS_INVALID_FRAME"
| "poll_address (Suc n) = do {
     ok \<leftarrow> receive_at 0 1;
     if \<not> ok then return ESESTATUS_INVALID_RECEIVE_LENGTH
     else do {
       b \<leftarrow> gets (\<lambda>p. proc_buf p ! 0);
       addr \<leftarrow> gets receive_address;
       if b = addr then return ESESTATUS_SUCCESS
       else if b \<noteq> 0 then return ESESTATUS_INVALID_FRAME
       else do { PROTOCOL_UDELAY 1500; poll_address n }
     }
   }"

text \<open>The transfer part of \<open>iso7816_t1_process\<close>: the status at its \<open>error\<close> label and \<open>data_size\<close>.\<close>

definition receive_block :: "(ESE_STATUS \<times> nat) t1" where
  "receive_block = do {
     PROTOCOL_UDELAY 100;
     status \<leftarrow> poll_address PROTOCOL_ADDRESS_POLLING_COUNT;
     if status \<noteq> ESESTATUS_SUCCESS then return (status, 0)
     else do {
       ok \<leftarrow> receive_at 1 2;
       if \<not> ok then return (ESESTATUS_INVALID_RECEIVE_LENGTH, 1)
       else do {
         len \<leftarrow> gets (\<lambda>p. unat (proc_buf p ! 2) + 1);
         ok \<leftarrow> receive_at 3 len;
         if \<not> ok then return (ESESTATUS_INVALID_RECEIVE_LENGTH, 3)
         else return (ESESTATUS_FAILED, 3 + len)
       }
     }
   }"

text \<open>Asking for a repetition while the budget of two lasts, and giving up after it.\<close>

definition ask_again :: "rframe_error \<Rightarrow> (iso7816_t1 \<Rightarrow> iso7816_t1) \<Rightarrow> iso7816_t1 \<Rightarrow> iso7816_t1" where
  "ask_again e give_up p =
    (if rnack_counter p < PROTOCOL_MAX_RNACK_RETRY_LIMIT then
       (let seq = (if i_seq_no (iframe (last_rx p)) = 0 then 0x10 else 0);
            p = upd_last_rx (\<lambda>f. f\<lparr>f_type := FRAME_INVALID\<rparr>) p
        in p\<lparr>next_tx := (next_tx p)\<lparr>f_type := FRAME_RFRAME,
               rframe := \<lparr>r_seq_no = seq, r_error = e\<rparr>\<rparr>,
             t1_state := STATE_SEND_RFRAME,
             rnack_counter := rnack_counter p + 1\<rparr>)
     else give_up (p\<lparr>rnack_counter := 0, t1_state := STATE_IDLE\<rparr>))"

definition no_block :: "ESE_STATUS \<Rightarrow> unit t1" where
  "no_block status = do {
     after_sframe \<leftarrow> gets (\<lambda>p. f_type (last_tx p) = FRAME_SFRAME \<and>
        (s_type (sframe (last_tx p)) = SFRAME_WTX_RSP \<or>
         s_type (sframe (last_tx p)) = SFRAME_RESYNCH_RSP));
     if after_sframe then modify (ask_again RFRAME_ERROR_OTHER (\<lambda>p. p\<lparr>timeout_counter := 0\<rparr>))
     else do {
       PROTOCOL_UDELAY (50 * 1000);
       if status = ESESTATUS_INVALID_FRAME
       then modify (ask_again RFRAME_ERROR_OTHER (\<lambda>p. p\<lparr>timeout_counter := 0\<rparr>))
       else modify (\<lambda>p.
         if timeout_counter p < PROTOCOL_TIMEOUT_RETRY_COUNT
         then retransmit (p\<lparr>timeout_counter := timeout_counter p + 1\<rparr>)
         else p\<lparr>t1_state := STATE_IDLE, timeout_counter := 0\<rparr>)
     }
   }"

definition iso7816_t1_process :: "ESE_STATUS t1" where
  "iso7816_t1_process = do {
     (status, data_size) \<leftarrow> receive_block;
     if data_size > 0 then do {
       modify (\<lambda>p. p\<lparr>timeout_counter := 0\<rparr>);
       buf \<leftarrow> gets proc_buf;
       let status = iso7816_t1_check_lrc buf data_size;
       if status = ESESTATUS_SUCCESS then do {
         modify (\<lambda>p. p\<lparr>rnack_counter := 0\<rparr>);
         _ \<leftarrow> iso7816_t1_decode_frame buf (of_nat data_size);
         return status
       }
       else do {
         modify (ask_again RFRAME_ERROR_PARITY (\<lambda>p. p));
         return status
       }
     }
     else do {
       no_block status;
       return status
     }
   }"

subsection \<open>The exchange\<close>

text \<open>
  The loop of \<open>iso7816_t1_receive\<close> with \<open>n\<close> rounds of fuel: \<open>None\<close> where they do not suffice, and
  otherwise the status and whether the loop was left through its early return.
\<close>

primrec receive_loop :: "nat \<Rightarrow> (ESE_STATUS \<times> bool) option t1" where
  "receive_loop 0 = return None"
| "receive_loop (Suc n) = do {
     status \<leftarrow> iso7816_t1_process;
     if status = ESESTATUS_INVALID_DEVICE then return (Some (status, True))
     else do {
       st \<leftarrow> gets t1_state;
       status \<leftarrow> (if st \<noteq> STATE_IDLE then do {
                    status \<leftarrow> iso7816_t1_send None;
                    (if status \<noteq> ESESTATUS_SUCCESS
                     then modify (\<lambda>p. p\<lparr>t1_state := STATE_IDLE\<rparr>) else return ());
                    return status
                  } else return status);
       st \<leftarrow> gets t1_state;
       if st \<noteq> STATE_IDLE then receive_loop n else return (Some (status, False))
     }
   }"

text \<open>
  \<open>iso7816_t1_receive\<close>: \<open>out\<close> is what the caller's result structure holds before; the bytes it holds
  afterwards are returned with the status.
\<close>

definition iso7816_t1_receive :: "nat \<Rightarrow> u8 list \<Rightarrow> (ESE_STATUS \<times> u8 list) option t1" where
  "iso7816_t1_receive fuel out = do {
     r \<leftarrow> receive_loop fuel;
     (case r of
        None \<Rightarrow> return None
      | Some (status, early) \<Rightarrow>
          if early then return (Some (status, out))
          else do {
            stored \<leftarrow> gets recv_data;
            (wstatus, bytes, stored) \<leftarrow> ese_data_get stored True;
            modify (\<lambda>p. p\<lparr>recv_data := stored\<rparr>);
            let out = (case bytes of None \<Rightarrow> out | Some bs \<Rightarrow> bs);
            modify (\<lambda>p. p\<lparr>cur_buf := Some out, cur_size := of_nat (length out)\<rparr>);
            return (Some (if wstatus \<noteq> ESESTATUS_SUCCESS then wstatus else status, out))
          })
   }"

definition iso7816_t1_resync_request :: "ESE_STATUS t1" where
  "iso7816_t1_resync_request = do {
     modify (request_sframe SFRAME_RESYNCH_REQ None 0);
     iso7816_t1_send None
   }"

definition iso7816_t1_resync_response :: "ESE_STATUS t1" where
  "iso7816_t1_resync_response = do {
     status \<leftarrow> iso7816_t1_process;
     modify (\<lambda>p. p\<lparr>t1_state := STATE_IDLE\<rparr>);
     rx \<leftarrow> gets last_rx;
     return (if f_type rx \<noteq> FRAME_SFRAME \<and> s_type (sframe rx) \<noteq> SFRAME_RESYNCH_RSP
             then ESESTATUS_INVALID_FRAME else status)
   }"

text \<open>
  The four bytes of \<open>time\<close> in memory, little endian. The source keeps the address of its parameter
  in \<open>next_tx\<close>; the only send before the function returns is its own, so the bytes are those of \<open>time\<close>.
\<close>

definition iso7816_t1_wtx_request :: "u32 \<Rightarrow> ESE_STATUS t1" where
  "iso7816_t1_wtx_request time = do {
     modify (request_sframe SFRAME_WTX_REQ
       (Some [ucast time, ucast (drop_bit 8 time), ucast (drop_bit 16 time), ucast (drop_bit 24 time)]) 4);
     iso7816_t1_send None
   }"

definition iso7816_t1_wtx_response :: "ESE_STATUS t1" where
  "iso7816_t1_wtx_response = do {
     status \<leftarrow> iso7816_t1_process;
     modify (\<lambda>p. p\<lparr>t1_state := STATE_IDLE\<rparr>);
     rx \<leftarrow> gets last_rx;
     return (if f_type rx \<noteq> FRAME_SFRAME \<and> s_type (sframe rx) \<noteq> SFRAME_WTX_RSP
             then ESESTATUS_INVALID_FRAME else status)
   }"

text \<open>
  \<open>iso7816_t1_get_data\<close>: the data field (the bytes from its start and its length) and the \<open>Le\<close> byte
  of the APDU in \<open>cur_buf\<close>, each where the caller gives a pointer for it.
\<close>

definition iso7816_t1_get_data ::
  "bool \<Rightarrow> bool \<Rightarrow> (ESE_STATUS \<times> (u8 list \<times> nat) option \<times> u8 option) t1" where
  "iso7816_t1_get_data want_data want_le = do {
     cur \<leftarrow> gets cur_buf;
     let buf = (case cur of None \<Rightarrow> [] | Some bs \<Rightarrow> bs);
     data_size \<leftarrow> (if want_data then do { b \<leftarrow> peek buf 4; return (unat b) } else return 0);
     le \<leftarrow> (if want_le then do {
              b \<leftarrow> peek buf (if data_size = 0 then 4 else 5 + data_size);
              return (Some b)
            } else return None);
     return (ESESTATUS_SUCCESS, if want_data then Some (drop 5 buf, data_size) else None, le)
   }"

text \<open>
  A new context: \<open>kzalloc\<close> zeroes it (the first constants of the enums) and the parameters are reset.
  \<open>iso7816_t1_init\<close> reports whether both allocations, of the 248-byte context and of the block buffer,
  succeeded.
\<close>

definition zero_frame :: frame_info where
  "zero_frame = \<lparr>iframe = \<lparr>i_data = None, i_offset = 0, i_total_size = 0, i_send_size = 0,
       i_chain = 0, i_seq_no = 0\<rparr>,
     rframe = \<lparr>r_seq_no = 0, r_error = RFRAME_ERROR_NO\<rparr>,
     sframe = \<lparr>s_data = None, s_send_size = 0, s_type = SFRAME_RESYNCH_REQ\<rparr>,
     f_type = FRAME_IFRAME\<rparr>"

definition fresh_t1 :: "u8 \<Rightarrow> u8 \<Rightarrow> bool \<Rightarrow> iso7816_t1" where
  "fresh_t1 send_addr receive_addr h =
    iso7816_t1_reset_params
      \<lparr>last_tx = zero_frame, next_tx = zero_frame, last_rx = zero_frame,
       recv_data = ese_data_init, proc_buf = replicate 260 0, cur_buf = None, cur_size = 0,
       wtx_counter = 0, timeout_counter = 0, rnack_counter = 0, recovery_counter = 0,
       last_frame = FRAME_IFRAME, t1_state = STATE_IDLE, send_address = send_addr,
       receive_address = receive_addr, hal = h\<rparr>"

definition iso7816_t1_init :: "u8 \<Rightarrow> u8 \<Rightarrow> bool \<Rightarrow> bool t1" where
  "iso7816_t1_init send_addr receive_addr h = do {
     ok \<leftarrow> ese_malloc 248;
     if \<not> ok then return False
     else do {
       ok \<leftarrow> ese_malloc 260;
       if \<not> ok then return False
       else do { modify (\<lambda>_. fresh_t1 send_addr receive_addr h); return True }
     }
   }"

definition iso7816_t1_reset :: "unit t1" where
  "iso7816_t1_reset = modify iso7816_t1_reset_params"

end
