(* ===== verification/Ese_Frames.thy ===== *)
theory Ese_Frames
  imports Ese_T1
begin

text \<open>
  What the block format of the secure-element protocol guarantees by itself: the checksum, the packet
  list in which received information fields are collected, and the chaining of a long APDU.
\<close>

subsection \<open>The checksum\<close>

lemma xor_eq_0 [simp]: "a XOR b = (0 :: 'a::len word) \<longleftrightarrow> a = b"
  by (metis xor.right_neutral xor.assoc xor_self_eq)

lemma foldl_xor: "foldl (XOR) a bs = a XOR foldl (XOR) (0 :: u8) bs"
proof (induction bs arbitrary: a)
  case (Cons b bs)
  have "foldl (XOR) a (b # bs) = (a XOR b) XOR foldl (XOR) 0 bs"
    using Cons.IH [of "a XOR b"] by simp
  also have "\<dots> = a XOR (foldl (XOR) 0 (b # bs))"
    using Cons.IH [of b] by (simp add: xor.assoc)
  finally show ?case .
qed simp

lemma foldl_xor_append: "foldl (XOR) (0 :: u8) (xs @ ys) = foldl (XOR) 0 xs XOR foldl (XOR) 0 ys"
  using foldl_xor [of "foldl (XOR) 0 xs" ys] by simp

lemma length_with_lrc [simp]: "length (with_lrc bs) = Suc (length bs)"
  by (simp add: with_lrc_def)

lemma check_with_lrc:
  "iso7816_t1_check_lrc (with_lrc bs @ rest) (Suc (length bs)) = ESESTATUS_SUCCESS"
  by (simp add: iso7816_t1_check_lrc_def iso7816_t1_compute_lrc_def with_lrc_def nth_append)

lemma check_lrc_iff:
  assumes "0 < n" "n \<le> length buf"
  shows "iso7816_t1_check_lrc buf n = ESESTATUS_SUCCESS \<longleftrightarrow> foldl (XOR) 0 (take n buf) = 0"
proof -
  obtain m where m: "n = Suc m" using assms(1) by (cases n) auto
  then have "take n buf = take m buf @ [buf ! m]"
    using assms by (simp add: take_Suc_conv_app_nth)
  then show ?thesis
    using m foldl_xor_append [of "take m buf" "[buf ! m]"]
    by (auto simp: iso7816_t1_check_lrc_def iso7816_t1_compute_lrc_def)
qed

lemma foldl_xor_update:
  "i < length bs \<Longrightarrow> foldl (XOR) 0 (bs[i := v]) = foldl (XOR) 0 bs XOR (bs ! i) XOR (v :: u8)"
proof (induction bs arbitrary: i)
  case (Cons b bs)
  have swap: "v XOR F = (b XOR F) XOR b XOR v" for F
    by (rule bit_word_eqI) (auto simp: bit_xor_iff)
  show ?case
  proof (cases i)
    case 0
    then show ?thesis
      using foldl_xor [of v bs] foldl_xor [of b bs] swap [of "foldl (XOR) 0 bs"] by simp
  next
    case (Suc j)
    then show ?thesis
      using Cons foldl_xor [of b "bs[j := v]"] foldl_xor [of b bs] by (simp add: xor.assoc)
  qed
qed simp

text \<open>
  \<open>iso7816_t1_check_lrc\<close> refuses every block that differs in exactly one byte, in any position
  and by any value, from a block the driver builds: the checksum catches each single-byte corruption.
\<close>

lemma lrc_detects_corruption:
  assumes "i < Suc (length bs)" and "v \<noteq> with_lrc bs ! i"
  shows "iso7816_t1_check_lrc ((with_lrc bs)[i := v] @ rest) (Suc (length bs)) = ESESTATUS_FAILED"
proof -
  let ?f = "with_lrc bs"
  have ok: "foldl (XOR) 0 ?f = 0"
    using check_lrc_iff [of "Suc (length bs)" ?f] check_with_lrc [of bs "[]"] by simp
  have "foldl (XOR) 0 (?f[i := v]) = ?f ! i XOR v"
    using foldl_xor_update [of i ?f v] assms(1) ok by simp
  moreover have "?f ! i XOR v \<noteq> 0"
    using assms(2) by auto
  ultimately have "iso7816_t1_check_lrc (?f[i := v] @ rest) (Suc (length bs)) \<noteq> ESESTATUS_SUCCESS"
    by (subst check_lrc_iff) simp_all
  then show ?thesis
    by (auto simp: iso7816_t1_check_lrc_def split: if_splits)
qed

subsection \<open>The packet list\<close>

text \<open>Storing the packets of a message one after the other, as the receiving side does.\<close>

primrec store_all :: "u8 list list \<Rightarrow> data_list \<Rightarrow> ('d, ESE_STATUS \<times> data_list) ese_io" where
  "store_all [] head = return (ESESTATUS_SUCCESS, head)"
| "store_all (bs # rest) head = do {
     (status, head) \<leftarrow> ese_data_store head bs (of_nat (length bs)) True;
     if status \<noteq> ESESTATUS_SUCCESS then return (status, head) else store_all rest head
   }"

lemma unat_of_nat_small: "n < 2 ^ 32 \<Longrightarrow> unat (of_nat n :: u32) = n"
  by (simp add: unat_of_nat take_bit_nat_eq_self)

lemma store_outcome:
  fixes w :: "('d, ese_event, ese_answer) world"
  assumes "length bs < 2 ^ 32"
  shows "wp (ese_data_store l bs (of_nat (length bs)) copy)
    (\<lambda>r w'. dev w' = dev w \<and>
       (r = (ESESTATUS_SUCCESS,
             l\<lparr>packets := packets l @ [bs], head_size := head_size l + of_nat (length bs)\<rparr>) \<or>
        r = (ESESTATUS_MEMORY_ALLOCATION_FAIL, l))) w"
  using unat_of_nat_small [OF assms] unfolding ese_data_store_def
  by (intro wp_intros) auto

lemma store_all_outcome:
  fixes w :: "('d, ese_event, ese_answer) world"
  assumes "length (concat ps) < 2 ^ 32"
  shows "wp (store_all ps l)
    (\<lambda>r w'. r = (ESESTATUS_SUCCESS, l\<lparr>packets := packets l @ ps,
         head_size := head_size l + of_nat (length (concat ps))\<rparr>) \<or>
       fst r = ESESTATUS_MEMORY_ALLOCATION_FAIL) w"
  using assms
proof (induction ps arbitrary: l w)
  case (Cons bs ps)
  have "length bs < 2 ^ 32" "length (concat ps) < 2 ^ 32" using Cons.prems by simp_all
  then show ?case
    unfolding store_all.simps
    by (intro wp_intros wp_mono [OF store_outcome [of bs]] wp_mono [OF Cons.IH]) auto
qed (auto intro: wp_intros)

text \<open>
  Packets stored one after the other with \<open>ese_data_store\<close> and collected with \<open>ese_data_get\<close> are
  the concatenation of the packets, and the list is empty again; the only other outcome is a failed
  allocation.
\<close>

lemma store_get_roundtrip:
  fixes w :: "('d, ese_event, ese_answer) world"
  assumes "0 < length (concat ps)" and "length (concat ps) < 2 ^ 32"
  shows "wp (do {
      (status, l) \<leftarrow> store_all ps ese_data_init;
      (if status \<noteq> ESESTATUS_SUCCESS then return (status, None, l) else ese_data_get l True)
    }) (\<lambda>r _. r = (ESESTATUS_SUCCESS, Some (concat ps), ese_data_init) \<or>
         fst r = ESESTATUS_MEMORY_ALLOCATION_FAIL) w"
proof -
  have "of_nat (length (concat ps)) \<noteq> (0 :: u32)"
    using unat_of_nat_small [OF assms(2)] assms(1) by (metis unat_0 less_irrefl)
  then show ?thesis
    using unat_of_nat_small [OF assms(2)]
    unfolding ese_data_get_def ese_data_get_from_list_def
    by (intro wp_intros wp_mono [OF store_all_outcome [OF assms(2)]])
       (auto simp: ese_data_init_def ese_data_delete_def)
qed

definition ready_allocator :: "ese_history \<Rightarrow> ese_event \<Rightarrow> ese_answer" where
  "ready_allocator h e = (0, [])"

subsection \<open>Chaining\<close>

text \<open>
  \<open>nth_block p data k\<close>: the context when the \<open>k\<close>-th block of the APDU \<open>data\<close> is next, each earlier
  one having been sent (\<open>remember_tx\<close>) and acknowledged (\<open>iso7816_t1_next_iframe\<close>). \<open>block_of\<close>: the
  chain flag, the sequence number and the information field of that block.
\<close>

definition block_of :: "iso7816_t1 \<Rightarrow> u8 \<times> u8 \<times> u8 list" where
  "block_of p = (let i = iframe (next_tx p) in
     (i_chain i, i_seq_no i,
      take (unat (i_send_size i)) (drop (unat (i_offset i)) (case i_data i of None \<Rightarrow> [] | Some d \<Rightarrow> d))))"

primrec nth_block :: "iso7816_t1 \<Rightarrow> u8 list \<Rightarrow> nat \<Rightarrow> iso7816_t1" where
  "nth_block p data 0 = iso7816_t1_set_iframe
     (upd_next (\<lambda>f. f\<lparr>iframe := (iframe f)\<lparr>i_data := Some data, i_total_size := of_nat (length data)\<rparr>\<rparr>) p)"
| "nth_block p data (Suc k) = iso7816_t1_next_iframe (remember_tx (nth_block p data k))"

definition chain_at :: "iso7816_t1 \<Rightarrow> u8 list \<Rightarrow> nat \<Rightarrow> bool" where
  "chain_at p data k = (let i = iframe (next_tx p); n = length data in
     i_data i = Some data \<and> unat (i_offset i) = 254 * k \<and>
     (if 254 * Suc k < n
      then i_chain i = 1 \<and> unat (i_send_size i) = 254 \<and> unat (i_total_size i) = n - 254 * Suc k
      else i_chain i = 0 \<and> unat (i_send_size i) = n - 254 * k \<and> unat (i_total_size i) = n - 254 * k))"

lemma chain_first:
  assumes "length data < 2 ^ 32"
  shows "chain_at (nth_block p data 0) data 0"
  using unat_of_nat_small [OF assms]
  by (auto simp: chain_at_def iso7816_t1_set_iframe_def Let_def word_less_nat_alt unat_sub word_le_nat_alt)

lemma chain_next:
  assumes "chain_at p data k" and "254 * Suc k < length data" and "length data < 2 ^ 32"
  shows "chain_at (iso7816_t1_next_iframe (remember_tx p)) data (Suc k)"
proof -
  let ?i = "iframe (next_tx p)"
  have i: "i_data ?i = Some data" "unat (i_offset ?i) = 254 * k"
      "unat (i_total_size ?i) = length data - 254 * Suc k"
    using assms(1,2) by (auto simp: chain_at_def Let_def)
  have off: "unat (i_offset ?i + 254) = 254 * Suc k"
    using i(2) assms(2,3) by (simp add: unat_word_ariths)
  have sub: "254 < unat (i_total_size ?i) \<Longrightarrow>
      unat (i_total_size ?i - 254) = length data - 254 * Suc (Suc k)"
    using i(3) by (simp add: unat_sub word_le_nat_alt)
  show ?thesis
    using i off sub
    by (auto simp: chain_at_def iso7816_t1_next_iframe_def remember_tx_def Let_def word_less_nat_alt)
qed

lemma nth_block_chain:
  "length data < 2 ^ 32 \<Longrightarrow> k = 0 \<or> 254 * k < length data \<Longrightarrow> chain_at (nth_block p data k) data k"
proof (induction k)
  case 0
  then show ?case using chain_first by simp
next
  case (Suc k)
  then show ?case using chain_next [of "nth_block p data k" data k] by (cases k) auto
qed

lemma nth_block_seq:
  "i_seq_no (iframe (next_tx (nth_block p data k))) =
     (if even k then i_seq_no (iframe (last_tx p)) XOR 1 else i_seq_no (iframe (last_tx p)))"
proof (induction k)
  case (Suc k)
  have "(a XOR 1) XOR 1 = a" for a :: u8 by (rule bit_word_eqI) (auto simp: bit_xor_iff)
  with Suc show ?case by (simp add: iso7816_t1_next_iframe_def remember_tx_def Let_def)
qed (simp add: iso7816_t1_set_iframe_def Let_def)

lemma nth_block_is:
  assumes "length data < 2 ^ 32" and "254 * k < length data"
  shows "block_of (nth_block p data k) =
    (if 254 * Suc k < length data then 1 else 0,
     if even k then i_seq_no (iframe (last_tx p)) XOR 1 else i_seq_no (iframe (last_tx p)),
     take 254 (drop (254 * k) data))"
  using nth_block_chain [OF assms(1), of k p] nth_block_seq [of p data k] assms(2)
  by (auto simp: block_of_def chain_at_def Let_def split: if_splits)

lemma concat_slices:
  "concat (map (\<lambda>k. take 254 (drop (254 * k) data)) [0..<m]) = take (254 * m) (data :: 'a list)"
  by (induction m) (simp_all add: take_add [symmetric] mult.commute add.commute)

definition n_blocks :: "nat \<Rightarrow> nat" where
  "n_blocks n = (n + 253) div 254"

lemma n_blocks_bounds: "k < n_blocks n \<longleftrightarrow> 254 * k < n"
  by (auto simp: n_blocks_def)

definition apdu_blocks :: "iso7816_t1 \<Rightarrow> u8 list \<Rightarrow> (u8 \<times> u8 \<times> u8 list) list" where
  "apdu_blocks p data = map (\<lambda>k. block_of (nth_block p data k)) [0..<n_blocks (length data)]"

lemma apdu_blocks_is:
  assumes "length data < 2 ^ 32"
  shows "apdu_blocks p data =
    map (\<lambda>k. (if Suc k < n_blocks (length data) then 1 else 0,
       if even k then i_seq_no (iframe (last_tx p)) XOR 1 else i_seq_no (iframe (last_tx p)),
       take 254 (drop (254 * k) data))) [0..<n_blocks (length data)]"
  unfolding apdu_blocks_def using nth_block_is [OF assms]
  by (intro map_cong refl) (simp add: n_blocks_bounds)

text \<open>
  C27. The blocks into which \<open>iso7816_t1_set_iframe\<close> and \<open>iso7816_t1_next_iframe\<close> cut an APDU put
  together are exactly the APDU: nothing is lost, repeated or reordered, every block but the last has
  the chaining flag, the sequence numbers alternate from the complement of the last one sent, and no
  information field is longer than 254 bytes.
\<close>

theorem chaining_reassembles:
  assumes "0 < length data" and "length data < 2 ^ 32"
  shows "concat (map (\<lambda>b. snd (snd b)) (apdu_blocks p data)) = data \<and>
    map fst (apdu_blocks p data) = replicate (n_blocks (length data) - 1) 1 @ [0] \<and>
    map (\<lambda>b. fst (snd b)) (apdu_blocks p data) =
      map (\<lambda>k. if even k then i_seq_no (iframe (last_tx p)) XOR 1 else i_seq_no (iframe (last_tx p)))
        [0..<n_blocks (length data)] \<and>
    (\<forall>b \<in> set (apdu_blocks p data). length (snd (snd b)) \<le> 254)"
proof -
  let ?m = "n_blocks (length data)"
  note b = apdu_blocks_is [OF assms(2), of p]
  have "length data \<le> 254 * ?m" using n_blocks_bounds [of ?m "length data"] by simp
  then have "concat (map (\<lambda>b. snd (snd b)) (apdu_blocks p data)) = data"
    using concat_slices [of data ?m] by (simp add: b comp_def)
  moreover obtain m where m: "?m = Suc m"
    using assms(1) n_blocks_bounds [of 0 "length data"] by (cases ?m) auto
  then have "map fst (apdu_blocks p data) = replicate m 1 @ [0]"
    by (auto simp: b comp_def map_replicate_const [symmetric] intro!: nth_equalityI)
  moreover have "\<forall>b \<in> set (apdu_blocks p data). length (snd (snd b)) \<le> 254"
    by (auto simp: b)
  moreover have "map (\<lambda>b. fst (snd b)) (apdu_blocks p data) =
      map (\<lambda>k. if even k then i_seq_no (iframe (last_tx p)) XOR 1 else i_seq_no (iframe (last_tx p)))
        [0..<?m]"
    by (simp add: b comp_def)
  ultimately show ?thesis using m by simp
qed

theorem chaining_reassembles_witness:
  "concat (map (\<lambda>b. snd (snd b)) (apdu_blocks (fresh_t1 0x12 0x21 True) (replicate 300 7))) = replicate 300 7 \<and>
   map fst (apdu_blocks (fresh_t1 0x12 0x21 True) (replicate 300 7)) = [1, 0]"
  using chaining_reassembles [of "replicate 300 7" "fresh_t1 0x12 0x21 True"]
  by (simp add: n_blocks_def)

end
