(* ===== verification/Ese_Session.thy ===== *)
theory Ese_Session
  imports Ese_Frames
begin

text \<open>
  An invariant of the secure-element protocol that every exported function keeps, and with it the
  form of every block that ever reaches the transport.
\<close>

lemma wp_state_tI [wp_intros]:
  "(st = STATE_SEND_IFRAME \<Longrightarrow> wp f Q w) \<Longrightarrow> (st = STATE_SEND_RFRAME \<Longrightarrow> wp g Q w) \<Longrightarrow>
   (st = STATE_SEND_SFRAME \<Longrightarrow> wp h Q w) \<Longrightarrow> (st = STATE_IDLE \<Longrightarrow> wp k Q w) \<Longrightarrow>
   wp (case st of STATE_IDLE \<Rightarrow> k | STATE_SEND_IFRAME \<Rightarrow> f | STATE_SEND_RFRAME \<Rightarrow> g
       | STATE_SEND_SFRAME \<Rightarrow> h) Q w"
  by (cases st) simp_all

text \<open>
  The invariant of the context: the block buffer has its 260 bytes, the sequence numbers are single
  bits, a block to send has at most 254 bytes of information, an R-block's error code is one of the
  three in use, an S-block's data are the four bytes of a waiting time, and the recovery counters
  stay within their limits.
\<close>

definition bits_ok :: "frame_info \<Rightarrow> bool" where
  "bits_ok f = (i_seq_no (iframe f) \<in> {0, 1} \<and> i_send_size (iframe f) \<le> 254 \<and>
     r_error (rframe f) \<in> {RFRAME_ERROR_NO, RFRAME_ERROR_PARITY, RFRAME_ERROR_OTHER} \<and>
     (case s_data (sframe f) of None \<Rightarrow> True | Some bs \<Rightarrow> length bs = 4))"

definition t1_ok :: "iso7816_t1 \<Rightarrow> bool" where
  "t1_ok p = (length (proc_buf p) = 260 \<and> bits_ok (last_tx p) \<and> bits_ok (next_tx p) \<and>
     i_seq_no (iframe (last_rx p)) \<in> {0, 1} \<and>
     recovery_counter p \<le> 3 \<and> rnack_counter p \<le> 2 \<and> timeout_counter p \<le> 3)"

text \<open>
  A well-formed block on the wire. \<open>wire_policy\<close> asks it of every \<open>HalSend\<close>, unless an access outside
  an object happened before (the sending of an I-block has one, at the end of \<open>Ese_Exchange\<close>).
\<close>

definition pcb_ok :: "u8 \<Rightarrow> bool" where
  "pcb_ok pcb = (pcb AND 0x9F = 0 \<or> pcb AND 0xEC = 0x80 \<or> pcb AND 0xDC = 0xC0)"

definition block_ok :: "u8 \<Rightarrow> u8 list \<Rightarrow> bool" where
  "block_ok addr bs = (4 \<le> length bs \<and> length bs \<le> 258 \<and> bs ! 0 = addr \<and> pcb_ok (bs ! 1) \<and>
     unat (bs ! 2) = length bs - 4 \<and> iso7816_t1_check_lrc bs (length bs) = ESESTATUS_SUCCESS)"

definition wire_policy :: "u8 \<Rightarrow> ese_history \<Rightarrow> ese_event \<Rightarrow> bool" where
  "wire_policy addr h e = (case e of
     HalSend bs \<Rightarrow> list_ex (\<lambda>x. fst x = OutOfBounds) h \<or> block_ok addr bs
   | _ \<Rightarrow> True)"

definition t1_inv :: "u8 \<Rightarrow> t1_world \<Rightarrow> bool" where
  "t1_inv addr w = (t1_ok (dev w) \<and> send_address (dev w) = addr \<and> obeys (wire_policy addr) (hist w))"

lemma policy_free [simp]:
  "wire_policy addr h (HalReceive n)" "wire_policy addr h (Udelay us)" "wire_policy addr h (Malloc n)"
  "wire_policy addr h OutOfBounds"
  by (simp_all add: wire_policy_def)

lemma xor_bit [simp]: "s \<in> {0, 1} \<Longrightarrow> s XOR 1 \<in> {0, 1 :: u8}"
  by auto

subsection \<open>Every operation keeps the invariant\<close>

lemma t1_ok_pure:
  assumes "t1_ok p"
  shows "t1_ok (iso7816_t1_reset_params p)"
    and "t1_ok (iso7816_t1_set_iframe p)"
    and "t1_ok (iso7816_t1_next_iframe p)"
    and "t1_ok (iso7816_t1_finish_recovery p)"
    and "t1_ok (retransmit p)"
    and "t1_ok (remember_tx p)"
    and "e \<in> {RFRAME_ERROR_NO, RFRAME_ERROR_PARITY, RFRAME_ERROR_OTHER} \<Longrightarrow> t1_ok (request_rframe e p)"
    and "t1_ok (set_rx_error e' p)"
    and "t1_ok (set_rx_sframe ty p)"
    and "(case d of None \<Rightarrow> True | Some bs \<Rightarrow> length bs = 4) \<Longrightarrow> t1_ok (request_sframe ty d n p)"
  using assms
  by (auto simp: t1_ok_def bits_ok_def Let_def iso7816_t1_reset_params_def iso7816_t1_set_iframe_def
      iso7816_t1_next_iframe_def iso7816_t1_finish_recovery_def retransmit_def remember_tx_def
      request_rframe_def set_rx_error_def set_rx_sframe_def request_sframe_def not_less)

lemma bump: "(c :: u32) < 3 \<Longrightarrow> c + 1 \<le> 3" "(c :: u32) < 2 \<Longrightarrow> c + 1 \<le> 2"
  by (simp_all add: inc_le)

lemma ESE_BIT_01: "ESE_BIT v n \<in> {0, 1}"
  by (auto simp: ESE_BIT_def and_one_eq)

lemma t1_ok_updates [simp]:
  "t1_ok (p\<lparr>wtx_counter := k\<rparr>) = t1_ok p"
  "t1_ok (p\<lparr>t1_state := st\<rparr>) = t1_ok p"
  "t1_ok (p\<lparr>last_frame := fr\<rparr>) = t1_ok p"
  "t1_ok (p\<lparr>recv_data := l\<rparr>) = t1_ok p"
  "t1_ok (p\<lparr>cur_buf := b, cur_size := n\<rparr>) = t1_ok p"
  "t1_ok (upd_last_rx (\<lambda>f. f\<lparr>f_type := ty\<rparr>) p) = t1_ok p"
  "t1_ok (upd_next (\<lambda>f. f\<lparr>f_type := ty\<rparr>) p) = t1_ok p"
  by (simp_all add: t1_ok_def bits_ok_def)

lemma t1_ok_counters:
  assumes "t1_ok p"
  shows "c \<le> 3 \<Longrightarrow> t1_ok (p\<lparr>recovery_counter := c\<rparr>)"
    and "c \<le> 3 \<Longrightarrow> t1_ok (p\<lparr>timeout_counter := c\<rparr>)"
    and "c \<le> 2 \<Longrightarrow> t1_ok (p\<lparr>rnack_counter := c\<rparr>)"
  using assms by (simp_all add: t1_ok_def)

lemma t1_ok_count:
  assumes "t1_ok p" and "\<And>q. t1_ok q \<Longrightarrow> t1_ok (f q)"
  shows "t1_ok (count_recovery f p)"
  using assms by (simp add: count_recovery_def bump t1_ok_pure t1_ok_counters)

lemma t1_ok_iframe:
  assumes "t1_ok p"
  shows "t1_ok (accept_iframe pcb p)" and "t1_ok (refuse_iframe p)"
proof -
  have "t1_ok (upd_last_rx (\<lambda>f. f\<lparr>iframe := (iframe f)\<lparr>i_seq_no := ESE_BIT pcb 6, i_chain := c\<rparr>\<rparr>)
      (p\<lparr>recovery_counter := 0\<rparr>))" for c
    using assms ESE_BIT_01 [of pcb 6] by (simp add: t1_ok_def)
  then show "t1_ok (accept_iframe pcb p)"
    by (simp add: accept_iframe_def Let_def t1_ok_pure)
  show "t1_ok (refuse_iframe p)"
    using assms by (simp add: refuse_iframe_def bump t1_ok_pure t1_ok_counters)
qed

lemma t1_ok_rframe:
  assumes "t1_ok p"
  shows "t1_ok (decode_rframe pcb p)"
proof -
  have "t1_ok (rnack_retry q)" if "t1_ok q" for q
    using that t1_ok_pure [OF that] by (auto simp: rnack_retry_def t1_ok_def bits_ok_def)
  moreover have "t1_ok (p\<lparr>wtx_counter := 0, last_rx := (last_rx p)\<lparr>f_type := FRAME_RFRAME,
      rframe := (rframe (last_rx p))\<lparr>r_seq_no := s\<rparr>\<rparr>\<rparr>)" for s
    using assms by (simp add: t1_ok_def)
  ultimately show ?thesis
    by (simp add: decode_rframe_def Let_def t1_ok_pure t1_ok_counters t1_ok_count)
qed

lemma t1_ok_ask_again:
  assumes "t1_ok p" and "e \<in> {RFRAME_ERROR_PARITY, RFRAME_ERROR_OTHER}"
    and "\<And>q. t1_ok q \<Longrightarrow> t1_ok (f q)"
  shows "t1_ok (ask_again e f p)"
  using assms by (auto simp: ask_again_def Let_def t1_ok_def bits_ok_def bump)

lemma block_ok_with_lrc:
  assumes "pcb_ok pcb" and "length body \<le> 254"
  shows "block_ok addr (with_lrc ([addr, pcb, of_nat (length body)] @ body))"
proof -
  let ?bs = "[addr, pcb, of_nat (length body)] @ body"
  have "unat (of_nat (length body) :: u8) = length body"
    using assms(2) by (simp add: unat_of_nat take_bit_nat_eq_self)
  moreover have "iso7816_t1_check_lrc (with_lrc ?bs) (length (with_lrc ?bs)) = ESESTATUS_SUCCESS"
    using check_with_lrc [of ?bs "[]"] by simp
  moreover have "with_lrc ?bs ! i = ?bs ! i" if "i < 3" for i
    using that unfolding with_lrc_def by (subst nth_append) simp
  ultimately show ?thesis
    using assms by (simp add: block_ok_def)
qed

lemma keeps_hal_send:
  assumes "t1_inv addr w" and "list_ex (\<lambda>x. fst x = OutOfBounds) (hist w) \<or> block_ok addr bs"
  shows "wp (hal_send_frame bs) (\<lambda>_. t1_inv addr) w"
  using assms unfolding hal_send_frame_def
  by (intro wp_intros) (auto simp: t1_inv_def wire_policy_def)

lemma sframe_pcb_ok:
  "pcb_ok (sframe_pcb ty)"
  by (cases ty) (simp_all add: pcb_ok_def sframe_pcb_def)

lemma rframe_pcb_ok:
  assumes "e \<in> {RFRAME_ERROR_NO, RFRAME_ERROR_PARITY, RFRAME_ERROR_OTHER}" and "s \<in> {0, 1}"
  shows "pcb_ok (0x80 OR rframe_code e OR push_bit 4 (s XOR 1))"
  using assms by (auto simp: pcb_ok_def)

lemma iframe_pcb_ok:
  assumes "s \<in> {0, 1}"
  shows "pcb_ok ((if c then 0x20 else 0) OR push_bit 6 s)"
  using assms by (auto simp: pcb_ok_def)

lemma t1_inv_updates [simp]:
  "t1_inv addr (w\<lparr>dev := (dev w)\<lparr>last_frame := fr\<rparr>\<rparr>) = t1_inv addr w"
  "t1_inv addr (w\<lparr>dev := (dev w)\<lparr>t1_state := st\<rparr>\<rparr>) = t1_inv addr w"
  by (simp_all add: t1_inv_def)

lemma keeps_send_rframe:
  assumes "t1_inv addr w"
  shows "wp iso7816_t1_send_rframe (\<lambda>_. t1_inv addr) w"
proof -
  let ?e = "r_error (rframe (next_tx (dev w)))" and ?s = "i_seq_no (iframe (last_rx (dev w)))"
  have "?e \<in> {RFRAME_ERROR_NO, RFRAME_ERROR_PARITY, RFRAME_ERROR_OTHER}" "?s \<in> {0, 1}"
    "send_address (dev w) = addr"
    using assms by (simp_all add: t1_inv_def t1_ok_def bits_ok_def)
  with block_ok_with_lrc [OF rframe_pcb_ok [OF this(1,2)], of "[]" addr] assms
  show ?thesis
    unfolding iso7816_t1_send_rframe_def
    by (intro wp_intros keeps_hal_send) simp_all
qed

lemma sframe_block_ok:
  assumes "length bs = 4" and "n \<le> 4"
  shows "block_ok addr (with_lrc (addr # sframe_pcb ty # ucast (n :: u32) # take (unat n) bs))"
proof -
  have "length (take (unat n) bs) = unat n" "unat n \<le> 254"
    using assms by (simp_all add: word_le_nat_alt)
  with block_ok_with_lrc [OF sframe_pcb_ok, of "take (unat n) bs" addr ty] show ?thesis by simp
qed

lemma keeps_send_sframe:
  assumes "t1_inv addr w"
  shows "wp iso7816_t1_send_sframe (\<lambda>_. t1_inv addr) w"
proof -
  let ?s = "sframe (next_tx (dev w))"
  have "length bs = 4" if "s_data ?s = Some bs" for bs
    using assms that by (auto simp: t1_inv_def t1_ok_def bits_ok_def)
  then show ?thesis
    using assms block_ok_with_lrc [OF sframe_pcb_ok, of "[]"] sframe_block_ok [of _ 4]
    unfolding iso7816_t1_send_sframe_def Let_def
    by (intro wp_intros keeps_hal_send)
       (simp_all add: t1_inv_def t1_ok_def bits_ok_def sframe_block_ok not_less)
qed

lemma iframe_block_ok:
  assumes "s \<in> {0, 1}" and "n \<le> 254" and "length body = unat n"
  shows "block_ok addr (with_lrc ([addr, (if c then 0x20 else 0) OR push_bit 6 s, ucast (n :: u32)] @ body))"
proof -
  have "ucast n = (of_nat (length body) :: u8)"
    using assms(3) by simp
  then show ?thesis
    using block_ok_with_lrc [OF iframe_pcb_ok [OF assms(1)], of body] assms(2,3)
    by (simp add: word_le_nat_alt)
qed

lemma keeps_send_iframe:
  assumes "t1_inv addr w"
  shows "wp iso7816_t1_send_iframe (\<lambda>_. t1_inv addr) w"
proof -
  let ?i = "iframe (next_tx (dev w))"
  have inv: "length (proc_buf (dev w)) = 260" "i_seq_no ?i \<in> {0, 1}" "i_send_size ?i \<le> 254"
    using assms by (auto simp: t1_inv_def t1_ok_def bits_ok_def)
  have n: "unat (i_send_size ?i) \<le> 254" using inv(3) by (simp add: word_le_nat_alt)
  show ?thesis
    using assms inv n iframe_block_ok [OF inv(2,3)]
    unfolding iso7816_t1_send_iframe_def Let_def
    by (intro wp_intros keeps_hal_send) (simp_all add: t1_inv_def t1_ok_def del: append_Cons append_Nil)
qed

text \<open>An operation of the context keeps the invariant.\<close>

abbreviation keeps_t1 :: "u8 \<Rightarrow> 'a t1 \<Rightarrow> bool" where
  "keeps_t1 addr m \<equiv> keeps (t1_inv addr) m"

lemma keeps_modify_t1:
  assumes "\<And>p. t1_ok p \<Longrightarrow> t1_ok (f p)" and "\<And>p. send_address (f p) = send_address p"
  shows "keeps_t1 addr (modify f)"
  using assms by (intro keepsI wp_intros) (simp add: t1_inv_def)

lemma keeps_call_t1 [keeps_rules]: "(\<And>h. wire_policy addr h e) \<Longrightarrow> keeps_t1 addr (call e)"
  by (intro keepsI wp_intros) (simp add: t1_inv_def)

lemma keeps_free_t1 [keeps_rules]:
  "keeps_t1 addr (PROTOCOL_UDELAY us)" "keeps_t1 addr (ese_malloc n)" "keeps_t1 addr (read_bytes src k)"
  unfolding PROTOCOL_UDELAY_def ese_malloc_def read_bytes_def by (intro keeps_rules; simp)+

lemma send_address_pure [simp]:
  "send_address (iso7816_t1_reset_params p) = send_address p"
  "send_address (iso7816_t1_set_iframe p) = send_address p"
  "send_address (iso7816_t1_next_iframe p) = send_address p"
  "send_address (iso7816_t1_finish_recovery p) = send_address p"
  "send_address (retransmit p) = send_address p"
  "send_address (remember_tx p) = send_address p"
  "send_address (request_rframe e p) = send_address p"
  "send_address (set_rx_error e p) = send_address p"
  "send_address (set_rx_sframe ty p) = send_address p"
  "send_address (request_sframe ty d n p) = send_address p"
  by (simp_all add: iso7816_t1_reset_params_def iso7816_t1_set_iframe_def
      iso7816_t1_next_iframe_def iso7816_t1_finish_recovery_def retransmit_def remember_tx_def
      request_rframe_def set_rx_error_def set_rx_sframe_def request_sframe_def Let_def)

lemma t1_ok_apdu:
  "t1_ok p \<Longrightarrow> t1_ok (upd_next (\<lambda>f. f\<lparr>iframe := (iframe f)\<lparr>i_data := d, i_total_size := n\<rparr>\<rparr>) p)"
  by (simp add: t1_ok_def bits_ok_def)

lemma keeps_send_t1: "keeps_t1 addr (iso7816_t1_send data)"
  unfolding iso7816_t1_send_def
  by (intro keepsI wp_intros keeps_send_iframe keeps_send_rframe keeps_send_sframe)
     (simp_all add: t1_inv_def t1_ok_pure t1_ok_apdu)

lemma length_store_at: "off + length bs \<le> length buf \<Longrightarrow> length (store_at off bs buf) = length buf"
  by (simp add: store_at_def)

lemma keeps_receive_at: "off + n \<le> 260 \<Longrightarrow> keeps_t1 addr (receive_at off n)"
  unfolding receive_at_def
  by (intro keepsI wp_intros) (simp_all add: t1_inv_def t1_ok_def length_store_at)

lemma keeps_poll_address: "keeps_t1 addr (poll_address n)"
  by (induction n) (auto intro!: keeps_rules keeps_receive_at)

lemma keeps_receive_block: "keeps_t1 addr receive_block"
proof -
  have "3 + (unat (b :: u8) + 1) \<le> 260" for b using unsigned_less [of b, where ?'a = nat] by simp
  then show ?thesis
    unfolding receive_block_def
    by (intro keepsI wp_intros wp_keeps [OF keeps_poll_address] wp_keeps [OF keeps_receive_at])
       (auto simp: t1_inv_def)
qed

lemma send_address_decode [simp]:
  "send_address (accept_iframe pcb p) = send_address p"
  "send_address (refuse_iframe p) = send_address p"
  "send_address (rnack_retry p) = send_address p"
  "(\<And>q. send_address (f q) = send_address q) \<Longrightarrow> send_address (count_recovery f p) = send_address p"
  "(\<And>q. send_address (g q) = send_address q) \<Longrightarrow> send_address (ask_again e g p) = send_address p"
  by (simp_all add: accept_iframe_def refuse_iframe_def rnack_retry_def count_recovery_def
      ask_again_def Let_def)

lemma send_address_rframe [simp]: "send_address (decode_rframe pcb p) = send_address p"
  by (simp add: decode_rframe_def Let_def)

lemma keeps_store_t1: "keeps_t1 addr (ese_data_store l src n c)"
  unfolding ese_data_store_def by (intro keeps_rules)

lemma keeps_decode_iframe: "keeps_t1 addr (decode_iframe pcb data n)"
  unfolding decode_iframe_def
  by (intro keeps_rules keeps_modify_t1 keeps_store_t1) (simp_all add: t1_ok_iframe)

lemma keeps_decode_sframe: "keeps_t1 addr (decode_sframe pcb data n)"
  unfolding decode_sframe_def decode_wtx_request_def
  by (intro keeps_rules keeps_modify_t1) (simp_all add: t1_ok_pure t1_ok_count)

lemma keeps_decode_frame: "keeps_t1 addr (iso7816_t1_decode_frame data n)"
  unfolding iso7816_t1_decode_frame_def
  by (intro keeps_rules keeps_modify_t1 keeps_decode_iframe keeps_decode_sframe)
     (simp_all add: t1_ok_rframe)

lemma keeps_no_block: "keeps_t1 addr (no_block status)"
  unfolding no_block_def
  by (intro keeps_rules keeps_modify_t1)
     (simp_all add: t1_ok_ask_again t1_ok_counters t1_ok_pure bump)

lemma keeps_process: "keeps_t1 addr iso7816_t1_process"
  unfolding iso7816_t1_process_def
  by (intro keeps_rules keeps_modify_t1 keeps_receive_block keeps_decode_frame keeps_no_block)
     (simp_all add: t1_ok_ask_again t1_ok_counters)

lemma keeps_receive_loop: "keeps_t1 addr (receive_loop n)"
  by (induction n) (auto intro!: keeps_rules keeps_modify_t1 keeps_process keeps_send_t1)

lemma keeps_data_get: "keeps_t1 addr (ese_data_get l want)"
  unfolding ese_data_get_def ese_data_get_from_list_def by (intro keeps_rules) simp

lemma keeps_t1_receive: "keeps_t1 addr (iso7816_t1_receive n out)"
  unfolding iso7816_t1_receive_def
  by (intro keeps_rules keeps_modify_t1 keeps_receive_loop keeps_data_get) simp_all

subsection \<open>Sessions\<close>

text \<open>Any sequence of calls of the functions the protocol exports.\<close>

datatype t1_call =
  Send "u8 list" | Receive nat "u8 list" | Resync_Request | Resync_Response
| Wtx_Request u32 | Wtx_Response | Get_Data bool bool | Reset

fun t1_perform :: "t1_call \<Rightarrow> unit t1" where
  "t1_perform (Send data) = do { _ \<leftarrow> iso7816_t1_send (Some data); return () }"
| "t1_perform (Receive fuel out) = do { _ \<leftarrow> iso7816_t1_receive fuel out; return () }"
| "t1_perform Resync_Request = do { _ \<leftarrow> iso7816_t1_resync_request; return () }"
| "t1_perform Resync_Response = do { _ \<leftarrow> iso7816_t1_resync_response; return () }"
| "t1_perform (Wtx_Request time) = do { _ \<leftarrow> iso7816_t1_wtx_request time; return () }"
| "t1_perform Wtx_Response = do { _ \<leftarrow> iso7816_t1_wtx_response; return () }"
| "t1_perform (Get_Data d l) = do { _ \<leftarrow> iso7816_t1_get_data d l; return () }"
| "t1_perform Reset = iso7816_t1_reset"

primrec t1_session :: "t1_call list \<Rightarrow> unit t1" where
  "t1_session [] = return ()"
| "t1_session (c # cs) = do { t1_perform c; t1_session cs }"

lemma keeps_perform: "keeps_t1 addr (t1_perform c)"
  by (cases c) (auto simp: iso7816_t1_resync_request_def iso7816_t1_resync_response_def
      iso7816_t1_wtx_request_def iso7816_t1_wtx_response_def iso7816_t1_get_data_def
      iso7816_t1_reset_def peek_def t1_ok_pure
      intro!: keeps_rules keeps_modify_t1 keeps_send_t1 keeps_t1_receive keeps_process)

lemma keeps_session: "keeps_t1 addr (t1_session cs)"
  by (induction cs) (auto intro!: keeps_rules keeps_perform)

lemma fresh_t1_ok: "t1_ok (fresh_t1 a b h)"
  unfolding fresh_t1_def by (rule t1_ok_pure) (simp add: t1_ok_def bits_ok_def zero_frame_def)

text \<open>
  C7. Whatever sequence of exported protocol functions is called on a fresh context, whatever the
  element answers and whichever transfers and allocations fail: every block handed to the transport
  is a well-formed T=1 block (address, legal PCB, matching length byte of at most 254, correct
  checksum) unless an out-of-bounds read came before it, and the context's invariant holds: the
  buffer keeps its 260 bytes and the recovery, R-block and timeout counters their limits.
\<close>

theorem wire_blocks_wellformed:
  fixes w :: t1_world
  assumes "hist w = []" and "dev w = fresh_t1 addr raddr h"
  shows "obeys (wire_policy addr) (hist (exec (t1_session cs) w)) \<and> t1_ok (dev (exec (t1_session cs) w))"
proof -
  have "t1_inv addr w"
    using assms fresh_t1_ok by (simp add: t1_inv_def) (simp add: fresh_t1_def)
  from keepsD [OF keeps_session this] show ?thesis by (simp add: t1_inv_def)
qed

definition t1_demo :: "(ese_history \<Rightarrow> ese_event \<Rightarrow> ese_answer) \<Rightarrow> t1_world" where
  "t1_demo answers = \<lparr>dev = fresh_t1 0x12 0x21 True, hist = [], env = answers\<rparr>"

theorem wire_blocks_wellformed_witness:
  "obeys (wire_policy 0x12) (hist (exec (t1_session [Resync_Request, Send [0, 0xA4, 4, 0]])
     (t1_demo ready_allocator))) \<and>
   t1_ok (dev (exec (t1_session [Resync_Request, Send [0, 0xA4, 4, 0]]) (t1_demo ready_allocator)))"
  by (rule wire_blocks_wellformed) (simp_all add: t1_demo_def)

end
