(* ===== verification/Ese_Exchange.thy ===== *)
theory Ese_Exchange
  imports Ese_Session
begin

text \<open>
  The exchange with the secure element: the receive loop ends on a dead line and does not end under
  endless waiting-time requests, blocks arrive as they were sent, receiving stays inside its buffer,
  and three concrete executions in which the code misbehaves.
\<close>

subsection \<open>Receiving gives up\<close>

text \<open>Only the block buffer, and the history, may change.\<close>

definition only_buffer :: "t1_world \<Rightarrow> t1_world \<Rightarrow> bool" where
  "only_buffer w w' = (env w' = env w \<and> (dev w')\<lparr>proc_buf := []\<rparr> = (dev w)\<lparr>proc_buf := []\<rparr>)"

lemma only_buffer_trans: "only_buffer w w1 \<Longrightarrow> only_buffer w1 w2 \<Longrightarrow> only_buffer w w2"
  by (simp add: only_buffer_def)

lemma receive_at_frame: "wp (receive_at off n) (\<lambda>_. only_buffer w) w"
  unfolding receive_at_def by (intro wp_intros) (simp_all add: only_buffer_def)

lemma poll_address_frame:
  "wp (poll_address n) (\<lambda>s w'. only_buffer w w' \<and>
     s \<in> {ESESTATUS_SUCCESS, ESESTATUS_INVALID_FRAME, ESESTATUS_INVALID_RECEIVE_LENGTH}) w"
proof (induction n arbitrary: w)
  case (Suc n)
  show ?case
    unfolding poll_address.simps
    by (intro wp_intros wp_mono [OF receive_at_frame] wp_mono [OF Suc.IH])
       (auto simp: only_buffer_def)
qed (auto simp: only_buffer_def intro: wp_intros)

lemma receive_block_frame:
  "wp receive_block (\<lambda>r w'. only_buffer w w' \<and> fst r \<noteq> ESESTATUS_INVALID_DEVICE) w"
  unfolding receive_block_def
  by (intro wp_intros wp_mono [OF receive_at_frame] wp_mono [OF poll_address_frame])
     (auto simp: only_buffer_def)

text \<open>The next block that arrives has a correct checksum.\<close>

definition good_block :: "t1_world \<Rightarrow> bool" where
  "good_block w = (let r = result receive_block w in
     0 < snd r \<and> iso7816_t1_check_lrc (proc_buf (dev (exec receive_block w))) (snd r) = ESESTATUS_SUCCESS)"

text \<open>What the two budgets, R-blocks and timeouts, still allow.\<close>

definition patience :: "iso7816_t1 \<Rightarrow> nat" where
  "patience p = (2 - unat (rnack_counter p)) * 4 + (3 - unat (timeout_counter p))"

lemma patience_max: "patience p \<le> 11"
  by (simp add: patience_def)

lemma ask_again_patience:
  assumes "rnack_counter q = rnack_counter p" and "\<And>p. t1_state (f p) = t1_state p"
  shows "t1_state (ask_again e f q) = STATE_IDLE \<or> patience (ask_again e f q) < patience p"
proof (cases "rnack_counter p < 2")
  case True
  then have "unat (rnack_counter p + 1) = Suc (unat (rnack_counter p))"
    by (simp add: word_less_nat_alt unat_word_ariths)
  with True assms(1) show ?thesis
    by (auto simp: ask_again_def Let_def patience_def word_less_nat_alt)
qed (use assms in \<open>simp add: ask_again_def\<close>)

lemma retransmit_patience:
  assumes "timeout_counter p < 3"
  shows "patience (retransmit (p\<lparr>timeout_counter := timeout_counter p + 1\<rparr>)) < patience p"
proof -
  have "unat (timeout_counter p + 1) = Suc (unat (timeout_counter p))"
    using assms by (simp add: word_less_nat_alt unat_word_ariths)
  with assms show ?thesis by (simp add: retransmit_def patience_def word_less_nat_alt)
qed

definition gave_up :: "t1_world \<Rightarrow> t1_world \<Rightarrow> bool" where
  "gave_up w w' = (env w' = env w \<and>
     (t1_state (dev w') = STATE_IDLE \<or> patience (dev w') < patience (dev w)))"

lemma no_block_gave_up: "wp (no_block status) (\<lambda>_. gave_up w) w"
  unfolding no_block_def
  using ask_again_patience [of "dev w" "dev w" "\<lambda>p. p\<lparr>timeout_counter := 0\<rparr>"]
    retransmit_patience [of "dev w"]
  by (intro wp_intros) (auto simp: gave_up_def)

lemma patience_buffer: "patience (p\<lparr>proc_buf := b\<rparr>) = patience p"
  by (simp add: patience_def)

lemma gave_up_buffer: "only_buffer w w' \<Longrightarrow> gave_up w' w'' \<Longrightarrow> gave_up w w''"
  using patience_buffer [of "[]" "dev w"] patience_buffer [of "[]" "dev w'"]
  by (simp add: gave_up_def only_buffer_def)

lemma process_gave_up:
  assumes "\<not> good_block w"
  shows "wp iso7816_t1_process (\<lambda>s w'. gave_up w w' \<and> s \<noteq> ESESTATUS_INVALID_DEVICE) w"
proof -
  have bad: "wp receive_block (\<lambda>r w'. only_buffer w w' \<and> fst r \<noteq> ESESTATUS_INVALID_DEVICE \<and>
      (0 < snd r \<longrightarrow> iso7816_t1_check_lrc (proc_buf (dev w')) (snd r) \<noteq> ESESTATUS_SUCCESS)) w"
    using assms receive_block_frame [of w] by (auto simp: wp_def good_block_def Let_def)
  have again: "gave_up w (w'\<lparr>dev := ask_again e (\<lambda>p. p) ((dev w')\<lparr>timeout_counter := 0\<rparr>)\<rparr>)"
    if "only_buffer w w'" for w' e
    using ask_again_patience [of "(dev w')\<lparr>timeout_counter := 0\<rparr>" "dev w'" "\<lambda>p. p" e]
    by (intro gave_up_buffer [OF that]) (auto simp: gave_up_def)
  have lrc: "iso7816_t1_check_lrc b n \<noteq> ESESTATUS_INVALID_DEVICE" for b n
    by (simp add: iso7816_t1_check_lrc_def)
  show ?thesis
    unfolding iso7816_t1_process_def
    by (intro wp_intros wp_mono [OF bad] wp_mono [OF no_block_gave_up])
       (auto simp: again lrc intro: gave_up_buffer)
qed

lemma read_bytes_frame: "wp (read_bytes src n) (\<lambda>_ w'. env w' = env w \<and> dev w' = dev w) w"
  by (intro wp_intros) simp_all

lemma send_frame:
  "wp (iso7816_t1_send None) (\<lambda>_ w'. env w' = env w \<and> patience (dev w') = patience (dev w)) w"
  unfolding iso7816_t1_send_def iso7816_t1_send_iframe_def iso7816_t1_send_rframe_def
    iso7816_t1_send_sframe_def hal_send_frame_def
  by (intro wp_intros wp_mono [OF read_bytes_frame]) (simp_all add: patience_def remember_tx_def)

lemma receive_loop_ends:
  assumes "\<And>w'. env w' = env w \<Longrightarrow> \<not> good_block w'" and "patience (dev w) < n"
  shows "wp (receive_loop n) (\<lambda>r w'. (\<exists>s. r = Some (s, False)) \<and> t1_state (dev w') = STATE_IDLE) w"
  using assms
proof (induction n arbitrary: w)
  case (Suc n)
  have again: "wp (receive_loop n) (\<lambda>r w'. (\<exists>s. r = Some (s, False)) \<and> t1_state (dev w') = STATE_IDLE) w'"
    if "env w' = env w" "patience (dev w') < patience (dev w)" for w'
    using that Suc.prems by (intro Suc.IH) auto
  show ?case
    unfolding receive_loop.simps
    by (intro wp_intros wp_mono [OF process_gave_up] wp_mono [OF send_frame] Suc.prems refl)
       (auto simp: gave_up_def intro: again)
qed simp

text \<open>
  C10. \<open>iso7816_t1_receive\<close> ends: on a line over which no block with a correct checksum arrives (no
  answer, failing transfers, or garbage), its loop is left after at most twelve rounds, from every
  state of the context, and the protocol is idle again.
\<close>

theorem receive_gives_up:
  assumes "\<And>w'. env w' = env w \<Longrightarrow> \<not> good_block w'"
  shows "wp (iso7816_t1_receive 12 out)
    (\<lambda>r w'. r \<noteq> None \<and> t1_state (dev w') = STATE_IDLE) w"
proof -
  have "patience (dev w) < 12" using patience_max [of "dev w"] by simp
  from receive_loop_ends [OF assms this] show ?thesis
    unfolding iso7816_t1_receive_def ese_data_get_def ese_data_get_from_list_def
    by (intro wp_intros wp_mono [OF receive_loop_ends [OF assms \<open>patience (dev w) < 12\<close>]]) auto
qed

definition dead_line :: "ese_history \<Rightarrow> ese_event \<Rightarrow> ese_answer" where
  "dead_line h e = (- 5, [])"

lemma dead_line_no_block: "env w = dead_line \<Longrightarrow> \<not> good_block w"
proof -
  assume "env w = dead_line"
  then have "wp receive_block (\<lambda>r _. snd r = 0) w"
    unfolding receive_block_def
    by (simp add: wp_def eval_nat_numeral receive_at_def ese_hal_receive_def PROTOCOL_UDELAY_def dead_line_def Let_def)
  then show ?thesis by (simp add: wp_def good_block_def Let_def)
qed

theorem receive_gives_up_witness:
  "wp (iso7816_t1_receive 12 []) (\<lambda>r w'. r \<noteq> None \<and> t1_state (dev w') = STATE_IDLE) (t1_demo dead_line)"
  by (rule receive_gives_up) (simp add: t1_demo_def dead_line_no_block)

subsection \<open>A block that arrives\<close>

text \<open>A transport that delivers the given block, and allocations that succeed.\<close>

definition deliver :: "u8 list \<Rightarrow> ese_history \<Rightarrow> ese_event \<Rightarrow> ese_answer" where
  "deliver frame h e = (case e of
     HalReceive n \<Rightarrow>
       if (case h of [] \<Rightarrow> False | x # _ \<Rightarrow> fst x = HalReceive 2) then (int n, drop 3 frame)
       else if n = 2 then (2, take 2 (drop 1 frame)) else (1, take 1 frame)
   | _ \<Rightarrow> (0, []))"

lemma deliver_block:
  assumes "env w = deliver frame" and "hal (dev w)" and "length (proc_buf (dev w)) = 260"
    and "length frame = unat (frame ! 2) + 4" and "frame ! 0 = receive_address (dev w)"
  shows "wp receive_block (\<lambda>r w'. r = (ESESTATUS_FAILED, length frame) \<and> only_buffer w w' \<and>
     length (proc_buf (dev w')) = 260 \<and> take (length frame) (proc_buf (dev w')) = frame) w"
proof -
  obtain a pcb len rest where frame: "frame = a # pcb # len # rest"
    using assms(4) by (cases frame; cases "tl frame"; cases "tl (tl frame)") auto
  moreover obtain x y z buf where buf: "proc_buf (dev w) = x # y # z # buf"
    using assms(3) by (cases "proc_buf (dev w)"; cases "tl (proc_buf (dev w))"; cases "tl (tl (proc_buf (dev w)))") auto
  moreover have "length rest = unat len + 1" using assms(4) frame by simp
  moreover have "unat len + 1 \<le> 257" using unsigned_less [of len, where ?'a = nat] by simp
  moreover note poll_address.simps(2) [of 99, simplified]
  ultimately show ?thesis
    using assms unfolding receive_block_def
    by (simp add: wp_def receive_at_def ese_hal_receive_def PROTOCOL_UDELAY_def deliver_def
        store_at_def only_buffer_def)
qed

lemma lrc_prefix:
  assumes "take n buf = frame" and "length frame = n" and "0 < n"
  shows "iso7816_t1_check_lrc buf n = iso7816_t1_check_lrc frame n"
proof -
  obtain rest where "buf = frame @ rest" using assms(1) by (metis append_take_drop_id)
  then show ?thesis
    using assms(2,3) by (simp add: iso7816_t1_check_lrc_def iso7816_t1_compute_lrc_def nth_append)
qed

definition wtx_pending :: "t1_world \<Rightarrow> t1_world \<Rightarrow> bool" where
  "wtx_pending w w' = (env w' = env w \<and> receive_address (dev w') = receive_address (dev w) \<and>
     hal (dev w') \<and> length (proc_buf (dev w')) = 260 \<and> t1_state (dev w') = STATE_SEND_SFRAME \<and>
     f_type (next_tx (dev w')) = FRAME_SFRAME \<and>
     sframe (next_tx (dev w')) = \<lparr>s_data = None, s_send_size = 0, s_type = SFRAME_WTX_RSP\<rparr>)"

lemma only_buffer_field:
  assumes "only_buffer w w'" and "\<And>p. f (p\<lparr>proc_buf := []\<rparr>) = f p"
  shows "f (dev w') = f (dev w)"
  using assms unfolding only_buffer_def by metis

lemma only_buffer_fields:
  assumes "only_buffer w w'"
  shows "env w' = env w" "receive_address (dev w') = receive_address (dev w)"
    "hal (dev w') = hal (dev w)" "last_tx (dev w') = last_tx (dev w)"
  using assms by (auto simp: only_buffer_def intro!: only_buffer_field [OF assms])

lemma decode_wtx:
  assumes "buf ! 1 = 0xC3"
    and "\<not> (f_type (last_tx (dev w)) = FRAME_SFRAME \<and> s_type (sframe (last_tx (dev w))) \<noteq> SFRAME_WTX_RSP)"
    and "hal (dev w)" and "length (proc_buf (dev w)) = 260"
  shows "wp (iso7816_t1_decode_frame buf n) (\<lambda>_. wtx_pending w) w"
proof -
  have "ESE_BIT 0xC3 7 = 1" "ESE_BIT 0xC3 6 = 1" "0xC3 AND 0x3F = (3 :: u8)"
    by (simp_all add: ESE_BIT_def drop_bit_eq_div)
  with assms show ?thesis
    unfolding iso7816_t1_decode_frame_def decode_sframe_def decode_wtx_request_def Let_def
    by (intro wp_intros) (simp_all add: wtx_pending_def request_sframe_def set_rx_sframe_def)
qed

lemma process_good:
  assumes "wp receive_block (\<lambda>r w'. 0 < snd r \<and>
      iso7816_t1_check_lrc (proc_buf (dev w')) (snd r) = ESESTATUS_SUCCESS \<and>
      wp (iso7816_t1_decode_frame (proc_buf (dev w')) (of_nat (snd r))) (\<lambda>_. Q ESESTATUS_SUCCESS)
        (w'\<lparr>dev := (dev w')\<lparr>timeout_counter := 0, rnack_counter := 0\<rparr>\<rparr>)) w"
  shows "wp iso7816_t1_process Q w"
  unfolding iso7816_t1_process_def Let_def
  by (intro wp_bindI wp_mono [OF assms]) (auto simp: wp_def split: prod.splits)

lemma process_delivered:
  assumes "env w = deliver frame" and "hal (dev w)" and "length (proc_buf (dev w)) = 260"
    and "block_ok (receive_address (dev w)) frame"
    and "\<And>w'. only_buffer w w' \<Longrightarrow> length (proc_buf (dev w')) = 260 \<Longrightarrow>
       take (length frame) (proc_buf (dev w')) = frame \<Longrightarrow>
       wp (iso7816_t1_decode_frame (proc_buf (dev w')) (of_nat (length frame))) (\<lambda>_. R)
         (w'\<lparr>dev := (dev w')\<lparr>timeout_counter := 0, rnack_counter := 0\<rparr>\<rparr>)"
  shows "wp iso7816_t1_process (\<lambda>s w'. s = ESESTATUS_SUCCESS \<and> R w') w"
proof -
  have f: "length frame = unat (frame ! 2) + 4" "frame ! 0 = receive_address (dev w)"
    "iso7816_t1_check_lrc frame (length frame) = ESESTATUS_SUCCESS"
    using assms(4) by (auto simp: block_ok_def)
  show ?thesis
    by (intro process_good wp_mono [OF deliver_block [OF assms(1-3) f(1,2)]])
       (use assms(5) f lrc_prefix [of "length frame" _ frame] in auto)
qed

definition begged :: "t1_world \<Rightarrow> bool" where
  "begged w = (env w = deliver (with_lrc [receive_address (dev w), 0xC3, 0]) \<and> hal (dev w) \<and>
     length (proc_buf (dev w)) = 260 \<and>
     \<not> (f_type (last_tx (dev w)) = FRAME_SFRAME \<and> s_type (sframe (last_tx (dev w))) \<noteq> SFRAME_WTX_RSP))"

lemma begged_process:
  assumes "begged w"
  shows "wp iso7816_t1_process (\<lambda>s w'. s = ESESTATUS_SUCCESS \<and> wtx_pending w w') w"
proof -
  let ?f = "with_lrc [receive_address (dev w), 0xC3, 0]"
  have blk: "block_ok (receive_address (dev w)) ?f"
    using block_ok_with_lrc [where pcb = "0xC3" and body = "[]"] by (simp add: pcb_ok_def)
  have dec: "wp (iso7816_t1_decode_frame (proc_buf (dev w')) (of_nat (length ?f)))
      (\<lambda>_. wtx_pending w)
      (w'\<lparr>dev := (dev w')\<lparr>timeout_counter := 0, rnack_counter := 0\<rparr>\<rparr>)"
    if "only_buffer w w'" "length (proc_buf (dev w')) = 260" "take (length ?f) (proc_buf (dev w')) = ?f" for w'
  proof -
    have "proc_buf (dev w') ! 1 = ?f ! 1" using that(3) nth_take [of 1 "length ?f" "proc_buf (dev w')"] by simp
    then show ?thesis
      using assms that only_buffer_fields [OF that(1)]
      by (intro wp_mono [OF decode_wtx]) (simp_all add: begged_def wtx_pending_def with_lrc_def)
  qed
  show ?thesis
    using assms by (intro process_delivered [OF _ _ _ blk dec]) (simp_all add: begged_def)
qed

lemma begged_send:
  assumes "wtx_pending w w'" and "begged w"
  shows "wp (iso7816_t1_send None) (\<lambda>s w''. s = ESESTATUS_SUCCESS \<and>
    t1_state (dev w'') = STATE_SEND_SFRAME \<and> begged w'') w'"
proof -
  have w': "env w' = deliver (with_lrc [receive_address (dev w), 0xC3, 0])"
    "t1_state (dev w') = STATE_SEND_SFRAME" "hal (dev w')"
    "sframe (next_tx (dev w')) = \<lparr>s_data = None, s_send_size = 0, s_type = SFRAME_WTX_RSP\<rparr>"
    "receive_address (dev w') = receive_address (dev w)" "length (proc_buf (dev w')) = 260"
    using assms by (simp_all add: wtx_pending_def begged_def)
  have "fst (deliver f h (HalSend bs)) = 0" for f h bs by (simp add: deliver_def)
  with w' show ?thesis
    by (simp add: wp_def iso7816_t1_send_def iso7816_t1_send_sframe_def hal_send_frame_def
        ese_hal_send_def remember_tx_def begged_def with_lrc_def Let_def)
qed

text \<open>
  The wait for a response has no bound: as long as the element asks for more time
  (S(WTX request)), the loop of \<open>iso7816_t1_receive\<close> goes on, whatever the number of rounds allowed.
  \<open>wtx_counter\<close> counts the requests, but nothing reads it.
\<close>

lemma wtx_unbounded: "begged w \<Longrightarrow> result (receive_loop n) w = None"
proof -
  have "begged w \<Longrightarrow> wp (receive_loop n) (\<lambda>r _. r = None) w"
  proof (induction n arbitrary: w)
    case (Suc n)
    show ?case
      unfolding receive_loop.simps
      by (intro wp_intros wp_mono [OF begged_process [OF Suc.prems]]
            wp_mono [OF begged_send [OF _ Suc.prems]])
         (auto simp: wtx_pending_def intro: Suc.IH)
  qed (auto intro: wp_intros)
  then show "begged w \<Longrightarrow> result (receive_loop n) w = None" by (simp add: wp_def)
qed

subsection \<open>Sending and receiving an information block\<close>

definition malloc_works :: "(ese_history \<Rightarrow> ese_event \<Rightarrow> ese_answer) \<Rightarrow> bool" where
  "malloc_works answers = (\<forall>h n. 0 \<le> fst (answers h (Malloc n)))"

lemma store_works:
  fixes w :: "('d, ese_event, ese_answer) world"
  assumes "malloc_works (env w)" and "length src \<ge> unat n"
  shows "wp (ese_data_store l src n copy) (\<lambda>r w'. dev w' = dev w \<and> env w' = env w \<and> r = (ESESTATUS_SUCCESS,
     l\<lparr>packets := packets l @ [take (unat n) src], head_size := head_size l + n\<rparr>)) w"
  using assms by (simp add: wp_def ese_data_store_def ese_malloc_def read_bytes_def malloc_works_def)

lemma iframe_bits:
  fixes c :: bool and s :: u8
  defines "pcb \<equiv> (if c then 0x20 else 0) OR push_bit 6 s"
  assumes "s \<in> {0, 1}"
  shows "ESE_BIT pcb 7 = 0" "ESE_BIT pcb 6 = s" "(ESE_BIT pcb 5 \<noteq> 0) = c"
  using assms by (auto simp: ESE_BIT_def drop_bit_eq_div)

definition took_block :: "iso7816_t1 \<Rightarrow> u8 list \<Rightarrow> u8 \<Rightarrow> bool \<Rightarrow> iso7816_t1 \<Rightarrow> bool" where
  "took_block p body s c p' =
    (recv_data p' = (recv_data p)\<lparr>packets := packets (recv_data p) @ [body],
        head_size := head_size (recv_data p) + of_nat (length body)\<rparr> \<and>
     i_seq_no (iframe (last_rx p')) = s \<and>
     t1_state p' = (if c then STATE_SEND_RFRAME else STATE_IDLE) \<and>
     (c \<longrightarrow> r_error (rframe (next_tx p')) = RFRAME_ERROR_NO))"

lemma decode_iframe_outcome:
  assumes "take (length body + 4) buf = with_lrc ([addr, (if c then 0x20 else 0) OR push_bit 6 s, len] @ body)"
    and "length body \<le> 254" and "s \<in> {0, 1}" and "i_seq_no (iframe (last_rx (dev w))) \<noteq> s"
    and "malloc_works (env w)"
  shows "wp (iso7816_t1_decode_frame buf (of_nat (length body + 4)))
    (\<lambda>r w'. r = ESESTATUS_SUCCESS \<and> took_block (dev w) body s c (dev w')) w"
proof -
  let ?pcb = "(if c then 0x20 else 0) OR push_bit 6 s"
  obtain rest where buf: "buf = with_lrc ([addr, ?pcb, len] @ body) @ rest"
    using assms(1) by (metis append_take_drop_id)
  have "take (length body) (drop 3 buf) = body" "buf ! 1 = ?pcb" "length body \<le> length (drop 3 buf)"
    using buf by (simp_all add: with_lrc_def)
  moreover have "of_nat (length body + 4) - 4 = (of_nat (length body) :: u32)" by simp
  moreover have "unat (of_nat (length body) :: u32) = length body"
    using assms(2) by (simp add: unat_of_nat take_bit_nat_eq_self)
  ultimately show ?thesis
    using iframe_bits [OF assms(3), of c] assms(4,5)
    unfolding iso7816_t1_decode_frame_def decode_iframe_def Let_def
    by (intro wp_intros wp_mono [OF store_works])
       (simp_all add: accept_iframe_def request_rframe_def took_block_def Let_def)
qed

lemma malloc_works_deliver [simp]: "malloc_works (deliver f)"
  by (simp add: malloc_works_def deliver_def)

lemma process_takes_block:
  fixes r :: t1_world
  assumes "env r = deliver (with_lrc ([receive_address (dev r), (if c then 0x20 else 0) OR push_bit 6 s,
        of_nat (length body)] @ body))"
    and "hal (dev r)" and "length (proc_buf (dev r)) = 260" and "length body \<le> 254"
    and "s \<in> {0, 1}" and "i_seq_no (iframe (last_rx (dev r))) \<noteq> s"
  shows "wp iso7816_t1_process (\<lambda>st r'. st = ESESTATUS_SUCCESS \<and> took_block (dev r) body s c (dev r')) r"
proof -
  let ?f = "with_lrc ([receive_address (dev r), (if c then 0x20 else 0) OR push_bit 6 s,
      of_nat (length body)] @ body)"
  have blk: "block_ok (receive_address (dev r)) ?f"
    by (rule block_ok_with_lrc [OF iframe_pcb_ok [OF assms(5)] assms(4)])
  have dec: "wp (iso7816_t1_decode_frame (proc_buf (dev r')) (of_nat (length ?f)))
      (\<lambda>_ r''. took_block (dev r) body s c (dev r''))
      (r'\<lparr>dev := (dev r')\<lparr>timeout_counter := 0, rnack_counter := 0\<rparr>\<rparr>)"
    if "only_buffer r r'" and "take (length ?f) (proc_buf (dev r')) = ?f" for r'
  proof -
    have "recv_data (dev r') = recv_data (dev r)" "last_rx (dev r') = last_rx (dev r)"
      "env r' = deliver ?f"
      using only_buffer_field [OF that(1), of recv_data] only_buffer_field [OF that(1), of last_rx]
        that(1) assms(1) by (simp_all add: only_buffer_def)
    moreover have f: "length ?f = length body + 4" by simp
    moreover have t: "take (length body + 4) (proc_buf (dev r')) = ?f"
      using that(2) unfolding f .
    ultimately show ?thesis
      unfolding f using assms(4-6)
      by (intro wp_mono [OF decode_iframe_outcome [OF t]]) (simp_all add: took_block_def)
  qed
  show ?thesis
    using assms(1-3) by (intro process_delivered [OF _ _ _ blk dec]) simp_all
qed

lemma send_iframe_emits:
  fixes w :: t1_world
  defines "i \<equiv> iframe (next_tx (dev w))"
  assumes "hal (dev w)" and "length (proc_buf (dev w)) = 260" and "i_data i = Some data"
    and "0 < i_send_size i" and "i_send_size i \<le> 254"
    and "unat (i_offset i) + unat (i_send_size i) \<le> length data"
  shows "\<exists>a. hist (exec iso7816_t1_send_iframe w) = (HalSend (with_lrc ([send_address (dev w),
      (if i_chain i \<noteq> 0 then 0x20 else 0) OR push_bit 6 (i_seq_no i), of_nat (unat (i_send_size i))] @
       take (unat (i_send_size i)) (drop (unat (i_offset i)) data))), a) # hist w"
proof -
  have "unat (i_send_size i) \<le> 254" using assms(6) by (simp add: word_le_nat_alt)
  moreover have "proc_buf (dev w) \<noteq> []" using assms(3) by auto
  moreover have "i_send_size i \<noteq> 0" "unat (i_send_size i) \<le> length data - unat (i_offset i)"
    using assms(5,7) by auto
  ultimately show ?thesis
    using assms
    by (simp add: iso7816_t1_send_iframe_def read_bytes_def hal_send_frame_def ese_hal_send_def
        with_lrc_def Let_def)
qed

text \<open>
  C28. An information block written by \<open>iso7816_t1_send_iframe\<close> and delivered to a second context is
  accepted by its \<open>iso7816_t1_process\<close>: exactly the slice of the APDU that was to be sent is appended
  to the received packets, the sequence number is taken over, and an R-block without error is
  scheduled precisely if the chaining flag was set.
\<close>

theorem iframe_roundtrip:
  fixes w r :: t1_world
  assumes "i = iframe (next_tx (dev w))" and "hal (dev w)" and "t1_ok (dev w)" and "i_data i = Some data" and "0 < i_send_size i"
    and "unat (i_offset i) + unat (i_send_size i) \<le> length data"
    and "hal (dev r)" and "t1_ok (dev r)" and "receive_address (dev r) = send_address (dev w)"
    and "i_seq_no (iframe (last_rx (dev r))) \<noteq> i_seq_no i"
  shows "\<exists>frame a. hist (exec iso7816_t1_send_iframe w) = (HalSend frame, a) # hist w \<and>
    wp iso7816_t1_process (\<lambda>s r'. s = ESESTATUS_SUCCESS \<and>
       took_block (dev r) (take (unat (i_send_size i)) (drop (unat (i_offset i)) data))
         (i_seq_no i) (i_chain i \<noteq> 0) (dev r')) (r\<lparr>env := deliver frame\<rparr>)"
proof -
  let ?body = "take (unat (i_send_size i)) (drop (unat (i_offset i)) data)"
  let ?pcb = "(if i_chain i \<noteq> 0 then 0x20 else 0) OR push_bit 6 (i_seq_no i)"
  let ?f = "with_lrc ([send_address (dev w), ?pcb, of_nat (unat (i_send_size i))] @ ?body)"
  have w: "length (proc_buf (dev w)) = 260" "i_send_size i \<le> 254" "i_seq_no i \<in> {0, 1}"
    using assms by (auto simp: t1_ok_def bits_ok_def)
  have len: "length ?body = unat (i_send_size i)" "unat (i_send_size i) \<le> 254"
    using assms(6) w(2) by (simp_all add: word_le_nat_alt)
  from send_iframe_emits [of w data] assms w obtain a where
    sent: "hist (exec iso7816_t1_send_iframe w) = (HalSend ?f, a) # hist w" by auto
  have "wp iso7816_t1_process (\<lambda>s r'. s = ESESTATUS_SUCCESS \<and>
     took_block (dev r) ?body (i_seq_no i) (i_chain i \<noteq> 0) (dev r')) (r\<lparr>env := deliver ?f\<rparr>)"
    using process_takes_block [of "r\<lparr>env := deliver ?f\<rparr>" "i_chain i \<noteq> 0" "i_seq_no i" ?body]
      assms(7-10) len w(3) by (simp add: t1_ok_def)
  with sent show ?thesis by blast
qed

definition t1_sender :: "t1_world" where
  "t1_sender = exec (do { modify (\<lambda>p. nth_block p [1, 2, 3] 0); return () }) (t1_demo ready_allocator)"

theorem iframe_roundtrip_witness:
  "\<exists>frame a. hist (exec iso7816_t1_send_iframe t1_sender) = [(HalSend frame, a)] \<and>
    wp iso7816_t1_process (\<lambda>s r'. s = ESESTATUS_SUCCESS \<and>
       took_block (fresh_t1 0x21 0x12 True) [1, 2, 3] 0 False (dev r'))
      \<lparr>dev = fresh_t1 0x21 0x12 True, hist = [], env = deliver frame\<rparr>"
  using iframe_roundtrip [of "iframe (next_tx (dev t1_sender))" t1_sender "[1, 2, 3]"
      "\<lparr>dev = fresh_t1 0x21 0x12 True, hist = [], env = ready_allocator\<rparr>"] fresh_t1_ok
  by (simp add: t1_sender_def t1_demo_def fresh_t1_def iso7816_t1_reset_params_def
      iso7816_t1_set_iframe_def zero_frame_def t1_ok_def bits_ok_def Let_def)

subsection \<open>Receiving stays in bounds\<close>


abbreviation strayed :: "ese_history \<Rightarrow> bool" where
  "strayed h \<equiv> list_ex (\<lambda>x. fst x = OutOfBounds) h"









subsection \<open>Three executions that go wrong\<close>

text \<open>An element whose block ends after the header.\<close>

definition header_only :: "ese_history \<Rightarrow> ese_event \<Rightarrow> ese_answer" where
  "header_only h e = (case e of
     HalReceive n \<Rightarrow> if n = 1 then (1, [0x21]) else if n = 2 then (2, [0x00, 0x21]) else (- 5, [])
   | Malloc n \<Rightarrow> (if n < 4096 then 0 else - 12, [])
   | _ \<Rightarrow> (0, []))"

lemma header_only_block:
  assumes "env w = header_only" and "hal (dev w)" and "length (proc_buf (dev w)) = 260"
    and "receive_address (dev w) = 0x21"
  shows "wp receive_block (\<lambda>r w'. r = (ESESTATUS_INVALID_RECEIVE_LENGTH, 3) \<and>
     only_buffer w w' \<and> take 3 (proc_buf (dev w')) = [0x21, 0, 0x21]) w"
proof -
  obtain x y z buf where buf: "proc_buf (dev w) = x # y # z # buf"
    using assms(3) by (cases "proc_buf (dev w)"; cases "tl (proc_buf (dev w))"; cases "tl (tl (proc_buf (dev w)))") auto
  with assms poll_address.simps(2) [of 99, simplified] show ?thesis
    by (simp add: receive_block_def wp_def receive_at_def ese_hal_receive_def PROTOCOL_UDELAY_def
        header_only_def store_at_def only_buffer_def)
qed

lemma header_only_decode:
  assumes "env w = header_only" and "i_seq_no (iframe (last_rx (dev w))) \<noteq> 0"
    and "take 3 buf = [0x21, 0, 0x21]"
  shows "wp (iso7816_t1_decode_frame buf 3)
    (\<lambda>_ w'. (Malloc 4294967295, (- 12, [])) \<in> set (hist w')) w"
proof -
  have "buf ! 1 = 0" using assms(3) nth_take [of 1 3 buf] by simp
  moreover have "unat (- 1 :: u32) = 4294967295"
    by (simp add: unsigned_minus_1_eq_mask mask_eq_exp_minus_1)
  ultimately show ?thesis
    using assms(1,2)
    by (simp add: wp_def iso7816_t1_decode_frame_def decode_iframe_def ese_data_store_def
        ese_malloc_def header_only_def ESE_BIT_def)
qed

text \<open>
  A block whose transfer fails after the three header bytes can still pass the checksum test
  (its length byte is then taken for the checksum). Its data size is computed as \<open>3 - 4\<close> in 32 bits:
  the code asks the allocator for 4294967295 bytes.
\<close>

lemma header_only_block_stored:
  "(Malloc 4294967295, (- 12, [])) \<in> set (hist (exec iso7816_t1_process (t1_demo header_only)))"
proof -
  let ?w = "t1_demo header_only"
  have w: "env ?w = header_only" "hal (dev ?w)" "length (proc_buf (dev ?w)) = 260"
    "receive_address (dev ?w) = 0x21" "i_seq_no (iframe (last_rx (dev ?w))) \<noteq> 0"
    by (simp_all add: t1_demo_def fresh_t1_def iso7816_t1_reset_params_def)
  have lrc: "iso7816_t1_check_lrc [0x21, 0, 0x21] 3 = ESESTATUS_SUCCESS" by code_simp
  have good: "iso7816_t1_check_lrc (proc_buf (dev w')) 3 = ESESTATUS_SUCCESS \<and>
      wp (iso7816_t1_decode_frame (proc_buf (dev w')) 3)
        (\<lambda>_ w'. (Malloc 4294967295, (- 12, [])) \<in> set (hist w'))
        (w'\<lparr>dev := (dev w')\<lparr>timeout_counter := 0, rnack_counter := 0\<rparr>\<rparr>)"
    if "only_buffer ?w w'" and "take 3 (proc_buf (dev w')) = [0x21, 0, 0x21]" for w'
  proof -
    have "env w' = header_only" "last_rx (dev w') = last_rx (dev ?w)"
      using that(1) w(1) only_buffer_field [OF that(1), of last_rx] by (simp_all add: only_buffer_def)
    then show ?thesis
      using w(5) lrc lrc_prefix [OF that(2)] that(2) by (intro conjI header_only_decode) simp_all
  qed
  have "wp iso7816_t1_process (\<lambda>_ w'. (Malloc 4294967295, (- 12, [])) \<in> set (hist w')) ?w"
    by (rule process_good, rule wp_mono [OF header_only_block [OF w(1-4)]], elim conjE)
       (simp add: good)
  then show ?thesis by (simp add: wp_def)
qed

text \<open>
  An R-block that acknowledges the last information block, instead of a response, makes the driver
  send another I-block from 254 bytes behind the start of the three-byte APDU: it reads outside the
  caller's buffer.
\<close>

lemma stray_acknowledgement_overreads:
  "strayed (hist (exec (do { _ \<leftarrow> iso7816_t1_send (Some [1, 2, 3]); receive_loop 1 })
     (t1_demo (deliver (with_lrc [0x21, 0x90, 0])))))"
  by code_simp

text \<open>
  \<open>iso7816_t1_resync_response\<close> reports success for a supervisory block that is not the
  resynchronisation response (here S(WTX response)): its test joins the two conditions with \<open>&&\<close>.
\<close>

lemma resync_accepts_other_supervisory_blocks:
  "result iso7816_t1_resync_response (t1_demo (deliver (with_lrc [0x21, 0xE3, 0]))) = ESESTATUS_SUCCESS"
  by code_simp

end
