(* ===== verification/Ese_Star.thy ===== *)
theory Ese_Star
  imports Ese_Exchange
begin

text \<open>
  The secure element's character device (\<open>kernel/files/snvm/sec_star.c\<close>) and its board code
  (\<open>sec_k250a.c\<close>): opening and powering the element, chains of APDUs, the response buffer, and the
  bring-up of the I2C bus the element sits on. The build has neither \<open>FEATURE_STAR_WAKELOCK\<close> nor
  \<open>CONFIG_SEC_SNVM_PLATFORM_DRV\<close> nor \<open>CONFIG_SEC_SNVM_I2C_CLOCK_CONTROL\<close> nor
  \<open>USE_INTERNAL_PULLUP\<close>; the code under these is not
  modelled. The device's mutex makes each file operation one step.
\<close>

subsection \<open>State\<close>

text \<open>The response buffer: the empty list is the null pointer.\<close>

record sec_star =
  rsp :: "u8 list"
  rsp_size :: u32
  access :: u32
  direct :: int

text \<open>Pointers are kept as whether they are set.\<close>

record k250a_dev =
  vdd :: bool
  reset_gpio :: u32
  nvm_on_pin :: bool
  nvm_off_pin :: bool
  rpmh_pdev :: bool
  rpmh_ldo_addr :: u32
  rpmh_powered :: bool
  controller_np :: bool
  controller_pdev :: bool
  controller_pdev_owned :: bool
  controller_ocs_ready :: bool
  controller_ocs_applied :: bool
  compat_client :: bool

record star_sys =
  protocol :: iso7816_t1
  star :: sec_star
  k250a :: k250a_dev

type_synonym star_world = "(star_sys, ese_event, ese_answer) world"
type_synonym 'a star_io = "(star_world, 'a) state"

definition upd_star :: "(sec_star \<Rightarrow> sec_star) \<Rightarrow> unit star_io" where
  "upd_star f = modify (\<lambda>s. s\<lparr>star := f (star s)\<rparr>)"

definition upd_k250a :: "(k250a_dev \<Rightarrow> k250a_dev) \<Rightarrow> unit star_io" where
  "upd_k250a f = modify (\<lambda>s. s\<lparr>k250a := f (k250a s)\<rparr>)"

text \<open>A call into the protocol, on the context the device holds.\<close>

definition with_protocol :: "'a t1 \<Rightarrow> 'a star_io" where
  "with_protocol m = State (\<lambda>w.
     let (r, p) = run_state m \<lparr>dev = protocol (dev w), hist = hist w, env = env w\<rparr>
     in (r, w\<lparr>dev := (dev w)\<lparr>protocol := dev p\<rparr>, hist := hist p\<rparr>))"

definition kcall :: "ese_event \<Rightarrow> int star_io" where
  "kcall e = do { a \<leftarrow> call e; return (fst a) }"

abbreviation (input) EIO :: int where "EIO \<equiv> 5"
abbreviation (input) E2BIG :: int where "E2BIG \<equiv> 7"
abbreviation (input) EFAULT :: int where "EFAULT \<equiv> 14"
abbreviation (input) ENOTTY :: int where "ENOTTY \<equiv> 25"
abbreviation (input) ENOSPC :: int where "ENOSPC \<equiv> 28"

subsection \<open>Power\<close>

definition k250a_rpmh_power :: "bool \<Rightarrow> int star_io" where
  "k250a_rpmh_power enable = do {
     k \<leftarrow> gets k250a;
     if \<not> rpmh_pdev k \<or> rpmh_ldo_addr k = 0 then return (- ENODEV)
     else if rpmh_powered k = enable then return 0
     else do {
       ret \<leftarrow> kcall (RpmhWrite
         (if enable then [(rpmh_ldo_addr k, 1800), (rpmh_ldo_addr k + 8, 7), (rpmh_ldo_addr k + 4, 1)]
          else [(rpmh_ldo_addr k + 4, 0)]));
       (if ret = 0 then upd_k250a (\<lambda>k. k\<lparr>rpmh_powered := enable\<rparr>) else return ());
       return ret
     }
   }"

definition k250a_poweron :: "int star_io" where
  "k250a_poweron = do {
     k \<leftarrow> gets k250a;
     if \<not> vdd k then
       if rpmh_pdev k then do {
         ret \<leftarrow> k250a_rpmh_power True;
         (if ret = 0 then do { _ \<leftarrow> kcall (Msleep 20); return () } else return ());
         return ret
       }
       else if reset_gpio k = 0 then return (- ENODEV)
       else do {
         _ \<leftarrow> kcall (Gpio_Reset False);
         _ \<leftarrow> kcall (Udelay 1000);
         _ \<leftarrow> kcall (Gpio_Reset True);
         _ \<leftarrow> kcall (Msleep 20);
         return 0
       }
     else do {
       ret \<leftarrow> kcall (Regulator True);
       if ret \<noteq> 0 then return ret
       else do {
         _ \<leftarrow> kcall (Udelay 1000);
         (if nvm_on_pin k then do { _ \<leftarrow> kcall (Pinctrl True); return () } else return ());
         _ \<leftarrow> kcall (Msleep 20);
         return 0
       }
     }
   }"

definition k250a_poweroff :: "int star_io" where
  "k250a_poweroff = do {
     k \<leftarrow> gets k250a;
     if \<not> vdd k then
       if rpmh_pdev k then do {
         ret \<leftarrow> k250a_rpmh_power False;
         (if ret = 0 then do { _ \<leftarrow> kcall (Udelay 15000); return () } else return ());
         return ret
       }
       else return (- ENODEV)
     else do {
       (if nvm_off_pin k then do { _ \<leftarrow> kcall (Pinctrl False); return () } else return ());
       ret \<leftarrow> kcall (Regulator False);
       if ret \<noteq> 0 then return ret
       else do { _ \<leftarrow> kcall (Udelay 15000); return 0 }
     }
   }"

definition k250a_reset :: "int star_io" where
  "k250a_reset = do {
     k \<leftarrow> gets k250a;
     if reset_gpio k = 0 then return (- ENODEV)
     else do {
       _ \<leftarrow> kcall (Gpio_Reset False);
       _ \<leftarrow> kcall (Udelay 1000);
       _ \<leftarrow> kcall (Gpio_Reset True);
       _ \<leftarrow> kcall (Udelay 15000);
       return 0
     }
   }"

subsection \<open>Chains of APDUs\<close>

text \<open>\<open>BIGENDIAN_TO_UINT32\<close>: four bytes at a pointer with the bytes \<open>p\<close> behind it.\<close>

definition BIGENDIAN_TO_UINT32 :: "u8 list \<Rightarrow> u32 star_io" where
  "BIGENDIAN_TO_UINT32 p = do {
     bs \<leftarrow> read_bytes p 4;
     let b = (\<lambda>k. ucast ((bs @ replicate 4 0) ! k));
     return (push_bit 24 (b 0) OR push_bit 16 (b 1) OR push_bit 8 (b 2) OR b 3)
   }"

text \<open>
  How one command of the chain ends: the \<open>error\<close> label, the \<open>exit\<close> label, or the next command, with
  the bytes that are left, their number, and the responses so far.
\<close>

datatype chain_result =
  Chain_Error
| Chain_Exit data_list
| Chain_Next "u8 list" u32 data_list

text \<open>The response of a command that was not the last of its chain loses its two status bytes.\<close>

definition keep_stripped :: "data_list \<Rightarrow> u8 list \<Rightarrow> (ESE_STATUS \<times> data_list) star_io" where
  "keep_stripped so_far bytes =
    (if length bytes > 2 then ese_data_store so_far bytes (of_nat (length bytes) - 2) False
     else return (ESESTATUS_SUCCESS, so_far))"

definition keep_response ::
  "bool \<Rightarrow> data_list \<Rightarrow> u8 list \<Rightarrow> u8 list \<Rightarrow> u32 \<Rightarrow> chain_result star_io" where
  "keep_response is_last so_far bytes p_cmd cmd_size = do {
     (st, so_far) \<leftarrow> (if is_last then ese_data_store so_far bytes (of_nat (length bytes)) False
                     else keep_stripped so_far bytes);
     return (if st \<noteq> ESESTATUS_SUCCESS then Chain_Error else Chain_Next p_cmd cmd_size so_far)
   }"

text \<open>Whether the response does not end in the expected bytes behind the flag word.\<close>

definition unexpected :: "u32 \<Rightarrow> u8 list \<Rightarrow> u8 list \<Rightarrow> bool star_io" where
  "unexpected expected_size p_cmd bytes =
    (if of_nat (length bytes) < expected_size - 4 then return True
     else do {
       want \<leftarrow> read_bytes (drop 4 p_cmd) (unat (expected_size - 4));
       return (want \<noteq> drop (length bytes - unat (expected_size - 4)) bytes)
     })"

text \<open>
  From the label \<open>again\<close> to the end of the loop body; \<open>fuel\<close> rounds through the label, and \<open>rounds\<close> of
  the protocol's receive loop in each.
\<close>

primrec exchange ::
  "nat \<Rightarrow> nat \<Rightarrow> bool \<Rightarrow> u8 list \<Rightarrow> u32 \<Rightarrow> u8 list \<Rightarrow> u32 \<Rightarrow> data_list \<Rightarrow> u8 list \<Rightarrow>
   chain_result option star_io" where
  "exchange 0 rounds is_last cmd_data expected_size p_cmd cmd_size so_far out = return None"
| "exchange (Suc fuel) rounds is_last cmd_data expected_size p_cmd cmd_size so_far out = do {
     status \<leftarrow> with_protocol (iso7816_t1_send (Some cmd_data));
     if status \<noteq> ESESTATUS_SUCCESS then return (Some Chain_Error)
     else do {
       received \<leftarrow> with_protocol (iso7816_t1_receive rounds out);
       (case received of
          None \<Rightarrow> return None
        | Some (status, bytes) \<Rightarrow>
            if status \<noteq> ESESTATUS_SUCCESS then return (Some Chain_Error)
            else if expected_size = 0 then do {
              r \<leftarrow> keep_response is_last so_far bytes p_cmd cmd_size;
              return (Some r)
            }
            else do {
              flag \<leftarrow> BIGENDIAN_TO_UINT32 p_cmd;
              other \<leftarrow> unexpected expected_size p_cmd bytes;
              if other then do {
                (st, so_far) \<leftarrow> ese_data_store so_far bytes (of_nat (length bytes)) False;
                return (Some (if st \<noteq> ESESTATUS_SUCCESS then Chain_Error else Chain_Exit so_far))
              }
              else if flag AND 2 \<noteq> 0 then do {
                (st, so_far) \<leftarrow> keep_stripped so_far bytes;
                if st \<noteq> ESESTATUS_SUCCESS then return (Some Chain_Error)
                else exchange fuel rounds is_last cmd_data expected_size p_cmd cmd_size so_far bytes
              }
              else do {
                r \<leftarrow> keep_response is_last so_far bytes (drop (unat expected_size) p_cmd)
                      (cmd_size - expected_size);
                return (Some r)
              }
            })
     }
   }"

text \<open>The loop over the commands, \<open>left\<close> of \<open>chain_num\<close> to go.\<close>

primrec chain_loop ::
  "nat \<Rightarrow> nat \<Rightarrow> nat \<Rightarrow> nat \<Rightarrow> u8 list \<Rightarrow> u32 \<Rightarrow> data_list \<Rightarrow> chain_result option star_io" where
  "chain_loop fuel rounds chain_num 0 p_cmd cmd_size so_far = return (Some (Chain_Exit so_far))"
| "chain_loop fuel rounds chain_num (Suc left) p_cmd cmd_size so_far =
    (if cmd_size \<le> 12 then return (Some Chain_Error)
     else do {
       seq \<leftarrow> BIGENDIAN_TO_UINT32 p_cmd;
       if seq \<noteq> of_nat (chain_num - Suc left) then return (Some Chain_Error)
       else do {
         data_size \<leftarrow> BIGENDIAN_TO_UINT32 (drop 4 p_cmd);
         expected_size \<leftarrow> BIGENDIAN_TO_UINT32 (drop 8 p_cmd);
         let p_cmd = drop 12 p_cmd;
         let cmd_size = cmd_size - 12;
         if cmd_size < data_size + expected_size \<or> data_size > data_size + expected_size
         then return (Some Chain_Error)
         else do {
           r \<leftarrow> exchange fuel rounds (left = 0) (take (unat data_size) p_cmd) expected_size
                 (drop (unat data_size) p_cmd) (cmd_size - data_size) so_far [];
           (case r of
              Some (Chain_Next p_cmd cmd_size so_far) \<Rightarrow>
                chain_loop fuel rounds chain_num left p_cmd cmd_size so_far
            | _ \<Rightarrow> return r)
         }
       }
     })"

definition star_transceive :: "nat \<Rightarrow> nat \<Rightarrow> u8 list \<Rightarrow> (int \<times> u8 list) option star_io" where
  "star_transceive fuel rounds cmd =
    (if cmd = [] then return (Some (- 2, []))
     else if length cmd < 4 then return (Some (- 3, []))
     else do {
       chain_num \<leftarrow> BIGENDIAN_TO_UINT32 cmd;
       if chain_num = 0 \<or> chain_num > 257 then return (Some (- 4, []))
       else do {
         r \<leftarrow> chain_loop fuel rounds (unat chain_num) (unat chain_num) (drop 4 cmd)
               (of_nat (length cmd) - 4) ese_data_init;
         (case r of
            None \<Rightarrow> return None
          | Some (Chain_Exit so_far) \<Rightarrow> do {
              (st, bytes, so_far) \<leftarrow> ese_data_get so_far True;
              return (Some (0, case bytes of None \<Rightarrow> [] | Some bs \<Rightarrow> bs))
            }
          | Some _ \<Rightarrow> return (Some (- 5, [])))
       }
     })"

subsection \<open>File operations\<close>

definition star_dev_open :: "int star_io" where
  "star_dev_open = do {
     s \<leftarrow> gets star;
     if access s = 0 then do {
       with_protocol iso7816_t1_reset;
       ret \<leftarrow> k250a_poweron;
       if ret \<noteq> 0 then return ret
       else do { upd_star (\<lambda>s. s\<lparr>access := 1\<rparr>); return 0 }
     }
     else return (- EBUSY)
   }"

definition star_dev_close :: "int star_io" where
  "star_dev_close = do {
     s \<leftarrow> gets star;
     if access s \<noteq> 0 then do {
       ret \<leftarrow> k250a_poweroff;
       upd_star (\<lambda>s. s\<lparr>access := 0\<rparr>);
       return ret
     }
     else return 0
   }"

text \<open>The commands of \<open>star_dev_ioctl\<close>, decoded; \<open>STAR_SET_DIRECT\<close> with what \<open>get_user\<close> yields.\<close>

datatype star_ioctl =
  STAR_READ_SIZE | STAR_SET_DIRECT int | STAR_RESET_PROTOCOL | STAR_RESET_INTERFACE
| Unknown_Command | Foreign_Command

text \<open>The result, and what \<open>put_user\<close> stores.\<close>

fun star_dev_ioctl :: "star_ioctl \<Rightarrow> (int \<times> u32 option) star_io" where
  "star_dev_ioctl Foreign_Command = return (- ENOTTY, None)"
| "star_dev_ioctl STAR_READ_SIZE = do { s \<leftarrow> gets star; return (0, Some (rsp_size s)) }"
| "star_dev_ioctl (STAR_SET_DIRECT d) = do { upd_star (\<lambda>s. s\<lparr>direct := d\<rparr>); return (0, None) }"
| "star_dev_ioctl STAR_RESET_PROTOCOL = do { with_protocol iso7816_t1_reset; return (0, None) }"
| "star_dev_ioctl STAR_RESET_INTERFACE = do {
     _ \<leftarrow> k250a_reset;
     with_protocol iso7816_t1_reset;
     return (0, None)
   }"
| "star_dev_ioctl Unknown_Command = return (- EINVAL, None)"

definition drop_response :: "unit star_io" where
  "drop_response = upd_star (\<lambda>s. s\<lparr>rsp := [], rsp_size := 0\<rparr>)"

text \<open>
  \<open>star_dev_write\<close> of the bytes \<open>buf\<close>: the size is cut to 32 bits, so that only so many bytes are
  copied. \<open>None\<close> where the given rounds do not suffice.
\<close>

definition star_dev_write :: "nat \<Rightarrow> nat \<Rightarrow> u8 list \<Rightarrow> int option star_io" where
  "star_dev_write fuel rounds buf =
    (if buf = [] then return (Some (- EINVAL))
     else do {
       s \<leftarrow> gets star;
       (if rsp s \<noteq> [] \<and> rsp_size s > 0 then drop_response else return ());
       let cmd_size = (of_nat (length buf) :: u32);
       room \<leftarrow> ese_malloc (unat cmd_size);
       if \<not> room then return (Some (- ENOMEM))
       else do {
         missing \<leftarrow> kcall (CopyFromUser (unat cmd_size));
         if missing > 0 then return (Some (- EFAULT))
         else do {
           let cmd = take (unat cmd_size) buf;
           if direct s > 0 then do {
             valid \<leftarrow> gets (\<lambda>s. hal (protocol s));
             ret \<leftarrow> ese_hal_send valid cmd;
             if ret < 0 then return (Some (- EIO))
             else do {
               drop_response;
               return (Some (sint cmd_size))
             }
           }
           else do {
             r \<leftarrow> star_transceive fuel rounds cmd;
             (case r of
                None \<Rightarrow> return None
              | Some (ret, bytes) \<Rightarrow>
                  if ret \<noteq> 0 then return (Some (- EIO))
                  else do {
                    upd_star (\<lambda>s. s\<lparr>rsp := bytes, rsp_size := of_nat (length bytes)\<rparr>);
                    return (Some (sint cmd_size))
                  })
           }
         }
       }
     })"

text \<open>\<open>star_dev_read\<close> of \<open>count\<close> bytes (an \<open>unsigned int\<close> for the transport).\<close>

definition star_dev_read :: "nat \<Rightarrow> int star_io" where
  "star_dev_read count =
    (if count = 0 then return (- EINVAL)
     else do {
       s \<leftarrow> gets star;
       if direct s > 0 then do {
         room \<leftarrow> ese_malloc count;
         if \<not> room then return (- ENOMEM)
         else do {
           valid \<leftarrow> gets (\<lambda>s. hal (protocol s));
           (ret, bs) \<leftarrow> ese_hal_receive valid (unat (of_nat count :: u32));
           if ret < 0 then return (- EIO)
           else do {
             missing \<leftarrow> kcall (CopyToUser (take count (bs @ replicate count 0)));
             return (if missing > 0 then - ENOMEM else int count)
           }
         }
       }
       else if rsp s = [] \<or> rsp_size s = 0 then return (- ENOSPC)
       else if unat (rsp_size s) \<noteq> count then do { drop_response; return (- E2BIG) }
       else do {
         missing \<leftarrow> kcall (CopyToUser (take (unat (rsp_size s)) (rsp s)));
         drop_response;
         return (if missing > 0 then - ENOMEM else int count)
       }
     })"

subsection \<open>Bring-up\<close>

text \<open>\<open>ese_hal_init\<close>: whether the transport context was made; both bus types fill in their functions.\<close>

definition ese_hal_init :: "bool \<Rightarrow> bool star_io" where
  "ese_hal_init client =
    (if \<not> client then return False
     else do { ret \<leftarrow> kcall (Setup Alloc_Hal); return (0 \<le> ret) })"

definition star_open :: "bool \<Rightarrow> bool star_io" where
  "star_open client = do {
     ret \<leftarrow> kcall (Setup Alloc_Star);
     if ret < 0 then return False
     else do {
       upd_star (\<lambda>_. \<lparr>rsp = [], rsp_size = 0, access = 0, direct = 0\<rparr>);
       ok \<leftarrow> ese_hal_init client;
       if \<not> ok then return False
       else do {
         ok \<leftarrow> with_protocol (iso7816_t1_init 0x12 0x21 True);
         if \<not> ok then return False
         else do {
           ret \<leftarrow> kcall (Misc True);
           return (0 \<le> ret)
         }
       }
     }
   }"

definition star_close :: "unit star_io" where
  "star_close = do { _ \<leftarrow> kcall (Misc False); return () }"

text \<open>The device-tree part of \<open>k250a_probe\<close>: an error, or 0.\<close>

definition k250a_parse :: "int star_io" where
  "k250a_parse = do {
     ret \<leftarrow> kcall (Setup Get_Vdd);
     upd_k250a (\<lambda>k. k\<lparr>vdd := 0 \<le> ret\<rparr>);
     gpio \<leftarrow> kcall (Setup Read_Reset_Gpio);
     (if gpio < 0 then upd_k250a (\<lambda>k. k\<lparr>reset_gpio := 0\<rparr>)
      else do {
        upd_k250a (\<lambda>k. k\<lparr>reset_gpio := of_int gpio\<rparr>);
        ret \<leftarrow> kcall (Setup Request_Gpio);
        if ret < 0 then upd_k250a (\<lambda>k. k\<lparr>reset_gpio := 0\<rparr>)
        else do { _ \<leftarrow> kcall (Setup Gpio_Output); return () }
      });
     ret \<leftarrow> kcall (Setup Get_Pinctrl);
     if ret < 0 then return ret
     else do {
       on \<leftarrow> kcall (Setup Lookup_On);
       upd_k250a (\<lambda>k. k\<lparr>nvm_on_pin := 0 \<le> on\<rparr>);
       off \<leftarrow> kcall (Setup Lookup_Off);
       upd_k250a (\<lambda>k. k\<lparr>nvm_off_pin := 0 \<le> off\<rparr>);
       (if 0 \<le> off then do { _ \<leftarrow> kcall (Pinctrl False); return () } else return ());
       return 0
     }
   }"

text \<open>\<open>np\<close>: the client has a device-tree node (the client made by the module itself has none).\<close>

definition k250a_probe :: "bool \<Rightarrow> int star_io" where
  "k250a_probe np = do {
     ret \<leftarrow> (if np then k250a_parse else return 0);
     if ret \<noteq> 0 then return ret
     else do {
       ok \<leftarrow> star_open True;
       return (if ok then 0 else - ENODEV)
     }
   }"

definition k250a_remove :: "unit star_io" where
  "k250a_remove = do {
     k \<leftarrow> gets k250a;
     (if reset_gpio k \<noteq> 0 then do { _ \<leftarrow> kcall (Setup Free_Gpio); return () } else return ());
     star_close
   }"

definition acquire :: "bus_resource \<Rightarrow> int star_io" where
  "acquire r = kcall (Acquire r)"

definition release :: "bus_resource \<Rightarrow> unit star_io" where
  "release r = do { _ \<leftarrow> kcall (Release r); return () }"

text \<open>
  \<open>for_each_compatible_node\<close> over the PMIC nodes, each given by whether its id is \<open>"g"\<close>. Going on
  drops the reference to the node; the returns from inside the loop keep it.
\<close>

primrec find_provider :: "bool list \<Rightarrow> int star_io" where
  "find_provider [] = return (- ENODEV)"
| "find_provider (g # nodes) = do {
     _ \<leftarrow> acquire Provider_Node;
     if \<not> g then do { release Provider_Node; find_provider nodes }
     else do {
       ret \<leftarrow> acquire Device_Ref;
       upd_k250a (\<lambda>k. k\<lparr>rpmh_pdev := (ret = 0)\<rparr>);
       if ret \<noteq> 0 then return (- EPROBE_DEFER)
       else do {
         addr \<leftarrow> kcall Cmd_Db;
         upd_k250a (\<lambda>k. k\<lparr>rpmh_ldo_addr := of_int addr\<rparr>);
         if (of_int addr :: u32) = 0 then do {
           release Device_Ref;
           upd_k250a (\<lambda>k. k\<lparr>rpmh_pdev := False\<rparr>);
           return (- ENODEV)
         }
         else return 0
       }
     }
   }"

definition k250a_find_rpmh_provider :: "int star_io" where
  "k250a_find_rpmh_provider = do {
     a \<leftarrow> call Compatible_Nodes;
     find_provider (map (\<lambda>b. b = 1) (snd a))
   }"

text \<open>The four parts of \<open>k250a_remove_compat_bus\<close>.\<close>

definition remove_client :: "unit star_io" where
  "remove_client = do {
     k \<leftarrow> gets k250a;
     if compat_client k then do {
       release Compat_Client;
       upd_k250a (\<lambda>k. k\<lparr>compat_client := False\<rparr>)
     } else return ()
   }"

definition remove_controller :: "unit star_io" where
  "remove_controller = do {
     k \<leftarrow> gets k250a;
     (if controller_pdev_owned k \<and> controller_pdev k then release Platform_Device else return ());
     upd_k250a (\<lambda>k. k\<lparr>controller_pdev := False, controller_pdev_owned := False\<rparr>)
   }"

definition remove_changeset :: "unit star_io" where
  "remove_changeset = do {
     k \<leftarrow> gets k250a;
     (if controller_ocs_applied k then do {
        release Applied_Changeset;
        upd_k250a (\<lambda>k. k\<lparr>controller_ocs_applied := False\<rparr>)
      } else return ());
     k \<leftarrow> gets k250a;
     (if controller_ocs_ready k then do {
        release Changeset;
        upd_k250a (\<lambda>k. k\<lparr>controller_ocs_ready := False\<rparr>)
      } else return ())
   }"

definition put_controller_node :: "unit star_io" where
  "put_controller_node = do {
     k \<leftarrow> gets k250a;
     (if controller_np k then release Node else return ());
     upd_k250a (\<lambda>k. k\<lparr>controller_np := False\<rparr>)
   }"

definition k250a_remove_compat_bus :: "unit star_io" where
  "k250a_remove_compat_bus = do {
     remove_client;
     remove_controller;
     remove_changeset;
     put_controller_node
   }"

text \<open>Finding or making the controller's platform device: an error, or 0.\<close>

definition find_controller :: "int star_io" where
  "find_controller = do {
     found \<leftarrow> acquire Device_Ref;
     if found = 0 then do {
       upd_k250a (\<lambda>k. k\<lparr>controller_pdev := True\<rparr>);
       release Device_Ref;
       return 0
     }
     else do {
       upd_k250a (\<lambda>k. k\<lparr>controller_pdev := False\<rparr>);
       parent_np \<leftarrow> acquire Node;
       parent_pdev \<leftarrow> (if parent_np = 0 then acquire Device_Ref else return (- ENODEV));
       (if parent_np = 0 then release Node else return ());
       if parent_pdev \<noteq> 0 then return (- EPROBE_DEFER)
       else do {
         created \<leftarrow> acquire Platform_Device;
         upd_k250a (\<lambda>k. k\<lparr>controller_pdev := (created = 0)\<rparr>);
         release Device_Ref;
         if created \<noteq> 0 then return (- ENODEV)
         else do { upd_k250a (\<lambda>k. k\<lparr>controller_pdev_owned := True\<rparr>); return 0 }
       }
     }
   }"

text \<open>Making the I2C client on the controller's adapter: an error, or 0.\<close>

definition make_client :: "int star_io" where
  "make_client = do {
     adapter \<leftarrow> acquire Adapter_Ref;
     if adapter \<noteq> 0 then return (- EPROBE_DEFER)
     else do {
       client \<leftarrow> acquire Compat_Client;
       upd_k250a (\<lambda>k. k\<lparr>compat_client := (client = 0)\<rparr>);
       release Adapter_Ref;
       if client \<noteq> 0 then return client
       else do {
         bound \<leftarrow> kcall Has_Driver;
         return (if bound \<noteq> 0 then 0 else - ENODEV)
       }
     }
   }"

text \<open>Turning the controller's node on: an error, or 0.\<close>

definition apply_changeset :: "int star_io" where
  "apply_changeset = do {
     _ \<leftarrow> acquire Changeset;
     upd_k250a (\<lambda>k. k\<lparr>controller_ocs_ready := True\<rparr>);
     ret \<leftarrow> kcall (Setup Changeset_Update);
     if ret \<noteq> 0 then return ret
     else do {
       ret \<leftarrow> acquire Applied_Changeset;
       (if ret = 0 then upd_k250a (\<lambda>k. k\<lparr>controller_ocs_applied := True\<rparr>) else return ());
       return ret
     }
   }"

definition k250a_create_compat_bus :: "int star_io" where
  "k250a_create_compat_bus = do {
     np \<leftarrow> acquire Node;
     upd_k250a (\<lambda>k. k\<lparr>controller_np := (np = 0)\<rparr>);
     if np \<noteq> 0 then return (- ENODEV)
     else do {
       ret \<leftarrow> apply_changeset;
       ret \<leftarrow> (if ret \<noteq> 0 then return ret else find_controller);
       ret \<leftarrow> (if ret \<noteq> 0 then return ret else make_client);
       (if ret \<noteq> 0 then k250a_remove_compat_bus else return ());
       return ret
     }
   }"

definition k250a_init :: "int star_io" where
  "k250a_init = do {
     ret \<leftarrow> k250a_find_rpmh_provider;
     if ret \<noteq> 0 then return ret
     else do {
       ret \<leftarrow> acquire Driver;
       if ret \<noteq> 0 then do {
         release Device_Ref;
         upd_k250a (\<lambda>k. k\<lparr>rpmh_pdev := False\<rparr>);
         return ret
       }
       else do {
         ret \<leftarrow> k250a_create_compat_bus;
         if ret \<noteq> 0 then do {
           release Driver;
           release Device_Ref;
           upd_k250a (\<lambda>k. k\<lparr>rpmh_pdev := False\<rparr>);
           return ret
         }
         else return 0
       }
     }
   }"

definition k250a_exit :: "unit star_io" where
  "k250a_exit = do {
     k250a_remove_compat_bus;
     release Driver;
     k \<leftarrow> gets k250a;
     if rpmh_pdev k then do {
       release Device_Ref;
       upd_k250a (\<lambda>k. k\<lparr>rpmh_pdev := False\<rparr>)
     }
     else return ()
   }"

end
