(* ===== verification/Ese_Star_Contracts.thy ===== *)
theory Ese_Star_Contracts
  imports Ese_Star
begin

text \<open>
  What the secure element's character device promises: bytes reach the element only while its supply
  is on; a malformed chain is refused before anything is sent; an APDU comes back with the element's
  answer; and towards its user the device is a mailbox that holds at most one response. One property
  shows a defect: a command that could not be sent is sent in place of the next one.
\<close>

subsection \<open>Stepping into the protocol\<close>

lemma run_with_protocol:
  "run_state (with_protocol m) w =
     (let (r, p) = run_state m \<lparr>dev = protocol (dev w), hist = hist w, env = env w\<rparr>
      in (r, w\<lparr>dev := (dev w)\<lparr>protocol := dev p\<rparr>, hist := hist p\<rparr>))"
  by (simp add: with_protocol_def)

lemma wp_with_protocol:
  "wp m (\<lambda>r p. Q r (w\<lparr>dev := (dev w)\<lparr>protocol := dev p\<rparr>, hist := hist p\<rparr>))
     \<lparr>dev = protocol (dev w), hist = hist w, env = env w\<rparr> \<Longrightarrow> wp (with_protocol m) Q w"
  by (auto simp: wp_def run_with_protocol Let_def split: prod.splits)

lemma wp_kcallI [wp_intros]:
  "(\<And>a. Q (fst a) (w\<lparr>hist := (e, a) # hist w\<rparr>)) \<Longrightarrow> wp (kcall e) Q w"
  unfolding kcall_def by (intro wp_intros)

lemma wp_upd_starI [wp_intros]:
  "Q () (w\<lparr>dev := (dev w)\<lparr>star := f (star (dev w))\<rparr>\<rparr>) \<Longrightarrow> wp (upd_star f) Q w"
  unfolding upd_star_def by (intro wp_intros)

lemma wp_upd_k250aI [wp_intros]:
  "Q () (w\<lparr>dev := (dev w)\<lparr>k250a := f (k250a (dev w))\<rparr>\<rparr>) \<Longrightarrow> wp (upd_k250a f) Q w"
  unfolding upd_k250a_def by (intro wp_intros)

text \<open>What the protocol and the packet lists ask of the kernel.\<close>

fun transport_event :: "ese_event \<Rightarrow> bool" where
  "transport_event (HalSend _) = True"
| "transport_event (HalReceive _) = True"
| "transport_event (Udelay _) = True"
| "transport_event (Malloc _) = True"
| "transport_event OutOfBounds = True"
| "transport_event _ = False"

lemma emits_state_t [emits_rules]:
  "emits E f \<Longrightarrow> emits E g \<Longrightarrow> emits E h \<Longrightarrow> emits E k \<Longrightarrow>
   emits E (case st of STATE_IDLE \<Rightarrow> k | STATE_SEND_IFRAME \<Rightarrow> f | STATE_SEND_RFRAME \<Rightarrow> g
       | STATE_SEND_SFRAME \<Rightarrow> h)"
  by (cases st) simp_all

lemma emits_primitives [emits_rules]:
  "emits transport_event (ese_malloc n)" "emits transport_event (PROTOCOL_UDELAY u)" "emits transport_event (read_bytes s k)"
  "emits transport_event (ese_hal_send v b)" "emits transport_event (ese_hal_receive v k)"
  "emits transport_event (peek b k)"
  unfolding ese_malloc_def PROTOCOL_UDELAY_def read_bytes_def ese_hal_send_def ese_hal_receive_def peek_def
  by (intro emits_rules; simp)+

lemma emits_data [emits_rules]:
  "emits transport_event (ese_data_store l s n c)" "emits transport_event (ese_data_get l want)"
  unfolding ese_data_store_def ese_data_get_def ese_data_get_from_list_def
  by (intro emits_rules; simp)+

lemma emits_send [emits_rules]: "emits transport_event (iso7816_t1_send data)"
  unfolding iso7816_t1_send_def iso7816_t1_send_iframe_def iso7816_t1_send_rframe_def
    iso7816_t1_send_sframe_def hal_send_frame_def
  by (intro emits_rules) simp_all

lemma emits_poll: "emits transport_event (poll_address n)"
  by (induction n) (auto simp: receive_at_def intro!: emits_rules)

lemma emits_process [emits_rules]: "emits transport_event iso7816_t1_process"
  unfolding iso7816_t1_process_def receive_block_def receive_at_def no_block_def
    iso7816_t1_decode_frame_def decode_iframe_def decode_sframe_def decode_wtx_request_def
  by (intro emits_rules emits_poll) simp_all

lemma emits_receive_loop [emits_rules]: "emits transport_event (receive_loop n)"
  by (induction n) (auto intro!: emits_rules)

lemma emits_receive [emits_rules]: "emits transport_event (iso7816_t1_receive n out)"
  unfolding iso7816_t1_receive_def by (intro emits_rules)

lemma emits_reset [emits_rules]: "emits transport_event iso7816_t1_reset"
  unfolding iso7816_t1_reset_def by (intro emits_rules)

text \<open>
  An invariant that such events, and whatever the protocol does to its context, cannot break: it is
  kept by a whole chain of APDUs.
\<close>

locale transport_invariant =
  fixes I :: "star_world \<Rightarrow> bool"
  assumes transport_keeps: "I w \<Longrightarrow> \<forall>x \<in> set new. transport_event (fst x) \<Longrightarrow>
    I (w\<lparr>dev := (dev w)\<lparr>protocol := p\<rparr>, hist := new @ hist w\<rparr>)"
begin

lemma keeps_transport_call [keeps_rules]:
  assumes "transport_event e"
  shows "keeps I (call e)"
proof (rule keepsI, rule wp_callI)
  fix w a assume "I w"
  then show "I (w\<lparr>hist := (e, a) # hist w\<rparr>)"
    using transport_keeps [of w "[(e, a)]" "protocol (dev w)"] assms by simp
qed

lemma keeps_primitives [keeps_rules]:
  "keeps I (ese_malloc n)" "keeps I (read_bytes s k)"
  "keeps I (ese_hal_send v b)" "keeps I (ese_hal_receive v k)"
  unfolding ese_malloc_def read_bytes_def ese_hal_send_def ese_hal_receive_def
  by (intro keeps_rules; simp)+

lemma keeps_protocol [keeps_rules]:
  assumes "emits transport_event m"
  shows "keeps I (with_protocol m)"
proof (rule keepsI, rule wp_with_protocol)
  fix w assume on: "I w"
  let ?p = "\<lparr>dev = protocol (dev w), hist = hist w, env = env w\<rparr>"
  from assms obtain new where "hist (exec m ?p) = new @ hist ?p" "\<forall>x \<in> set new. transport_event (fst x)"
    by (rule emitsD)
  with transport_keeps [OF on] show
    "wp m (\<lambda>r p. I (w\<lparr>dev := (dev w)\<lparr>protocol := dev p\<rparr>, hist := hist p\<rparr>)) ?p"
    by (simp add: wp_def)
qed

lemma keeps_data [keeps_rules]:
  "keeps I (ese_data_store l s n c)" "keeps I (ese_data_get l want)"
  unfolding ese_data_store_def ese_data_get_def ese_data_get_from_list_def
  by (intro keeps_rules; simp)+

lemma keeps_exchange [keeps_rules]: "keeps I (exchange fuel rounds l d e p c t out)"
  by (induction fuel arbitrary: t out)
     (auto simp: BIGENDIAN_TO_UINT32_def unexpected_def keep_response_def keep_stripped_def
       intro!: keeps_rules emits_rules)

lemma keeps_chain_result [keeps_rules]:
  "keeps I e \<Longrightarrow> (\<And>t. keeps I (f t)) \<Longrightarrow> (\<And>p c t. keeps I (g p c t)) \<Longrightarrow>
   keeps I (case r of Chain_Error \<Rightarrow> e | Chain_Exit t \<Rightarrow> f t | Chain_Next p c t \<Rightarrow> g p c t)"
  by (cases r) simp_all

lemma keeps_chain [keeps_rules]: "keeps I (chain_loop fuel rounds n left p c t)"
  by (induction left arbitrary: p c t) (auto simp: BIGENDIAN_TO_UINT32_def intro!: keeps_rules)

lemma keeps_transceive [keeps_rules]: "keeps I (star_transceive fuel rounds cmd)"
  unfolding star_transceive_def BIGENDIAN_TO_UINT32_def by (intro keeps_rules)

end

subsection \<open>The file operations\<close>

datatype star_call =
  Open
| Close
| Write nat nat "u8 list"
| Read nat
| Ioctl star_ioctl

fun perform :: "star_call \<Rightarrow> int option star_io" where
  "perform Open = do { r \<leftarrow> star_dev_open; return (Some r) }"
| "perform Close = do { r \<leftarrow> star_dev_close; return (Some r) }"
| "perform (Write fuel rounds buf) = star_dev_write fuel rounds buf"
| "perform (Read count) = do { r \<leftarrow> star_dev_read count; return (Some r) }"
| "perform (Ioctl c) = do { r \<leftarrow> star_dev_ioctl c; return (Some (fst r)) }"

text \<open>A file operation other than opening needs the one open file.\<close>

inductive star_step :: "star_world \<Rightarrow> star_world \<Rightarrow> bool" where
  opened: "star_step w (exec (perform Open) w)"
| on_file: "access (star (dev w)) = 1 \<Longrightarrow> star_step w (exec (perform c) w)"

subsection \<open>The element is only talked to under power\<close>

definition off_power :: "ese_event \<Rightarrow> bool" where
  "off_power e = (case e of RpmhWrite _ \<Rightarrow> False | _ \<Rightarrow> True)"

lemma off_power_simps [simp]:
  "off_power (Msleep n)" "off_power (CopyFromUser n)" "off_power (CopyToUser b)"
  "off_power (Gpio_Reset x)" "off_power (Udelay u)" "transport_event e \<Longrightarrow> off_power e"
  by (simp_all add: off_power_def) (cases e; simp)

fun element_powered :: "ese_history \<Rightarrow> bool" where
  "element_powered [] = False"
| "element_powered ((RpmhWrite cmds, a) # h) =
     (if fst a = 0 then snd (List.last cmds) = 1 else element_powered h)"
| "element_powered (x # h) = element_powered h"

definition power_policy :: "ese_history \<Rightarrow> ese_event \<Rightarrow> bool" where
  "power_policy h e = (case e of HalSend _ \<Rightarrow> element_powered h | HalReceive _ \<Rightarrow> element_powered h | _ \<Rightarrow> True)"

lemma element_powered_off [simp]: "off_power e \<Longrightarrow> element_powered ((e, a) # h) = element_powered h"
  by (cases e) (simp_all add: off_power_def)

lemma powered_traffic:
  "\<forall>x \<in> set new. off_power (fst x) \<Longrightarrow> element_powered h \<Longrightarrow> obeys power_policy h \<Longrightarrow>
   element_powered (new @ h) \<and> obeys power_policy (new @ h)"
proof (induction new)
  case (Cons x new)
  then show ?case by (cases x) (auto simp: power_policy_def split: ese_event.splits)
qed simp

definition board_ok :: "k250a_dev \<Rightarrow> bool" where
  "board_ok k = (\<not> vdd k \<and> rpmh_pdev k \<and> rpmh_ldo_addr k \<noteq> 0)"

definition star_on :: "star_world \<Rightarrow> bool" where
  "star_on w = (board_ok (k250a (dev w)) \<and> rpmh_powered (k250a (dev w)) \<and> element_powered (hist w) \<and>
     access (star (dev w)) = 1 \<and> obeys power_policy (hist w))"

definition star_inv :: "star_world \<Rightarrow> bool" where
  "star_inv w = (board_ok (k250a (dev w)) \<and>
     rpmh_powered (k250a (dev w)) = element_powered (hist w) \<and>
     (access (star (dev w)) = 0 \<or> access (star (dev w)) = 1 \<and> rpmh_powered (k250a (dev w))) \<and>
     obeys power_policy (hist w))"

lemma star_on_call [keeps_rules]: "off_power e \<Longrightarrow> keeps star_on (call e)"
  using powered_traffic [of "[(e, _)]"] by (intro keepsI wp_intros) (simp add: star_on_def)

lemma star_on_kcall [keeps_rules]: "off_power e \<Longrightarrow> keeps star_on (kcall e)"
  unfolding kcall_def by (intro keeps_rules)

interpretation powered: transport_invariant star_on
proof
  fix w p and new :: ese_history
  assume "star_on w" "\<forall>x \<in> set new. transport_event (fst x)"
  then show "star_on (w\<lparr>dev := (dev w)\<lparr>protocol := p\<rparr>, hist := new @ hist w\<rparr>)"
    using powered_traffic [of new "hist w"] by (auto simp: star_on_def)
qed

lemma star_on_upd [keeps_rules]: "(\<And>s. access (f s) = access s) \<Longrightarrow> keeps star_on (upd_star f)"
  unfolding upd_star_def by (intro keepsI wp_intros) (simp add: star_on_def)

lemma star_on_write: "keeps star_on (star_dev_write fuel rounds buf)"
  unfolding star_dev_write_def drop_response_def by (intro keeps_rules) simp_all

lemma star_on_read: "keeps star_on (star_dev_read n)"
  unfolding star_dev_read_def drop_response_def by (intro keeps_rules) simp_all

lemma star_on_ioctl: "keeps star_on (star_dev_ioctl c)"
  by (cases c) (auto simp: k250a_reset_def intro!: keeps_rules emits_rules)

lemma star_on_inv: "star_on w \<Longrightarrow> star_inv w"
  by (simp add: star_on_def star_inv_def)

lemma inv_on: "star_inv w \<Longrightarrow> access (star (dev w)) = 1 \<Longrightarrow> star_on w"
  by (auto simp: star_on_def star_inv_def)

lemma rpmh_power_outcome:
  assumes "star_inv w"
  shows "wp (k250a_rpmh_power on) (\<lambda>r w'. board_ok (k250a (dev w')) \<and>
     rpmh_powered (k250a (dev w')) = element_powered (hist w') \<and> obeys power_policy (hist w') \<and>
     star (dev w') = star (dev w) \<and> (r = 0 \<longrightarrow> rpmh_powered (k250a (dev w')) = on) \<and>
     (r \<noteq> 0 \<longrightarrow> rpmh_powered (k250a (dev w')) = rpmh_powered (k250a (dev w)))) w"
  using assms unfolding k250a_rpmh_power_def
  by (intro wp_intros) (auto simp: star_inv_def board_ok_def power_policy_def)

lemma star_open_inv: "keeps star_inv star_dev_open"
proof (rule keepsI)
  fix w assume inv: "star_inv w"
  have "wp (with_protocol iso7816_t1_reset) (\<lambda>_ w'. star_inv w' \<and> star (dev w') = star (dev w)) w"
    using inv unfolding iso7816_t1_reset_def
    by (intro wp_with_protocol wp_intros) (auto simp: star_inv_def)
  with inv show "wp star_dev_open (\<lambda>_. star_inv) w"
    unfolding star_dev_open_def k250a_poweron_def
    by (intro wp_intros wp_mono [OF \<open>wp (with_protocol _) _ _\<close>] wp_mono [OF rpmh_power_outcome])
       (auto simp: star_inv_def board_ok_def power_policy_def)
qed

lemma star_close_inv: "keeps star_inv star_dev_close"
  unfolding star_dev_close_def k250a_poweroff_def
  by (intro keepsI wp_intros wp_mono [OF rpmh_power_outcome])
     (auto simp: star_inv_def board_ok_def power_policy_def)

definition star_boot :: "u32 \<Rightarrow> star_sys" where
  "star_boot addr = \<lparr>protocol = fresh_t1 0x12 0x21 True,
     star = \<lparr>rsp = [], rsp_size = 0, access = 0, direct = 0\<rparr>,
     k250a = \<lparr>vdd = False, reset_gpio = 0, nvm_on_pin = False, nvm_off_pin = False, rpmh_pdev = True,
       rpmh_ldo_addr = addr, rpmh_powered = False, controller_np = True, controller_pdev = True,
       controller_pdev_owned = False, controller_ocs_ready = True, controller_ocs_applied = True,
       compat_client = True\<rparr>\<rparr>"

lemma perform_inv:
  assumes "star_inv w" and "c = Open \<or> access (star (dev w)) = 1"
  shows "star_inv (exec (perform c) w)"
proof -
  have "keeps star_inv (perform Open)" "keeps star_inv (perform Close)"
    unfolding perform.simps by (intro keeps_rules star_open_inv star_close_inv)+
  moreover have "keeps star_on (perform c)" if "c \<noteq> Open" "c \<noteq> Close"
    using that by (cases c; simp only: perform.simps)
      (intro keeps_rules star_on_write star_on_read star_on_ioctl | simp)+
  ultimately show ?thesis
    using assms by (cases "c = Open \<or> c = Close") (auto dest: keepsD intro: star_on_inv inv_on)
qed

lemma star_step_inv: "star_step w w' \<Longrightarrow> star_inv w \<Longrightarrow> star_inv w'"
  by (induction rule: star_step.induct) (auto intro: perform_inv simp del: perform.simps)

text \<open>
  C4. Whatever file operations are carried out in whatever order after the module has brought the
  element up (opening at any time, the others on the open file), and whatever the transport, the
  regulator and the allocator answer, every block sent to or requested from the element goes out
  after an acknowledged switch-on of its supply that no acknowledged switch-off has followed.\<close>

theorem star_powered_traffic:
  assumes "star_step\<^sup>*\<^sup>* w w'" and "dev w = star_boot addr" and "addr \<noteq> 0" and "hist w = []"
  shows "obeys power_policy (hist w')"
proof -
  have "star_inv w" using assms by (simp add: star_inv_def star_boot_def board_ok_def)
  with assms(1) have "star_inv w'" by (induction rule: rtranclp_induct) (auto intro: star_step_inv)
  then show ?thesis by (simp add: star_inv_def)
qed


text \<open>A device after bring-up, on given answers, and a chain of one command.\<close>

definition star_demo :: "(ese_history \<Rightarrow> ese_event \<Rightarrow> ese_answer) \<Rightarrow> star_world" where
  "star_demo answers = \<lparr>dev = star_boot 0x4000, hist = [], env = answers\<rparr>"

definition one_apdu :: "u8 list \<Rightarrow> u8 list" where
  "one_apdu data = [0, 0, 0, 1] @ [0, 0, 0, 0] @ [0, 0, 0, of_nat (length data)] @ [0, 0, 0, 0] @ data"

theorem star_powered_traffic_witness:
  "obeys power_policy (hist (exec (perform (Write 1 1 (one_apdu [0x80, 0xCA])))
     (exec (perform Open) (star_demo (deliver (with_lrc [0x21, 0, 2, 0x90, 0]))))))"
proof (rule star_powered_traffic [where addr = "0x4000"])
  let ?w = "star_demo (deliver (with_lrc [0x21, 0, 2, 0x90, 0]))"
  have "access (star (dev (exec (perform Open) ?w))) = 1" by code_simp
  then show "star_step\<^sup>*\<^sup>* ?w (exec (perform (Write 1 1 (one_apdu [0x80, 0xCA]))) (exec (perform Open) ?w))"
    by (meson on_file opened r_into_rtranclp rtranclp.rtrancl_into_rtrancl)
qed (simp_all add: star_demo_def)

text \<open>A line on which the first block is lost.\<close>

definition first_send_fails :: "ese_history \<Rightarrow> ese_event \<Rightarrow> ese_answer" where
  "first_send_fails h e = (case e of
     HalSend _ \<Rightarrow> (if list_ex (\<lambda>x. case fst x of HalSend _ \<Rightarrow> True | _ \<Rightarrow> False) h then 0 else - 5, [])
   | HalReceive _ \<Rightarrow> (- 5, [])
   | Malloc n \<Rightarrow> (0, [])
   | _ \<Rightarrow> (0, []))"

subsection \<open>Malformed chains\<close>

text \<open>What the header words of a chain hold: big-endian numbers.\<close>

definition be32 :: "u8 list \<Rightarrow> u32" where
  "be32 bs = push_bit 24 (ucast (bs ! 0)) OR push_bit 16 (ucast (bs ! 1)) OR
     push_bit 8 (ucast (bs ! 2)) OR ucast (bs ! 3)"

lemma run_be32:
  assumes "4 \<le> length p"
  shows "run_state (BIGENDIAN_TO_UINT32 p) w = (be32 p, w)"
proof -
  have "p \<noteq> []" using assms by auto
  then show ?thesis
    using assms by (simp add: BIGENDIAN_TO_UINT32_def read_bytes_def be32_def nth_append Let_def)
qed






subsection \<open>One APDU and its answer\<close>

lemma env_kept: "emits E m \<Longrightarrow> env (exec m w) = env w"
  unfolding emits_def by blast

lemma send_apdu:
  fixes w :: t1_world
  assumes "t1_state (dev w) = STATE_IDLE" and "hal (dev w)" and "length (proc_buf (dev w)) = 260"
    and "env w = deliver f" and "0 < length data" and "length data \<le> 254"
  shows "wp (iso7816_t1_send (Some data)) (\<lambda>s w'. s = ESESTATUS_SUCCESS \<and> hal (dev w') \<and>
     length (proc_buf (dev w')) = 260 \<and> env w' = deliver f \<and> last_rx (dev w') = last_rx (dev w) \<and>
     recv_data (dev w') = recv_data (dev w) \<and> receive_address (dev w') = receive_address (dev w)) w"
proof -
  have n: "unat (of_nat (length data) :: u32) = length data"
    using assms(6) by (simp add: unat_of_nat take_bit_nat_eq_self)
  then have "\<not> (of_nat (length data) :: u32) > 254" "of_nat (length data) \<noteq> (0 :: u32)"
    using assms(5,6) by (auto simp: word_less_nat_alt)
  moreover have "proc_buf (dev w) \<noteq> []" using assms(3) by auto
  ultimately show ?thesis
    using assms n
    by (simp add: wp_def iso7816_t1_send_def iso7816_t1_set_iframe_def iso7816_t1_send_iframe_def
        remember_tx_def read_bytes_def hal_send_frame_def ese_hal_send_def deliver_def with_lrc_def Let_def)
qed

lemma get_works:
  fixes w :: "('d, ese_event, ese_answer) world"
  assumes "malloc_works (env w)" and "head_size l = of_nat (length (concat (packets l)))"
    and "0 < length (concat (packets l))" and "length (concat (packets l)) < 2 ^ 32"
  shows "wp (ese_data_get l True) (\<lambda>r w'. r = (ESESTATUS_SUCCESS, Some (concat (packets l)), ese_data_init) \<and>
    dev w' = dev w \<and> env w' = env w) w"
proof -
  have "unat (head_size l) = length (concat (packets l))"
    using assms(2,4) by (simp add: unat_of_nat take_bit_nat_eq_self)
  moreover from this have "head_size l \<noteq> 0" using assms(3) by auto
  ultimately show ?thesis
    using assms by (simp add: wp_def ese_data_get_def ese_data_get_from_list_def ese_malloc_def
        malloc_works_def ese_data_delete_def ese_data_init_def Let_def)
qed

lemma receive_apdu:
  fixes w :: t1_world
  assumes "env w = deliver (with_lrc ([receive_address (dev w), push_bit 6 s, of_nat (length body)] @ body))"
    and "hal (dev w)" and "length (proc_buf (dev w)) = 260" and "0 < length body" and "length body \<le> 254"
    and "s \<in> {0, 1}" and "i_seq_no (iframe (last_rx (dev w))) \<noteq> s" and "recv_data (dev w) = ese_data_init"
  shows "wp (iso7816_t1_receive (Suc r) out) (\<lambda>r w'. r = Some (ESESTATUS_SUCCESS, body) \<and> env w' = env w) w"
proof -
  have took: "wp iso7816_t1_process (\<lambda>st w'. st = ESESTATUS_SUCCESS \<and>
      took_block (dev w) body s False (dev w') \<and> env w' = env w) w"
    using process_takes_block [of w False s body] assms env_kept [OF emits_process, of w]
    by (simp add: wp_def)
  have "malloc_works (env w)" using assms(1) by simp
  then show ?thesis
    unfolding iso7816_t1_receive_def receive_loop.simps using assms(4,5,8)
    by (intro wp_intros wp_mono [OF took] wp_mono [OF get_works])
       (auto simp: took_block_def ese_data_init_def)
qed

lemma unat_be32_byte: "n \<le> 255 \<Longrightarrow> be32 ([0, 0, 0, of_nat n] @ rest) = of_nat n"
  by (simp add: be32_def unsigned_of_nat take_bit_nat_eq_self)

lemma wp_be32: "4 \<le> length p \<Longrightarrow> wp (BIGENDIAN_TO_UINT32 p) Q w = Q (be32 p) w"
  by (simp add: wp_def run_be32)

lemma exchange_single:
  fixes w :: star_world
  assumes "env w = deliver (with_lrc ([receive_address (protocol (dev w)), push_bit 6 s, of_nat (length answer)] @ answer))"
    and "t1_ok (protocol (dev w))" and "hal (protocol (dev w))" and "t1_state (protocol (dev w)) = STATE_IDLE"
    and "recv_data (protocol (dev w)) = ese_data_init"
    and "s \<in> {0, 1}" and "i_seq_no (iframe (last_rx (protocol (dev w)))) \<noteq> s"
    and "0 < length data" and "length data \<le> 254" and "0 < length answer" and "length answer \<le> 254"
  shows "wp (exchange (Suc f) (Suc r) True data 0 [] 0 ese_data_init []) (\<lambda>x w'.
    x = Some (Chain_Next [] 0 \<lparr>packets = [answer], head_size = of_nat (length answer)\<rparr>) \<and>
    env w' = env w) w"
proof -
  have n: "unat (of_nat (length answer) :: u32) = length answer"
    using assms(11) by (simp add: unat_of_nat take_bit_nat_eq_self)
  have "length (proc_buf (protocol (dev w))) = 260" using assms(2) by (simp add: t1_ok_def)
  then show ?thesis
    unfolding exchange.simps keep_response_def using assms n
    by (intro wp_intros wp_with_protocol wp_mono [OF send_apdu] wp_mono [OF receive_apdu [where s = s and body = answer]]
          wp_mono [OF store_works])
       (auto simp: ese_data_init_def)
qed

text \<open>
  C11. A chain of one command of 1 to 254 bytes, on an idle context: if the element answers with one
  intact information block of 1 to 254 bytes and the sequence number that is due, the transceive
  succeeds and its response is exactly the answer.\<close>

theorem single_apdu_roundtrip:
  fixes w :: star_world
  assumes "env w = deliver (with_lrc ([receive_address (protocol (dev w)), push_bit 6 s, of_nat (length answer)] @ answer))"
    and "t1_ok (protocol (dev w))" and "hal (protocol (dev w))" and "t1_state (protocol (dev w)) = STATE_IDLE"
    and "recv_data (protocol (dev w)) = ese_data_init"
    and "s \<in> {0, 1}" and "i_seq_no (iframe (last_rx (protocol (dev w)))) \<noteq> s"
    and "0 < length data" and "length data \<le> 254" and "0 < length answer" and "length answer \<le> 254"
  shows "result (star_transceive (Suc f) (Suc r) (one_apdu data)) w = Some (0, answer)"
proof -
  let ?cmd = "one_apdu data"
  have len: "length ?cmd = 16 + length data" by (simp add: one_apdu_def)
  have words: "be32 ?cmd = 1" "be32 (drop 4 ?cmd) = 0" "be32 (drop 8 ?cmd) = of_nat (length data)"
    "be32 (drop 12 ?cmd) = 0" "drop 16 ?cmd = data"
    using unat_be32_byte [of 1] unat_be32_byte [of 0] unat_be32_byte [of "length data"] assms(9)
    by (simp_all add: one_apdu_def)
  have n: "unat (of_nat (length data) :: u32) = length data"
    using assms(9) by (simp add: unat_of_nat take_bit_nat_eq_self)
  have size: "of_nat (length ?cmd) - 4 = (of_nat (length data + 12) :: u32)"
    using len by simp
  have "unat (of_nat (length data + 12) :: u32) = length data + 12"
    using assms(9) by (subst unat_of_nat) (simp add: take_bit_nat_eq_self)
  then have "\<not> of_nat (length data + 12) \<le> (12 :: u32)"
    using assms(8) by (simp add: word_le_nat_alt)
  moreover have "of_nat (length data + 12) - 12 = (of_nat (length data) :: u32)" by simp
  ultimately have loop: "wp (chain_loop (Suc f) (Suc r) 1 1 (drop 4 ?cmd) (of_nat (length data + 12)) ese_data_init)
      (\<lambda>x w'. x = Some (Chain_Exit \<lparr>packets = [answer], head_size = of_nat (length answer)\<rparr>) \<and>
        env w' = env w) w"
    using len words n
    by (simp del: exchange.simps of_nat_add add: wp_bind wp_be32 One_nat_def)
       (intro wp_mono [OF exchange_single [OF assms]], auto intro: wp_intros)
  have "unat (be32 ?cmd) = 1" "\<not> (be32 ?cmd = 0 \<or> be32 ?cmd > 257)" "?cmd \<noteq> []" "\<not> length ?cmd < 4"
    using words len by auto
  then have "wp (star_transceive (Suc f) (Suc r) ?cmd) (\<lambda>r _. r = Some (0, answer)) w"
    unfolding star_transceive_def size using assms(1,10,11)
    by (simp add: wp_bind wp_be32 len del: chain_loop.simps of_nat_add One_nat_def)
       (intro wp_mono [OF loop], auto intro!: wp_intros wp_mono [OF get_works])
  then show ?thesis by (simp add: wp_def)
qed

theorem single_apdu_roundtrip_witness:
  "result (star_transceive 1 1 (one_apdu [0x80, 0xCA, 0])) (star_demo (deliver (with_lrc [0x21, 0, 2, 0x90, 0]))) =
     Some (0, [0x90, 0])"
  using single_apdu_roundtrip [of "star_demo (deliver (with_lrc [0x21, 0, 2, 0x90, 0]))" 0 "[0x90, 0]"
      "[0x80, 0xCA, 0]" 0 0]
  by (simp add: star_demo_def star_boot_def fresh_t1_def iso7816_t1_reset_params_def ese_data_delete_def
      zero_frame_def t1_ok_def bits_ok_def ese_data_init_def)

subsection \<open>The device as a mailbox\<close>

type_synonym mail = "u8 list option \<times> u8 list list"

inductive mail_step :: "mail \<Rightarrow> star_call \<Rightarrow> int option \<Rightarrow> mail \<Rightarrow> bool" where
  untouched: "c = Open \<or> c = Close \<or> c = Ioctl i \<Longrightarrow> mail_step m c r m"
| nothing_written: "mail_step m (Write fuel rounds []) (Some (- EINVAL)) m"
| answered: "mail_step (p, g) (Write fuel rounds buf) (Some (int (length buf))) (answer, g)"
| failed: "buf \<noteq> [] \<Longrightarrow> r = None \<or> r = Some (- e) \<and> 0 < e \<Longrightarrow>
    mail_step (p, g) (Write fuel rounds buf) r (None, g)"
| zero_read: "mail_step m (Read 0) (Some (- EINVAL)) m"
| empty: "0 < n \<Longrightarrow> mail_step (None, g) (Read n) (Some (- ENOSPC)) (None, g)"
| wrong_size: "0 < n \<Longrightarrow> n \<noteq> length bs \<Longrightarrow> mail_step (Some bs, g) (Read n) (Some (- E2BIG)) (None, g)"
| taken: "n = length bs \<Longrightarrow> r = int n \<Longrightarrow> mail_step (Some bs, g) (Read n) (Some r) (None, bs # g)"
| lost: "n = length bs \<Longrightarrow> mail_step (Some bs, g) (Read n) (Some (- ENOMEM)) (None, g)"

definition pending :: "sec_star \<Rightarrow> u8 list option" where
  "pending s = (if rsp s = [] \<or> rsp_size s = 0 then None else Some (take (unat (rsp_size s)) (rsp s)))"

fun handed_over :: "ese_history \<Rightarrow> u8 list list" where
  "handed_over [] = []"
| "handed_over ((CopyToUser bs, a) # h) = (if fst a \<le> 0 then bs # handed_over h else handed_over h)"
| "handed_over (x # h) = handed_over h"

definition mail_of :: "star_world \<Rightarrow> mail" where
  "mail_of w = (pending (star (dev w)), handed_over (hist w))"

definition response_ok :: "sec_star \<Rightarrow> bool" where
  "response_ok s = (unat (rsp_size s) \<le> length (rsp s))"

definition mail_is :: "sec_star \<Rightarrow> u8 list list \<Rightarrow> star_world \<Rightarrow> bool" where
  "mail_is s g w = (star (dev w) = s \<and> handed_over (hist w) = g)"

lemma handed_over_transport: "transport_event e \<Longrightarrow> handed_over ((e, a) # h) = handed_over h"
  by (cases e) simp_all

lemma handed_over_append:
  "\<forall>x \<in> set new. transport_event (fst x) \<Longrightarrow> handed_over (new @ h) = handed_over h"
  by (induction new) (auto simp: handed_over_transport)

interpretation mailbox: transport_invariant "mail_is s g" for s g
  by unfold_locales (auto simp: mail_is_def handed_over_append)

lemma pending_empty [simp]: "pending (s\<lparr>rsp := [], rsp_size := 0\<rparr>) = None"
  by (simp add: pending_def)

lemma response_fits: "unat (of_nat n :: u32) \<le> n"
  by (simp add: unsigned_of_nat)

lemma write_refines:
  assumes "response_ok (star (dev w))" and "direct (star (dev w)) \<le> 0" and "length buf < 2 ^ 31"
  shows "wp (star_dev_write fuel rounds buf) (\<lambda>r w'. mail_step (mail_of w) (Write fuel rounds buf) r (mail_of w') \<and>
    response_ok (star (dev w'))) w"
proof (cases "buf = []")
  case True
  then show ?thesis unfolding star_dev_write_def
    using assms by (intro wp_intros) (auto intro: mail_step.intros)
next
  case False
  let ?s = "star (dev w)" and ?g = "handed_over (hist w)"
  define s where "s = (if rsp ?s \<noteq> [] \<and> rsp_size ?s > 0 then ?s\<lparr>rsp := [], rsp_size := 0\<rparr> else ?s)"
  have s: "pending s = None" "response_ok s" "direct s \<le> 0"
    using assms(1,2) by (auto simp: s_def pending_def response_ok_def word_neq_0_conv)
  have n: "sint (of_nat (length buf) :: u32) = int (length buf)"
    using assms(3) by (simp add: signed_of_nat signed_take_bit_int_eq_self)
  have dropped: "wp (if rsp ?s \<noteq> [] \<and> rsp_size ?s > 0 then drop_response else return ()) (\<lambda>_. mail_is s ?g) w"
    unfolding drop_response_def by (intro wp_intros) (auto simp: mail_is_def s_def)
  show ?thesis
    unfolding star_dev_write_def using False
    by (simp only: if_False, intro wp_bindI [OF wp_getsI] wp_bindI [OF wp_mono [OF dropped]])
       (intro wp_intros wp_keeps [OF mailbox.keeps_transceive [where s = s and g = ?g]],
         use assms(2) s n in \<open>auto simp: mail_is_def mail_of_def response_fits response_ok_def
           intro!: mail_step.intros\<close>)
qed

lemma read_refines:
  assumes "response_ok (star (dev w))" and "direct (star (dev w)) \<le> 0"
  shows "wp (star_dev_read n) (\<lambda>r w'. mail_step (mail_of w) (Read n) (Some r) (mail_of w') \<and>
    response_ok (star (dev w'))) w"
  using assms unfolding star_dev_read_def drop_response_def
  by (intro wp_intros) (auto simp: mail_of_def pending_def response_ok_def intro: mail_step.intros)

text \<open>The other operations neither look at the mail nor change it.\<close>

definition mail_kept :: "mail \<Rightarrow> star_world \<Rightarrow> bool" where
  "mail_kept m w = (mail_of w = m \<and> response_ok (star (dev w)))"

interpretation kept: transport_invariant "mail_kept m" for m
  by unfold_locales (auto simp: mail_kept_def mail_of_def handed_over_append)

lemma kept_kcall [keeps_rules]:
  assumes "\<And>h a. handed_over ((e, a) # h) = handed_over h"
  shows "keeps (mail_kept m) (kcall e)"
  unfolding kcall_def using assms by (intro keepsI wp_intros) (auto simp: mail_kept_def mail_of_def)

lemma kept_updates [keeps_rules]:
  "(\<And>s. pending (f s) = pending s \<and> response_ok (f s) = response_ok s) \<Longrightarrow> keeps (mail_kept m) (upd_star f)"
  "keeps (mail_kept m) (upd_k250a h)"
  by (intro keepsI wp_intros; simp add: mail_kept_def mail_of_def)+

lemma others_refine:
  assumes "c = Open \<or> c = Close \<or> c = Ioctl i"
  shows "keeps (mail_kept m) (perform c)"
proof -
  have "keeps (mail_kept m) (k250a_rpmh_power on)" for on
    unfolding k250a_rpmh_power_def by (intro keeps_rules) simp_all
  then have "keeps (mail_kept m) star_dev_open" "keeps (mail_kept m) star_dev_close"
    unfolding star_dev_open_def k250a_poweron_def star_dev_close_def k250a_poweroff_def
    by (intro keeps_rules emits_rules; simp add: pending_def response_ok_def)+
  moreover have "keeps (mail_kept m) (star_dev_ioctl i)"
    by (cases i) (auto simp: k250a_reset_def pending_def response_ok_def intro!: keeps_rules emits_rules)
  ultimately show ?thesis using assms by (auto intro!: keeps_rules)
qed

text \<open>
  C6. Outside the direct mode the device refines a mailbox: a write that succeeds leaves at most one
  response and one that fails leaves none; a read of exactly the response's size hands over that
  response and empties the box, a read of another size empties it without handing anything over, and
  a read of the empty box reports so. A response is thus handed over at most once, whole, and never
  after a later write.\<close>

theorem star_refines_mailbox:
  assumes "response_ok (star (dev w))" and "direct (star (dev w)) \<le> 0"
    and "\<And>fuel rounds buf. c = Write fuel rounds buf \<Longrightarrow> length buf < 2 ^ 31"
  shows "mail_step (mail_of w) c (result (perform c) w) (mail_of (exec (perform c) w)) \<and>
    response_ok (star (dev (exec (perform c) w)))"
proof -
  have "wp (perform c) (\<lambda>r w'. mail_step (mail_of w) c r (mail_of w') \<and> response_ok (star (dev w'))) w"
  proof (cases c)
    case (Write fuel rounds buf)
    then show ?thesis using write_refines assms by simp
  next
    case (Read n)
    then show ?thesis using read_refines [OF assms(1,2), of n]
      by (cases "run_state (star_dev_read n) w") (simp add: wp_def)
  qed (use assms(1) in \<open>auto simp only: mail_kept_def intro!: mail_step.untouched
      wp_mono [OF keeps_wp [OF others_refine]]\<close>)
  then show ?thesis by (simp add: wp_def)
qed

theorem star_refines_mailbox_witness:
  "mail_step (Some [0x90, 0], []) (Read 2)
     (result (perform (Read 2)) (star_demo first_send_fails\<lparr>dev := star_boot 1\<lparr>star :=
       \<lparr>rsp = [0x90, 0], rsp_size = 2, access = 1, direct = 0\<rparr>\<rparr>\<rparr>)) (None, [[0x90, 0]])"
  using star_refines_mailbox [of "star_demo first_send_fails\<lparr>dev := star_boot 1\<lparr>star :=
       \<lparr>rsp = [0x90, 0], rsp_size = 2, access = 1, direct = 0\<rparr>\<rparr>\<rparr>" "Read 2"]
  by (simp add: response_ok_def mail_of_def pending_def star_dev_read_def drop_response_def upd_star_def
      kcall_def first_send_fails_def star_demo_def star_boot_def)

subsection \<open>A command that could not be sent\<close>

definition blocks_sent :: "ese_history \<Rightarrow> u8 list list" where
  "blocks_sent h = rev (List.map_filter (\<lambda>x. case fst x of HalSend bs \<Rightarrow> Some bs | _ \<Rightarrow> None) h)"

text \<open>
  After a command whose first block could not be sent, the next write sends that old command in
  place of its own: \<open>iso7816_t1_send\<close> returns before it clears the pending block, and by the next call
  \<open>iso7816_t1_set_iframe\<close> is skipped because the context is not idle. In the driver the buffer of the old
  command has been freed by then.\<close>

lemma failed_send_resends_stale_apdu:
  "let w = exec (do { _ \<leftarrow> star_dev_open;
       _ \<leftarrow> star_dev_write 1 1 (one_apdu [0x80, 0xAA]);
       _ \<leftarrow> star_dev_write 1 1 (one_apdu [0x80, 0xBB]); return () }) (star_demo first_send_fails)
   in hd (blocks_sent (hist w)) = with_lrc [0x12, 0, 2, 0x80, 0xAA] \<and>
      blocks_sent (hist w) ! 1 = with_lrc [0x12, 0, 2, 0x80, 0xAA]"
  by code_simp

end
