(* ===== verification/Ese_Board_Contracts.thy ===== *)
theory Ese_Board_Contracts
  imports Ese_Star_Contracts
begin







lemma wp_acquireI [wp_intros]:
  "(\<And>a. Q (fst a) (w\<lparr>hist := (Acquire r, a) # hist w\<rparr>)) \<Longrightarrow> wp (acquire r) Q w"
  unfolding acquire_def by (intro wp_intros)

lemma wp_releaseI [wp_intros]:
  "(\<And>a. Q () (w\<lparr>hist := (Release r, a) # hist w\<rparr>)) \<Longrightarrow> wp (release r) Q w"
  unfolding release_def by (intro wp_intros)


















end
