(* ===== verification/Calls.thy ===== *)
theory Calls
  imports Prelude
begin

text \<open>
  Calls whose answer is a number and some data, the form most services of the kernel have: \<open>ask\<close> looks at
  the number, \<open>tell\<close> at nothing. The rules step over them in every judgement of the prelude; those of
  \<open>wp_explicit\<close> work on a world written out, which keeps the goals of a long sequence of calls small.
\<close>

definition ask :: "'e \<Rightarrow> (('d, 'e, int \<times> 'x) world, int) state" where
  "ask e = do { a \<leftarrow> call e; return (fst a) }"

definition tell :: "'e \<Rightarrow> (('d, 'e, int \<times> 'x) world, unit) state" where
  "tell e = do { _ \<leftarrow> call e; return () }"

lemma wp_askI [wp_intros]:
  "(\<And>a. Q (fst a) (w\<lparr>hist := (e, a) # hist w\<rparr>)) \<Longrightarrow> wp (ask e) Q w"
  unfolding ask_def by (intro wp_intros)

lemma wp_tellI [wp_intros]:
  "(\<And>a. Q () (w\<lparr>hist := (e, a) # hist w\<rparr>)) \<Longrightarrow> wp (tell e) Q w"
  unfolding tell_def by (intro wp_intros)

lemma emits_calls [emits_rules]: "E e \<Longrightarrow> emits E (ask e)" "E e \<Longrightarrow> emits E (tell e)"
  unfolding ask_def tell_def by (intro emits_rules; simp)+

lemma observe_calls [observer_rules]: "E e \<Longrightarrow> observer E (ask e)" "E e \<Longrightarrow> observer E (tell e)"
  unfolding ask_def tell_def by (intro observer_rules; simp)+

text \<open>What holds of the driver's memory alone, a call keeps.\<close>

lemma keeps_dev [keeps_rules]:
  "keeps (\<lambda>w. J (dev w)) (call e)" "keeps (\<lambda>w. J (dev w)) (ask e)" "keeps (\<lambda>w. J (dev w)) (tell e)"
  "(\<And>s. J s \<Longrightarrow> J (f s)) \<Longrightarrow> keeps (\<lambda>w. J (dev w)) (modify f)"
  unfolding ask_def tell_def by (simp_all add: keeps_def)

lemma observer_keeps_dev: "observer E m \<Longrightarrow> keeps (\<lambda>w. J (dev w)) m"
  by (simp add: observer_def keeps_def)

subsection \<open>Worlds written out\<close>

abbreviation (input) state :: "'d \<Rightarrow> ('e \<times> 'a) list \<Rightarrow> (('e \<times> 'a) list \<Rightarrow> 'e \<Rightarrow> 'a) \<Rightarrow> ('d, 'e, 'a) world" where
  "state d h v \<equiv> \<lparr>dev = d, hist = h, env = v\<rparr>"

lemma wp_state:
  fixes w :: "('d, 'e, 'a) world"
  shows "(\<And>d h v. w = state d h v \<Longrightarrow> wp m Q (state d h v)) \<Longrightarrow> wp m Q w"
  by (cases w) simp

lemma wp_ask_state: "(\<And>a. Q (fst a) (state d ((e, a) # h) v)) \<Longrightarrow> wp (ask e) Q (state d h v)"
  by (intro wp_askI) simp

lemma wp_tell_state: "(\<And>a. Q () (state d ((e, a) # h) v)) \<Longrightarrow> wp (tell e) Q (state d h v)"
  by (intro wp_tellI) simp

lemma wp_call_state: "(\<And>a. Q a (state d ((e, a) # h) v)) \<Longrightarrow> wp (call e) Q (state d h v)"
  by (intro wp_callI) simp

lemma wp_modify_state: "Q () (state (f d) h v) \<Longrightarrow> wp (modify f) Q (state d h v)"
  by (intro wp_modifyI) simp

lemma wp_gets_state: "Q (f d) (state d h v) \<Longrightarrow> wp (gets f) Q (state d h v)"
  by (intro wp_getsI) simp

named_theorems wp_explicit \<open>the rules of weakest preconditions over a world written out\<close>

lemmas [wp_explicit] = wp_returnI wp_bindI wp_call_state wp_ask_state wp_tell_state wp_modify_state wp_gets_state
  wp_ifI wp_LetI

end
