(* ===== verification/Pen_Digitizer.thy ===== *)
theory Pen_Digitizer
  imports Calls
begin

text \<open>
  The pen digitizer (\<open>kernel/files/wacom-wez01.c\<close>) and the calls both input drivers make: the I2C
  transfers, the input core, the timer, interrupt and regulator functions of the kernel. The calls are
  events; the answer of a call is its return value with the bytes it reads.
\<close>

subsection \<open>The calls of the input drivers\<close>

datatype rail = Avdd | Vddio

datatype axis =
  ABS_X | ABS_Y | ABS_PRESSURE | ABS_DISTANCE | ABS_TILT_X | ABS_TILT_Y
| ABS_MT_POSITION_X | ABS_MT_POSITION_Y | ABS_MT_TOUCH_MAJOR | ABS_MT_TOUCH_MINOR | ABS_MT_PRESSURE

datatype key = BTN_TOUCH | BTN_STYLUS | BTN_TOOL_PEN | BTN_TOOL_RUBBER | KEY_WAKEUP

text \<open>
  \<open>Mt_Slot\<close> is \<open>input_mt_slot\<close>, \<open>Mt_State\<close> the state of a finger in it (\<open>input_mt_report_slot_state\<close> and
  \<open>input_mt_report_slot_inactive\<close>), \<open>Mt_Position\<close> is \<open>touchscreen_report_pos\<close>. \<open>Timer_Fired\<close> is no
  call: it marks the moment at which the kernel runs the timer's callback.
\<close>

datatype report =
  Mt_Slot nat
| Mt_State bool
| Mt_Position u32 u32
| Abs axis int
| Key key bool
| Mt_Sync_Frame
| Sync

datatype bring_up =
  Check_Functionality | Has_Irq | Alloc_State | Get_Rail rail | Get_Enable_Rail rail | Get_Flash_Mode
| Add_Action | Alloc_Input | Set_Capability key | Set_Abs_Params axis int int | Set_Res axis int
| Set_Direct | Parse_Properties | Init_Slots nat | Request_Irq | Register_Input | Init_Wakeup | Add_Group

datatype input_event =
  Send "u8 list"
| Recv nat
| Transfer "u8 list" nat
| Sleep int
| Report report
| Timer_Setup
| Mod_Timer int
| Timer_Shutdown
| Timer_Fired
| Irq bool
| Irq_Wake bool
| Rail bool rail
| May_Wakeup
| Wakeup_Event int
| Pen_Query
| Bring_Up bring_up

type_synonym input_answer = "int \<times> u8 list"
type_synonym input_history = "(input_event \<times> input_answer) list"

text \<open>A kernel call for its return value, and one that reads \<open>n\<close> bytes into a buffer.\<close>

definition fetch :: "input_event \<Rightarrow> nat \<Rightarrow> (('d, input_event, input_answer) world, int \<times> u8 list) state" where
  "fetch e n = do { a \<leftarrow> call e; return (fst a, take n (snd a @ replicate n 0)) }"

primrec tell_all :: "report list \<Rightarrow> (('d, input_event, input_answer) world, unit) state" where
  "tell_all [] = return ()"
| "tell_all (r # rs) = do { tell (Report r); tell_all rs }"

definition get_unaligned_be16 :: "u8 \<Rightarrow> u8 \<Rightarrow> u16" where
  "get_unaligned_be16 hi lo = push_bit 8 (ucast hi) OR ucast lo"

abbreviation (input) EIO :: int where "EIO \<equiv> 5"

subsection \<open>State\<close>

record wacom_wez01 =
  max_x :: u16
  max_y :: u16
  max_pressure :: u16
  max_height :: u8
  max_tilt_x :: u8
  max_tilt_y :: u8
  prox :: bool

text \<open>The driver's globals and module parameters with the one device.\<close>

record pen_sys =
  pen :: wacom_wez01
  wez01_pen_proximity :: int
  wez01_touch_suppression :: int
  pen_x_min :: int
  pen_x_max :: int
  pen_y_min :: int
  pen_y_max :: int

type_synonym pen_world = "(pen_sys, input_event, input_answer) world"
type_synonym 'a pen_io = "(pen_world, 'a) state"

definition upd_pen :: "(wacom_wez01 \<Rightarrow> wacom_wez01) \<Rightarrow> unit pen_io" where
  "upd_pen f = modify (\<lambda>s. s\<lparr>pen := f (pen s)\<rparr>)"

definition wacom_wez01_should_suppress_touch :: "pen_sys \<Rightarrow> bool" where
  "wacom_wez01_should_suppress_touch s = (wez01_touch_suppression s \<noteq> 0 \<and> wez01_pen_proximity s \<noteq> 0)"

subsection \<open>Operations\<close>

definition wacom_wez01_send :: "u8 \<Rightarrow> int pen_io" where
  "wacom_wez01_send cmd = do {
     ret \<leftarrow> ask (Send [cmd]);
     return (if ret < 0 then ret else if ret \<noteq> 1 then - EIO else 0)
   }"

text \<open>The loop of the query: the block found, or the last return value.\<close>

primrec query_loop :: "nat \<Rightarrow> int \<Rightarrow> (int + u8 list) pen_io" where
  "query_loop 0 ret = return (Inl ret)"
| "query_loop (Suc n) ret = do {
     (ret, buf) \<leftarrow> fetch (Recv 32) 32;
     if ret = 32 \<and> buf ! 16 = 0x0F then return (Inr (drop 16 buf))
     else do { tell (Sleep 20000); query_loop n ret }
   }"

definition wacom_wez01_query :: "int pen_io" where
  "wacom_wez01_query = do {
     r \<leftarrow> query_loop 10 0;
     (case r of
        Inl ret \<Rightarrow> return (if ret < 0 then ret else - EIO)
      | Inr q \<Rightarrow> do {
          upd_pen (\<lambda>w. w\<lparr>max_x := get_unaligned_be16 (q ! 1) (q ! 2),
            max_y := get_unaligned_be16 (q ! 3) (q ! 4),
            max_pressure := get_unaligned_be16 (q ! 5) (q ! 6),
            max_tilt_x := q ! 11, max_tilt_y := q ! 12, max_height := q ! 13\<rparr>);
          return 0
        })
   }"

text \<open>\<open>atomic_cmpxchg\<close> of the proximity flag from 1 to 0.\<close>

definition wacom_wez01_leave_range :: "unit pen_io" where
  "wacom_wez01_leave_range = do {
     old \<leftarrow> gets wez01_pen_proximity;
     if old = 1 then do {
       modify (\<lambda>s. s\<lparr>wez01_pen_proximity := 0\<rparr>);
       w \<leftarrow> gets pen;
       if prox w then do {
         tell_all [Abs ABS_PRESSURE 0, Abs ABS_DISTANCE 0, Key BTN_TOUCH False, Key BTN_STYLUS False,
           Key BTN_TOOL_PEN False, Key BTN_TOOL_RUBBER False, Sync];
         upd_pen (\<lambda>w. w\<lparr>prox := False\<rparr>)
       }
       else return ()
     }
     else return ()
   }"

definition wacom_wez01_prox_timeout :: "unit pen_io" where
  "wacom_wez01_prox_timeout = wacom_wez01_leave_range"

text \<open>The coordinates of a frame: axes swapped, one inverted, both clamped to the calibration.\<close>

definition pen_point :: "pen_sys \<Rightarrow> u8 list \<Rightarrow> int \<times> int" where
  "pen_point s data =
    (clamp (uint (get_unaligned_be16 (data ! 3) (data ! 4))) (pen_x_min s) (pen_x_max s),
     clamp (uint (max_x (pen s)) - uint (get_unaligned_be16 (data ! 1) (data ! 2))) (pen_y_min s) (pen_y_max s))"

definition pen_reports :: "pen_sys \<Rightarrow> u8 list \<Rightarrow> report list" where
  "pen_reports s data =
    [Key BTN_TOOL_RUBBER (data ! 0 AND 0x40 \<noteq> 0),
     Key BTN_TOOL_PEN (data ! 0 AND 0x40 = 0),
     Key BTN_TOUCH (data ! 0 AND 0x10 \<noteq> 0),
     Key BTN_STYLUS (data ! 0 AND 0x20 \<noteq> 0),
     Abs ABS_X (fst (pen_point s data)),
     Abs ABS_Y (snd (pen_point s data)),
     Abs ABS_PRESSURE (uint (push_bit 8 (ucast (data ! 5 AND 0x0F)) OR ucast (data ! 6) :: u32)),
     Abs ABS_DISTANCE (uint (data ! 7)),
     Abs ABS_TILT_X (sint (data ! 8)),
     Abs ABS_TILT_Y (sint (data ! 9)),
     Sync]"

definition wacom_wez01_irq_handler :: "unit pen_io" where
  "wacom_wez01_irq_handler = do {
     (ret, data) \<leftarrow> fetch (Recv 17) 17;
     if ret \<noteq> 17 then return ()
     else if data ! 0 AND 0x0F \<noteq> 1 then return ()
     else if data ! 0 AND 0x80 = 0 then do {
       tell Timer_Shutdown;
       wacom_wez01_leave_range
     }
     else do {
       s \<leftarrow> gets id;
       tell_all (pen_reports s data);
       upd_pen (\<lambda>w. w\<lparr>prox := True\<rparr>);
       modify (\<lambda>s. s\<lparr>wez01_pen_proximity := 1\<rparr>);
       tell (Mod_Timer 250)
     }
   }"

definition wacom_wez01_stop_timer :: "unit pen_io" where
  "wacom_wez01_stop_timer = do {
     tell Timer_Shutdown;
     wacom_wez01_leave_range
   }"

definition wacom_wez01_suspend :: "int pen_io" where
  "wacom_wez01_suspend = do {
     tell (Irq False);
     tell Timer_Shutdown;
     wacom_wez01_leave_range;
     _ \<leftarrow> wacom_wez01_send 0x30;
     return 0
   }"

definition wacom_wez01_resume :: "int pen_io" where
  "wacom_wez01_resume = do {
     _ \<leftarrow> wacom_wez01_send 0x2D;
     _ \<leftarrow> wacom_wez01_send 0x31;
     tell (Irq True);
     return 0
   }"

subsection \<open>Probe\<close>

definition default_limits :: "wacom_wez01 \<Rightarrow> wacom_wez01" where
  "default_limits w = w\<lparr>max_x := 14752, max_y := 23603, max_pressure := 4095, max_height := 255,
     max_tilt_x := 63, max_tilt_y := 63\<rparr>"

definition zero_wacom :: wacom_wez01 where
  "zero_wacom = \<lparr>max_x = 0, max_y = 0, max_pressure = 0, max_height = 0, max_tilt_x = 0, max_tilt_y = 0,
     prox = False\<rparr>"

definition input_limits :: "wacom_wez01 \<Rightarrow> bring_up list" where
  "input_limits w =
    [Set_Capability BTN_TOUCH, Set_Capability BTN_STYLUS, Set_Capability BTN_TOOL_PEN,
     Set_Capability BTN_TOOL_RUBBER,
     Set_Abs_Params ABS_X 0 (uint (max_y w)), Set_Abs_Params ABS_Y 0 (uint (max_x w)),
     Set_Abs_Params ABS_PRESSURE 0 (uint (max_pressure w)),
     Set_Abs_Params ABS_DISTANCE 0 (uint (max_height w)),
     Set_Abs_Params ABS_TILT_X (- sint (max_tilt_x w)) (sint (max_tilt_x w)),
     Set_Abs_Params ABS_TILT_Y (- sint (max_tilt_y w)) (sint (max_tilt_y w)),
     Set_Res ABS_X 100, Set_Res ABS_Y 100, Set_Direct]"

primrec tell_bring_up :: "bring_up list \<Rightarrow> unit pen_io" where
  "tell_bring_up [] = return ()"
| "tell_bring_up (b # bs) = do { tell (Bring_Up b); tell_bring_up bs }"

text \<open>From the registration of the cleanup action on; the action runs when a later step fails.\<close>

definition probe_input :: "int pen_io" where
  "probe_input = do {
     ret \<leftarrow> ask (Bring_Up Add_Action);
     if ret \<noteq> 0 then return ret
     else do {
       ret \<leftarrow> ask (Bring_Up Alloc_Input);
       if ret < 0 then return (- ENOMEM)
       else do {
         w \<leftarrow> gets pen;
         tell_bring_up (input_limits w);
         ret \<leftarrow> ask (Bring_Up Request_Irq);
         if ret \<noteq> 0 then return ret
         else ask (Bring_Up Register_Input)
       }
     }
   }"

definition probe_device :: "int pen_io" where
  "probe_device = do {
     tell (Sleep 200000);
     ret \<leftarrow> wacom_wez01_query;
     (if ret \<noteq> 0 then upd_pen default_limits else return ());
     tell Timer_Setup;
     ret \<leftarrow> probe_input;
     if ret \<noteq> 0 then do { wacom_wez01_stop_timer; return ret }
     else do { _ \<leftarrow> wacom_wez01_send 0x31; return 0 }
   }"

definition wacom_wez01_probe :: "int pen_io" where
  "wacom_wez01_probe = do {
     ok \<leftarrow> ask (Bring_Up Check_Functionality);
     irq \<leftarrow> (if ok = 0 then return 0 else ask (Bring_Up Has_Irq));
     if ok = 0 then return (- ENODEV)
     else if irq = 0 then return (- EINVAL)
     else do {
       ret \<leftarrow> ask (Bring_Up Alloc_State);
       if ret < 0 then return (- ENOMEM)
       else do {
         upd_pen (\<lambda>_. zero_wacom);
         ret \<leftarrow> ask (Bring_Up (Get_Enable_Rail Avdd));
         if ret \<noteq> 0 then return ret
         else do {
           ret \<leftarrow> ask (Bring_Up Get_Flash_Mode);
           if ret < 0 then return ret else probe_device
         }
       }
     }
   }"

end
