(* ===== verification/Touch_Screen.thy ===== *)
theory Touch_Screen
  imports Pen_Digitizer
begin

text \<open>
  The touch screen (\<open>kernel/files/fts1ba90a.c\<close>): power and reset, the wake gesture, the event queue,
  the finger reports, suspend and resume. Whether the pen suppresses touch is asked of the pen driver,
  which may run between any two questions: each question is an event with an answer of its own.
\<close>

subsection \<open>State and transfers\<close>

record fts1ba90a =
  dtw_enabled :: bool
  lpm_suspended :: bool
  events :: "u8 list"

type_synonym fts_world = "(fts1ba90a, input_event, input_answer) world"
type_synonym 'a fts_io = "(fts_world, 'a) state"

definition fts1ba90a_write :: "u8 list \<Rightarrow> int fts_io" where
  "fts1ba90a_write cmd = do {
     ret \<leftarrow> ask (Send cmd);
     return (if ret < 0 then ret else if ret \<noteq> int (length cmd) then - EIO else 0)
   }"

text \<open>Two messages are transferred; the bytes are those of the second.\<close>

definition fts1ba90a_read :: "u8 list \<Rightarrow> nat \<Rightarrow> (int \<times> u8 list) fts_io" where
  "fts1ba90a_read cmd len = do {
     (ret, buf) \<leftarrow> fetch (Transfer cmd len) len;
     return (if ret < 0 then ret else if ret \<noteq> 2 then - EIO else 0, buf)
   }"

subsection \<open>Reset and power\<close>

definition is_ready :: "u8 list \<Rightarrow> bool" where
  "is_ready ev = (ev ! 0 AND 3 = 1 \<and> drop_bit 2 (ev ! 0) AND 0x0F = 2 \<and> ev ! 1 = 0)"

primrec ready_loop :: "nat \<Rightarrow> int fts_io" where
  "ready_loop 0 = return (- ETIMEDOUT)"
| "ready_loop (Suc n) = do {
     (ret, ev) \<leftarrow> fts1ba90a_read [0x60] 16;
     if ret \<noteq> 0 then return ret
     else if is_ready ev then return 0
     else do { tell (Sleep 20000); ready_loop n }
   }"

definition fts1ba90a_wait_for_ready :: "int fts_io" where
  "fts1ba90a_wait_for_ready = ready_loop 100"

definition fts1ba90a_reset :: "int fts_io" where
  "fts1ba90a_reset = do {
     ret \<leftarrow> fts1ba90a_write [0xFA, 0x20, 0x00, 0x00, 0x24, 0x81];
     if ret \<noteq> 0 then return ret
     else do { tell (Sleep 10000); fts1ba90a_wait_for_ready }
   }"

definition fts1ba90a_sense_on :: "int fts_io" where
  "fts1ba90a_sense_on = do {
     ret \<leftarrow> fts1ba90a_write [0x30, 0x61, 0];
     if ret \<noteq> 0 then return ret
     else do {
       ret \<leftarrow> fts1ba90a_write [0x62];
       if ret \<noteq> 0 then return ret
       else do {
         ret \<leftarrow> fts1ba90a_write [0xA0, 0x00, 0x01];
         if ret \<noteq> 0 then return ret
         else do { tell (Sleep 50000); return 0 }
       }
     }
   }"

definition fts1ba90a_start :: "int fts_io" where
  "fts1ba90a_start = do {
     ret \<leftarrow> fts1ba90a_reset;
     if ret \<noteq> 0 then return ret else fts1ba90a_sense_on
   }"

definition fts1ba90a_power_on :: "int fts_io" where
  "fts1ba90a_power_on = do {
     ret \<leftarrow> ask (Rail True Vddio);
     if ret \<noteq> 0 then return ret
     else do {
       tell (Sleep 1000);
       ret \<leftarrow> ask (Rail True Avdd);
       if ret \<noteq> 0 then do { tell (Rail False Vddio); return ret }
       else do { tell (Sleep 10000); return 0 }
     }
   }"

definition fts1ba90a_power_off :: "unit fts_io" where
  "fts1ba90a_power_off = do {
     tell (Rail False Avdd);
     tell (Sleep 4000);
     tell (Rail False Vddio)
   }"

subsection \<open>The wake gesture\<close>

primrec opmode_loop :: "nat \<Rightarrow> u8 \<Rightarrow> int fts_io" where
  "opmode_loop 0 mode = return (- EAGAIN)"
| "opmode_loop (Suc n) mode = do {
     ret \<leftarrow> fts1ba90a_write [0x31, mode];
     if ret \<noteq> 0 then return ret
     else do {
       tell (Sleep 5000);
       (ret, readback) \<leftarrow> fts1ba90a_read [0x31] 1;
       if ret = 0 \<and> readback ! 0 = mode then return 0 else opmode_loop n mode
     }
   }"

definition fts1ba90a_set_opmode :: "u8 \<Rightarrow> int fts_io" where
  "fts1ba90a_set_opmode mode = opmode_loop 3 mode"

definition fts1ba90a_write_sponge_mode :: "u8 \<Rightarrow> int fts_io" where
  "fts1ba90a_write_sponge_mode mode = do {
     ret \<leftarrow> fts1ba90a_write [0xAA, 0, 0, mode];
     if ret \<noteq> 0 then return ret else fts1ba90a_write [0xC0, 0, 0]
   }"

definition fts1ba90a_arm_gesture :: "int fts_io" where
  "fts1ba90a_arm_gesture = do {
     _ \<leftarrow> fts1ba90a_write_sponge_mode 0x20;
     ret \<leftarrow> fts1ba90a_set_opmode 1;
     if ret \<noteq> 0 \<and> ret \<noteq> - EAGAIN then return ret
     else fts1ba90a_write [0x39, 2]
   }"

definition fts1ba90a_disarm_gesture :: "int fts_io" where
  "fts1ba90a_disarm_gesture = do {
     _ \<leftarrow> fts1ba90a_write [0x39, 0];
     _ \<leftarrow> fts1ba90a_write_sponge_mode 0;
     fts1ba90a_set_opmode 0
   }"

definition fts1ba90a_is_double_tap :: "u8 list \<Rightarrow> bool" where
  "fts1ba90a_is_double_tap ev =
    (ev ! 0 AND 3 = 2 \<and> drop_bit 6 (ev ! 0) AND 3 = 1 \<and> drop_bit 2 (ev ! 0) AND 0x0F = 1 \<and> ev ! 1 = 1)"

subsection \<open>Reports\<close>

text \<open>The fields of an event, as the \<open>unsigned int\<close> variables of \<open>fts1ba90a_report_touch\<close>.\<close>

definition touch_slot :: "u8 list \<Rightarrow> u32" where
  "touch_slot ev = drop_bit 2 (ucast (ev ! 0)) AND 0x0F"

definition touch_type :: "u8 list \<Rightarrow> u32" where
  "touch_type ev = push_bit 2 (drop_bit 6 (ucast (ev ! 6))) OR drop_bit 6 (ucast (ev ! 7))"

definition touch_action :: "u8 list \<Rightarrow> u32" where
  "touch_action ev = drop_bit 6 (ucast (ev ! 0))"

definition touch_x :: "u8 list \<Rightarrow> u32" where
  "touch_x ev = push_bit 4 (ucast (ev ! 1)) OR drop_bit 4 (ucast (ev ! 3))"

definition touch_y :: "u8 list \<Rightarrow> u32" where
  "touch_y ev = push_bit 4 (ucast (ev ! 2)) OR (ucast (ev ! 3) AND 0x0F)"

definition touch_z :: "u8 list \<Rightarrow> u32" where
  "touch_z ev = ucast (ev ! 6) AND 0x3F"

definition touch_reports :: "u8 list \<Rightarrow> report list" where
  "touch_reports ev =
    (if ev ! 0 AND 3 \<noteq> 0 then []
     else if touch_slot ev \<ge> 10 then []
     else if touch_type ev = 5 then [Mt_Slot (unat (touch_slot ev)), Mt_State False]
     else if touch_type ev \<noteq> 0 \<and> touch_type ev \<noteq> 3 \<and> touch_type ev \<noteq> 6 then []
     else Mt_Slot (unat (touch_slot ev)) #
       (if touch_action ev = 3 then [Mt_State False]
        else if touch_action ev \<noteq> 1 \<and> touch_action ev \<noteq> 2 then []
        else [Mt_State True, Mt_Position (touch_x ev) (touch_y ev),
          Abs ABS_MT_TOUCH_MAJOR (uint (ev ! 4)), Abs ABS_MT_TOUCH_MINOR (uint (ev ! 5)),
          Abs ABS_MT_PRESSURE (if touch_z ev \<noteq> 0 then uint (touch_z ev) else 1)]))"

definition fts1ba90a_report_touch :: "u8 list \<Rightarrow> unit fts_io" where
  "fts1ba90a_report_touch ev = tell_all (touch_reports ev)"

definition fts1ba90a_suppress_touch :: "unit fts_io" where
  "fts1ba90a_suppress_touch =
     tell_all (concat (map (\<lambda>i. [Mt_Slot i, Mt_State False]) [0..<10]) @ [Mt_Sync_Frame, Sync])"

definition fts1ba90a_report_wake :: "unit fts_io" where
  "fts1ba90a_report_wake = do {
     tell_all [Key KEY_WAKEUP True, Sync, Key KEY_WAKEUP False, Sync];
     tell (Wakeup_Event 200)
   }"

definition pen_query :: "bool fts_io" where
  "pen_query = do { r \<leftarrow> ask Pen_Query; return (r \<noteq> 0) }"

text \<open>The loop over the queue, given by its events.\<close>

primrec event_loop :: "u8 list list \<Rightarrow> unit fts_io" where
  "event_loop [] = return ()"
| "event_loop (ev # evs) =
    (if fts1ba90a_is_double_tap ev then do { fts1ba90a_report_wake; event_loop evs }
     else do {
       suppress \<leftarrow> pen_query;
       if suppress then fts1ba90a_suppress_touch
       else do { fts1ba90a_report_touch ev; event_loop evs }
     })"

text \<open>\<open>n\<close> bytes copied into the buffer from an offset on.\<close>

definition put_bytes :: "nat \<Rightarrow> u8 list \<Rightarrow> u8 list \<Rightarrow> u8 list" where
  "put_bytes off new buf = take off buf @ new @ drop (off + length new) buf"

definition event_at :: "u8 list \<Rightarrow> nat \<Rightarrow> u8 list" where
  "event_at buf i = take 16 (drop (16 * i) buf)"

definition event_count :: "u8 list \<Rightarrow> nat" where
  "event_count buf = min 32 (unat (ucast (buf ! 7) AND 0x3F :: u32) + 1)"

text \<open>Reading the queue: the number of events in the buffer, or none after an error.\<close>

definition read_queue :: "nat option fts_io" where
  "read_queue = do {
     (ret, first) \<leftarrow> fts1ba90a_read [0x60] 16;
     modify (\<lambda>ts. ts\<lparr>events := put_bytes 0 first (events ts)\<rparr>);
     if ret \<noteq> 0 then return None
     else do {
       buf \<leftarrow> gets events;
       let count = event_count buf;
       if count > 1 then do {
         (ret, rest) \<leftarrow> fts1ba90a_read [0x61] ((count - 1) * 16);
         modify (\<lambda>ts. ts\<lparr>events := put_bytes 16 rest (events ts)\<rparr>);
         return (Some (if ret \<noteq> 0 then 1 else count))
       }
       else return (Some count)
     }
   }"

definition fts1ba90a_irq_handler :: "unit fts_io" where
  "fts1ba90a_irq_handler = do {
     n \<leftarrow> read_queue;
     (case n of
        None \<Rightarrow> return ()
      | Some count \<Rightarrow> do {
          buf \<leftarrow> gets events;
          event_loop (map (event_at buf) [0..<count]);
          suppress \<leftarrow> pen_query;
          if \<not> suppress then tell_all [Mt_Sync_Frame, Sync] else return ()
        })
   }"

subsection \<open>The switch, probe, suspend and resume\<close>

definition double_tap_to_wake_show :: "fts1ba90a \<Rightarrow> string" where
  "double_tap_to_wake_show ts = (if dtw_enabled ts then ''1'' else ''0'') @ [CHR 0x0A]"

text \<open>\<open>parsed\<close> is what \<open>kstrtobool\<close> makes of the text written: an error or the value.\<close>

definition double_tap_to_wake_store :: "int + bool \<Rightarrow> int \<Rightarrow> int fts_io" where
  "double_tap_to_wake_store parsed count =
    (case parsed of
       Inl ret \<Rightarrow> return ret
     | Inr enabled \<Rightarrow> do { modify (\<lambda>ts. ts\<lparr>dtw_enabled := enabled\<rparr>); return count })"

definition fts1ba90a_report_version :: "unit fts_io" where
  "fts1ba90a_report_version = do {
     (ret, id) \<leftarrow> fts1ba90a_read [0x22] 5;
     if ret \<noteq> 0 then return ()
     else do { _ \<leftarrow> fts1ba90a_read [0x24] 9; return () }
   }"

definition zero_fts :: fts1ba90a where
  "zero_fts = \<lparr>dtw_enabled = False, lpm_suspended = False, events = replicate 512 0\<rparr>"

text \<open>The calls that prepare the input device.\<close>

definition touch_limits :: "bring_up list" where
  "touch_limits =
    [Set_Capability KEY_WAKEUP, Set_Abs_Params ABS_MT_POSITION_X 0 1599,
     Set_Abs_Params ABS_MT_POSITION_Y 0 2559, Set_Abs_Params ABS_MT_TOUCH_MAJOR 0 255,
     Set_Abs_Params ABS_MT_TOUCH_MINOR 0 255, Set_Abs_Params ABS_MT_PRESSURE 0 63, Parse_Properties]"

primrec tell_setup :: "bring_up list \<Rightarrow> unit fts_io" where
  "tell_setup [] = return ()"
| "tell_setup (b # bs) = do { tell (Bring_Up b); tell_setup bs }"

text \<open>
  The probe with the rails on: the power-off action runs when a later step fails, and also when it
  cannot be registered.
\<close>

definition probe_powered :: "int fts_io" where
  "probe_powered = do {
     ret \<leftarrow> ask (Bring_Up Add_Action);
     if ret \<noteq> 0 then return ret
     else do {
       ret \<leftarrow> fts1ba90a_start;
       if ret \<noteq> 0 then return ret
       else do {
         fts1ba90a_report_version;
         ret \<leftarrow> ask (Bring_Up Request_Irq);
         if ret \<noteq> 0 then return ret
         else do {
           ret \<leftarrow> ask (Bring_Up Register_Input);
           if ret \<noteq> 0 then return ret
           else do {
             tell (Bring_Up Init_Wakeup);
             ask (Bring_Up Add_Group)
           }
         }
       }
     }
   }"

definition probe_supply :: "int fts_io" where
  "probe_supply = do {
     ret \<leftarrow> fts1ba90a_power_on;
     if ret \<noteq> 0 then return ret
     else do {
       ret \<leftarrow> probe_powered;
       (if ret \<noteq> 0 then fts1ba90a_power_off else return ());
       return ret
     }
   }"

definition fts1ba90a_probe :: "int fts_io" where
  "fts1ba90a_probe = do {
     ok \<leftarrow> ask (Bring_Up Check_Functionality);
     irq \<leftarrow> (if ok = 0 then return 0 else ask (Bring_Up Has_Irq));
     if ok = 0 then return (- ENODEV)
     else if irq = 0 then return (- EINVAL)
     else do {
       ret \<leftarrow> ask (Bring_Up Alloc_State);
       if ret < 0 then return (- ENOMEM)
       else do {
         modify (\<lambda>_. zero_fts);
         ret \<leftarrow> ask (Bring_Up (Get_Rail Avdd));
         ret \<leftarrow> (if ret < 0 then return ret else ask (Bring_Up (Get_Rail Vddio)));
         if ret < 0 then return ret
         else do {
           ret \<leftarrow> ask (Bring_Up Alloc_Input);
           if ret < 0 then return (- ENOMEM)
           else do {
             tell_setup touch_limits;
             ret \<leftarrow> ask (Bring_Up (Init_Slots 10));
             if ret \<noteq> 0 then return ret else probe_supply
           }
         }
       }
     }
   }"

definition suspend_off :: "int fts_io" where
  "suspend_off = do {
     tell (Irq False);
     fts1ba90a_power_off;
     return 0
   }"

definition fts1ba90a_suspend :: "int fts_io" where
  "fts1ba90a_suspend = do {
     ts \<leftarrow> gets id;
     may \<leftarrow> (if dtw_enabled ts then ask May_Wakeup else return 0);
     if may = 0 then suspend_off
     else do {
       ret \<leftarrow> ask (Irq_Wake True);
       if ret \<noteq> 0 then suspend_off
       else do {
         fts1ba90a_suppress_touch;
         ret \<leftarrow> fts1ba90a_arm_gesture;
         if ret \<noteq> 0 then do { tell (Irq_Wake False); suspend_off }
         else do { modify (\<lambda>ts. ts\<lparr>lpm_suspended := True\<rparr>); return 0 }
       }
     }
   }"

definition fts1ba90a_resume :: "int fts_io" where
  "fts1ba90a_resume = do {
     ts \<leftarrow> gets id;
     if lpm_suspended ts then do {
       modify (\<lambda>ts. ts\<lparr>lpm_suspended := False\<rparr>);
       tell (Irq_Wake False);
       ret \<leftarrow> fts1ba90a_disarm_gesture;
       (if ret \<noteq> 0 then do { _ \<leftarrow> fts1ba90a_start; return () } else return ());
       return 0
     }
     else do {
       ret \<leftarrow> fts1ba90a_power_on;
       if ret \<noteq> 0 then return ret
       else do {
         ret \<leftarrow> fts1ba90a_start;
         if ret \<noteq> 0 then return ret
         else do { tell (Irq True); return 0 }
       }
     }
   }"

end
