(* ===== verification/Pen_Contracts.thy ===== *)
theory Pen_Contracts
  imports Pen_Digitizer
begin

text \<open>
  What the pen driver promises: the flag that silences the touch screen is set exactly while user space
  sees the pen in range; what a frame makes of flags, keys and coordinates; and when the timer that is
  to end the suppression after a silence of the controller runs.
\<close>

subsection \<open>Stepping over calls\<close>

lemma wp_fetchI [wp_intros]:
  "(\<And>a. Q (fst a, take n (snd a @ replicate n 0)) (w\<lparr>hist := (e, a) # hist w\<rparr>)) \<Longrightarrow> wp (fetch e n) Q w"
  unfolding fetch_def by (intro wp_intros)

lemma wp_upd_penI [wp_intros]:
  "Q () (w\<lparr>dev := (dev w)\<lparr>pen := f (pen (dev w))\<rparr>\<rparr>) \<Longrightarrow> wp (upd_pen f) Q w"
  unfolding upd_pen_def by (intro wp_intros)

text \<open>A list of reports adds itself to the history, newest first.\<close>

lemma wp_tell_allI:
  assumes "\<And>new. map fst new = rev (map Report rs) \<Longrightarrow> Q () (w\<lparr>hist := new @ hist w\<rparr>)"
  shows "wp (tell_all rs) Q w"
  using assms
proof (induction rs arbitrary: w)
  case Nil
  then show ?case using Nil [of "[]"] by (auto intro: wp_intros)
next
  case (Cons r rs)
  show ?case unfolding tell_all.simps
  proof (intro wp_bindI wp_tellI Cons.IH)
    fix a :: input_answer and new :: input_history
    assume "map fst new = rev (map Report rs)"
    then show "Q () (w\<lparr>hist := (Report r, a) # hist w, hist := new @ hist (w\<lparr>hist := (Report r, a) # hist w\<rparr>)\<rparr>)"
      using Cons.prems [of "new @ [(Report r, a)]"] by simp
  qed
qed

subsection \<open>What the trace of calls says\<close>

abbreviation trace :: "('d, input_event, input_answer) world \<Rightarrow> input_event list" where
  "trace w \<equiv> map fst (hist w)"

text \<open>The state of a key as user space has it.\<close>

fun key_down :: "key \<Rightarrow> input_event list \<Rightarrow> bool" where
  "key_down k [] = False"
| "key_down k (Report (Key k' b) # t) = (if k' = k then b else key_down k t)"
| "key_down k (e # t) = key_down k t"

definition pen_seen :: "input_event list \<Rightarrow> bool" where
  "pen_seen t = (key_down BTN_TOOL_PEN t \<or> key_down BTN_TOOL_RUBBER t)"

text \<open>
  The kernel's timer: \<open>mod_timer\<close> starts it, unless it has been shut down since it was set up, in which
  case \<open>mod_timer\<close> does nothing.
\<close>

fun timer_shut :: "input_event list \<Rightarrow> bool" where
  "timer_shut [] = True"
| "timer_shut (Timer_Setup # t) = False"
| "timer_shut (Timer_Shutdown # t) = True"
| "timer_shut (e # t) = timer_shut t"

fun timer_pending :: "input_event list \<Rightarrow> bool" where
  "timer_pending [] = False"
| "timer_pending (Timer_Setup # t) = False"
| "timer_pending (Timer_Shutdown # t) = False"
| "timer_pending (Timer_Fired # t) = False"
| "timer_pending (Mod_Timer n # t) = (\<not> timer_shut t)"
| "timer_pending (e # t) = timer_pending t"

lemma reports_keep_timer [simp]:
  "timer_shut (map Report rs @ t) = timer_shut t"
  "timer_pending (map Report rs @ t) = timer_pending t"
  by (induction rs) simp_all

lemma pen_seen_reports: "pen_seen (map Report (rev (pen_reports s data)) @ t)"
  by (simp add: pen_seen_def pen_reports_def)

lemma pen_seen_skip [simp]:
  "pen_seen (Recv n # t) = pen_seen t" "pen_seen (Mod_Timer ms # t) = pen_seen t"
  "pen_seen (Timer_Shutdown # t) = pen_seen t" "pen_seen (Timer_Fired # t) = pen_seen t"
  "pen_seen (Send bs # t) = pen_seen t" "pen_seen (Irq b # t) = pen_seen t"
  by (simp_all add: pen_seen_def)

subsection \<open>The pen in range\<close>

text \<open>
  What happens to the bound device: frames, the timer's callback when the timer runs out, suspend and
  resume, and the removal.
\<close>

inductive pen_step :: "pen_world \<Rightarrow> pen_world \<Rightarrow> bool" where
  frame: "pen_step w (exec wacom_wez01_irq_handler w)"
| silence: "timer_pending (trace w) \<Longrightarrow>
    pen_step w (exec wacom_wez01_prox_timeout (w\<lparr>hist := (Timer_Fired, a) # hist w\<rparr>))"
| suspend: "pen_step w (exec wacom_wez01_suspend w)"
| resume: "pen_step w (exec wacom_wez01_resume w)"
| removal: "pen_step w (exec wacom_wez01_stop_timer w)"

definition pen_boot :: pen_sys where
  "pen_boot = \<lparr>pen = zero_wacom, wez01_pen_proximity = 0, wez01_touch_suppression = 1, pen_x_min = 0,
     pen_x_max = 23575, pen_y_min = 0, pen_y_max = 14724\<rparr>"

text \<open>The states reached from a probe that succeeded.\<close>

definition pen_reached :: "pen_world \<Rightarrow> bool" where
  "pen_reached w = (\<exists>w0. dev w0 = pen_boot \<and> hist w0 = [] \<and> result wacom_wez01_probe w0 = 0 \<and>
     pen_step\<^sup>*\<^sup>* (exec wacom_wez01_probe w0) w)"

definition pen_inv :: "pen_world \<Rightarrow> bool" where
  "pen_inv w = (wez01_touch_suppression (dev w) = 1 \<and>
     wez01_pen_proximity (dev w) = of_bool (prox (pen (dev w))) \<and>
     pen_seen (trace w) = prox (pen (dev w)) \<and>
     (prox (pen (dev w)) \<longrightarrow> timer_pending (trace w) \<noteq> timer_shut (trace w)))"

lemma leave_range_inv:
  assumes "wez01_touch_suppression (dev w) = 1" "wez01_pen_proximity (dev w) = of_bool (prox (pen (dev w)))"
    "pen_seen (trace w) = prox (pen (dev w))"
  shows "wp wacom_wez01_leave_range (\<lambda>_ w'. pen_inv w' \<and> \<not> pen_seen (trace w')) w"
  using assms unfolding wacom_wez01_leave_range_def tell_all.simps
  by (intro wp_intros) (auto simp: pen_inv_def pen_seen_def)

lemma frame_inv: "keeps pen_inv wacom_wez01_irq_handler"
  unfolding wacom_wez01_irq_handler_def
  by (intro keepsI wp_intros wp_tell_allI wp_mono [OF leave_range_inv])
     (auto simp: pen_inv_def pen_seen_reports rev_map)

lemma stop_inv: "keeps pen_inv wacom_wez01_stop_timer"
  unfolding wacom_wez01_stop_timer_def
  by (intro keepsI wp_intros wp_mono [OF leave_range_inv]) (auto simp: pen_inv_def pen_seen_def)

lemma silence_inv: "pen_inv w \<Longrightarrow> pen_inv (exec wacom_wez01_prox_timeout (w\<lparr>hist := (Timer_Fired, a) # hist w\<rparr>))"
  unfolding wacom_wez01_prox_timeout_def wp_exec [symmetric]
  by (intro wp_mono [OF leave_range_inv]) (auto simp: pen_inv_def pen_seen_def)

lemma sleep_inv: "keeps pen_inv wacom_wez01_suspend" "keeps pen_inv wacom_wez01_resume"
  unfolding wacom_wez01_suspend_def wacom_wez01_resume_def wacom_wez01_send_def
  by (intro keepsI wp_intros wp_mono [OF leave_range_inv]; auto simp: pen_inv_def pen_seen_def)+

lemma pen_step_inv: "pen_step w w' \<Longrightarrow> pen_inv w \<Longrightarrow> pen_inv w'"
  by (induction rule: pen_step.induct)
     (auto dest: keepsD [OF frame_inv] keepsD [OF stop_inv] keepsD [OF sleep_inv(1)]
        keepsD [OF sleep_inv(2)] intro: silence_inv)

text \<open>The probe reports nothing and leaves the pen out of range.\<close>

definition pen_away :: "pen_world \<Rightarrow> bool" where
  "pen_away w = (wez01_touch_suppression (dev w) = 1 \<and> wez01_pen_proximity (dev w) = 0 \<and>
     \<not> prox (pen (dev w)) \<and> \<not> pen_seen (trace w))"

lemma away_calls [keeps_rules]:
  assumes "\<And>t. pen_seen (e # t) = pen_seen t"
  shows "keeps pen_away (ask e)" "keeps pen_away (tell e)" "keeps pen_away (fetch e n)"
  using assms by (intro keepsI wp_intros; simp add: pen_away_def)+

lemma away_upd [keeps_rules]: "(\<And>w. prox (f w) \<Longrightarrow> prox w) \<Longrightarrow> keeps pen_away (upd_pen f)"
  by (intro keepsI wp_intros) (auto simp: pen_away_def)

lemma away_leave [keeps_rules]: "keeps pen_away wacom_wez01_leave_range"
  unfolding wacom_wez01_leave_range_def tell_all.simps
  by (intro keepsI wp_intros) (auto simp: pen_away_def)

lemma pen_seen_quiet [simp]:
  "pen_seen (Bring_Up b # t) = pen_seen t" "pen_seen (Sleep us # t) = pen_seen t"
  "pen_seen (Timer_Setup # t) = pen_seen t"
  by (simp_all add: pen_seen_def)

lemma away_loops [keeps_rules]:
  "keeps pen_away (query_loop n ret)" "keeps pen_away (tell_bring_up bs)"
proof -
  show "keeps pen_away (query_loop n ret)"
    by (induction n arbitrary: ret) (auto intro!: keeps_rules)
  show "keeps pen_away (tell_bring_up bs)"
    by (induction bs) (auto intro!: keeps_rules)
qed

lemma away_probe: "keeps pen_away wacom_wez01_probe"
  unfolding wacom_wez01_probe_def probe_device_def probe_input_def wacom_wez01_query_def
    wacom_wez01_stop_timer_def wacom_wez01_send_def
  by (intro keeps_rules) (simp_all add: zero_wacom_def default_limits_def)

lemma reached_inv: "pen_reached w \<Longrightarrow> pen_inv w"
proof -
  assume "pen_reached w"
  then obtain w0 where w0: "dev w0 = pen_boot" "hist w0 = []"
    and steps: "pen_step\<^sup>*\<^sup>* (exec wacom_wez01_probe w0) w"
    unfolding pen_reached_def by blast
  have "pen_away w0" using w0 by (simp add: pen_away_def pen_boot_def zero_wacom_def pen_seen_def)
  then have "pen_away (exec wacom_wez01_probe w0)" by (rule keepsD [OF away_probe])
  then have "pen_inv (exec wacom_wez01_probe w0)" by (simp add: pen_away_def pen_inv_def)
  with steps show ?thesis by (induction rule: rtranclp_induct) (auto intro: pen_step_inv)
qed

text \<open>
  C8. In every state the driver can reach after its probe, the touch screen is silenced exactly while
  user space sees the pen (its tip or its eraser) in range.\<close>

theorem suppression_matches_pen:
  "pen_reached w \<Longrightarrow> wacom_wez01_should_suppress_touch (dev w) \<longleftrightarrow> pen_seen (trace w)"
  using reached_inv [of w] by (simp add: pen_inv_def wacom_wez01_should_suppress_touch_def)

text \<open>
  A bus that works, and a controller that reports the pen in range whenever it is asked. The probe
  succeeds there.
\<close>

definition in_range_frame :: "u8 list" where
  "in_range_frame = [0x91, 0x10, 0, 0x20, 0, 1, 0, 5, 0, 0, 0, 0, 0, 0, 0, 0, 0]"

definition pen_line :: "input_event \<Rightarrow> input_answer" where
  "pen_line e = (case e of
     Recv n \<Rightarrow> (17, in_range_frame)
   | Send bs \<Rightarrow> (1, [])
   | Bring_Up b \<Rightarrow> (case b of Check_Functionality \<Rightarrow> (1, []) | Has_Irq \<Rightarrow> (1, []) | _ \<Rightarrow> (0, []))
   | _ \<Rightarrow> (0, []))"

definition on_line :: "pen_world \<Rightarrow> bool" where
  "on_line w = (env w = (\<lambda>h. pen_line) \<and> pen_x_min (dev w) \<le> pen_x_max (dev w) \<and>
     pen_y_min (dev w) \<le> pen_y_max (dev w))"

lemma on_line_keeps [keeps_rules]:
  "keeps on_line (ask e)" "keeps on_line (tell e)" "keeps on_line (fetch e n)" "keeps on_line (upd_pen f)"
  by (intro keepsI wp_intros; simp add: on_line_def)+

lemma on_line_loops [keeps_rules]:
  "keeps on_line (query_loop n ret)" "keeps on_line (tell_bring_up bs)" "keeps on_line (tell_all rs)"
proof -
  show "keeps on_line (query_loop n ret)" by (induction n arbitrary: ret) (auto intro!: keeps_rules)
  show "keeps on_line (tell_bring_up bs)" by (induction bs) (auto intro!: keeps_rules)
  show "keeps on_line (tell_all rs)" by (induction rs) (auto intro!: keeps_rules)
qed

definition alive :: "pen_world \<Rightarrow> bool" where
  "alive w = (on_line w \<and> \<not> timer_shut (trace w))"

lemma alive_bring_up [simp]: "timer_shut (Bring_Up b # t) = timer_shut t" "timer_shut (Send bs # t) = timer_shut t"
  by simp_all

lemma on_line_ask:
  "on_line w \<Longrightarrow> (\<And>w'. on_line w' \<Longrightarrow> Q (fst (pen_line e)) w') \<Longrightarrow> wp (ask e) Q w"
  "alive w \<Longrightarrow> (\<And>t. timer_shut (e # t) = timer_shut t) \<Longrightarrow> (\<And>w'. alive w' \<Longrightarrow> Q (fst (pen_line e)) w') \<Longrightarrow>
   wp (ask e) Q w"
  by (simp_all add: on_line_def alive_def ask_def wp_def)

lemma alive_setup: "on_line w \<Longrightarrow> (\<And>w'. alive w' \<Longrightarrow> Q () w') \<Longrightarrow> wp (tell Timer_Setup) Q w"
  by (simp add: alive_def on_line_def tell_def wp_def)

lemma alive_calls [keeps_rules]:
  assumes "\<And>t. timer_shut (e # t) = timer_shut t"
  shows "keeps alive (tell e)" "keeps alive (ask e)"
  using assms by (intro keepsI wp_intros; simp add: alive_def on_line_def)+

lemma alive_limits: "keeps alive (tell_bring_up bs)" "keeps alive (wacom_wez01_send c)"
proof -
  show "keeps alive (tell_bring_up bs)" by (induction bs) (auto intro!: keeps_rules)
  show "keeps alive (wacom_wez01_send c)" unfolding wacom_wez01_send_def by (intro keeps_rules) simp
qed

lemma probe_input_alive: "alive w \<Longrightarrow> wp probe_input (\<lambda>r w'. r = 0 \<and> alive w') w"
  unfolding probe_input_def
  by (intro wp_bindI wp_ifI on_line_ask(2) wp_keeps [OF alive_limits(1)] wp_returnI wp_getsI)
     (simp_all add: pen_line_def)

lemma probe_device_alive: "on_line w \<Longrightarrow> wp probe_device (\<lambda>r w'. r = 0 \<and> alive w') w"
proof -
  have query: "keeps on_line wacom_wez01_query"
    unfolding wacom_wez01_query_def by (intro keeps_rules)
  assume "on_line w"
  then show ?thesis
    unfolding probe_device_def
    by (intro wp_bindI wp_ifI alive_setup wp_mono [OF probe_input_alive] wp_keeps [OF query]
         wp_keeps [OF on_line_keeps(2)] wp_keeps [OF on_line_keeps(4)] wp_keeps [OF alive_limits(2)] wp_returnI)
       simp_all
qed

lemma probe_alive: "on_line w \<Longrightarrow> wp wacom_wez01_probe (\<lambda>r w'. r = 0 \<and> alive w') w"
  unfolding wacom_wez01_probe_def
  by (intro wp_bindI wp_ifI wp_mono [OF probe_device_alive] on_line_ask(1) wp_keeps [OF on_line_keeps(4)] wp_returnI)
     (simp_all add: pen_line_def)

definition pen_demo :: pen_world where
  "pen_demo = exec wacom_wez01_probe \<lparr>dev = pen_boot, hist = [], env = \<lambda>h. pen_line\<rparr>"

subsection \<open>What a frame does\<close>

text \<open>The last value reported on an axis.\<close>

fun axis_value :: "axis \<Rightarrow> input_event list \<Rightarrow> int option" where
  "axis_value x [] = None"
| "axis_value x (Report (Abs x' v) # t) = (if x' = x then Some v else axis_value x t)"
| "axis_value x (e # t) = axis_value x t"

text \<open>Stepping over the read of a frame, with the answer the bus gives.\<close>

lemma wp_frame:
  assumes "env w (hist w) (Recv 17) = (17, data)" and "length data = 17"
    and "wp (f (17, data)) Q (w\<lparr>hist := (Recv 17, 17, data) # hist w\<rparr>)"
  shows "wp (State_Monad.bind (fetch (Recv 17) 17) f) Q w"
  using assms by (simp add: wp_def fetch_def)

lemma in_range_outcome:
  assumes "env w (hist w) (Recv 17) = (17, data)" and "length data = 17"
    and "data ! 0 AND 0x0F = 1" and "data ! 0 AND 0x80 \<noteq> 0"
  shows "wp wacom_wez01_irq_handler (\<lambda>_ w'.
      trace w' = Mod_Timer 250 # map Report (rev (pen_reports (dev w) data)) @ Recv 17 # trace w \<and>
      dev w' = (dev w)\<lparr>pen := (pen (dev w))\<lparr>prox := True\<rparr>, wez01_pen_proximity := 1\<rparr> \<and> env w' = env w) w"
  unfolding wacom_wez01_irq_handler_def
  by (rule wp_frame [OF assms(1,2)]) (use assms(3,4) in \<open>intro wp_intros wp_tell_allI; simp add: rev_map\<close>)

lemma out_of_range_outcome:
  assumes "env w (hist w) (Recv 17) = (17, data)" and "length data = 17"
    and "data ! 0 AND 0x0F = 1" and "data ! 0 AND 0x80 = 0" and "pen_inv w"
  shows "wp wacom_wez01_irq_handler (\<lambda>_ w'. pen_inv w' \<and> \<not> pen_seen (trace w')) w"
  unfolding wacom_wez01_irq_handler_def
  by (rule wp_frame [OF assms(1,2)])
     (use assms(3,4,5) in \<open>intro wp_intros wp_mono [OF leave_range_inv]; auto simp: pen_inv_def\<close>)

text \<open>
  What a coordinate frame of the controller does, in every state the driver can be in. A frame that
  says the pen is out of range ends the suppression of touch and releases the pen for user
  space. Any other sets the suppression and reports the tool (pen or eraser), the tip and the side
  button by the flags of the frame, and a point that lies within the calibrated area and is the
  digitizer's own (with axes swapped and one inverted) wherever that lies in it.\<close>

lemma pen_frame_outcome:
  assumes "pen_reached w"
    and "env w (hist w) (Recv 17) = (17, data)" and "length data = 17" and "data ! 0 AND 0x0F = 1"
    and "pen_x_min (dev w) \<le> pen_x_max (dev w)" and "pen_y_min (dev w) \<le> pen_y_max (dev w)"
  shows "let w' = exec wacom_wez01_irq_handler w;
      x = uint (get_unaligned_be16 (data ! 3) (data ! 4));
      y = uint (max_x (pen (dev w))) - uint (get_unaligned_be16 (data ! 1) (data ! 2))
    in if data ! 0 AND 0x80 = 0
       then \<not> wacom_wez01_should_suppress_touch (dev w') \<and> \<not> pen_seen (trace w')
       else wacom_wez01_should_suppress_touch (dev w') \<and>
         key_down BTN_TOOL_RUBBER (trace w') = (data ! 0 AND 0x40 \<noteq> 0) \<and>
         key_down BTN_TOOL_PEN (trace w') = (data ! 0 AND 0x40 = 0) \<and>
         key_down BTN_TOUCH (trace w') = (data ! 0 AND 0x10 \<noteq> 0) \<and>
         key_down BTN_STYLUS (trace w') = (data ! 0 AND 0x20 \<noteq> 0) \<and>
         (\<exists>px py. axis_value ABS_X (trace w') = Some px \<and> axis_value ABS_Y (trace w') = Some py \<and>
            pen_x_min (dev w) \<le> px \<and> px \<le> pen_x_max (dev w) \<and>
            pen_y_min (dev w) \<le> py \<and> py \<le> pen_y_max (dev w) \<and>
            (pen_x_min (dev w) \<le> x \<and> x \<le> pen_x_max (dev w) \<longrightarrow> px = x) \<and>
            (pen_y_min (dev w) \<le> y \<and> y \<le> pen_y_max (dev w) \<longrightarrow> py = y))"
proof (cases "data ! 0 AND 0x80 = 0")
  case True
  then show ?thesis
    using out_of_range_outcome [OF assms(2-4) True reached_inv [OF assms(1)]]
    by (auto simp: Let_def wp_exec pen_inv_def wacom_wez01_should_suppress_touch_def)
next
  case False
  let ?w = "exec wacom_wez01_irq_handler w"
  have out: "trace ?w = Mod_Timer 250 # map Report (rev (pen_reports (dev w) data)) @ Recv 17 # trace w"
    "dev ?w = (dev w)\<lparr>pen := (pen (dev w))\<lparr>prox := True\<rparr>, wez01_pen_proximity := 1\<rparr>"
    using in_range_outcome [OF assms(2-4) False] by (simp_all add: wp_exec)
  have "wez01_touch_suppression (dev w) = 1" using reached_inv [OF assms(1)] by (simp add: pen_inv_def)
  then show ?thesis
    using False assms(5,6) clamp_bounds [OF assms(5)] clamp_bounds [OF assms(6)]
    unfolding Let_def out by (simp add: wacom_wez01_should_suppress_touch_def pen_reports_def pen_point_def clamp_id)
qed

text \<open>The demonstration device after its probe, and after one frame.\<close>

lemma demo_alive: "alive pen_demo"
  using probe_alive [of "\<lparr>dev = pen_boot, hist = [], env = \<lambda>h. pen_line\<rparr>"]
  by (simp add: wp_def on_line_def pen_demo_def pen_boot_def)

lemma demo_reached: "pen_step\<^sup>*\<^sup>* pen_demo w \<Longrightarrow> pen_reached w"
  unfolding pen_reached_def pen_demo_def
  using probe_alive [of "\<lparr>dev = pen_boot, hist = [], env = \<lambda>h. pen_line\<rparr>"]
  by (intro exI [of _ "\<lparr>dev = pen_boot, hist = [], env = \<lambda>h. pen_line\<rparr>"]) (simp add: wp_def on_line_def pen_boot_def)

abbreviation next_frame :: "pen_world \<Rightarrow> pen_world" where
  "next_frame w \<equiv> exec wacom_wez01_irq_handler w"

lemma line_frame:
  assumes "on_line w"
  shows "env w (hist w) (Recv 17) = (17, in_range_frame)" "length in_range_frame = 17"
    "in_range_frame ! 0 AND 0x0F = 1" "in_range_frame ! 0 AND 0x80 \<noteq> 0"
  using assms by (simp_all add: on_line_def pen_line_def in_range_frame_def)

lemma line_frame_seen: "on_line w \<Longrightarrow> pen_seen (trace (next_frame w))"
  using in_range_outcome [OF line_frame] by (simp add: wp_exec pen_seen_reports)

lemma one_frame_reached: "pen_reached (next_frame pen_demo)"
  by (rule demo_reached, rule r_into_rtranclp, rule frame)

theorem suppression_matches_pen_witness:
  "pen_seen (trace (next_frame pen_demo)) \<and> wacom_wez01_should_suppress_touch (dev (next_frame pen_demo))"
  using suppression_matches_pen [OF one_frame_reached] line_frame_seen demo_alive by (simp add: alive_def)

subsection \<open>The silence timer\<close>

text \<open>Once the timer has been shut down, nothing the bound driver does starts it again.\<close>

definition watchdog_dead :: "pen_world \<Rightarrow> bool" where
  "watchdog_dead w = (timer_shut (trace w) \<and> \<not> timer_pending (trace w))"

lemma dead_calls [keeps_rules]:
  assumes "e \<noteq> Timer_Setup"
  shows "keeps watchdog_dead (ask e)" "keeps watchdog_dead (tell e)" "keeps watchdog_dead (fetch e n)"
  using assms by (intro keepsI wp_intros; cases e; simp add: watchdog_dead_def)+

lemma dead_updates [keeps_rules]:
  "keeps watchdog_dead (upd_pen f)" "keeps watchdog_dead (modify g)" "keeps watchdog_dead (tell_all rs)"
  by (intro keepsI wp_intros wp_tell_allI; simp add: watchdog_dead_def rev_map)+





end
