(* ===== verification/Touch_Contracts.thy ===== *)
theory Touch_Contracts
  imports Touch_Screen Pen_Contracts
begin

text \<open>
  What the touch screen promises, for itself and together with the pen: fingers are reported only after
  the pen driver has been asked, a pen in range releases them all, events are decoded to exactly what
  the controller encodes, and suspend and resume keep supplies and interrupt in balance.
\<close>

subsection \<open>Computations that only talk to the bus and the input core\<close>

fun bus_event :: "input_event \<Rightarrow> bool" where
  "bus_event (Send _) = True"
| "bus_event (Transfer _ _) = True"
| "bus_event (Sleep _) = True"
| "bus_event _ = False"

lemma bus_fetch [observer_rules]: "E e \<Longrightarrow> observer E (fetch e n)"
  unfolding fetch_def by (intro observer_rules; simp)+

lemma observer_pair [observer_rules]:
  "(\<And>a b. observer E (f a b)) \<Longrightarrow> observer E (case p of (a, b) \<Rightarrow> f a b)"
  by (cases p) simp

lemma bus_transfers [observer_rules]:
  "observer bus_event (fts1ba90a_write cmd)" "observer bus_event (fts1ba90a_read cmd n)"
  unfolding fts1ba90a_write_def fts1ba90a_read_def by (intro observer_rules; simp)+

lemma bus_loops [observer_rules]:
  "observer bus_event (ready_loop n)" "observer bus_event (opmode_loop n mode)"
proof -
  show "observer bus_event (ready_loop n)" by (induction n) (auto intro!: observer_rules)
  show "observer bus_event (opmode_loop n mode)" by (induction n) (auto intro!: observer_rules)
qed

lemma bus_start [observer_rules]: "observer bus_event fts1ba90a_start"
  unfolding fts1ba90a_start_def fts1ba90a_reset_def fts1ba90a_wait_for_ready_def fts1ba90a_sense_on_def
  by (intro observer_rules) simp_all

lemma bus_gesture [observer_rules]:
  "observer bus_event fts1ba90a_arm_gesture" "observer bus_event fts1ba90a_disarm_gesture"
  unfolding fts1ba90a_arm_gesture_def fts1ba90a_disarm_gesture_def fts1ba90a_set_opmode_def
    fts1ba90a_write_sponge_mode_def
  by (intro observer_rules)+

lemma bus_version [observer_rules]: "observer bus_event fts1ba90a_report_version"
  unfolding fts1ba90a_report_version_def by (intro observer_rules)

subsection \<open>Sleeping and waking\<close>

text \<open>
  How often a rail has been switched on less how often off, how often the interrupt has been disabled
  less how often enabled, and how often its wake-up was enabled less how often disabled.
\<close>

fun delta_rail :: "rail \<Rightarrow> input_event \<times> input_answer \<Rightarrow> int" where
  "delta_rail r (Rail on r', a) = (if r' \<noteq> r then 0 else if on then of_bool (fst a = 0) else - 1)"
| "delta_rail r _ = 0"

fun delta_irq :: "input_event \<times> input_answer \<Rightarrow> int" where
  "delta_irq (Irq on, a) = (if on then - 1 else 1)"
| "delta_irq _ = 0"

fun delta_wake :: "input_event \<times> input_answer \<Rightarrow> int" where
  "delta_wake (Irq_Wake on, a) = (if on then of_bool (fst a = 0) else - 1)"
| "delta_wake _ = 0"

definition rail_use :: "rail \<Rightarrow> input_history \<Rightarrow> int" where
  "rail_use r h = sum_list (map (delta_rail r) h)"

definition irq_depth :: "input_history \<Rightarrow> int" where
  "irq_depth h = sum_list (map delta_irq h)"

definition wake_depth :: "input_history \<Rightarrow> int" where
  "wake_depth h = sum_list (map delta_wake h)"

lemmas use_defs = rail_use_def irq_depth_def wake_depth_def

fun plain_event :: "input_event \<Rightarrow> bool" where
  "plain_event (Report _) = True"
| "plain_event e = bus_event e"

lemma plain_neutral:
  assumes "\<forall>x \<in> set new. plain_event (fst x)"
  shows "rail_use r (new @ h) = rail_use r h" "irq_depth (new @ h) = irq_depth h" "wake_depth (new @ h) = wake_depth h"
proof -
  have "delta_rail r x = 0 \<and> delta_irq x = 0 \<and> delta_wake x = 0" if "plain_event (fst x)" for x
    using that by (cases x; cases "fst x") auto
  with assms show "rail_use r (new @ h) = rail_use r h" "irq_depth (new @ h) = irq_depth h" "wake_depth (new @ h) = wake_depth h"
    by (simp_all add: use_defs sum_list_0 cong: map_cong)
qed

lemma plain_bus_event: "bus_event e \<Longrightarrow> plain_event e"
  by (cases e) simp_all

lemma plain_bus: "observer bus_event m \<Longrightarrow> observer plain_event m"
  by (rule observer_mono [OF _ plain_bus_event])

lemma plain_reports [observer_rules]: "observer plain_event (tell_all rs)"
  by (induction rs) (auto intro!: observer_rules)

lemma use_step [simp]:
  "rail_use r (x # h) = delta_rail r x + rail_use r h" "irq_depth (x # h) = delta_irq x + irq_depth h"
  "wake_depth (x # h) = delta_wake x + wake_depth h"
  by (simp_all add: use_defs)

definition asleep :: "fts_world \<Rightarrow> fts_world \<Rightarrow> bool" where
  "asleep w w' = (if lpm_suspended (dev w')
     then irq_depth (hist w') = irq_depth (hist w) \<and> wake_depth (hist w') = wake_depth (hist w) + 1 \<and>
       (\<forall>r. rail_use r (hist w') = rail_use r (hist w))
     else irq_depth (hist w') = irq_depth (hist w) + 1 \<and> wake_depth (hist w') = wake_depth (hist w) \<and>
       (\<forall>r. rail_use r (hist w') = rail_use r (hist w) - 1))"

lemma all_rails: "(\<forall>r. P r) = (P Avdd \<and> P Vddio)"
  by (metis rail.exhaust)

lemma suspend_asleep:
  assumes "\<not> lpm_suspended (dev w)"
  shows "wp fts1ba90a_suspend (\<lambda>_ w'. asleep w w') w"
  using assms unfolding fts1ba90a_suspend_def suspend_off_def fts1ba90a_power_off_def fts1ba90a_suppress_touch_def
  by (intro wp_intros wp_observer [OF plain_reports] wp_observer [OF plain_bus [OF bus_gesture(1)]])
     (simp_all add: asleep_def plain_neutral all_rails)

lemma resume_awake:
  assumes "asleep w v"
  shows "wp fts1ba90a_resume (\<lambda>ret w'. \<not> lpm_suspended (dev w') \<and>
     irq_depth (hist w') = irq_depth (hist w) + of_bool (ret \<noteq> 0) \<and> wake_depth (hist w') = wake_depth (hist w) \<and>
     (ret = 0 \<longrightarrow> (\<forall>r. rail_use r (hist w') = rail_use r (hist w)))) v"
  using assms unfolding fts1ba90a_resume_def fts1ba90a_power_on_def
  by (intro wp_intros wp_observer [OF plain_bus [OF bus_gesture(2)]] wp_observer [OF plain_bus [OF bus_start]])
     (auto simp: asleep_def plain_neutral all_rails)

text \<open>Suspending and resuming \<open>n\<close> times: the number of resumes that failed.\<close>

primrec sleep_cycles :: "nat \<Rightarrow> nat fts_io" where
  "sleep_cycles 0 = return 0"
| "sleep_cycles (Suc n) = do {
     _ \<leftarrow> fts1ba90a_suspend;
     ret \<leftarrow> fts1ba90a_resume;
     k \<leftarrow> sleep_cycles n;
     return (if ret = 0 then k else Suc k)
   }"

lemma cycles_balance:
  assumes "\<not> lpm_suspended (dev w)"
  shows "wp (sleep_cycles n) (\<lambda>k w'. irq_depth (hist w') = irq_depth (hist w) + int k \<and>
    wake_depth (hist w') = wake_depth (hist w) \<and>
    (k = 0 \<longrightarrow> (\<forall>r. rail_use r (hist w') = rail_use r (hist w)))) w"
  using assms
proof (induction n arbitrary: w)
  case 0
  then show ?case by (auto intro: wp_intros)
next
  case (Suc n)
  show ?case unfolding sleep_cycles.simps
    by (intro wp_bindI wp_mono [OF suspend_asleep [OF Suc.prems]] wp_mono [OF resume_awake [of w]]
          wp_mono [OF Suc.IH] wp_returnI) auto
qed

text \<open>
  C24. Over any number of suspends and resumes, whatever the bus, the regulators and the wake-up
  configuration answer: the enabling of the interrupt as a wake-up source is always undone; the interrupt
  ends up disabled exactly once more for every resume that failed, and as long as none failed it is
  as it was and so are both supplies. A failed resume is therefore never made good by a
  later one: the touch screen stays without its interrupt.\<close>

theorem sleep_balance:
  assumes "\<not> lpm_suspended (dev w)"
  shows "let failed = result (sleep_cycles n) w; h = hist (exec (sleep_cycles n) w)
    in irq_depth h = irq_depth (hist w) + int failed \<and> wake_depth h = wake_depth (hist w) \<and>
      (failed = 0 \<longrightarrow> (\<forall>r. rail_use r h = rail_use r (hist w)))"
  using cycles_balance [OF assms, of n] by (simp add: wp_def Let_def)

text \<open>A bus on which the first transfer of a resume fails.\<close>

definition touch_demo :: "(input_history \<Rightarrow> input_event \<Rightarrow> input_answer) \<Rightarrow> fts_world" where
  "touch_demo answers = \<lparr>dev = zero_fts, hist = [], env = answers\<rparr>"

definition dead_bus :: "input_history \<Rightarrow> input_event \<Rightarrow> input_answer" where
  "dead_bus h e = (case e of Send bs \<Rightarrow> (- 6, []) | Transfer bs n \<Rightarrow> (- 6, []) | _ \<Rightarrow> (0, []))"

theorem sleep_balance_witness:
  "irq_depth (hist (exec (sleep_cycles 1) (touch_demo dead_bus))) = 1"
proof -
  have "result (sleep_cycles 1) (touch_demo dead_bus) = 1" by code_simp
  with sleep_balance [of "touch_demo dead_bus" 1] show ?thesis
    by (simp add: touch_demo_def zero_fts_def irq_depth_def Let_def)
qed

subsection \<open>Fingers and the pen\<close>

text \<open>Whether the pen driver's last answer was that touch is not suppressed.\<close>

fun pen_clear :: "input_history \<Rightarrow> bool" where
  "pen_clear [] = False"
| "pen_clear ((Pen_Query, a) # h) = (fst a = 0)"
| "pen_clear (x # h) = pen_clear h"

definition finger_policy :: "input_history \<Rightarrow> input_event \<Rightarrow> bool" where
  "finger_policy h e = (e = Report (Mt_State True) \<longrightarrow> pen_clear h)"

definition fingers_ok :: "fts_world \<Rightarrow> bool" where
  "fingers_ok w = obeys finger_policy (hist w)"

lemma fingers_calls [keeps_rules]:
  assumes "e \<noteq> Report (Mt_State True)"
  shows "keeps fingers_ok (ask e)" "keeps fingers_ok (tell e)" "keeps fingers_ok (fetch e n)"
  using assms by (intro keepsI wp_intros; simp add: fingers_ok_def finger_policy_def)+

lemma fingers_modify [keeps_rules]: "keeps fingers_ok (modify f)"
  by (intro keepsI wp_intros) (simp add: fingers_ok_def)

lemma fingers_bus: "observer bus_event m \<Longrightarrow> keeps fingers_ok m"
  unfolding observer_def fingers_ok_def
  by (rule emits_keeps_obeys [where E = bus_event]) (auto simp: finger_policy_def)

lemmas fingers_bus_operations [keeps_rules] =
  bus_transfers [THEN fingers_bus] bus_start [THEN fingers_bus] bus_gesture [THEN fingers_bus]
  bus_version [THEN fingers_bus]

lemma fingers_reports: "Mt_State True \<notin> set rs \<Longrightarrow> keeps fingers_ok (tell_all rs)"
  by (induction rs) (auto intro!: keeps_rules)

lemma fingers_setup [keeps_rules]: "keeps fingers_ok (tell_setup bs)"
  by (induction bs) (auto intro!: keeps_rules)

lemma clear_reports:
  "pen_clear h \<Longrightarrow> obeys finger_policy h \<Longrightarrow> map fst new = map Report rs \<Longrightarrow>
   pen_clear (new @ h) \<and> obeys finger_policy (new @ h)"
proof (induction new arbitrary: rs)
  case (Cons x new)
  then obtain r a where "x = (Report r, a)" by (cases x) auto
  with Cons show ?case by (auto simp: finger_policy_def)
qed simp

lemma fingers_suppress [keeps_rules]: "keeps fingers_ok fts1ba90a_suppress_touch"
  unfolding fts1ba90a_suppress_touch_def by (rule fingers_reports) auto

lemma fingers_wake [keeps_rules]: "keeps fingers_ok fts1ba90a_report_wake"
  unfolding fts1ba90a_report_wake_def by (intro keeps_rules fingers_reports) auto

lemma fingers_loop [keeps_rules]: "keeps fingers_ok (event_loop evs)"
proof (induction evs)
  case (Cons ev evs)
  have "keeps fingers_ok (do {
       suppress \<leftarrow> pen_query;
       if suppress then fts1ba90a_suppress_touch
       else do { fts1ba90a_report_touch ev; event_loop evs } })"
    unfolding pen_query_def fts1ba90a_report_touch_def
    by (intro keepsI wp_intros keeps_wp [OF fingers_suppress] wp_tell_allI keeps_wp [OF Cons.IH])
       (auto simp: fingers_ok_def finger_policy_def rev_map clear_reports)
  with Cons.IH show ?case by (auto intro!: keeps_rules)
qed (auto intro: keeps_rules)

lemma fingers_irq: "keeps fingers_ok fts1ba90a_irq_handler"
  unfolding fts1ba90a_irq_handler_def read_queue_def pen_query_def
  by (intro keeps_rules fingers_reports) auto

lemma fingers_sleep: "keeps fingers_ok fts1ba90a_suspend" "keeps fingers_ok fts1ba90a_resume"
  unfolding fts1ba90a_suspend_def suspend_off_def fts1ba90a_power_off_def fts1ba90a_resume_def fts1ba90a_power_on_def
  by (intro keeps_rules; simp)+

lemma fingers_probe: "keeps fingers_ok fts1ba90a_probe"
  unfolding fts1ba90a_probe_def probe_supply_def probe_powered_def fts1ba90a_power_on_def fts1ba90a_power_off_def
  by (intro keeps_rules; simp)+

lemma fingers_store: "keeps fingers_ok (double_tap_to_wake_store parsed count)"
  unfolding double_tap_to_wake_store_def by (intro keeps_rules)

datatype fts_op = Probe | Interrupt | Suspend | Resume | Store "int + bool" int

fun run_op :: "fts_op \<Rightarrow> unit fts_io" where
  "run_op Probe = do { _ \<leftarrow> fts1ba90a_probe; return () }"
| "run_op Interrupt = fts1ba90a_irq_handler"
| "run_op Suspend = do { _ \<leftarrow> fts1ba90a_suspend; return () }"
| "run_op Resume = do { _ \<leftarrow> fts1ba90a_resume; return () }"
| "run_op (Store parsed count) = do { _ \<leftarrow> double_tap_to_wake_store parsed count; return () }"

primrec run_ops :: "fts_op list \<Rightarrow> unit fts_io" where
  "run_ops [] = return ()"
| "run_ops (p # ps) = do { run_op p; run_ops ps }"

lemma fingers_ops: "keeps fingers_ok (run_ops ps)"
proof (induction ps)
  case (Cons p ps)
  have "keeps fingers_ok (run_op p)"
    by (cases p) (auto intro!: keeps_rules fingers_irq fingers_sleep fingers_probe fingers_store)
  with Cons show ?case by (auto intro!: keeps_rules)
qed (auto intro: keeps_rules)

text \<open>
  Whatever the driver is made to do in whatever order, and however the pen driver runs in between:
  a finger is reported as touching only if the pen driver's last answer was that touch is not
  suppressed.\<close>

lemma fingers_need_clear_pen:
  assumes "hist w = []"
  shows "obeys finger_policy (hist (exec (run_ops ps) w))"
  using keepsD [OF fingers_ops, of w ps] assms by (simp add: fingers_ok_def)

definition touch_event :: "u8 list" where
  "touch_event = [0x40, 0x12, 0x34, 0x56, 7, 8, 0x20, 0, 0, 0, 0, 0, 0, 0, 0, 0]"

definition touch_line :: "input_history \<Rightarrow> input_event \<Rightarrow> input_answer" where
  "touch_line h e = (case e of Transfer bs n \<Rightarrow> (2, touch_event) | _ \<Rightarrow> (0, []))"











fun transfer_event :: "input_event \<Rightarrow> bool" where
  "transfer_event (Transfer _ _) = True"
| "transfer_event _ = False"

lemma emits_read [emits_rules]: "emits transfer_event (fts1ba90a_read cmd n)"
  unfolding fts1ba90a_read_def fetch_def by (intro emits_rules) simp







subsection \<open>Decoding events\<close>

text \<open>
  The controller's side of a coordinate event: slot, action and touch type, the position of twelve bits
  in each direction, the size of the contact, its pressure and the number of events left.
\<close>

definition encode_touch ::
  "4 word \<Rightarrow> 2 word \<Rightarrow> 4 word \<Rightarrow> 12 word \<Rightarrow> 12 word \<Rightarrow> u8 \<Rightarrow> u8 \<Rightarrow> 6 word \<Rightarrow> 6 word \<Rightarrow> u8 list" where
  "encode_touch slot action ttype x y major minor z rest =
    [push_bit 6 (ucast action) OR push_bit 2 (ucast slot),
     ucast (drop_bit 4 x), ucast (drop_bit 4 y), push_bit 4 (ucast x) OR (ucast y AND 0x0F),
     major, minor, push_bit 6 (ucast (drop_bit 2 ttype)) OR ucast z,
     push_bit 6 (ucast ttype) OR ucast rest] @ replicate 8 0"

lemma low_masks: "(3 :: 8 word) = mask 2" "(0x0F :: 'a::len word) = mask 4" "(0x3F :: 'a word) = mask 6"
  by (simp_all add: mask_eq_exp_minus_1)

lemma packed_bits:
  fixes slot ttype :: "4 word" and action :: "2 word" and x y :: "12 word" and z rest :: "6 word"
  shows "(push_bit 6 (ucast action) OR push_bit 2 (ucast slot) :: u8) AND mask 2 = 0"
    and "drop_bit 2 (ucast (push_bit 6 (ucast action) OR push_bit 2 (ucast slot) :: u8) :: u32) AND mask 4 = ucast slot"
    and "drop_bit 6 (ucast (push_bit 6 (ucast action) OR push_bit 2 (ucast slot) :: u8) :: u32) = ucast action"
    and "(push_bit 4 (ucast (ucast (drop_bit 4 x) :: u8)) OR
        drop_bit 4 (ucast (push_bit 4 (ucast x) OR (ucast y AND mask 4) :: u8)) :: u32) = ucast x"
    and "(push_bit 4 (ucast (ucast (drop_bit 4 y) :: u8)) OR
        (ucast (push_bit 4 (ucast x) OR (ucast y AND mask 4) :: u8) AND mask 4) :: u32) = ucast y"
    and "ucast (push_bit 6 (ucast (drop_bit 2 ttype)) OR ucast z :: u8) AND mask 6 = (ucast z :: u32)"
    and "push_bit 2 (drop_bit 6 (ucast (push_bit 6 (ucast (drop_bit 2 ttype)) OR ucast z :: u8))) OR
        drop_bit 6 (ucast (push_bit 6 (ucast ttype) OR ucast rest :: u8)) = (ucast ttype :: u32)"
proof -
  have two: "2 \<le> n \<Longrightarrow> Suc (Suc (n - 2)) = n" for n :: nat by simp
  show "push_bit 2 (drop_bit 6 (ucast (push_bit 6 (ucast (drop_bit 2 ttype)) OR ucast z :: u8))) OR
        drop_bit 6 (ucast (push_bit 6 (ucast ttype) OR ucast rest :: u8)) = (ucast ttype :: u32)"
    by (rule bit_word_eqI) (auto simp: bit_simps two dest: bit_imp_le_length)
qed (rule bit_word_eqI, auto simp: bit_simps dest: bit_imp_le_length)+

lemma decode_fields:
  "encode_touch slot action ttype x y major minor z rest ! 0 AND 3 = 0"
  "touch_slot (encode_touch slot action ttype x y major minor z rest) = ucast slot"
  "touch_action (encode_touch slot action ttype x y major minor z rest) = ucast action"
  "touch_type (encode_touch slot action ttype x y major minor z rest) = ucast ttype"
  "touch_x (encode_touch slot action ttype x y major minor z rest) = ucast x"
  "touch_y (encode_touch slot action ttype x y major minor z rest) = ucast y"
  "touch_z (encode_touch slot action ttype x y major minor z rest) = ucast z"
  unfolding touch_slot_def touch_action_def touch_type_def touch_x_def touch_y_def touch_z_def encode_touch_def
    low_masks
  by (simp_all add: packed_bits)

lemma wide_unat: "LENGTH('a) \<le> 32 \<Longrightarrow> unat (ucast (w :: 'a::len word) :: u32) = unat w"
proof -
  assume "LENGTH('a) \<le> 32"
  then have "(2::nat) ^ LENGTH('a) \<le> 2 ^ 32" by (intro power_increasing) simp_all
  then have "unat w < 2 ^ 32" using unsigned_less [of w, where ?'a = nat] by linarith
  then show ?thesis by (simp add: unsigned_ucast_eq take_bit_nat_eq_self)
qed

lemma wide_eq: "LENGTH('a) \<le> 32 \<Longrightarrow> (ucast (w :: 'a::len word) :: u32) = v \<longleftrightarrow> unat w = unat v"
  by (metis wide_unat word_unat_eq_iff)

text \<open>
  Decoding undoes encoding: a press or move of a finger (plain, gloved or wet) in one of the ten
  slots is reported in that slot with exactly the encoded position, contact size and pressure (a
  pressure of zero as one); a lift and a palm release the slot; any other slot, touch type or
  action reports no contact.\<close>

lemma touch_roundtrip:
  "touch_reports (encode_touch slot action ttype x y major minor z rest) =
    (if 10 \<le> unat slot then []
     else if ttype = 5 then [Mt_Slot (unat slot), Mt_State False]
     else if ttype \<noteq> 0 \<and> ttype \<noteq> 3 \<and> ttype \<noteq> 6 then []
     else if action = 3 then [Mt_Slot (unat slot), Mt_State False]
     else if action = 0 then [Mt_Slot (unat slot)]
     else [Mt_Slot (unat slot), Mt_State True, Mt_Position (ucast x) (ucast y),
       Abs ABS_MT_TOUCH_MAJOR (uint major), Abs ABS_MT_TOUCH_MINOR (uint minor),
       Abs ABS_MT_PRESSURE (max 1 (uint z))])"
proof -
  have "unat action < 4" using unsigned_less [of action, where ?'a = nat] by simp
  then have actions: "action = 0 \<or> action = 1 \<or> action = 2 \<or> action = 3"
    by (simp add: word_unat_eq_iff) linarith
  have "uint (ucast z :: u32) = uint z" using arg_cong [OF wide_unat [of z], of int] by simp
  moreover have "z \<noteq> 0 \<Longrightarrow> 1 \<le> uint z" using uint_0_iff [of z] unsigned_greater_eq [of z, where ?'a = int] by linarith
  ultimately have z: "(if (ucast z :: u32) \<noteq> 0 then uint (ucast z :: u32) else 1) = max 1 (uint z)"
    by (cases "z = 0") (auto simp: wide_eq max_def unat_eq_zero)
  show ?thesis
    unfolding touch_reports_def decode_fields
    using actions unfolding z
    by (simp add: wide_eq word_le_nat_alt wide_unat encode_touch_def) (auto simp: word_unat_eq_iff)
qed

subsection \<open>The event buffer\<close>

text \<open>A write behind the end of the 512 bytes would make them more.\<close>

definition buffer_ok :: "fts_world \<Rightarrow> bool" where
  "buffer_ok w = (length (events (dev w)) = 512)"

lemma buffer_observer: "observer E m \<Longrightarrow> keeps buffer_ok m"
  by (simp add: observer_def keeps_def buffer_ok_def)

lemmas buffer_operations [keeps_rules] =
  observe_calls [where E = "\<lambda>_. True", THEN buffer_observer, OF TrueI]
  bus_fetch [where E = "\<lambda>_. True", THEN buffer_observer, OF TrueI]
  bus_transfers [THEN buffer_observer] bus_start [THEN buffer_observer] bus_gesture [THEN buffer_observer]
  bus_version [THEN buffer_observer] plain_reports [THEN buffer_observer]

lemma buffer_modify [keeps_rules]:
  "(\<And>ts. length (events ts) = 512 \<Longrightarrow> length (events (f ts)) = 512) \<Longrightarrow> keeps buffer_ok (modify f)"
  by (intro keepsI wp_intros) (simp add: buffer_ok_def)

lemma put_bytes_length: "off + length new \<le> length buf \<Longrightarrow> length (put_bytes off new buf) = length buf"
  by (simp add: put_bytes_def)

lemma event_count_range: "1 \<le> event_count buf \<and> event_count buf \<le> 32"
  by (simp add: event_count_def)

lemma event_count_one: "\<not> Suc 0 < event_count buf \<Longrightarrow> event_count buf = 1"
  using event_count_range [of buf] by linarith

lemma read_length: "wp (fts1ba90a_read cmd n) (\<lambda>r w'. length (snd r) = n \<and> dev w' = dev w) w"
  unfolding fts1ba90a_read_def by (intro wp_intros) auto

lemma queue_fits:
  assumes "length buf = 512"
  shows "length bs = 16 \<Longrightarrow> length (put_bytes 0 bs buf) = 512"
    and "length bs = (event_count x - 1) * 16 \<Longrightarrow> length (put_bytes 16 bs buf) = 512"
    and "16 * event_count x \<le> 512"
proof -
  assume "length bs = (event_count x - 1) * 16"
  then have "16 + length bs \<le> 512" using event_count_range [of x] by linarith
  then show "length (put_bytes 16 bs buf) = 512" using assms by (simp add: put_bytes_length)
qed (use assms event_count_range [of x] in \<open>simp_all add: put_bytes_length\<close>)

lemma buffer_queue:
  assumes "buffer_ok w"
  shows "wp read_queue (\<lambda>r w'. buffer_ok w' \<and> (\<forall>n. r = Some n \<longrightarrow> 1 \<le> n \<and> 16 * n \<le> length (events (dev w')))) w"
  using assms unfolding read_queue_def
  by (intro wp_intros wp_mono [OF read_length])
     (auto simp: buffer_ok_def queue_fits event_count_range Suc_le_eq dest: event_count_one split: if_splits)

lemma buffer_loops [keeps_rules]:
  "keeps buffer_ok (event_loop evs)" "keeps buffer_ok (tell_setup bs)"
proof -
  show "keeps buffer_ok (event_loop evs)"
    by (induction evs)
       (auto simp: fts1ba90a_report_wake_def fts1ba90a_suppress_touch_def fts1ba90a_report_touch_def
          pen_query_def simp del: tell_all.simps intro!: keeps_rules)
  show "keeps buffer_ok (tell_setup bs)" by (induction bs) (auto intro!: keeps_rules)
qed

lemma buffer_op: "keeps buffer_ok (run_op p)"
proof (cases p)
  case Interrupt
  have "keeps buffer_ok read_queue" by (intro keepsI wp_mono [OF buffer_queue]) auto
  with Interrupt show ?thesis
    by (simp only: run_op.simps fts1ba90a_irq_handler_def pen_query_def) (intro keeps_rules)
qed (auto simp: fts1ba90a_probe_def probe_supply_def probe_powered_def fts1ba90a_power_on_def zero_fts_def
    fts1ba90a_power_off_def fts1ba90a_suspend_def suspend_off_def fts1ba90a_suppress_touch_def
    fts1ba90a_resume_def double_tap_to_wake_store_def simp del: tell_all.simps intro!: keeps_rules)

text \<open>
  C34. The buffer for the controller's events keeps its 512 bytes through whatever sequence of operations,
  whatever depth of the queue the controller claims in the first event; and a queue that was read holds
  at least one event and no more than fit into the buffer.\<close>

theorem events_stay_in_buffer:
  assumes "length (events (dev w)) = 512"
  shows "length (events (dev (exec (run_ops ps) w))) = 512 \<and>
    (\<forall>n. result read_queue (exec (run_ops ps) w) = Some n \<longrightarrow>
       1 \<le> n \<and> 16 * n \<le> length (events (dev (exec read_queue (exec (run_ops ps) w)))))"
proof -
  have "keeps buffer_ok (run_ops ps)" by (induction ps) (auto intro!: keeps_rules buffer_op)
  from keepsD [OF this, of w] have ok: "buffer_ok (exec (run_ops ps) w)" using assms by (simp add: buffer_ok_def)
  with buffer_queue [OF ok] show ?thesis by (auto simp: wp_def buffer_ok_def)
qed

theorem events_stay_in_buffer_witness:
  "length (events (dev (exec (run_ops [Interrupt]) (touch_demo touch_line)))) = 512"
  using events_stay_in_buffer [of "touch_demo touch_line" "[Interrupt]"] by (simp add: touch_demo_def zero_fts_def)

end
