(* ===== verification/Fingerprint.thy ===== *)
theory Fingerprint
  imports Calls
begin

text \<open>
  The fingerprint sensor's companion driver (\<open>kernel/files/egis_el721.c\<close>): the sensor's supply and enable
  line, the ioctl interface without sensor data, the attributes, the lifetime of the device structure,
  and the publication of the supply's regulator in the live device tree.
\<close>

subsection \<open>Calls\<close>

datatype line = Ldo | Enable

datatype tree_node = Sensor | Regulators | Ldo2 | Holder | Rail | Supply

datatype el721_event =
  Has_Supply_Property
| Get_Regulator
| Regulator bool
| Get_Line line
| Output_High line
| Set_Line line bool
| Sleep int
| Find_Pmic
| Get_Child
| Changeset_Init
| Changeset_Node tree_node
| Changeset_Property tree_node string
| Changeset_Apply
| Changeset_Revert
| Changeset_Destroy
| Node_Get tree_node
| Node_Put tree_node
| Create_Rail_Device
| Unregister_Rail_Device
| Add_Of_Node
| Remove_Of_Node
| Alloc
| Free
| Read_Property string
| Misc bool
| Group bool
| Capable
| Memdup nat
| CopyToUser string
| Driver bool
| Lookup_Table bool
| Find_Compatible string
| Device_Available
| Alloc_Fallback
| Add_Fallback
| Drop_Fallback

type_synonym el721_answer = "int \<times> string"
type_synonym el721_history = "(el721_event \<times> el721_answer) list"

abbreviation (input) EPERM :: int where "EPERM \<equiv> 1"
abbreviation (input) EFAULT :: int where "EFAULT \<equiv> 14"
abbreviation (input) EEXIST :: int where "EEXIST \<equiv> 17"
abbreviation (input) ENOTTY :: int where "ENOTTY \<equiv> 25"
abbreviation (input) EHOSTDOWN :: int where "EHOSTDOWN \<equiv> 112"

subsection \<open>State\<close>

record egis_ioc_transfer =
  tx_buf :: "64 word"
  rx_buf :: "64 word"
  len :: u32
  speed_hz :: u32
  delay_usecs :: u16
  bits_per_word :: u8
  cs_change :: u8
  opcode :: u8

text \<open>Pointers and descriptors are kept as whether they are set.\<close>

record el721_data =
  vdd :: bool
  ldo_gpio :: bool
  enable_gpio :: bool
  powered :: bool
  removing :: bool
  reset_count :: u32
  sensor_type :: int
  spi_value :: u32
  requested_clock_hz :: u32
  chip_name :: string
  chip_model :: string
  chip_position :: string

text \<open>
  The one device with its reference count and whether it has been freed, the globals of the rail, and
  whether the device's node is the supply node.
\<close>

record el721_sys =
  el721 :: el721_data
  refcount :: nat
  freed :: bool
  el721_supply_node :: bool
  el721_rail_device :: bool
  el721_rail_applied :: bool
  el721_fallback_device :: bool
  on_supply_node :: bool

type_synonym fp_world = "(el721_sys, el721_event, el721_answer) world"
type_synonym 'a fp_io = "(fp_world, 'a) state"

definition upd :: "(el721_data \<Rightarrow> el721_data) \<Rightarrow> unit fp_io" where
  "upd f = modify (\<lambda>s. s\<lparr>el721 := f (el721 s)\<rparr>)"

text \<open>\<open>strscpy\<close> into \<open>n\<close> bytes, without the terminating zero.\<close>

definition strscpy :: "string \<Rightarrow> nat \<Rightarrow> string" where
  "strscpy src n = take (n - 1) (takeWhile (\<lambda>c. c \<noteq> CHR 0x00) src)"

text \<open>\<open>kref_put\<close> of the device structure.\<close>

definition el721_put :: "unit fp_io" where
  "el721_put = do {
     n \<leftarrow> gets refcount;
     modify (\<lambda>s. s\<lparr>refcount := n - 1\<rparr>);
     if n = 1 then do { tell Free; modify (\<lambda>s. s\<lparr>freed := True\<rparr>) } else return ()
   }"

subsection \<open>Publishing the rail\<close>

text \<open>The properties of the changeset, each added only if the ones before could be.\<close>

primrec add_properties :: "tree_node \<Rightarrow> string list \<Rightarrow> int fp_io" where
  "add_properties n [] = return 0"
| "add_properties n (p # ps) = do {
     ret \<leftarrow> ask (Changeset_Property n p);
     if ret \<noteq> 0 then return ret else add_properties n ps
   }"

definition add_node :: "tree_node \<Rightarrow> string list \<Rightarrow> int fp_io" where
  "add_node n ps = do {
     ret \<leftarrow> ask (Changeset_Node n);
     if ret \<noteq> 0 then return (- ENOMEM) else add_properties n ps
   }"

definition build_changeset :: "int fp_io" where
  "build_changeset = do {
     ret \<leftarrow> add_node Holder [''compatible'', ''qcom,pmic-id''];
     if ret \<noteq> 0 then return ret
     else do {
       ret \<leftarrow> add_node Rail [''regulator-name'', ''regulator-min-microvolt'', ''regulator-max-microvolt'',
         ''regulator-initial-mode'', ''regulator-allowed-modes'', ''phandle''];
       if ret \<noteq> 0 then return ret
       else do {
         ret \<leftarrow> add_node Supply [''vdd-supply''];
         if ret \<noteq> 0 then return ret else ask Changeset_Apply
       }
     }
   }"

definition out_destroy :: "int \<Rightarrow> int fp_io" where
  "out_destroy ret = do {
     tell Changeset_Destroy;
     tell (Node_Put Regulators);
     return ret
   }"

definition add_of_node :: "int fp_io" where
  "add_of_node = do {
     ret \<leftarrow> ask Add_Of_Node;
     (if ret = 0 then modify (\<lambda>s. s\<lparr>on_supply_node := True\<rparr>) else return ());
     return ret
   }"

text \<open>From the successful application of the changeset on.\<close>

definition attach_rail :: "int fp_io" where
  "attach_rail = do {
     modify (\<lambda>s. s\<lparr>el721_rail_applied := True\<rparr>);
     tell (Node_Get Supply);
     modify (\<lambda>s. s\<lparr>el721_supply_node := True\<rparr>);
     ret \<leftarrow> ask Create_Rail_Device;
     modify (\<lambda>s. s\<lparr>el721_rail_device := (ret = 0)\<rparr>);
     ret \<leftarrow> add_of_node;
     if ret = 0 then do { tell (Node_Put Regulators); return 0 }
     else do {
       s \<leftarrow> gets id;
       (if el721_rail_device s then do {
          tell Unregister_Rail_Device;
          modify (\<lambda>s. s\<lparr>el721_rail_device := False\<rparr>)
        } else return ());
       tell (Node_Put Supply);
       modify (\<lambda>s. s\<lparr>el721_supply_node := False\<rparr>);
       tell Changeset_Revert;
       modify (\<lambda>s. s\<lparr>el721_rail_applied := False\<rparr>);
       out_destroy ret
     }
   }"

text \<open>
  \<open>for_each_compatible_node\<close> over the PMIC nodes, each given by its one-letter id; the reference to the
  node found is kept.
\<close>

definition el721_find_pmic_regulators :: "bool fp_io" where
  "el721_find_pmic_regulators = do { a \<leftarrow> call Find_Pmic; return (list_ex (\<lambda>c. c = CHR ''b'') (snd a)) }"

definition create_rail :: "int fp_io" where
  "create_rail = do {
     found \<leftarrow> el721_find_pmic_regulators;
     if \<not> found then return (- ENODEV)
     else do {
       rail \<leftarrow> ask Get_Child;
       if rail = 0 then do {
         tell (Node_Put Ldo2);
         tell (Node_Put Regulators);
         return (- EEXIST)
       }
       else do {
         tell Changeset_Init;
         ret \<leftarrow> build_changeset;
         if ret \<noteq> 0 then out_destroy ret else attach_rail
       }
     }
   }"

definition el721_publish_rail :: "int fp_io" where
  "el721_publish_rail = do {
     s \<leftarrow> gets id;
     if el721_supply_node s then if on_supply_node s then return 0 else add_of_node
     else create_rail
   }"

subsection \<open>Power\<close>

text \<open>The loop around \<open>devm_regulator_get\<close>: whether the supply was found.\<close>

primrec regulator_loop :: "nat \<Rightarrow> bool fp_io" where
  "regulator_loop 0 = return False"
| "regulator_loop (Suc n) = do {
     ret \<leftarrow> ask Get_Regulator;
     if 0 \<le> ret then return True
     else if ret \<noteq> - EPROBE_DEFER then return False
     else do { tell (Sleep 20000); regulator_loop n }
   }"

definition prepare_supply :: "unit fp_io" where
  "prepare_supply = do {
     present \<leftarrow> ask Has_Supply_Property;
     (if present = 0 then do { _ \<leftarrow> el721_publish_rail; return () } else return ());
     found \<leftarrow> regulator_loop 50;
     upd (\<lambda>e. e\<lparr>vdd := found\<rparr>)
   }"

definition el721_prepare_hardware_locked :: "int fp_io" where
  "el721_prepare_hardware_locked = do {
     e \<leftarrow> gets el721;
     (if \<not> vdd e then prepare_supply else return ());
     ret \<leftarrow> (if ldo_gpio e then return 0
       else do {
         ret \<leftarrow> ask (Get_Line Ldo);
         upd (\<lambda>e. e\<lparr>ldo_gpio := ret > 0\<rparr>);
         return (if ret < 0 then ret else 0)
       });
     if ret \<noteq> 0 then return ret
     else if enable_gpio e then return 0
     else do {
       ret \<leftarrow> ask (Get_Line Enable);
       upd (\<lambda>e. e\<lparr>enable_gpio := 0 \<le> ret\<rparr>);
       return (if ret < 0 then ret else 0)
     }
   }"

definition disable_vdd :: "int \<Rightarrow> int fp_io" where
  "disable_vdd ret = do {
     e \<leftarrow> gets el721;
     (if vdd e then tell (Regulator False) else return ());
     return ret
   }"

text \<open>The two lines, with the supply on.\<close>

definition raise_lines :: "int fp_io" where
  "raise_lines = do {
     tell (Sleep 2300);
     e \<leftarrow> gets el721;
     ret \<leftarrow> (if ldo_gpio e then ask (Output_High Ldo) else return 0);
     if ret \<noteq> 0 then disable_vdd ret
     else do {
       (if ldo_gpio e then tell (Sleep 2100) else return ());
       ret \<leftarrow> ask (Output_High Enable);
       if ret \<noteq> 0 then do {
         (if ldo_gpio e then tell (Set_Line Ldo False) else return ());
         disable_vdd ret
       }
       else do {
         tell (Sleep 1100);
         tell (Sleep 5000);
         upd (\<lambda>e. e\<lparr>powered := True\<rparr>);
         return 0
       }
     }
   }"

definition power_sequence :: "int fp_io" where
  "power_sequence = do {
     e \<leftarrow> gets el721;
     ret \<leftarrow> (if vdd e then ask (Regulator True) else return 0);
     if ret \<noteq> 0 then return ret else raise_lines
   }"

definition el721_power_on_locked :: "int fp_io" where
  "el721_power_on_locked = do {
     e \<leftarrow> gets el721;
     if powered e then return 0
     else do {
       ret \<leftarrow> el721_prepare_hardware_locked;
       if ret \<noteq> 0 then return ret else power_sequence
     }
   }"

definition el721_power_off_locked :: "int fp_io" where
  "el721_power_off_locked = do {
     e \<leftarrow> gets el721;
     if \<not> powered e then return 0
     else do {
       tell (Set_Line Enable False);
       (if ldo_gpio e then tell (Set_Line Ldo False) else return ());
       (if vdd e then tell (Regulator False) else return ());
       upd (\<lambda>e. e\<lparr>powered := False\<rparr>);
       return 0
     }
   }"

definition el721_reset_locked :: "int fp_io" where
  "el721_reset_locked = do {
     e \<leftarrow> gets el721;
     if \<not> powered e then return (- EHOSTDOWN)
     else do {
       tell (Set_Line Enable False);
       tell (Sleep 1050);
       tell (Set_Line Enable True);
       upd (\<lambda>e. e\<lparr>reset_count := reset_count e + 1\<rparr>);
       return 0
     }
   }"

definition el721_reset_control_locked :: "u32 \<Rightarrow> int fp_io" where
  "el721_reset_control_locked enabled = do {
     e \<leftarrow> gets el721;
     if enabled > 1 then return (- EINVAL)
     else if \<not> powered e then return (if enabled \<noteq> 0 then - EHOSTDOWN else 0)
     else do { tell (Set_Line Enable (enabled \<noteq> 0)); return 0 }
   }"

subsection \<open>The ioctl\<close>

text \<open>The model string as the ten bytes of a buffer that was zero before.\<close>

definition model_info :: "el721_data \<Rightarrow> string" where
  "model_info e = take 10 (strscpy (chip_model e) 10 @ replicate 10 (CHR 0x00))"

definition copy_model :: "int fp_io" where
  "copy_model = do {
     e \<leftarrow> gets el721;
     missing \<leftarrow> ask (CopyToUser (model_info e));
     return (if missing \<noteq> 0 then - EFAULT else 0)
   }"

definition reserved_opcodes :: "u8 list" where
  "reserved_opcodes = [0x19, 0x1C, 0xA4, 0xA5, 0xA8, 0x16, 0x17]"

definition el721_run_transfer_locked :: "egis_ioc_transfer \<Rightarrow> int fp_io" where
  "el721_run_transfer_locked ioc =
    (if opcode ioc = 0x04 then el721_reset_locked
     else if opcode ioc = 0x05 then
       if len ioc > 1 then return (- EINVAL)
       else if len ioc \<noteq> 0 then el721_power_on_locked else el721_power_off_locked
     else if opcode ioc = 0x07 then el721_reset_control_locked (len ioc)
     else if opcode ioc = 0x06 then do {
       upd (\<lambda>e. e\<lparr>requested_clock_hz := speed_hz ioc\<rparr>);
       return 0
     }
     else if opcode ioc = 0x10 then do {
       upd (\<lambda>e. e\<lparr>requested_clock_hz := 0\<rparr>);
       return 0
     }
     else if opcode ioc = 0x11 then return 0
     else if opcode ioc = 0x14 then do {
       upd (\<lambda>e. e\<lparr>sensor_type := sint (len ioc)\<rparr>);
       return 0
     }
     else if opcode ioc = 0x1A then do {
       upd (\<lambda>e. e\<lparr>spi_value := len ioc\<rparr>);
       return 0
     }
     else if opcode ioc = 0x1F then
       if rx_buf ioc = 0 then return (- EINVAL)
       else copy_model
     else if opcode ioc \<in> set reserved_opcodes then return 0
     else return (- EOPNOTSUPP))"

primrec run_transfers :: "egis_ioc_transfer list \<Rightarrow> int fp_io" where
  "run_transfers [] = return 0"
| "run_transfers (x # xs) = do {
     ret \<leftarrow> el721_run_transfer_locked x;
     if ret \<noteq> 0 then return ret else run_transfers xs
   }"

text \<open>The fields of an ioctl number, from the lowest bit: 8 bits each of number and type, 14 of size, 2 of direction.\<close>

definition IOC_NR :: "u32 \<Rightarrow> u32" where "IOC_NR cmd = take_bit 8 cmd"

definition IOC_TYPE :: "u32 \<Rightarrow> u32" where "IOC_TYPE cmd = take_bit 8 (drop_bit 8 cmd)"

definition IOC_SIZE :: "u32 \<Rightarrow> u32" where "IOC_SIZE cmd = take_bit 14 (drop_bit 16 cmd)"

definition IOC_DIR :: "u32 \<Rightarrow> u32" where "IOC_DIR cmd = take_bit 2 (drop_bit 30 cmd)"

text \<open>The command of a batch of \<open>n\<close> transfers: \<open>_IOW\<close> of a character array.\<close>

definition EGIS_MSGSIZE :: "nat \<Rightarrow> nat" where
  "EGIS_MSGSIZE n = (if n * 32 < 2 ^ 14 then n * 32 else 0)"

definition EGIS_IOC_MESSAGE :: "nat \<Rightarrow> u32" where
  "EGIS_IOC_MESSAGE n = push_bit 30 1 OR push_bit 16 (of_nat (EGIS_MSGSIZE n)) OR push_bit 8 0x6B"

definition zero_transfer :: egis_ioc_transfer where
  "zero_transfer = \<lparr>tx_buf = 0, rx_buf = 0, len = 0, speed_hz = 0, delay_usecs = 0, bits_per_word = 0,
     cs_change = 0, opcode = 0\<rparr>"

text \<open>\<open>user\<close> is what lies at the argument's address, seen as transfers.\<close>

definition el721_ioctl :: "u32 \<Rightarrow> egis_ioc_transfer list \<Rightarrow> int fp_io" where
  "el721_ioctl cmd user =
    (if IOC_TYPE cmd \<noteq> 0x6B \<or> IOC_NR cmd \<noteq> IOC_NR (EGIS_IOC_MESSAGE 0) \<or> IOC_DIR cmd \<noteq> 1 then return (- ENOTTY)
     else if IOC_SIZE cmd = 0 \<or> IOC_SIZE cmd mod 32 \<noteq> 0 then return (- EINVAL)
     else do {
       capable \<leftarrow> ask Capable;
       if capable = 0 then return (- EPERM)
       else do {
         ret \<leftarrow> ask (Memdup (unat (IOC_SIZE cmd)));
         if ret < 0 then return ret
         else do {
           let count = unat (IOC_SIZE cmd div 32);
           e \<leftarrow> gets el721;
           if removing e then return (- ENODEV)
           else run_transfers (take count (user @ replicate count zero_transfer))
         }
       }
     })"

definition el721_open :: "int fp_io" where
  "el721_open = do {
     s \<leftarrow> gets id;
     if removing (el721 s) then return (- ENODEV)
     else do { modify (\<lambda>s. s\<lparr>refcount := refcount s + 1\<rparr>); return 0 }
   }"

definition el721_release :: "int fp_io" where
  "el721_release = do { el721_put; return 0 }"

subsection \<open>Attributes\<close>

abbreviation newline :: string where "newline \<equiv> [CHR 0x0A]"

text \<open>\<open>%u\<close> and \<open>%d\<close>.\<close>

fun decimal :: "nat \<Rightarrow> string" where
  "decimal n = (if n < 10 then [char_of (48 + n)] else decimal (n div 10) @ [char_of (48 + n mod 10)])"

declare decimal.simps [simp del]

definition signed_decimal :: "int \<Rightarrow> string" where
  "signed_decimal i = (if i < 0 then CHR ''-'' # decimal (nat (- i)) else decimal (nat i))"

definition vendor_show :: string where
  "vendor_show = ''EGISTEC'' @ newline"

definition name_show :: "el721_data \<Rightarrow> string" where
  "name_show e = chip_name e @ newline"

definition model_show :: "el721_data \<Rightarrow> string" where
  "model_show e = chip_model e @ newline"

definition position_show :: "el721_data \<Rightarrow> string" where
  "position_show e = chip_position e @ newline"

definition type_check_show :: "el721_data \<Rightarrow> string" where
  "type_check_show e = signed_decimal (sensor_type e) @ newline"

definition power_show :: "el721_data \<Rightarrow> string" where
  "power_show e = decimal (of_bool (powered e)) @ newline"

definition reset_count_show :: "el721_data \<Rightarrow> string" where
  "reset_count_show e = decimal (unat (reset_count e)) @ newline"

text \<open>\<open>parsed\<close> is what \<open>kstrtobool\<close> makes of the text written: an error or a truth value.\<close>

definition power_store :: "int + bool \<Rightarrow> int \<Rightarrow> int fp_io" where
  "power_store parsed count = (case parsed of
     Inl ret \<Rightarrow> return ret
   | Inr enabled \<Rightarrow> do {
       e \<leftarrow> gets el721;
       ret \<leftarrow> (if removing e then return (- ENODEV)
         else if enabled then el721_power_on_locked
         else el721_power_off_locked);
       return (if ret \<noteq> 0 then ret else count)
     })"

definition reset_store :: "int + bool \<Rightarrow> int \<Rightarrow> int fp_io" where
  "reset_store parsed count = (case parsed of
     Inl ret \<Rightarrow> return ret
   | Inr reset \<Rightarrow>
       if \<not> reset then return (- EINVAL)
       else do {
         e \<leftarrow> gets el721;
         ret \<leftarrow> (if removing e then return (- ENODEV) else el721_reset_locked);
         return (if ret \<noteq> 0 then ret else count)
       })"

subsection \<open>Binding\<close>

definition el721_read_string :: "string \<Rightarrow> string \<Rightarrow> string \<Rightarrow> nat \<Rightarrow> string fp_io" where
  "el721_read_string property legacy_property fallback n = do {
     a \<leftarrow> call (Read_Property property);
     if fst a = 0 then return (strscpy (snd a) n)
     else do {
       a \<leftarrow> call (Read_Property legacy_property);
       return (strscpy (if fst a = 0 then snd a else fallback) n)
     }
   }"

definition zero_el721 :: el721_data where
  "zero_el721 = \<lparr>vdd = False, ldo_gpio = False, enable_gpio = False, powered = False, removing = False,
     reset_count = 0, sensor_type = 0, spi_value = 0, requested_clock_hz = 0,
     chip_name = [], chip_model = [], chip_position = []\<rparr>"

text \<open>From \<open>misc_register\<close> on.\<close>

definition register_device :: "int fp_io" where
  "register_device = do {
     ret \<leftarrow> ask (Misc True);
     if ret \<noteq> 0 then do { el721_put; return ret }
     else do {
       ret \<leftarrow> ask (Group True);
       if ret \<noteq> 0 then do {
         upd (\<lambda>e. e\<lparr>removing := True\<rparr>);
         _ \<leftarrow> el721_power_off_locked;
         tell (Misc False);
         el721_put;
         return ret
       }
       else return 0
     }
   }"

definition el721_probe :: "int fp_io" where
  "el721_probe = do {
     ret \<leftarrow> ask Alloc;
     if ret < 0 then return (- ENOMEM)
     else do {
       modify (\<lambda>s. s\<lparr>el721 := zero_el721\<lparr>sensor_type := 8\<rparr>, refcount := 1, freed := False\<rparr>);
       name \<leftarrow> el721_read_string ''egistec,name'' ''etspi-chipid'' ''EL721'' 16;
       model \<leftarrow> el721_read_string ''egistec,model'' ''etspi-modelinfo'' ''X716'' 10;
       position \<leftarrow> el721_read_string ''egistec,position'' ''etspi-position''
         ''13.30,0.00,9.10,9.10,14.80,14.80,12.00,12.00,5.00'' 96;
       upd (\<lambda>e. e\<lparr>chip_name := name, chip_model := model, chip_position := position\<rparr>);
       register_device
     }
   }"

definition el721_remove :: "unit fp_io" where
  "el721_remove = do {
     upd (\<lambda>e. e\<lparr>removing := True\<rparr>);
     _ \<leftarrow> el721_power_off_locked;
     tell (Group False);
     tell (Misc False);
     el721_put
   }"

text \<open>\<open>bound\<close> says whether the driver data are set.\<close>

definition el721_shutdown :: "bool \<Rightarrow> unit fp_io" where
  "el721_shutdown bound =
    (if \<not> bound then return ()
     else do {
       upd (\<lambda>e. e\<lparr>removing := True\<rparr>);
       _ \<leftarrow> el721_power_off_locked;
       return ()
     })"

definition el721_suspend :: "int fp_io" where
  "el721_suspend = el721_power_off_locked"

subsection \<open>The module\<close>

definition abandon_fallback :: "int \<Rightarrow> int fp_io" where
  "abandon_fallback ret = do { tell (Lookup_Table False); tell (Driver False); return ret }"

definition el721_init :: "int fp_io" where
  "el721_init = do {
     ret \<leftarrow> ask (Driver True);
     if ret \<noteq> 0 then return ret
     else do {
       node \<leftarrow> ask (Find_Compatible ''egistec,el721'');
       node \<leftarrow> (if node < 0 then ask (Find_Compatible ''etspi,el7xx'') else return node);
       available \<leftarrow> (if node < 0 then return 0 else ask Device_Available);
       (if node < 0 then return () else tell (Node_Put Sensor));
       if 0 \<le> node \<and> available \<noteq> 0 then return 0
       else do {
         tell (Lookup_Table True);
         ret \<leftarrow> ask Alloc_Fallback;
         modify (\<lambda>s. s\<lparr>el721_fallback_device := 0 \<le> ret\<rparr>);
         if ret < 0 then abandon_fallback (- ENOMEM)
         else do {
           ret \<leftarrow> ask Add_Fallback;
           if ret \<noteq> 0 then do {
             tell Drop_Fallback;
             modify (\<lambda>s. s\<lparr>el721_fallback_device := False\<rparr>);
             abandon_fallback ret
           }
           else return 0
         }
       }
     }
   }"

text \<open>Unregistering the device or the driver removes the device that is bound.\<close>

definition unbind :: "bool \<Rightarrow> unit fp_io" where
  "unbind bound = (if bound then el721_remove else return ())"

text \<open>
  The fallback device starts without a node, so its node is the supply node if either both are missing
  or the supply node was added to it.
\<close>

definition drop_fallback :: "bool \<Rightarrow> unit fp_io" where
  "drop_fallback bound = do {
     s \<leftarrow> gets id;
     (if on_supply_node s = el721_supply_node s then do {
        tell Remove_Of_Node;
        modify (\<lambda>s. s\<lparr>on_supply_node := False\<rparr>)
      } else return ());
     unbind bound;
     tell Drop_Fallback;
     tell (Lookup_Table False)
   }"

definition withdraw_rail :: "unit fp_io" where
  "withdraw_rail = do {
     s \<leftarrow> gets id;
     (if el721_rail_device s then tell Unregister_Rail_Device else return ());
     if el721_rail_applied s then do {
       tell (Node_Put Supply);
       modify (\<lambda>s. s\<lparr>el721_supply_node := False\<rparr>);
       tell Changeset_Revert;
       tell Changeset_Destroy
     }
     else return ()
   }"

definition el721_exit :: "bool \<Rightarrow> unit fp_io" where
  "el721_exit bound = do {
     s \<leftarrow> gets id;
     (if el721_fallback_device s then drop_fallback bound else return ());
     withdraw_rail;
     unbind (bound \<and> \<not> el721_fallback_device s);
     tell (Driver False)
   }"

end
