(* ===== verification/Fingerprint_Ledger.thy ===== *)
theory Fingerprint_Ledger
  imports Fingerprint
begin

text \<open>
  The invariant of the fingerprint driver: the ledger of the kernel objects it holds, the levels of its
  lines and the references to the device structure, kept by every operation from loading to unloading the
  module and under every answer of the kernel services.
\<close>

subsection \<open>Stepping over calls\<close>

lemma wp_updI [wp_intros]:
  "Q () (w\<lparr>dev := (dev w)\<lparr>el721 := f (el721 (dev w))\<rparr>\<rparr>) \<Longrightarrow> wp (upd f) Q w"
  unfolding upd_def by (intro wp_intros)

lemma wp_upd_state [wp_explicit]: "Q () (state (d\<lparr>el721 := f (el721 d)\<rparr>) h v) \<Longrightarrow> wp (upd f) Q (state d h v)"
  by (intro wp_updI) simp

lemma emits_upd [emits_rules]: "emits E (upd f)"
  unfolding upd_def by (intro emits_rules)

subsection \<open>The ledger of kernel objects\<close>

datatype object = Vdd | Structure | Misc_Device | Attributes | Node_Ref tree_node | Changeset | Applied
  | Rail_Device | Platform_Driver | Gpio_Table | Fallback

text \<open>What one call, by its answer, adds to the objects held.\<close>

fun effect :: "el721_event \<times> el721_answer \<Rightarrow> (object \<times> int) option" where
  "effect (Regulator on, a) = Some (Vdd, if on then of_bool (fst a = 0) else - 1)"
| "effect (Alloc, a) = Some (Structure, of_bool (0 \<le> fst a))"
| "effect (Free, a) = Some (Structure, - 1)"
| "effect (Misc on, a) = Some (Misc_Device, if on then of_bool (fst a = 0) else - 1)"
| "effect (Group on, a) = Some (Attributes, if on then of_bool (fst a = 0) else - 1)"
| "effect (Find_Pmic, a) = Some (Node_Ref Regulators, of_bool (list_ex (\<lambda>c. c = CHR ''b'') (snd a)))"
| "effect (Get_Child, a) = Some (Node_Ref Ldo2, of_bool (fst a = 0))"
| "effect (Find_Compatible c, a) = Some (Node_Ref Sensor, of_bool (0 \<le> fst a))"
| "effect (Node_Get n, a) = Some (Node_Ref n, 1)"
| "effect (Node_Put n, a) = Some (Node_Ref n, - 1)"
| "effect (Changeset_Init, a) = Some (Changeset, 1)"
| "effect (Changeset_Destroy, a) = Some (Changeset, - 1)"
| "effect (Changeset_Apply, a) = Some (Applied, of_bool (fst a = 0))"
| "effect (Changeset_Revert, a) = Some (Applied, - 1)"
| "effect (Create_Rail_Device, a) = Some (Rail_Device, of_bool (fst a = 0))"
| "effect (Unregister_Rail_Device, a) = Some (Rail_Device, - 1)"
| "effect (Driver on, a) = Some (Platform_Driver, if on then of_bool (fst a = 0) else - 1)"
| "effect (Lookup_Table on, a) = Some (Gpio_Table, if on then 1 else - 1)"
| "effect (Alloc_Fallback, a) = Some (Fallback, of_bool (0 \<le> fst a))"
| "effect (Drop_Fallback, a) = Some (Fallback, - 1)"
| "effect _ = None"

definition weight :: "object \<Rightarrow> el721_event \<times> el721_answer \<Rightarrow> int" where
  "weight r x = (case effect x of None \<Rightarrow> 0 | Some (r', n) \<Rightarrow> if r' = r then n else 0)"

definition held :: "object \<Rightarrow> el721_history \<Rightarrow> int" where
  "held r h = sum_list (map (weight r) h)"

lemma held_step [simp]: "held r [] = 0" "held r (x # h) = weight r x + held r h"
  by (simp_all add: held_def)

lemma held_neutral: "\<forall>x \<in> set new. weight r x = 0 \<Longrightarrow> held r (new @ h) = held r h"
  by (induction new) simp_all

text \<open>The level of a line: as it was last set.\<close>

fun line_high :: "line \<Rightarrow> el721_history \<Rightarrow> bool" where
  "line_high l [] = False"
| "line_high l ((Output_High l', a) # h) = (if l' = l \<and> fst a = 0 then True else line_high l h)"
| "line_high l ((Set_Line l' b, a) # h) = (if l' = l then b else line_high l h)"
| "line_high l (x # h) = line_high l h"

subsection \<open>What holds between two operations\<close>

text \<open>The rail: its globals say what is held in the device tree.\<close>

definition rail_ok :: "fp_world \<Rightarrow> bool" where
  "rail_ok w = (el721_supply_node (dev w) = el721_rail_applied (dev w) \<and>
     (el721_rail_device (dev w) \<longrightarrow> el721_rail_applied (dev w)) \<and>
     held Changeset (hist w) = of_bool (el721_rail_applied (dev w)) \<and>
     held Applied (hist w) = of_bool (el721_rail_applied (dev w)) \<and>
     held Rail_Device (hist w) = of_bool (el721_rail_device (dev w)) \<and>
     (\<forall>n. held (Node_Ref n) (hist w) = of_bool (n = Supply \<and> el721_supply_node (dev w))))"

text \<open>The sensor: its supply is held while it is powered, and only then can a line be high.\<close>

definition power_ok :: "fp_world \<Rightarrow> bool" where
  "power_ok w = (held Vdd (hist w) = of_bool (powered (el721 (dev w)) \<and> vdd (el721 (dev w))) \<and>
     (powered (el721 (dev w)) \<longrightarrow> enable_gpio (el721 (dev w))) \<and>
     (line_high Enable (hist w) \<longrightarrow> powered (el721 (dev w))) \<and>
     (line_high Ldo (hist w) \<longrightarrow> powered (el721 (dev w)) \<and> ldo_gpio (el721 (dev w))))"

text \<open>The structure: its references are the open files and the binding.\<close>

definition life_ok :: "nat \<Rightarrow> bool \<Rightarrow> fp_world \<Rightarrow> bool" where
  "life_ok files bound w = (refcount (dev w) = files + of_bool bound \<and>
     freed (dev w) = (refcount (dev w) = 0) \<and>
     held Structure (hist w) = of_bool (\<not> freed (dev w)) \<and>
     held Misc_Device (hist w) = of_bool bound \<and> held Attributes (hist w) = of_bool bound \<and>
     (\<not> bound \<and> files > 0 \<longrightarrow> removing (el721 (dev w))) \<and>
     (removing (el721 (dev w)) \<or> \<not> bound \<longrightarrow> \<not> powered (el721 (dev w))))"

text \<open>The module: what loading it took.\<close>

definition module_ok :: "fp_world \<Rightarrow> bool" where
  "module_ok w = (held Platform_Driver (hist w) = 1 \<and>
     held Gpio_Table (hist w) = of_bool (el721_fallback_device (dev w)) \<and>
     held Fallback (hist w) = of_bool (el721_fallback_device (dev w)))"

lemmas ok_defs = rail_ok_def power_ok_def life_ok_def module_ok_def

lemma all_nodes: "(\<forall>n. P n) = (P Sensor \<and> P Regulators \<and> P Ldo2 \<and> P Holder \<and> P Rail \<and> P Supply)"
  by (metis tree_node.exhaust)

subsection \<open>The rail\<close>

text \<open>Building the changeset adds nothing to the ledger but, on success, its application.\<close>

fun changes :: "el721_event \<Rightarrow> bool" where
  "changes (Changeset_Node n) = True"
| "changes (Changeset_Property n p) = True"
| "changes _ = False"

lemma changes_neutral: "changes (fst x) \<Longrightarrow> weight r x = 0 \<and> line_high l (x # h) = line_high l h"
  by (cases x; cases "fst x") (auto simp: weight_def)

lemma changes_held [simp]:
  assumes "\<forall>x \<in> set new. changes (fst x)"
  shows "held r (new @ h) = held r h" "line_high l (new @ h) = line_high l h"
proof -
  from assms show "held r (new @ h) = held r h"
    by (intro held_neutral) (use changes_neutral in blast)
  from assms show "line_high l (new @ h) = line_high l h"
    by (induction new) (auto simp: changes_neutral)
qed

lemma observe_changes [observer_rules]: "observer changes (add_node n ps)"
proof -
  have "observer changes (add_properties n ps)" by (induction ps) (auto intro!: observer_rules)
  then show ?thesis unfolding add_node_def by (intro observer_rules) simp
qed

text \<open>What publishing the rail leaves alone.\<close>

fun rail_object :: "object \<Rightarrow> bool" where
  "rail_object (Node_Ref n) = True"
| "rail_object Changeset = True"
| "rail_object Applied = True"
| "rail_object Rail_Device = True"
| "rail_object _ = False"

definition beside_rail :: "fp_world \<Rightarrow> fp_world \<Rightarrow> bool" where
  "beside_rail w w' = (el721 (dev w') = el721 (dev w) \<and> refcount (dev w') = refcount (dev w) \<and>
     freed (dev w') = freed (dev w) \<and> el721_fallback_device (dev w') = el721_fallback_device (dev w) \<and>
     (\<forall>r. \<not> rail_object r \<longrightarrow> held r (hist w') = held r (hist w)) \<and>
     (\<forall>l. line_high l (hist w') = line_high l (hist w)))"

lemma build_outcome:
  assumes "\<And>ret new. \<forall>x \<in> set new. changes (fst x) \<Longrightarrow> ret \<noteq> 0 \<Longrightarrow> Q ret (w\<lparr>hist := new @ hist w\<rparr>)"
    and "\<And>a new. \<forall>x \<in> set new. changes (fst x) \<Longrightarrow> Q (fst a) (w\<lparr>hist := (Changeset_Apply, a) # new @ hist w\<rparr>)"
  shows "wp build_changeset Q w"
  unfolding build_changeset_def
proof (intro wp_intros wp_observer [OF observe_changes], goal_cases)
  case (1 ret new)
  then show ?case using assms(1) by blast
next
  case (2 r1 n1 r2 n2)
  then show ?case using assms(1) [of "n2 @ n1" r2] by auto
next
  case (3 r1 n1 r2 n2 r3 n3)
  then show ?case using assms(1) [of "n3 @ n2 @ n1" r3] by auto
next
  case (4 r1 n1 r2 n2 r3 n3 a)
  then show ?case using assms(2) [of "n3 @ n2 @ n1" a] by auto
qed

fun rail_event :: "el721_event \<Rightarrow> bool" where
  "rail_event Find_Pmic = True"
| "rail_event Get_Child = True"
| "rail_event Changeset_Init = True"
| "rail_event Changeset_Apply = True"
| "rail_event Changeset_Revert = True"
| "rail_event Changeset_Destroy = True"
| "rail_event (Node_Get n) = True"
| "rail_event (Node_Put n) = True"
| "rail_event Create_Rail_Device = True"
| "rail_event Unregister_Rail_Device = True"
| "rail_event Add_Of_Node = True"
| "rail_event e = changes e"

lemma rail_event_weight: "rail_event (fst x) \<Longrightarrow> \<not> rail_object r \<Longrightarrow> weight r x = 0"
  by (cases x; cases "fst x") (auto simp: weight_def)

lemma rail_event_line: "rail_event (fst x) \<Longrightarrow> line_high l (x # h) = line_high l h"
  by (cases x; cases "fst x") auto

lemma changes_rail_event: "changes e \<Longrightarrow> rail_event e"
  by (cases e) auto

lemma emits_add_node [emits_rules]: "emits rail_event (add_node n ps)"
  using observe_changes [of n ps] unfolding observer_def by (blast intro: emits_mono changes_rail_event)

lemma emits_publish: "emits rail_event el721_publish_rail"
  unfolding el721_publish_rail_def create_rail_def attach_rail_def out_destroy_def add_of_node_def
    el721_find_pmic_regulators_def build_changeset_def
  by (intro emits_rules) simp_all

lemma rail_events_held:
  assumes "\<forall>x \<in> set new. rail_event (fst x)"
  shows "\<not> rail_object r \<Longrightarrow> held r (new @ h) = held r h" "line_high l (new @ h) = line_high l h"
  using assms by (induction new) (auto simp: rail_event_weight rail_event_line)

definition beside_globals :: "el721_sys \<Rightarrow> el721_sys \<Rightarrow> bool" where
  "beside_globals s s' = (el721 s' = el721 s \<and> refcount s' = refcount s \<and> freed s' = freed s \<and>
     el721_fallback_device s' = el721_fallback_device s)"

lemma publish_keeps_device: "keeps (\<lambda>w. beside_globals s (dev w)) el721_publish_rail"
  unfolding el721_publish_rail_def create_rail_def attach_rail_def out_destroy_def add_of_node_def
    el721_find_pmic_regulators_def build_changeset_def
  by (intro keeps_rules observer_keeps_dev [OF observe_changes]) (simp_all add: beside_globals_def)

lemma publish_beside: "wp el721_publish_rail (\<lambda>_. beside_rail w) w"
proof -
  obtain new where "hist (exec el721_publish_rail w) = new @ hist w" "\<forall>x \<in> set new. rail_event (fst x)"
    using emits_publish by (rule emitsD)
  moreover have "beside_globals (dev w) (dev (exec el721_publish_rail w))"
    using publish_keeps_device by (rule keepsD) (simp add: beside_globals_def)
  ultimately show ?thesis
    by (simp add: beside_rail_def beside_globals_def wp_def rail_events_held)
qed

lemma attach_rail_ok:
  assumes "el721_supply_node (dev w) = False" "el721_rail_applied (dev w) = False"
    "el721_rail_device (dev w) = False" "held Changeset (hist w) = 1" "held Applied (hist w) = 1"
    "held Rail_Device (hist w) = 0" "\<forall>n. held (Node_Ref n) (hist w) = of_bool (n = Regulators)"
  shows "wp attach_rail (\<lambda>_. rail_ok) w"
  using assms unfolding attach_rail_def out_destroy_def add_of_node_def
  by - (rule wp_state, intro wp_explicit, simp_all add: rail_ok_def weight_def all_nodes)

lemma create_rail_ok:
  assumes "rail_ok w" "\<not> el721_rail_applied (dev w)"
  shows "wp create_rail (\<lambda>_. rail_ok) w"
  using assms unfolding create_rail_def out_destroy_def el721_find_pmic_regulators_def
  by (intro wp_intros build_outcome attach_rail_ok) (simp_all add: rail_ok_def weight_def)

lemma publish_rail_ok:
  assumes "rail_ok w"
  shows "wp el721_publish_rail (\<lambda>_. rail_ok) w"
  unfolding el721_publish_rail_def add_of_node_def
  by (intro wp_intros create_rail_ok) (use assms in \<open>auto simp: rail_ok_def weight_def\<close>)

subsection \<open>The sensor\<close>

definition fp_ok :: "nat \<Rightarrow> bool \<Rightarrow> fp_world \<Rightarrow> bool" where
  "fp_ok files bound w = (rail_ok w \<and> power_ok w \<and> life_ok files bound w \<and> module_ok w)"

text \<open>Calls that move neither the ledger nor a line.\<close>

fun quiet :: "el721_event \<Rightarrow> bool" where
  "quiet Has_Supply_Property = True"
| "quiet Get_Regulator = True"
| "quiet (Get_Line l) = True"
| "quiet (Sleep n) = True"
| "quiet Capable = True"
| "quiet (Memdup n) = True"
| "quiet (CopyToUser s) = True"
| "quiet (Read_Property s) = True"
| "quiet _ = False"

lemma quiet_neutral: "quiet (fst x) \<Longrightarrow> weight r x = 0 \<and> line_high l (x # h) = line_high l h"
  by (cases x; cases "fst x") (auto simp: weight_def)

lemma quiet_held [simp]:
  assumes "\<forall>x \<in> set new. quiet (fst x)"
  shows "held r (new @ h) = held r h" "line_high l (new @ h) = line_high l h"
  using assms by (induction new) (auto simp: quiet_neutral)

lemma quiet_step [simp]:
  "quiet e \<Longrightarrow> weight r (e, a) = 0" "quiet e \<Longrightarrow> line_high l ((e, a) # h) = line_high l h"
  using quiet_neutral [of "(e, a)"] by simp_all

lemma quiet_loop [observer_rules]: "observer quiet (regulator_loop n)"
  by (induction n) (auto intro!: observer_rules)

lemma fp_ok_beside: "beside_rail w w' \<Longrightarrow> rail_ok w' \<Longrightarrow> fp_ok files bound w \<Longrightarrow> fp_ok files bound w'"
  by (auto simp: fp_ok_def beside_rail_def power_ok_def life_ok_def module_ok_def)

lemma fp_ok_quiet:
  "\<forall>x \<in> set new. quiet (fst x) \<Longrightarrow> fp_ok files bound (w\<lparr>hist := new @ hist w\<rparr>) = fp_ok files bound w"
  "quiet e \<Longrightarrow> fp_ok files bound (w\<lparr>hist := (e, a) # hist w\<rparr>) = fp_ok files bound w"
  "quiet e \<Longrightarrow> quiet e' \<Longrightarrow> fp_ok files bound (w\<lparr>hist := (e, a) # (e', a') # hist w\<rparr>) = fp_ok files bound w"
  by (simp_all add: fp_ok_def ok_defs)

text \<open>
  Fields of the device that do not take part: writing them keeps the invariant, as long as the ones that
  do take part are the same.
\<close>

definition same_power :: "el721_data \<Rightarrow> el721_data \<Rightarrow> bool" where
  "same_power e e' = (vdd e' = vdd e \<and> ldo_gpio e' = ldo_gpio e \<and> enable_gpio e' = enable_gpio e \<and>
     powered e' = powered e \<and> removing e' = removing e)"

lemma fp_ok_same:
  "same_power (el721 (dev w)) e \<Longrightarrow> fp_ok files bound (w\<lparr>dev := (dev w)\<lparr>el721 := e\<rparr>\<rparr>) = fp_ok files bound w"
  by (auto simp: fp_ok_def ok_defs same_power_def)

lemma fp_ok_off:
  "\<not> powered (el721 (dev w)) \<Longrightarrow> \<not> powered e \<Longrightarrow> removing e = removing (el721 (dev w)) \<Longrightarrow> fp_ok files bound w \<Longrightarrow>
   fp_ok files bound (w\<lparr>dev := (dev w)\<lparr>el721 := e\<rparr>\<rparr>)"
  by (auto simp: fp_ok_def ok_defs)

text \<open>A powered-off sensor of a driver that may be used.\<close>

definition off_ok :: "nat \<Rightarrow> bool \<Rightarrow> bool \<Rightarrow> fp_world \<Rightarrow> bool" where
  "off_ok files bound gone w = (fp_ok files bound w \<and> \<not> powered (el721 (dev w)) \<and> removing (el721 (dev w)) = gone)"

lemma off_ok_quiet [keeps_rules]: "quiet e \<Longrightarrow> keeps (off_ok f b g) (ask e)" "quiet e \<Longrightarrow> keeps (off_ok f b g) (tell e)"
  by (auto intro!: keepsI wp_intros simp: off_ok_def fp_ok_quiet)

lemma off_ok_loop [keeps_rules]: "keeps (off_ok f b g) (regulator_loop n)"
  by (intro keepsI wp_observer [OF quiet_loop]) (simp add: off_ok_def fp_ok_quiet)

lemma off_ok_upd [keeps_rules]:
  "(\<And>e. powered (h e) = powered e) \<Longrightarrow> (\<And>e. removing (h e) = removing e) \<Longrightarrow> keeps (off_ok f b g) (upd h)"
  by (intro keepsI wp_intros) (auto simp: off_ok_def intro: fp_ok_off)

lemma off_ok_publish [keeps_rules]: "keeps (off_ok f b g) el721_publish_rail"
proof (rule keepsI)
  fix w assume ok: "off_ok f b g w"
  then have "rail_ok w" by (simp add: off_ok_def fp_ok_def)
  then show "wp el721_publish_rail (\<lambda>_. off_ok f b g) w"
    using publish_rail_ok [of w] publish_beside [of w] ok fp_ok_beside [of w]
    by (auto simp: wp_def off_ok_def beside_rail_def)
qed

lemma off_ok_prepare: "keeps (off_ok f b g) el721_prepare_hardware_locked"
  unfolding el721_prepare_hardware_locked_def prepare_supply_def by (intro keeps_rules) simp_all

lemma keeps_el721_publish: "keeps (\<lambda>w. J (el721 (dev w))) el721_publish_rail"
proof (rule keepsI)
  fix w :: fp_world
  assume "J (el721 (dev w))"
  then show "wp el721_publish_rail (\<lambda>_ w'. J (el721 (dev w'))) w"
    using publish_beside [of w] by (simp add: wp_def beside_rail_def)
qed

lemma keeps_el721_calls [keeps_rules]:
  "keeps (\<lambda>w. J (el721 (dev w))) (ask e)" "keeps (\<lambda>w. J (el721 (dev w))) (tell e)"
  "(\<And>e. J e \<Longrightarrow> J (f e)) \<Longrightarrow> keeps (\<lambda>w. J (el721 (dev w))) (upd f)"
  unfolding upd_def by (rule keeps_dev [of "\<lambda>s. J (el721 s)"]; simp)+

lemma keeps_el721_supply:
  assumes "\<And>e b. J e \<Longrightarrow> J (e\<lparr>vdd := b\<rparr>)"
  shows "keeps (\<lambda>w. J (el721 (dev w))) prepare_supply"
  unfolding prepare_supply_def using assms
  by (intro keeps_rules keeps_el721_publish observer_keeps_dev [OF quiet_loop])

lemma prepare_takes_enable:
  "wp el721_prepare_hardware_locked (\<lambda>ret w'. ret = 0 \<longrightarrow> enable_gpio (el721 (dev w'))) w"
  unfolding el721_prepare_hardware_locked_def
  by (intro wp_intros wp_keeps [OF keeps_el721_supply [of "\<lambda>e. enable_gpio e = enable_gpio (el721 (dev w))"]]) auto

text \<open>A driver that is bound and not being removed.\<close>

definition usable :: "nat \<Rightarrow> fp_world \<Rightarrow> bool" where
  "usable files w = (fp_ok files True w \<and> \<not> removing (el721 (dev w)))"

text \<open>Raising the lines with the supply on ends either powered or with everything switched off again.\<close>

lemma raise_lines_ok:
  assumes "off_ok files True False (w\<lparr>hist := h\<rparr>)" "enable_gpio (el721 (dev w))"
    "hist w = (if vdd (el721 (dev w)) then (Regulator True, a) # h else h)" "fst a = 0"
  shows "wp raise_lines (\<lambda>_. usable files) w"
  using assms unfolding raise_lines_def disable_vdd_def
  by - (rule wp_state, intro wp_explicit, auto simp: usable_def off_ok_def fp_ok_def ok_defs weight_def)

lemma power_sequence_ok:
  assumes "off_ok files True False w" "enable_gpio (el721 (dev w))"
  shows "wp power_sequence (\<lambda>_. usable files) w"
  unfolding power_sequence_def
proof (intro wp_intros, goal_cases)
  case (1 a)
  with assms show ?case by (auto simp: usable_def off_ok_def fp_ok_def ok_defs weight_def)
next
  case (2 a)
  with assms show ?case by (intro raise_lines_ok [where h = "hist w" and a = a]) simp_all
next
  case 4
  with assms show ?case by (intro raise_lines_ok [where h = "hist w" and a = "(0, [])"]) simp_all
qed simp

lemma power_on_ok: "keeps (usable files) el721_power_on_locked"
  unfolding el721_power_on_locked_def
proof (intro keepsI wp_bindI wp_getsI wp_ifI wp_returnI)
  fix w assume ok: "usable files w" and off: "\<not> powered (el721 (dev w))"
  then have "wp el721_prepare_hardware_locked (\<lambda>_. off_ok files True False) w"
    by (intro keeps_wp [OF off_ok_prepare]) (simp add: usable_def off_ok_def)
  with prepare_takes_enable have "wp el721_prepare_hardware_locked
    (\<lambda>ret w'. (ret = 0 \<longrightarrow> enable_gpio (el721 (dev w'))) \<and> off_ok files True False w') w"
    by (simp add: wp_conj)
  then show "wp el721_prepare_hardware_locked
    (\<lambda>ret. wp (if ret \<noteq> 0 then return ret else power_sequence) (\<lambda>_. usable files)) w"
    by (rule wp_mono) (intro wp_intros power_sequence_ok; simp add: usable_def off_ok_def)
qed

lemma power_off_ok:
  assumes "fp_ok files bound w"
  shows "wp el721_power_off_locked (\<lambda>ret w'. ret = 0 \<and> fp_ok files bound w' \<and> \<not> powered (el721 (dev w')) \<and>
    removing (el721 (dev w')) = removing (el721 (dev w)) \<and> refcount (dev w') = refcount (dev w)) w"
  using assms unfolding el721_power_off_locked_def
  by - (rule wp_state, intro wp_explicit, auto simp: fp_ok_def ok_defs weight_def)

subsection \<open>The operations\<close>

lemma power_off_usable: "keeps (usable files) el721_power_off_locked"
  by (intro keepsI wp_mono [OF power_off_ok]) (auto simp: usable_def)

lemma usable_quiet [keeps_rules]:
  "quiet e \<Longrightarrow> keeps (usable files) (ask e)" "quiet e \<Longrightarrow> keeps (usable files) (tell e)"
  by (auto intro!: keepsI wp_intros simp: usable_def fp_ok_quiet)

lemma usable_upd [keeps_rules]: "(\<And>e. same_power e (h e)) \<Longrightarrow> keeps (usable files) (upd h)"
  by (intro keepsI wp_intros) (auto simp: usable_def fp_ok_same, simp add: same_power_def)

lemma reset_usable: "keeps (usable files) el721_reset_locked"
  unfolding el721_reset_locked_def
  by - (rule keepsI, rule wp_state, intro wp_explicit, auto simp: usable_def fp_ok_def ok_defs weight_def)

lemma reset_control_usable: "keeps (usable files) (el721_reset_control_locked n)"
  unfolding el721_reset_control_locked_def
  by - (rule keepsI, rule wp_state, intro wp_explicit, auto simp: usable_def fp_ok_def ok_defs weight_def)

lemmas usable_ops [keeps_rules] = power_on_ok power_off_usable reset_usable reset_control_usable

text \<open>
  What the single operations of the ioctl keep, a batch of transfers keeps. The fields that a transfer only
  records are neither those of the power sequence nor the model string.
\<close>

locale transfer_invariant =
  fixes I :: "fp_world \<Rightarrow> bool"
  assumes power_on: "keeps I el721_power_on_locked"
    and power_off: "keeps I el721_power_off_locked"
    and reset: "keeps I el721_reset_locked"
    and reset_control: "keeps I (el721_reset_control_locked n)"
    and copy: "keeps I copy_model"
    and noted: "(\<And>e. same_power e (f e) \<and> chip_model (f e) = chip_model e) \<Longrightarrow> keeps I (upd f)"
begin

lemma transfer: "keeps I (el721_run_transfer_locked x)"
  unfolding el721_run_transfer_locked_def
  by (intro keeps_rules power_on power_off reset reset_control copy noted) (simp_all add: same_power_def)

lemma transfers: "keeps I (run_transfers xs)"
  by (induction xs) (auto intro!: keeps_rules transfer)

end

interpretation usable: transfer_invariant "usable files" for files
proof
  show "keeps (usable files) copy_model" unfolding copy_model_def by (intro keeps_rules) simp_all
qed (auto intro: keeps_rules)

text \<open>A guard on \<open>removing\<close> makes it enough to look at a usable driver.\<close>

lemma guarded_ok:
  assumes "keeps (usable files) m" "bound \<or> files > 0" "fp_ok files bound w" "\<not> removing (el721 (dev w))"
  shows "wp m (\<lambda>_. fp_ok files bound) w"
proof -
  from assms have "bound" "usable files w"
    by (auto simp: usable_def fp_ok_def life_ok_def)
  with assms(1) show ?thesis
    by (auto simp: wp_def keeps_def usable_def)
qed

lemma ioctl_ok:
  assumes "bound \<or> files > 0"
  shows "keeps (fp_ok files bound) (el721_ioctl cmd user)"
  unfolding el721_ioctl_def
  by (intro keepsI wp_intros guarded_ok [OF usable.transfers assms]) (simp_all add: fp_ok_quiet)

lemma power_store_ok:
  assumes "bound \<or> files > 0"
  shows "keeps (fp_ok files bound) (power_store parsed n)"
  unfolding power_store_def
  by (intro keepsI wp_intros wp_mono [OF guarded_ok [OF power_on_ok assms]]
    wp_mono [OF guarded_ok [OF power_off_usable assms]]) simp_all

lemma reset_store_ok:
  assumes "bound \<or> files > 0"
  shows "keeps (fp_ok files bound) (reset_store parsed n)"
  unfolding reset_store_def
  by (intro keepsI wp_intros wp_mono [OF guarded_ok [OF reset_usable assms]]) simp_all

lemma open_ok:
  assumes "fp_ok files True w"
  shows "wp el721_open (\<lambda>ret. fp_ok (files + of_bool (ret = 0)) True) w"
  using assms unfolding el721_open_def by (intro wp_intros) (auto simp: fp_ok_def ok_defs)

lemma suspend_ok: "keeps (fp_ok files bound) el721_suspend"
  unfolding el721_suspend_def by (intro keepsI wp_mono [OF power_off_ok]) auto

lemma shutdown_ok: "keeps (fp_ok files bound) (el721_shutdown b)"
  unfolding el721_shutdown_def el721_power_off_locked_def
  by - (rule keepsI, rule wp_state, intro wp_explicit, auto simp: fp_ok_def ok_defs weight_def)

text \<open>Removal concerns the sensor and the structure, not the rail and the module.\<close>

fun sensor_object :: "object \<Rightarrow> bool" where
  "sensor_object Vdd = True"
| "sensor_object Structure = True"
| "sensor_object Misc_Device = True"
| "sensor_object Attributes = True"
| "sensor_object _ = False"

definition beside_sensor :: "fp_world \<Rightarrow> fp_world \<Rightarrow> bool" where
  "beside_sensor w w' = (el721_supply_node (dev w') = el721_supply_node (dev w) \<and>
     el721_rail_applied (dev w') = el721_rail_applied (dev w) \<and>
     el721_rail_device (dev w') = el721_rail_device (dev w) \<and>
     el721_fallback_device (dev w') = el721_fallback_device (dev w) \<and>
     (\<forall>r. \<not> sensor_object r \<longrightarrow> held r (hist w') = held r (hist w)))"

lemma put_beside: "wp el721_put (\<lambda>_. beside_sensor w) w"
  unfolding el721_put_def by (rule wp_state, intro wp_explicit) (auto simp: beside_sensor_def weight_def)

lemma put_life:
  assumes "power_ok w" "refcount (dev w) = Suc (files + of_bool bound)" "\<not> freed (dev w)"
    "held Structure (hist w) = 1" "held Misc_Device (hist w) = of_bool bound"
    "held Attributes (hist w) = of_bool bound" "\<not> bound \<longrightarrow> 0 < files \<longrightarrow> removing (el721 (dev w))"
    "removing (el721 (dev w)) \<or> \<not> bound \<longrightarrow> \<not> powered (el721 (dev w))"
  shows "wp el721_put (\<lambda>_ w'. power_ok w' \<and> life_ok files bound w') w"
  using assms unfolding el721_put_def
  by - (rule wp_state, intro wp_explicit, auto simp: power_ok_def life_ok_def weight_def)

lemma fp_ok_beside_sensor:
  "beside_sensor w w' \<Longrightarrow> rail_ok w \<Longrightarrow> module_ok w \<Longrightarrow> rail_ok w' \<and> module_ok w'"
  by (simp add: beside_sensor_def rail_ok_def module_ok_def)

lemma remove_life:
  assumes "power_ok w" "life_ok files True w"
  shows "wp el721_remove (\<lambda>_ w'. power_ok w' \<and> life_ok files False w') w"
  using assms unfolding el721_remove_def el721_power_off_locked_def
  by - (rule wp_state, intro wp_explicit put_life, auto simp: power_ok_def life_ok_def weight_def)

lemma remove_beside: "wp el721_remove (\<lambda>_. beside_sensor w) w"
  unfolding el721_remove_def el721_power_off_locked_def
  by (rule wp_state, intro wp_explicit wp_mono [OF put_beside]) (auto simp: beside_sensor_def weight_def)

lemma put_rest:
  assumes "rail_ok w" "module_ok w" "wp el721_put (\<lambda>_ w'. power_ok w' \<and> life_ok files bound w') w"
  shows "wp el721_put (\<lambda>_. fp_ok files bound) w"
  using assms put_beside [of w] fp_ok_beside_sensor [of w] by (simp add: wp_def fp_ok_def)

lemmas put_ok = put_rest [OF _ _ put_life]

lemma release_ok:
  assumes "fp_ok (Suc files) bound w"
  shows "wp el721_release (\<lambda>_. fp_ok files bound) w"
  using assms unfolding el721_release_def
  by (intro wp_intros wp_mono [OF put_ok [of w files bound]]) (auto simp: fp_ok_def life_ok_def)

lemma remove_ok:
  assumes "fp_ok files True w"
  shows "wp el721_remove (\<lambda>_. fp_ok files False) w"
  using assms remove_life [of w files] remove_beside [of w] fp_ok_beside_sensor [of w]
  by (simp add: wp_def fp_ok_def)

lemma quiet_string [observer_rules]: "observer quiet (el721_read_string p q d n)"
  unfolding el721_read_string_def by (intro observer_rules) simp_all

text \<open>A structure just allocated.\<close>

definition fresh :: "fp_world \<Rightarrow> bool" where
  "fresh w = (rail_ok w \<and> power_ok w \<and> module_ok w \<and> refcount (dev w) = 1 \<and> \<not> freed (dev w) \<and>
     held Structure (hist w) = 1 \<and> held Misc_Device (hist w) = 0 \<and> held Attributes (hist w) = 0 \<and>
     \<not> powered (el721 (dev w)) \<and> \<not> removing (el721 (dev w)))"

lemma fresh_string [keeps_rules]: "keeps fresh (el721_read_string p q d n)"
  by (intro keepsI wp_observer [OF quiet_string]) (auto simp: fresh_def ok_defs)

lemma fresh_names [keeps_rules]: "(\<And>e. same_power e (h e)) \<Longrightarrow> keeps fresh (upd h)"
  by (intro keepsI wp_intros) (auto simp: fresh_def ok_defs same_power_def)

lemma register_ok:
  assumes "fresh w"
  shows "wp register_device (\<lambda>ret. fp_ok 0 (ret = 0)) w"
  using assms unfolding register_device_def el721_power_off_locked_def
  by - (rule wp_state, intro wp_explicit wp_mono [OF put_ok [where files = 0 and bound = False]],
     auto simp: fresh_def fp_ok_def ok_defs weight_def)

lemma probe_ok:
  assumes "fp_ok 0 False w"
  shows "wp el721_probe (\<lambda>ret. fp_ok 0 (ret = 0)) w"
  unfolding el721_probe_def
proof (intro wp_intros, goal_cases)
  case (1 a)
  with assms show ?case by (auto simp: fp_ok_def ok_defs weight_def)
next
  case (2 a)
  with assms have "fresh (w\<lparr>hist := (Alloc, a) # hist w,
    dev := (dev w)\<lparr>el721 := zero_el721\<lparr>sensor_type := 8\<rparr>, refcount := 1, freed := False\<rparr>\<rparr>)"
    by (auto simp: fresh_def fp_ok_def ok_defs weight_def zero_el721_def)
  then show ?case
    by (intro wp_keeps [OF fresh_string] wp_bindI wp_keeps [OF fresh_names] register_ok)
       (simp_all add: same_power_def)
qed

subsection \<open>Loading and unloading\<close>

definition nothing_held :: "el721_history \<Rightarrow> bool" where
  "nothing_held h = ((\<forall>r. held r h = 0) \<and> (\<forall>l. \<not> line_high l h))"

lemma all_objects:
  "(\<forall>r. P r) = (P Vdd \<and> P Structure \<and> P Misc_Device \<and> P Attributes \<and> (\<forall>n. P (Node_Ref n)) \<and> P Changeset \<and>
     P Applied \<and> P Rail_Device \<and> P Platform_Driver \<and> P Gpio_Table \<and> P Fallback)"
  (is "_ = ?all")
proof (intro iffI allI)
  fix r assume ?all
  then show "P r" by (cases r) simp_all
qed simp

lemma all_lines: "(\<forall>l. P l) = (P Ldo \<and> P Enable)"
  by (metis line.exhaust)

definition fp_boot :: el721_sys where
  "fp_boot = \<lparr>el721 = zero_el721, refcount = 0, freed = True, el721_supply_node = False, el721_rail_device = False,
     el721_rail_applied = False, el721_fallback_device = False, on_supply_node = False\<rparr>"

lemma init_ok:
  assumes "dev w = fp_boot" "hist w = []"
  shows "wp el721_init (\<lambda>ret w'. if ret = 0 then fp_ok 0 False w' else nothing_held (hist w')) w"
  using assms unfolding el721_init_def abandon_fallback_def
  by - (rule wp_state, intro wp_explicit, auto simp: fp_boot_def zero_el721_def fp_ok_def ok_defs weight_def nothing_held_def all_objects)

text \<open>Unloading in two halves: the fallback device, then the rail and the driver.\<close>

definition rail_gone :: "fp_world \<Rightarrow> bool" where
  "rail_gone w = (\<forall>r. rail_object r \<longrightarrow> held r (hist w) = 0)"

lemma all_rail_objects:
  "(\<forall>r. rail_object r \<longrightarrow> P r) = ((\<forall>n. P (Node_Ref n)) \<and> P Changeset \<and> P Applied \<and> P Rail_Device)"
  by (simp add: all_objects)

lemma unbind_life:
  assumes "power_ok w" "life_ok files (b \<or> c) w" "b \<longrightarrow> \<not> c"
  shows "wp (unbind b) (\<lambda>_ w'. power_ok w' \<and> life_ok files c w' \<and> beside_sensor w w') w"
proof (cases b)
  case True
  with assms remove_life [of w files] remove_beside [of w] show ?thesis by (simp add: unbind_def wp_def)
next
  case False
  with assms show ?thesis by (simp add: unbind_def wp_def beside_sensor_def)
qed

lemma unloaded:
  assumes "power_ok w" "life_ok 0 False w" "rail_gone w" "held Platform_Driver (hist w) = 0"
    "held Gpio_Table (hist w) = 0" "held Fallback (hist w) = 0"
  shows "nothing_held (hist w)"
  using assms by (auto simp: nothing_held_def rail_gone_def power_ok_def life_ok_def all_objects all_lines)

text \<open>The state between the two halves, and after the rail is gone.\<close>

definition half_unloaded :: "bool \<Rightarrow> fp_world \<Rightarrow> bool" where
  "half_unloaded bound w = (rail_ok w \<and> power_ok w \<and> life_ok 0 bound w \<and> held Platform_Driver (hist w) = 1 \<and>
     held Gpio_Table (hist w) = 0 \<and> held Fallback (hist w) = 0)"

definition driver_only :: "bool \<Rightarrow> fp_world \<Rightarrow> bool" where
  "driver_only bound w = (rail_gone w \<and> power_ok w \<and> life_ok 0 bound w \<and> held Platform_Driver (hist w) = 1 \<and>
     held Gpio_Table (hist w) = 0 \<and> held Fallback (hist w) = 0)"

lemma drop_fallback_ok:
  assumes "fp_ok 0 bound w" "el721_fallback_device (dev w)"
  shows "wp (drop_fallback bound) (\<lambda>_. half_unloaded False) w"
proof -
  have *: "wp (unbind bound) (\<lambda>_ w'. fp_ok 0 False w' \<and> el721_fallback_device (dev w')) w'"
    if "fp_ok 0 bound w'" "el721_fallback_device (dev w')" for w'
    using unbind_life [of w' 0 bound False] fp_ok_beside_sensor [of w'] that
    by (simp add: wp_def fp_ok_def beside_sensor_def)
  show ?thesis
    unfolding drop_fallback_def
    by (intro wp_intros wp_mono [OF *])
       (use assms in \<open>auto simp: half_unloaded_def fp_ok_def ok_defs weight_def\<close>)
qed

lemma withdraw_rail_ok:
  assumes "half_unloaded bound w"
  shows "wp withdraw_rail (\<lambda>_. driver_only bound) w"
  using assms unfolding withdraw_rail_def
  by - (rule wp_state, intro wp_explicit,
     auto simp: half_unloaded_def driver_only_def rail_gone_def all_rail_objects ok_defs weight_def)

lemma driver_off_ok:
  assumes "driver_only bound w"
  shows "wp (do { unbind bound; tell (Driver False) }) (\<lambda>_ w'. nothing_held (hist w')) w"
proof -
  from assms have "wp (unbind bound) (\<lambda>_ w'. power_ok w' \<and> life_ok 0 False w' \<and> beside_sensor w w') w"
    by (intro unbind_life) (simp_all add: driver_only_def)
  then show ?thesis
    by (intro wp_bindI) (rule wp_mono, assumption, intro wp_intros unloaded,
      use assms in \<open>auto simp: driver_only_def rail_gone_def beside_sensor_def all_rail_objects power_ok_def life_ok_def weight_def\<close>)
qed

lemma second_half_ok:
  assumes "half_unloaded bound w"
  shows "wp (do { withdraw_rail; unbind bound; tell (Driver False) }) (\<lambda>_ w'. nothing_held (hist w')) w"
  by (intro wp_bindI [of withdraw_rail] wp_mono [OF withdraw_rail_ok [OF assms]] driver_off_ok)

lemma exit_ok:
  assumes "fp_ok 0 bound w"
  shows "wp (el721_exit bound) (\<lambda>_ w'. nothing_held (hist w')) w"
proof (cases "el721_fallback_device (dev w)")
  case True
  with assms have "wp (drop_fallback bound)
    (\<lambda>_. wp (do { withdraw_rail; unbind False; tell (Driver False) }) (\<lambda>_ w'. nothing_held (hist w'))) w"
    by (intro wp_mono [OF drop_fallback_ok]) (auto intro: second_half_ok)
  with True show ?thesis
    unfolding el721_exit_def by - (rule wp_bindI, rule wp_getsI, rule wp_bindI, simp)
next
  case False
  with assms have "half_unloaded bound w" by (simp add: half_unloaded_def fp_ok_def module_ok_def)
  with False second_half_ok show ?thesis
    unfolding el721_exit_def by - (rule wp_bindI, rule wp_getsI, rule wp_bindI, simp add: wp_returnI)
qed

subsection \<open>All that can happen\<close>

text \<open>
  The driver with its open files and whether the device is bound. Operations take turns, as the driver's
  lock makes them; a new probe waits until the files of the last binding are closed.
\<close>

type_synonym fp_config = "fp_world \<times> nat \<times> bool"

inductive fp_step :: "fp_config \<Rightarrow> fp_config \<Rightarrow> bool" where
  probe: "fp_step (w, 0, False) (exec el721_probe w, 0, result el721_probe w = 0)"
| open_file: "fp_step (w, files, True) (exec el721_open w, files + of_bool (result el721_open w = 0), True)"
| ioctl: "0 < files \<Longrightarrow> fp_step (w, files, bound) (exec (el721_ioctl cmd user) w, files, bound)"
| release: "fp_step (w, Suc files, bound) (exec el721_release w, files, bound)"
| power: "fp_step (w, files, True) (exec (power_store parsed n) w, files, True)"
| reset: "fp_step (w, files, True) (exec (reset_store parsed n) w, files, True)"
| suspend: "fp_step (w, files, True) (exec el721_suspend w, files, True)"
| shutdown: "fp_step (w, files, bound) (exec (el721_shutdown bound) w, files, bound)"
| removal: "fp_step (w, files, True) (exec el721_remove w, files, False)"

inductive fp_reached :: "fp_config \<Rightarrow> bool" where
  loaded: "dev w = fp_boot \<Longrightarrow> hist w = [] \<Longrightarrow> result el721_init w = 0 \<Longrightarrow> fp_reached (exec el721_init w, 0, False)"
| stepped: "fp_reached c \<Longrightarrow> fp_step c d \<Longrightarrow> fp_reached d"

inductive_cases fp_stepE: "fp_step c d"

lemma step_ok:
  assumes "fp_step c d" "fp_ok (fst (snd c)) (snd (snd c)) (fst c)"
  shows "fp_ok (fst (snd d)) (snd (snd d)) (fst d)"
  using assms
proof (cases rule: fp_step.cases)
  case (probe w)
  with probe_ok [of w] assms(2) show ?thesis by (simp add: wp_def)
next
  case (open_file w files)
  with open_ok [of files w] assms(2) show ?thesis by (simp add: wp_def)
next
  case (ioctl files w bound cmd user)
  with keepsD [OF ioctl_ok [of bound files]] assms(2) show ?thesis by simp
next
  case (release w files bound)
  with release_ok [of files bound w] assms(2) show ?thesis by (simp add: wp_def)
next
  case (power w files parsed n)
  with keepsD [OF power_store_ok [of True files]] assms(2) show ?thesis by simp
next
  case (reset w files parsed n)
  with keepsD [OF reset_store_ok [of True files]] assms(2) show ?thesis by simp
next
  case (suspend w files)
  with keepsD [OF suspend_ok [of files True]] assms(2) show ?thesis by simp
next
  case (shutdown w files bound)
  with keepsD [OF shutdown_ok [of files bound]] assms(2) show ?thesis by simp
next
  case (removal w files)
  with remove_ok [of files w] assms(2) show ?thesis by (simp add: wp_def)
qed

lemma reached_ok: "fp_reached (w, files, bound) \<Longrightarrow> fp_ok files bound w"
proof (induction "(w, files, bound)" arbitrary: w files bound rule: fp_reached.induct)
  case (loaded w)
  with init_ok [of w] show ?case by (simp add: wp_def)
next
  case (stepped c)
  with step_ok [of c "(w, files, bound)"] show ?case by (cases c) simp
qed

end
