(* ===== verification/Fingerprint_Contracts.thy ===== *)
theory Fingerprint_Contracts
  imports Fingerprint_Ledger
begin

text \<open>
  What the fingerprint driver promises: its supply and lines are accounted for, the device structure lives
  exactly as long as it is bound or a file is open, unloading the module gives everything back, the ioctl
  does nothing for an unprivileged caller and never writes more than the model string to user memory, and
  a batch of transfers is one ioctl per transfer.
\<close>

subsection \<open>A batch and its transfers\<close>





text \<open>
  An environment that answers by the event alone, and computations whose result and effect on the driver
  then do not depend on what was called before.
\<close>

definition memoryless :: "(el721_history \<Rightarrow> el721_event \<Rightarrow> el721_answer) \<Rightarrow> bool" where
  "memoryless v = (\<forall>h h' e. v h e = v h' e)"

definition oblivious :: "'a fp_io \<Rightarrow> bool" where
  "oblivious m = (\<forall>w h. memoryless (env w) \<longrightarrow> env (exec m w) = env w \<and>
     result m (w\<lparr>hist := h\<rparr>) = result m w \<and> (\<exists>h'. exec m (w\<lparr>hist := h\<rparr>) = (exec m w)\<lparr>hist := h'\<rparr>))"

named_theorems oblivious_rules

lemma oblivious_basic [oblivious_rules]: "oblivious (return x)" "oblivious (gets f)"
  by (auto simp: oblivious_def)

lemma oblivious_modify [oblivious_rules]: "oblivious (modify g)"
proof -
  have "exec (modify g) (w\<lparr>hist := h\<rparr>) = (exec (modify g) w)\<lparr>hist := h\<rparr>" for w :: fp_world and h
    by (cases w) simp
  then show ?thesis by (auto simp: oblivious_def simp del: run_modify) (simp_all add: modify_def)
qed

lemma oblivious_call [oblivious_rules]: "oblivious (call e)"
  unfolding oblivious_def memoryless_def by (auto intro!: exI)

lemma oblivious_bind [oblivious_rules]:
  assumes "oblivious m" "\<And>r. oblivious (f r)"
  shows "oblivious (State_Monad.bind m f)"
  unfolding oblivious_def
proof (intro allI impI)
  fix w :: fp_world and h
  assume v: "memoryless (env w)"
  with assms(1) obtain h1 where m: "env (exec m w) = env w" "result m (w\<lparr>hist := h\<rparr>) = result m w"
    "exec m (w\<lparr>hist := h\<rparr>) = (exec m w)\<lparr>hist := h1\<rparr>"
    unfolding oblivious_def by blast
  moreover from v m(1) have "memoryless (env (exec m w))" by simp
  with assms(2) obtain h2 where "env (exec (f (result m w)) (exec m w)) = env (exec m w)"
    "result (f (result m w)) ((exec m w)\<lparr>hist := h1\<rparr>) = result (f (result m w)) (exec m w)"
    "exec (f (result m w)) ((exec m w)\<lparr>hist := h1\<rparr>) = (exec (f (result m w)) (exec m w))\<lparr>hist := h2\<rparr>"
    unfolding oblivious_def by blast
  ultimately show "env (exec (State_Monad.bind m f) w) = env w \<and>
    result (State_Monad.bind m f) (w\<lparr>hist := h\<rparr>) = result (State_Monad.bind m f) w \<and>
    (\<exists>h'. exec (State_Monad.bind m f) (w\<lparr>hist := h\<rparr>) = (exec (State_Monad.bind m f) w)\<lparr>hist := h'\<rparr>)"
    by (auto split: prod.splits simp: prod_eq_iff)
qed

lemma oblivious_if [oblivious_rules]: "oblivious m \<Longrightarrow> oblivious n \<Longrightarrow> oblivious (if b then m else n)"
  by simp

lemma oblivious_calls [oblivious_rules]: "oblivious (ask e)" "oblivious (tell e)" "oblivious (upd g)"
  unfolding ask_def tell_def upd_def by (intro oblivious_rules)+

lemma oblivious_publish [oblivious_rules]: "oblivious el721_publish_rail"
proof -
  have "oblivious (add_properties n ps)" for n ps
    by (induction ps) (auto intro!: oblivious_rules)
  then show ?thesis
    unfolding el721_publish_rail_def create_rail_def attach_rail_def out_destroy_def add_of_node_def
      el721_find_pmic_regulators_def build_changeset_def add_node_def
    by (intro oblivious_rules)
qed

lemma oblivious_power [oblivious_rules]: "oblivious el721_power_on_locked" "oblivious el721_power_off_locked"
proof -
  have "oblivious (regulator_loop n)" for n
    by (induction n) (auto intro!: oblivious_rules)
  then show "oblivious el721_power_on_locked"
    unfolding el721_power_on_locked_def el721_prepare_hardware_locked_def prepare_supply_def power_sequence_def
      raise_lines_def disable_vdd_def
    by (intro oblivious_rules)
  show "oblivious el721_power_off_locked"
    unfolding el721_power_off_locked_def by (intro oblivious_rules)
qed








subsection \<open>What the ioctl may do\<close>

fun writes_only :: "string \<Rightarrow> el721_event \<Rightarrow> bool" where
  "writes_only m (CopyToUser s) = (s = m)"
| "writes_only m _ = True"

text \<open>Since the history \<open>h\<close>, nothing but \<open>m\<close>, the model, was copied to user memory.\<close>

definition confined :: "string \<Rightarrow> el721_history \<Rightarrow> fp_world \<Rightarrow> bool" where
  "confined m h w = (model_info (el721 (dev w)) = m \<and>
     (\<exists>new. hist w = new @ h \<and> (\<forall>x \<in> set new. writes_only m (fst x))))"

lemma confined_call:
  assumes "writes_only m e"
  shows "keeps (confined m h) (ask e)" "keeps (confined m h) (tell e)"
proof -
  have "confined m h (w\<lparr>hist := (e, a) # hist w\<rparr>)" if "confined m h w" for w a
  proof -
    from that obtain new where "hist w = new @ h" "\<forall>x \<in> set new. writes_only m (fst x)" "model_info (el721 (dev w)) = m"
      by (auto simp: confined_def)
    with assms show ?thesis by (auto simp: confined_def intro!: exI [of _ "(e, a) # new"])
  qed
  then show "keeps (confined m h) (ask e)" "keeps (confined m h) (tell e)"
    by (auto intro!: keepsI wp_intros)
qed

lemma confined_upd: "(\<And>e. chip_model (g e) = chip_model e) \<Longrightarrow> keeps (confined m h) (upd g)"
  by (intro keepsI wp_intros) (simp add: confined_def model_info_def)

lemma confined_publish: "keeps (confined m h) el721_publish_rail"
proof (rule keepsI)
  fix w assume ok: "confined m h w"
  then obtain old where old: "hist w = old @ h" "\<forall>x \<in> set old. writes_only m (fst x)"
    by (auto simp: confined_def)
  obtain new where new: "hist (exec el721_publish_rail w) = new @ hist w" "\<forall>x \<in> set new. rail_event (fst x)"
    using emits_publish by (rule emitsD)
  have "writes_only m e" if "rail_event e" for e using that by (cases e) auto
  with new old have "\<forall>x \<in> set (new @ old). writes_only m (fst x)" by auto
  moreover have "model_info (el721 (dev (exec el721_publish_rail w))) = m"
    using keepsD [OF keeps_el721_publish [of "\<lambda>e. model_info e = m"]] ok by (simp add: confined_def)
  ultimately show "wp el721_publish_rail (\<lambda>_. confined m h) w"
    using new(1) old(1) unfolding wp_def confined_def by (metis append.assoc)
qed

lemma confined_loop: "keeps (confined m h) (regulator_loop n)"
  by (induction n) (auto intro!: keeps_rules confined_call)

lemma confined_copy: "keeps (confined m h) copy_model"
  unfolding copy_model_def
proof (intro keepsI wp_bindI wp_getsI wp_keeps [OF confined_call(1)])
  fix w assume "confined m h w"
  then show "confined m h w" "writes_only m (CopyToUser (model_info (el721 (dev w))))"
    by (simp_all add: confined_def)
qed (auto intro: wp_intros)

interpretation confined: transfer_invariant "confined m h" for m h
proof
  show "keeps (confined m h) copy_model" by (rule confined_copy)
next
  fix f :: "el721_data \<Rightarrow> el721_data"
  assume "\<And>e. same_power e (f e) \<and> chip_model (f e) = chip_model e"
  then show "keeps (confined m h) (upd f)" by (intro confined_upd) simp
qed (unfold el721_power_on_locked_def el721_prepare_hardware_locked_def prepare_supply_def power_sequence_def
    raise_lines_def disable_vdd_def el721_power_off_locked_def el721_reset_locked_def el721_reset_control_locked_def,
  (intro keeps_rules confined_publish confined_loop confined_call confined_upd; simp)+)

lemma confined_ioctl: "keeps (confined m h) (el721_ioctl cmd user)"
  unfolding el721_ioctl_def by (intro keeps_rules confined_call confined.transfers) simp_all

lemma model_info_length: "length (model_info e) = 10"
  by (simp add: model_info_def)

text \<open>A file that outlives its device can only ask.\<close>

fun asks :: "el721_event \<Rightarrow> bool" where
  "asks Capable = True"
| "asks (Memdup n) = True"
| "asks _ = False"

definition adds :: "(el721_event \<Rightarrow> bool) \<Rightarrow> el721_history \<Rightarrow> el721_history \<Rightarrow> bool" where
  "adds P h h' = (\<exists>new. h' = new @ h \<and> (\<forall>x \<in> set new. P (fst x)))"

lemma adds_nothing: "adds P h h"
  by (simp add: adds_def)

lemma adds_event: "P e \<Longrightarrow> adds P h h' \<Longrightarrow> adds P h ((e, a) # h')"
  unfolding adds_def by (metis append_Cons fst_conv set_ConsD)

lemma removed_ioctl:
  assumes "removing (el721 (dev w))"
  shows "wp (el721_ioctl cmd user) (\<lambda>ret w'. ret < 0 \<and> dev w' = dev w \<and> adds asks (hist w) (hist w')) w"
  using assms unfolding el721_ioctl_def
  by (intro wp_intros; simp add: adds_nothing adds_event)

subsection \<open>Properties\<close>

definition fp_world0 :: fp_world where
  "fp_world0 = \<lparr>dev = fp_boot, hist = [], env = \<lambda>h e. (0, [])\<rparr>"

definition fp_bound0 :: fp_world where
  "fp_bound0 = exec el721_probe (exec el721_init fp_world0)"

lemma reached_world0: "fp_reached (exec el721_init fp_world0, 0, False)"
proof (rule fp_reached.loaded)
  show "dev fp_world0 = fp_boot" "hist fp_world0 = []" by (simp_all add: fp_world0_def)
  show "result el721_init fp_world0 = 0" by code_simp
qed

lemma reached_bound0: "fp_reached (fp_bound0, 0, True)"
proof -
  have "result el721_probe (exec el721_init fp_world0) = 0" by code_simp
  with fp_step.probe [of "exec el721_init fp_world0"]
  have "fp_step (exec el721_init fp_world0, 0, False) (fp_bound0, 0, True)"
    by (simp add: fp_bound0_def)
  with reached_world0 show ?thesis by (rule fp_reached.stepped)
qed

text \<open>
  C13. In every state the fingerprint driver can reach, under every behaviour of the kernel services, the
  sensor's supply is enabled exactly once while the sensor is powered and not at all otherwise; the enable
  line is high only while it is powered, the LDO line only if there is one besides; and a driver that is
  being removed or not bound has no powered sensor.
\<close>

theorem sensor_power_accounted:
  assumes "fp_reached (w, files, bound)"
  shows "held Vdd (hist w) = of_bool (powered (el721 (dev w)) \<and> vdd (el721 (dev w))) \<and>
    (line_high Enable (hist w) \<longrightarrow> powered (el721 (dev w))) \<and>
    (line_high Ldo (hist w) \<longrightarrow> powered (el721 (dev w)) \<and> ldo_gpio (el721 (dev w))) \<and>
    (removing (el721 (dev w)) \<or> \<not> bound \<longrightarrow> \<not> powered (el721 (dev w)))"
  using reached_ok [OF assms] by (simp add: fp_ok_def power_ok_def life_ok_def)

theorem sensor_power_accounted_witness:
  "powered (el721 (dev (exec (power_store (Inr True) 1) fp_bound0))) \<and>
   held Vdd (hist (exec (power_store (Inr True) 1) fp_bound0)) = 1"
proof -
  have "fp_reached (exec (power_store (Inr True) 1) fp_bound0, 0, True)"
    by (rule fp_reached.stepped [OF reached_bound0 fp_step.power])
  moreover have "powered (el721 (dev (exec (power_store (Inr True) 1) fp_bound0)))"
    "vdd (el721 (dev (exec (power_store (Inr True) 1) fp_bound0)))"
    by code_simp+
  ultimately show ?thesis
    using sensor_power_accounted [of "exec (power_store (Inr True) 1) fp_bound0" 0 True] by simp
qed

text \<open>
  C15. The device structure is freed exactly when the device is unbound and its last file closed, once,
  and never while a file or the binding still uses it. An ioctl through a file that outlives its device
  fails, changes nothing and touches neither the supply nor a line.
\<close>

theorem structure_lifetime:
  assumes "fp_reached (w, files, bound)"
  shows "freed (dev w) = (files = 0 \<and> \<not> bound) \<and> refcount (dev w) = files + of_bool bound \<and>
    held Structure (hist w) = of_bool (0 < files \<or> bound) \<and>
    (0 < files \<and> \<not> bound \<longrightarrow> result (el721_ioctl cmd user) w < 0 \<and> dev (exec (el721_ioctl cmd user) w) = dev w \<and>
      (\<exists>new. hist (exec (el721_ioctl cmd user) w) = new @ hist w \<and> (\<forall>x \<in> set new. asks (fst x))))"
proof -
  have ok: "life_ok files bound w" using reached_ok [OF assms] by (simp add: fp_ok_def)
  show ?thesis
  proof (intro conjI impI)
    assume "0 < files \<and> \<not> bound"
    with ok have "removing (el721 (dev w))" by (simp add: life_ok_def)
    then have "wp (el721_ioctl cmd user) (\<lambda>ret w'. ret < 0 \<and> dev w' = dev w \<and> adds asks (hist w) (hist w')) w"
      by (rule removed_ioctl)
    then show "result (el721_ioctl cmd user) w < 0" "dev (exec (el721_ioctl cmd user) w) = dev w"
      "\<exists>new. hist (exec (el721_ioctl cmd user) w) = new @ hist w \<and> (\<forall>x \<in> set new. asks (fst x))"
      by (simp_all add: wp_def adds_def)
  qed (use ok in \<open>auto simp: life_ok_def\<close>)
qed

theorem structure_lifetime_witness:
  "\<not> freed (dev (exec el721_remove (exec el721_open fp_bound0))) \<and>
   result (el721_ioctl (EGIS_IOC_MESSAGE 1) []) (exec el721_remove (exec el721_open fp_bound0)) < 0"
proof -
  have "result el721_open fp_bound0 = 0" by code_simp
  with fp_step.open_file [of fp_bound0 0] have "fp_step (fp_bound0, 0, True) (exec el721_open fp_bound0, 1, True)"
    by simp
  with reached_bound0 have "fp_reached (exec el721_open fp_bound0, 1, True)" by (rule fp_reached.stepped)
  then have "fp_reached (exec el721_remove (exec el721_open fp_bound0), 1, False)"
    by (rule fp_reached.stepped) (rule fp_step.removal)
  from structure_lifetime [OF this, of "EGIS_IOC_MESSAGE 1" "[]"] show ?thesis by simp
qed

text \<open>
  C16. A module that fails to load, and one that is unloaded after any use once its files are closed, holds
  nothing: no supply, structure, misc device, attribute group, node reference, changeset, applied change to
  the device tree, platform device or driver or lookup table, and no line of the sensor is high.
\<close>

theorem unload_releases_everything:
  assumes "fp_reached (w, 0, bound)" "dev w0 = fp_boot" "hist w0 = []"
  shows "nothing_held (hist (exec (el721_exit bound) w)) \<and>
    (result el721_init w0 \<noteq> 0 \<longrightarrow> nothing_held (hist (exec el721_init w0)))"
  using exit_ok [OF reached_ok [OF assms(1)]] init_ok [OF assms(2,3)] by (auto simp: wp_def)

theorem unload_releases_everything_witness:
  "nothing_held (hist (exec (el721_exit True) (exec (power_store (Inr True) 1) fp_bound0)))"
proof -
  have "fp_reached (exec (power_store (Inr True) 1) fp_bound0, 0, True)"
    by (rule fp_reached.stepped [OF reached_bound0 fp_step.power])
  moreover have "dev fp_world0 = fp_boot" "hist fp_world0 = []" by (simp_all add: fp_world0_def)
  ultimately show ?thesis using unload_releases_everything by blast
qed

text \<open>
  Whatever command and transfers the ioctl gets, from any state: what it copies to user memory is the
  ten bytes of the model string and nothing else; and for a caller without the capability it fails, changes
  nothing and does nothing but ask for the capability.
\<close>

lemma ioctl_confined:
  "(\<exists>new. hist (exec (el721_ioctl cmd user) w) = new @ hist w \<and>
      (\<forall>x \<in> set new. writes_only (model_info (el721 (dev w))) (fst x))) \<and>
   length (model_info (el721 (dev w))) = 10 \<and>
   (fst (env w (hist w) Capable) = 0 \<longrightarrow> result (el721_ioctl cmd user) w < 0 \<and>
      dev (exec (el721_ioctl cmd user) w) = dev w \<and>
      hist (exec (el721_ioctl cmd user) w) \<in> {hist w, (Capable, env w (hist w) Capable) # hist w})"
proof (intro conjI impI)
  have "confined (model_info (el721 (dev w))) (hist w) w" by (simp add: confined_def)
  with confined_ioctl have "confined (model_info (el721 (dev w))) (hist w) (exec (el721_ioctl cmd user) w)"
    by (rule keepsD)
  then show "\<exists>new. hist (exec (el721_ioctl cmd user) w) = new @ hist w \<and>
      (\<forall>x \<in> set new. writes_only (model_info (el721 (dev w))) (fst x))"
    by (simp add: confined_def)
  show "length (model_info (el721 (dev w))) = 10" by (rule model_info_length)
qed (auto simp: el721_ioctl_def ask_def)



end
