(* ===== verification/Panel.thy ===== *)
theory Panel
  imports Calls
begin

text \<open>
  The display panel (\<open>kernel/files/panel-samsung-ana38407.c\<close>): supplies and reset, the command sequences
  over the display serial interface, the phases of the panel, brightness, and the mode for the optical
  fingerprint sensor with its watchdog.
\<close>

subsection \<open>Calls\<close>

datatype panel_rail = Vddio | Vdd | Vci | Avdd

text \<open>
  A transfer to the panel says whether it is sent in low-power mode. \<open>Bulk_Enable\<close> switches on the supplies
  other than \<open>Vddio\<close>, all or none of them.
\<close>

datatype panel_event =
  Regulator_Enable panel_rail
| Bulk_Enable
| Regulator_Disable panel_rail
| Bulk_Disable
| Reset_Gpio bool
| Sleep int
| Dcs bool "u8 list"
| Generic bool "u8 list"
| Compression_Mode bool
| Picture_Parameter_Set bool
| Dcs_Read u8 nat
| Mod_Work int
| Cancel_Work
| Work_Ran
| Alloc_Panel
| Get_Regulators
| Get_Reset
| Register_Backlight
| Group bool
| Panel_Add
| Panel_Remove
| Attach
| Detach
| Duplicate_Mode nat
| Add_Mode nat

type_synonym panel_answer = "int \<times> u8 list"
type_synonym panel_history = "(panel_event \<times> panel_answer) list"

abbreviation (input) EPIPE :: int where "EPIPE \<equiv> 32"

subsection \<open>State\<close>

text \<open>\<open>lpm\<close> is the low-power bit of the interface's mode flags.\<close>

record ana38407 =
  lpm :: bool
  user_brightness :: u16
  prepared :: bool
  enabled :: bool
  fod_mode :: bool
  fod_circle :: bool
  panel_id :: "u8 list"
  cell_id :: string

type_synonym panel_world = "(ana38407, panel_event, panel_answer) world"
type_synonym 'a panel_io = "(panel_world, 'a) state"

abbreviation ANA38407_MAX_BRIGHTNESS :: u16 where "ANA38407_MAX_BRIGHTNESS \<equiv> 0x07FF"
abbreviation ANA38407_FOD_BRIGHTNESS :: u16 where "ANA38407_FOD_BRIGHTNESS \<equiv> 1623"

definition ana38407_expected_id :: "u8 list" where
  "ana38407_expected_id = [0x80, 0x00, 0x04]"

subsection \<open>Sequences of commands\<close>

text \<open>A transfer that failed makes the rest of a sequence do nothing; its error is the result.\<close>

datatype dsi_cmd = Write "u8 list" | Msleep int | Compression | Pps

definition dsi_write :: "(bool \<Rightarrow> panel_event) \<Rightarrow> int panel_io" where
  "dsi_write e = do {
     s \<leftarrow> gets id;
     ret \<leftarrow> ask (e (lpm s));
     return (if ret < 0 then ret else 0)
   }"

definition dsi_command :: "dsi_cmd \<Rightarrow> int panel_io" where
  "dsi_command c = (case c of
     Write bs \<Rightarrow> dsi_write (\<lambda>m. Dcs m bs)
   | Msleep ms \<Rightarrow> do { tell (Sleep (ms * 1000)); return 0 }
   | Compression \<Rightarrow> dsi_write Compression_Mode
   | Pps \<Rightarrow> dsi_write Picture_Parameter_Set)"

primrec multi :: "dsi_cmd list \<Rightarrow> int \<Rightarrow> int panel_io" where
  "multi [] accum_err = return accum_err"
| "multi (c # cs) accum_err = (if accum_err \<noteq> 0 then return accum_err
     else do { ret \<leftarrow> dsi_command c; multi cs ret })"

definition set_lpm :: "bool \<Rightarrow> unit panel_io" where
  "set_lpm b = modify (\<lambda>s. s\<lparr>lpm := b\<rparr>)"

subsection \<open>Supplies and reset\<close>

definition ana38407_power_on :: "int panel_io" where
  "ana38407_power_on = do {
     ret \<leftarrow> ask (Regulator_Enable Vddio);
     if ret \<noteq> 0 then return ret
     else do {
       tell (Sleep 20000);
       ret \<leftarrow> ask Bulk_Enable;
       (if ret \<noteq> 0 then tell (Regulator_Disable Vddio) else return ());
       return ret
     }
   }"

definition ana38407_reset :: "unit panel_io" where
  "ana38407_reset = do {
     tell (Reset_Gpio True);
     tell (Sleep 5000);
     tell (Reset_Gpio False);
     tell (Sleep 10000);
     tell (Reset_Gpio True);
     tell (Sleep 10000)
   }"

subsection \<open>Brightness and fingerprint mode\<close>

definition hi_byte :: "u16 \<Rightarrow> u8" where "hi_byte v = ucast (drop_bit 8 v)"

definition lo_byte :: "u16 \<Rightarrow> u8" where "lo_byte v = ucast (v AND 0xFF)"

text \<open>\<open>mipi_dsi_dcs_set_display_brightness_large\<close> sends the command \<open>0x51\<close> with the high byte first.\<close>

definition ana38407_write_brightness_locked :: "u16 \<Rightarrow> int panel_io" where
  "ana38407_write_brightness_locked brightness = do {
     s \<leftarrow> gets id;
     set_lpm False;
     ret \<leftarrow> dsi_write (\<lambda>m. Dcs m [0x51, hi_byte brightness, lo_byte brightness]);
     set_lpm (lpm s);
     return ret
   }"

definition fod_sequence :: "u16 \<Rightarrow> bool \<Rightarrow> dsi_cmd list" where
  "fod_sequence brightness enable =
    [Write [0xF0, 0x5A, 0x5A]] @
    (if enable then
       [Write [0x53, 0xE0],
        Write [0x51, hi_byte ANA38407_FOD_BRIGHTNESS, lo_byte ANA38407_FOD_BRIGHTNESS],
        Write [0xB0, 0x0A, 0xE0],
        Write [0xE0, 0x3C, 0xFD, 0xFF, 0x15, 0x00, 0x00, 0x66, 0xCC, 0x00, 0xFF, 0x12]]
     else
       [Write [0x53, 0x28], Write [0x51, hi_byte brightness, lo_byte brightness]]) @
    [Write [0xF0, 0xA5, 0xA5]]"

definition ana38407_write_fod_locked :: "bool \<Rightarrow> int panel_io" where
  "ana38407_write_fod_locked enable = do {
     s \<leftarrow> gets id;
     set_lpm True;
     ret \<leftarrow> multi (fod_sequence (user_brightness s) enable) 0;
     set_lpm (lpm s);
     return ret
   }"

definition ana38407_generic_write :: "u8 list \<Rightarrow> int panel_io" where
  "ana38407_generic_write data = dsi_write (\<lambda>m. Generic m data)"

definition ana38407_write_fod_circle_locked :: "bool \<Rightarrow> int panel_io" where
  "ana38407_write_fod_circle_locked enable = do {
     s \<leftarrow> gets id;
     set_lpm True;
     ret \<leftarrow> ana38407_generic_write [0xF1, 0x5A, 0x5A];
     ret \<leftarrow> (if ret = 0 then ana38407_generic_write [0x7A, 0x05, 0x00, 0x00, if enable then 0x00 else 0x02]
       else return ret);
     lock_ret \<leftarrow> ana38407_generic_write [0xF1, 0xA5, 0xA5];
     set_lpm (lpm s);
     (let ret = (if ret = 0 then lock_ret else ret) in
       do { (if ret = 0 then tell (Sleep 35000) else return ()); return ret })
   }"

definition ana38407_fod_cleanup_locked :: "int panel_io" where
  "ana38407_fod_cleanup_locked = do {
     s \<leftarrow> gets id;
     ret \<leftarrow> (if fod_circle s then do {
         tmp \<leftarrow> ana38407_write_fod_circle_locked False;
         modify (\<lambda>s. s\<lparr>fod_circle := False\<rparr>);
         return tmp
       } else return 0);
     (if fod_mode s then do {
        tmp \<leftarrow> ana38407_write_fod_locked False;
        modify (\<lambda>s. s\<lparr>fod_mode := False\<rparr>);
        return (if ret = 0 then tmp else ret)
      } else return ret)
   }"

definition ana38407_fod_watchdog_work :: "unit panel_io" where
  "ana38407_fod_watchdog_work = do {
     s \<leftarrow> gets id;
     if prepared s \<and> enabled s then do { _ \<leftarrow> ana38407_fod_cleanup_locked; return () }
     else modify (\<lambda>s. s\<lparr>fod_circle := False, fod_mode := False\<rparr>)
   }"

subsection \<open>Switching on\<close>

text \<open>Slew boosting off and the display-on delay.\<close>

definition before_sleep_out :: "dsi_cmd list" where
  "before_sleep_out = [
    Write [0xF0, 0x5A, 0x5A], Write [0xF1, 0x5A, 0x5A], Write [0xC1, 0x2A], Write [0xB0, 0x03],
    Write [0xC0, 0x0F, 0x00, 0x00, 0x00, 0x13, 0x4F, 0x81], Write [0xC1, 0x2A], Write [0xB0, 0x03],
    Write [0xC0, 0x0F, 0x00, 0x00, 0x00, 0x13, 0x62, 0x81], Write [0xC1, 0x2A], Write [0xB0, 0x03],
    Write [0xC0, 0x0F, 0x00, 0x00, 0x00, 0x13, 0x75, 0x81], Write [0xC1, 0x2A], Write [0xB0, 0x03],
    Write [0xC0, 0x0F, 0x00, 0x00, 0x00, 0x13, 0x88, 0x81], Write [0xF0, 0xA5, 0xA5], Write [0xF1, 0xA5, 0xA5],
    Write [0xF0, 0x5A, 0x5A], Write [0xF1, 0x5A, 0x5A], Write [0xC1, 0x00], Write [0xB0, 0x03],
    Write [0xC0, 0x0F, 0x00, 0x00, 0x00, 0x14, 0x35, 0x81], Write [0xC1, 0x23], Write [0xB0, 0x03],
    Write [0xC0, 0x0F, 0x00, 0x00, 0x00, 0x01, 0x04, 0x81], Write [0xF0, 0xA5, 0xA5], Write [0xF1, 0xA5, 0xA5]]"

text \<open>Sleep out.\<close>

definition sleep_out :: "dsi_cmd list" where
  "sleep_out = [
    Write [0x11], Msleep 120]"

text \<open>IP enable, interrupt setting, tearing effect and touch synchronisation.\<close>

definition after_cell_id :: "dsi_cmd list" where
  "after_cell_id = [
    Write [0xF0, 0x5A, 0x5A], Write [0xF1, 0x5A, 0x5A], Write [0xC1, 0x23], Write [0xB0, 0x03],
    Write [0xC0, 0x0F, 0x00, 0x00, 0x00, 0x09, 0xB2, 0x81], Write [0xF0, 0xA5, 0xA5], Write [0xF1, 0xA5, 0xA5],
    Write [0xF0, 0x5A, 0x5A], Write [0xF1, 0x5A, 0x5A], Write [0xC1, 0x02], Write [0xB0, 0x03],
    Write [0xC0, 0x0F, 0x00, 0x00, 0x00, 0x14, 0x46, 0x81], Write [0xC1, 0x13], Write [0xB0, 0x03],
    Write [0xC0, 0x0F, 0x00, 0x00, 0x00, 0x08, 0xCF, 0x81], Write [0xC1, 0x05], Write [0xB0, 0x03],
    Write [0xC0, 0x0F, 0x00, 0x00, 0x00, 0x09, 0xCD, 0x81], Write [0xF0, 0xA5, 0xA5], Write [0xF1, 0xA5, 0xA5],
    Write [0xF0, 0x5A, 0x5A], Write [0x35, 0x00], Write [0xF0, 0xA5, 0xA5], Write [0xF0, 0x5A, 0x5A],
    Write [0xB0, 0x0B, 0xB9], Write [0xB9, 0xCC], Write [0xF0, 0xA5, 0xA5]]"

text \<open>Source setting and slew boosting on.\<close>

definition before_display_on :: "dsi_cmd list" where
  "before_display_on = [
    Write [0xF0, 0x5A, 0x5A], Write [0xC3, 0x02], Write [0xF0, 0xA5, 0xA5], Msleep 20,
    Write [0xF0, 0x5A, 0x5A], Write [0xF1, 0x5A, 0x5A], Write [0xC1, 0x2E], Write [0xB0, 0x03],
    Write [0xC0, 0x0F, 0x00, 0x00, 0x00, 0x13, 0x4F, 0x81], Write [0xC1, 0x2E], Write [0xB0, 0x03],
    Write [0xC0, 0x0F, 0x00, 0x00, 0x00, 0x13, 0x62, 0x81], Write [0xC1, 0x2E], Write [0xB0, 0x03],
    Write [0xC0, 0x0F, 0x00, 0x00, 0x00, 0x13, 0x75, 0x81], Write [0xC1, 0x2E], Write [0xB0, 0x03],
    Write [0xC0, 0x0F, 0x00, 0x00, 0x00, 0x13, 0x88, 0x81], Write [0xF0, 0xA5, 0xA5], Write [0xF1, 0xA5, 0xA5]]"

text \<open>Compression with its parameter set, image adjustment and brightness.\<close>

definition compression_and_brightness :: "u16 \<Rightarrow> dsi_cmd list" where
  "compression_and_brightness brightness = [
    Write [0xF0, 0x5A, 0x5A], Compression, Pps, Write [0xF0, 0xA5, 0xA5],
    Write [0x91, 0x02],
    Write [0xF0, 0x5A, 0x5A], Write [0x53, 0x28], Write [0x51, hi_byte brightness, lo_byte brightness],
    Write [0xF0, 0xA5, 0xA5]]"

text \<open>
  \<open>mipi_dsi_dcs_read\<close> into a buffer of \<open>n\<close> bytes that was zero: the answer is the number of bytes read, and
  the bytes.
\<close>

definition dcs_read :: "u8 \<Rightarrow> nat \<Rightarrow> (int \<times> u8 list) panel_io" where
  "dcs_read cmd n = do {
     a \<leftarrow> call (Dcs_Read cmd n);
     return (fst a, take n ((if fst a < 0 then [] else take (nat (fst a)) (snd a)) @ replicate n 0))
   }"

definition hex_digit :: "u8 \<Rightarrow> char" where
  "hex_digit d = ''0123456789abcdef'' ! unat d"

definition hex_byte :: "u8 \<Rightarrow> string" where
  "hex_byte b = [hex_digit (drop_bit 4 b), hex_digit (b AND 0x0F)]"

definition cell_id_of :: "u8 list \<Rightarrow> string" where
  "cell_id_of info = concat (map hex_byte (take 7 (drop 4 info) @ take 4 info))"

definition read_cell_id :: "int \<Rightarrow> int panel_io" where
  "read_cell_id err = do {
     err \<leftarrow> multi [Write [0xF0, 0x5A, 0x5A]] err;
     (len, info) \<leftarrow> dcs_read 0xA1 11;
     err \<leftarrow> multi [Write [0xF0, 0xA5, 0xA5]] err;
     modify (\<lambda>s. s\<lparr>cell_id := (if len = 11 then cell_id_of info else [])\<rparr>);
     return err
   }"

text \<open>All but the last sequence.\<close>

definition on_first :: "int panel_io" where
  "on_first = do {
     set_lpm True;
     err \<leftarrow> multi (before_sleep_out @ sleep_out) 0;
     (_, id0) \<leftarrow> dcs_read 0xDA 1;
     (_, id1) \<leftarrow> dcs_read 0xDB 1;
     (_, id2) \<leftarrow> dcs_read 0xDC 1;
     modify (\<lambda>s. s\<lparr>panel_id := id0 @ id1 @ id2\<rparr>);
     read_cell_id err
   }"

definition last_sequence :: "u16 \<Rightarrow> dsi_cmd list" where
  "last_sequence v = after_cell_id @ compression_and_brightness v @ before_display_on @ [Msleep 100]"

definition ana38407_on :: "int panel_io" where
  "ana38407_on = do {
     err \<leftarrow> on_first;
     s \<leftarrow> gets id;
     multi (last_sequence (user_brightness s)) err
   }"

subsection \<open>The phases\<close>

definition ana38407_enable :: "int panel_io" where
  "ana38407_enable = do {
     s \<leftarrow> gets id;
     if \<not> prepared s then return (- EPIPE)
     else if enabled s then return 0
     else do {
       set_lpm True;
       ret \<leftarrow> multi [Write [0xF0, 0x5A, 0x5A], Write [0x29], Write [0xF0, 0xA5, 0xA5], Msleep 20] 0;
       (if ret = 0 then modify (\<lambda>s. s\<lparr>enabled := True\<rparr>) else return ());
       return ret
     }
   }"

text \<open>The result of two: the first unless it is zero.\<close>

definition either :: "int \<Rightarrow> int \<Rightarrow> int" where
  "either ret cleanup_ret = (if ret \<noteq> 0 then ret else cleanup_ret)"

definition ana38407_disable :: "int panel_io" where
  "ana38407_disable = do {
     s \<leftarrow> gets id;
     r \<leftarrow> (if enabled s then do {
         cleanup_ret \<leftarrow> ana38407_fod_cleanup_locked;
         set_lpm True;
         ret \<leftarrow> multi [Write [0x28], Msleep 20] 0;
         modify (\<lambda>s. s\<lparr>enabled := False\<rparr>);
         return (either ret cleanup_ret)
       } else return 0);
     tell Cancel_Work;
     return r
   }"

definition ana38407_sleep_in :: "int panel_io" where
  "ana38407_sleep_in = do { set_lpm True; multi [Write [0x10], Msleep 120] 0 }"

definition ana38407_prepare :: "int panel_io" where
  "ana38407_prepare = do {
     s \<leftarrow> gets id;
     if prepared s then return 0
     else do {
       ret \<leftarrow> ana38407_power_on;
       if ret \<noteq> 0 then return ret
       else do {
         ana38407_reset;
         ret \<leftarrow> ana38407_on;
         (if ret \<noteq> 0 then do { tell (Reset_Gpio False); tell Bulk_Disable }
          else modify (\<lambda>s. s\<lparr>prepared := True\<rparr>));
         return ret
       }
     }
   }"

definition ana38407_unprepare :: "int panel_io" where
  "ana38407_unprepare = do {
     s \<leftarrow> gets id;
     r \<leftarrow> (if prepared s then do {
         cleanup_ret \<leftarrow> ana38407_fod_cleanup_locked;
         ret \<leftarrow> ana38407_sleep_in;
         modify (\<lambda>s. s\<lparr>enabled := False, prepared := False\<rparr>);
         tell (Reset_Gpio False);
         tell Bulk_Disable;
         return (either ret cleanup_ret)
       } else return 0);
     tell Cancel_Work;
     return r
   }"

subsection \<open>Modes\<close>

record display_mode =
  clock :: int
  hdisplay :: int
  hsync_start :: int
  hsync_end :: int
  htotal :: int
  vdisplay :: int
  vsync_start :: int
  vsync_end :: int
  vtotal :: int

text \<open>A mode from its porches and synchronisation widths and its refresh rate.\<close>

definition timing :: "int \<times> int \<times> int \<Rightarrow> int \<times> int \<times> int \<Rightarrow> int \<Rightarrow> display_mode" where
  "timing h v hz = (case h of (hf, hs, hb) \<Rightarrow> case v of (vf, vs, vb) \<Rightarrow>
     \<lparr>clock = (2560 + hf + hs + hb) * (1600 + vf + vs + vb) * hz div 1000,
      hdisplay = 2560, hsync_start = 2560 + hf, hsync_end = 2560 + hf + hs, htotal = 2560 + hf + hs + hb,
      vdisplay = 1600, vsync_start = 1600 + vf, vsync_end = 1600 + vf + vs, vtotal = 1600 + vf + vs + vb\<rparr>)"

definition ana38407_modes :: "display_mode list" where
  "ana38407_modes = [
    timing (34, 64, 34) (42, 64, 32) 120,
    timing (128, 512, 203) (127, 512, 257) 60,
    timing (600, 735, 512) (512, 512, 512) 30]"

primrec modes_loop :: "nat list \<Rightarrow> int \<Rightarrow> int panel_io" where
  "modes_loop [] count = return count"
| "modes_loop (i # is) count = do {
     mode \<leftarrow> ask (Duplicate_Mode i);
     if mode < 0 then modes_loop is count
     else do { tell (Add_Mode i); modes_loop is (count + 1) }
   }"

definition ana38407_get_modes :: "int panel_io" where
  "ana38407_get_modes = modes_loop [0..<length ana38407_modes] 0"

subsection \<open>Backlight and attributes\<close>

text \<open>\<open>brightness\<close> is what \<open>backlight_get_brightness\<close> returns.\<close>

definition ana38407_bl_update :: "int \<Rightarrow> int panel_io" where
  "ana38407_bl_update brightness = do {
     let brightness = min (word_of_int brightness) ANA38407_MAX_BRIGHTNESS;
     modify (\<lambda>s. s\<lparr>user_brightness := brightness\<rparr>);
     s \<leftarrow> gets id;
     if prepared s \<and> \<not> fod_mode s then ana38407_write_brightness_locked brightness else return 0
   }"

definition ana38407_update_fod_watchdog_locked :: "unit panel_io" where
  "ana38407_update_fod_watchdog_locked = do {
     s \<leftarrow> gets id;
     if fod_mode s \<or> fod_circle s then tell (Mod_Work 15000) else tell Cancel_Work
   }"

text \<open>\<open>parsed\<close> is what \<open>kstrtobool\<close> makes of the text written: an error or a truth value.\<close>

definition store_fod_mode :: "bool \<Rightarrow> int panel_io" where
  "store_fod_mode enable = do {
     s \<leftarrow> gets id;
     if \<not> prepared s \<or> \<not> enabled s then return (- EPIPE)
     else if fod_mode s = enable then do { ana38407_update_fod_watchdog_locked; return 0 }
     else if enable then do {
       ret \<leftarrow> ana38407_write_fod_locked True;
       if ret \<noteq> 0 then do { _ \<leftarrow> ana38407_write_fod_locked False; return ret }
       else do {
         modify (\<lambda>s. s\<lparr>fod_mode := True\<rparr>);
         ana38407_update_fod_watchdog_locked;
         return 0
       }
     }
     else do {
       ret \<leftarrow> ana38407_fod_cleanup_locked;
       ana38407_update_fod_watchdog_locked;
       return ret
     }
   }"

definition fod_mode_store :: "int + bool \<Rightarrow> int \<Rightarrow> int panel_io" where
  "fod_mode_store parsed count = (case parsed of
     Inl ret \<Rightarrow> return ret
   | Inr enable \<Rightarrow> do { ret \<leftarrow> store_fod_mode enable; return (if ret \<noteq> 0 then ret else count) })"

definition store_fod_circle :: "bool \<Rightarrow> int panel_io" where
  "store_fod_circle enable = do {
     s \<leftarrow> gets id;
     if \<not> prepared s \<or> \<not> enabled s then return (- EPIPE)
     else if enable \<and> \<not> fod_mode s then return (- EINVAL)
     else if fod_circle s = enable then do { ana38407_update_fod_watchdog_locked; return 0 }
     else do {
       ret \<leftarrow> ana38407_write_fod_circle_locked enable;
       (if ret = 0 then modify (\<lambda>s. s\<lparr>fod_circle := enable\<rparr>)
        else if enable then do { _ \<leftarrow> ana38407_write_fod_circle_locked False; return () }
        else return ());
       ana38407_update_fod_watchdog_locked;
       return ret
     }
   }"

definition fod_circle_store :: "int + bool \<Rightarrow> int \<Rightarrow> int panel_io" where
  "fod_circle_store parsed count = (case parsed of
     Inl ret \<Rightarrow> return ret
   | Inr enable \<Rightarrow> do { ret \<leftarrow> store_fod_circle enable; return (if ret \<noteq> 0 then ret else count) })"

definition flag_text :: "bool \<Rightarrow> string" where
  "flag_text b = (if b then ''1'' else ''0'') @ [CHR 0x0A]"

definition fod_mode_show :: "ana38407 \<Rightarrow> string" where
  "fod_mode_show s = flag_text (fod_mode s)"

definition fod_circle_show :: "ana38407 \<Rightarrow> string" where
  "fod_circle_show s = flag_text (fod_circle s)"

definition fod_ready_show :: "ana38407 \<Rightarrow> string" where
  "fod_ready_show s = flag_text (prepared s \<and> enabled s)"

definition fod_brightness_show :: string where
  "fod_brightness_show = ''1623'' @ [CHR 0x0A]"

definition cell_id_show :: "ana38407 \<Rightarrow> int + string" where
  "cell_id_show s = (if cell_id s \<noteq> [] then Inr (cell_id s @ [CHR 0x0A]) else Inl (- ENODATA))"

subsection \<open>Compression\<close>

record dsc_config =
  dsc_version_major :: int
  dsc_version_minor :: int
  slice_height :: int
  slice_width :: int
  slice_count :: int
  bits_per_component :: int
  bits_per_pixel :: int
  block_pred_enable :: bool
  pic_width :: int
  pic_height :: int
  rc_buf_thresh :: "int list"
  rc_model_size :: int
  rc_edge_factor :: int
  rc_tgt_offset_high :: int
  rc_tgt_offset_low :: int
  mux_word_size :: int
  line_buf_depth :: int
  first_line_bpg_offset :: int
  initial_xmit_delay :: int
  initial_offset :: int
  rc_quant_incr_limit0 :: int
  rc_quant_incr_limit1 :: int
  rc_range_params :: "(int \<times> int \<times> u8) list"
  slice_chunk_size :: int

definition DSC_BPG_OFFSET :: "int \<Rightarrow> u8" where
  "DSC_BPG_OFFSET x = word_of_int x AND 0x3F"

definition ana38407_dsc_template :: dsc_config where
  "ana38407_dsc_template = \<lparr>dsc_version_major = 1, dsc_version_minor = 1, slice_height = 100, slice_width = 1280,
     slice_count = 2, bits_per_component = 8, bits_per_pixel = push_bit 4 8, block_pred_enable = True,
     pic_width = 2560, pic_height = 1600,
     rc_buf_thresh = [14, 28, 42, 56, 70, 84, 98, 105, 112, 119, 121, 123, 125, 126],
     rc_model_size = 8192, rc_edge_factor = 6, rc_tgt_offset_high = 3, rc_tgt_offset_low = 3, mux_word_size = 48,
     line_buf_depth = 9, first_line_bpg_offset = 12, initial_xmit_delay = 512, initial_offset = 6144,
     rc_quant_incr_limit0 = 11, rc_quant_incr_limit1 = 11,
     rc_range_params = [
       (0, 4, DSC_BPG_OFFSET 2), (0, 4, DSC_BPG_OFFSET 0), (1, 5, DSC_BPG_OFFSET 0),
       (1, 6, DSC_BPG_OFFSET (- 2)), (3, 7, DSC_BPG_OFFSET (- 4)), (3, 7, DSC_BPG_OFFSET (- 6)),
       (3, 7, DSC_BPG_OFFSET (- 8)), (3, 8, DSC_BPG_OFFSET (- 8)), (3, 9, DSC_BPG_OFFSET (- 8)),
       (3, 10, DSC_BPG_OFFSET (- 10)), (5, 10, DSC_BPG_OFFSET (- 10)), (5, 11, DSC_BPG_OFFSET (- 12)),
       (5, 11, DSC_BPG_OFFSET (- 12)), (9, 12, DSC_BPG_OFFSET (- 12)), (12, 13, DSC_BPG_OFFSET (- 12))],
     slice_chunk_size = 1280\<rparr>"

subsection \<open>Binding\<close>

definition zero_ana38407 :: ana38407 where
  "zero_ana38407 = \<lparr>lpm = False, user_brightness = 0, prepared = False, enabled = False, fod_mode = False,
     fod_circle = False, panel_id = [0, 0, 0], cell_id = []\<rparr>"

definition ana38407_probe :: "int panel_io" where
  "ana38407_probe = do {
     ret \<leftarrow> ask Alloc_Panel;
     if ret < 0 then return ret
     else do {
       modify (\<lambda>_. zero_ana38407);
       ret \<leftarrow> ask Get_Regulators;
       if ret < 0 then return ret
       else do {
         ret \<leftarrow> ask Get_Reset;
         if ret < 0 then return ret
         else do {
           modify (\<lambda>s. s\<lparr>user_brightness := ANA38407_MAX_BRIGHTNESS, lpm := True\<rparr>);
           ret \<leftarrow> ask Register_Backlight;
           if ret < 0 then return ret
           else do {
             ret \<leftarrow> ask (Group True);
             if ret \<noteq> 0 then return ret
             else do {
               tell Panel_Add;
               ret \<leftarrow> ask Attach;
               if ret < 0 then do { tell Panel_Remove; tell (Group False); return ret }
               else return 0
             }
           }
         }
       }
     }
   }"

definition ana38407_remove :: "unit panel_io" where
  "ana38407_remove = do {
     tell (Group False);
     tell Cancel_Work;
     s \<leftarrow> gets id;
     (if prepared s then do { _ \<leftarrow> ana38407_fod_cleanup_locked; return () } else return ());
     tell Detach;
     tell Panel_Remove
   }"

end
