(* ===== verification/Panel_Invariant.thy ===== *)
theory Panel_Invariant
  imports Panel
begin

text \<open>
  The invariant of the panel driver: what its history says about supplies, watchdog, brightness and mode, and
  that every operation keeps what the properties rest on.
\<close>

subsection \<open>What the history says\<close>

text \<open>How often a supply is enabled.\<close>

fun delta_panel_rail :: "panel_rail \<Rightarrow> panel_event \<times> panel_answer \<Rightarrow> int" where
  "delta_panel_rail r (Regulator_Enable r', a) = of_bool (r' = r \<and> fst a = 0)"
| "delta_panel_rail r (Bulk_Enable, a) = of_bool (r \<noteq> Vddio \<and> fst a = 0)"
| "delta_panel_rail r (Regulator_Disable r', a) = - of_bool (r' = r)"
| "delta_panel_rail r (Bulk_Disable, a) = - 1"
| "delta_panel_rail r _ = 0"

definition panel_rail_use :: "panel_rail \<Rightarrow> panel_history \<Rightarrow> int" where
  "panel_rail_use r h = sum_list (map (delta_panel_rail r) h)"

lemma panel_rail_use_step [simp]: "panel_rail_use r [] = 0" "panel_rail_use r (x # h) = delta_panel_rail r x + panel_rail_use r h"
  by (simp_all add: panel_rail_use_def)

definition powered :: "panel_history \<Rightarrow> bool" where
  "powered h = (\<forall>r \<in> set [Vddio, Vdd, Vci, Avdd]. panel_rail_use r h = 1)"

text \<open>Whether the watchdog is scheduled.\<close>

fun work_pending :: "panel_history \<Rightarrow> bool" where
  "work_pending [] = False"
| "work_pending ((Mod_Work n, a) # h) = True"
| "work_pending ((Cancel_Work, a) # h) = False"
| "work_pending ((Work_Ran, a) # h) = False"
| "work_pending (x # h) = work_pending h"

text \<open>Transfers to the panel, and the brightness and the mode they set.\<close>

fun transfers :: "panel_event \<Rightarrow> bool" where
  "transfers (Dcs m bs) = True"
| "transfers (Generic m bs) = True"
| "transfers (Compression_Mode m) = True"
| "transfers (Picture_Parameter_Set m) = True"
| "transfers (Dcs_Read c n) = True"
| "transfers _ = False"

fun brightness_of :: "u8 list \<Rightarrow> u16 option" where
  "brightness_of [c, hi, lo] = (if c = 0x51 then Some (push_bit 8 (ucast hi) OR ucast lo) else None)"
| "brightness_of _ = None"

fun mode_of :: "u8 list \<Rightarrow> bool option" where
  "mode_of [c, m] = (if c = 0x53 then Some (m = 0xE0) else None)"
| "mode_of _ = None"

text \<open>The last value that was sent successfully.\<close>

fun latest :: "(u8 list \<Rightarrow> 'v option) \<Rightarrow> panel_history \<Rightarrow> 'v option" where
  "latest f [] = None"
| "latest f ((Dcs m bs, a) # h) = (case f bs of Some v \<Rightarrow> if 0 \<le> fst a then Some v else latest f h | None \<Rightarrow> latest f h)"
| "latest f (x # h) = latest f h"

definition level :: "panel_history \<Rightarrow> u16 option" where "level h = latest brightness_of h"

definition hbm :: "panel_history \<Rightarrow> bool option" where "hbm h = latest mode_of h"

text \<open>No transfer has failed.\<close>

definition faultless :: "panel_history \<Rightarrow> bool" where
  "faultless h = list_all (\<lambda>x. transfers (fst x) \<longrightarrow> 0 \<le> fst (snd x)) h"

lemma faultless_step [simp]:
  "faultless [] = True" "faultless (x # h) = ((transfers (fst x) \<longrightarrow> 0 \<le> fst (snd x)) \<and> faultless h)"
  by (simp_all add: faultless_def)

text \<open>A transfer is allowed only under power, and with a brightness of eleven bits.\<close>

fun in_range :: "panel_event \<Rightarrow> bool" where
  "in_range (Dcs m bs) = (case brightness_of bs of None \<Rightarrow> True | Some v \<Rightarrow> v \<le> 0x7FF)"
| "in_range _ = True"

definition panel_policy :: "panel_history \<Rightarrow> panel_event \<Rightarrow> bool" where
  "panel_policy h e = ((transfers e \<longrightarrow> powered h) \<and> in_range e)"

subsection \<open>What holds between two operations\<close>

text \<open>\<open>on\<close> says whether the supplies are on: in all states between two operations, whether the panel is prepared.\<close>

definition core :: "bool \<Rightarrow> panel_world \<Rightarrow> bool" where
  "core on w = ((\<forall>r. panel_rail_use r (hist w) = of_bool on) \<and>
     (enabled (dev w) \<longrightarrow> prepared (dev w)) \<and> (fod_mode (dev w) \<longrightarrow> enabled (dev w)) \<and>
     (fod_circle (dev w) \<longrightarrow> fod_mode (dev w)) \<and>
     user_brightness (dev w) \<le> 0x7FF \<and> obeys panel_policy (hist w))"

definition watched :: "panel_world \<Rightarrow> bool" where
  "watched w = (fod_mode (dev w) \<longrightarrow> work_pending (hist w))"

definition shown :: "u16 option \<Rightarrow> bool option \<Rightarrow> panel_world \<Rightarrow> bool" where
  "shown v m w = (level (hist w) = v \<and> hbm (hist w) = m)"

definition right :: "panel_world \<Rightarrow> bool" where
  "right w = (faultless (hist w) \<and> prepared (dev w) \<longrightarrow> hbm (hist w) = Some (fod_mode (dev w)) \<and>
     level (hist w) = Some (if fod_mode (dev w) then 1623 else user_brightness (dev w)))"

lemma core_powered: "core True w \<Longrightarrow> powered (hist w)"
  by (simp add: core_def powered_def)

lemma bytes_of_brightness: "push_bit 8 (ucast (hi_byte v) :: u16) OR ucast (lo_byte v) = v"
proof -
  have "v AND 0xFF = take_bit 8 v" by (simp add: take_bit_eq_mask mask_eq_exp_minus_1)
  then show ?thesis unfolding hi_byte_def lo_byte_def
    by (intro bit_word_eqI) (auto simp: bit_simps)
qed

subsection \<open>Sequences\<close>

text \<open>What every command keeps, a sequence keeps.\<close>

lemma keeps_multi:
  assumes "\<And>c. c \<in> set cs \<Longrightarrow> keeps I (dsi_command c)"
  shows "keeps I (multi cs err)"
  using assms by (induction cs arbitrary: err) (auto intro!: keeps_rules)

text \<open>A sequence that reports no error has sent everything.\<close>

definition cmd_event :: "bool \<Rightarrow> dsi_cmd \<Rightarrow> panel_event" where
  "cmd_event m c = (case c of Write bs \<Rightarrow> Dcs m bs | Msleep ms \<Rightarrow> Sleep (ms * 1000)
     | Compression \<Rightarrow> Compression_Mode m | Pps \<Rightarrow> Picture_Parameter_Set m)"

lemma wp_command:
  assumes "\<And>a. (case c of Msleep ms \<Rightarrow> True | _ \<Rightarrow> 0 \<le> fst a) \<Longrightarrow>
      Q 0 (w\<lparr>hist := (cmd_event (lpm (dev w)) c, a) # hist w\<rparr>)"
    and "\<And>a ret. ret < 0 \<Longrightarrow> \<not> faultless ((cmd_event (lpm (dev w)) c, a) # hist w) \<Longrightarrow>
      Q ret (w\<lparr>hist := (cmd_event (lpm (dev w)) c, a) # hist w\<rparr>)"
  shows "wp (dsi_command c) Q w"
proof (cases c)
  case (Write bs)
  with assms show ?thesis unfolding dsi_command_def dsi_write_def
    by (auto intro!: wp_intros simp: cmd_event_def)
next
  case (Msleep ms)
  with assms(1) show ?thesis unfolding dsi_command_def by (auto intro!: wp_intros simp: cmd_event_def)
next
  case Compression
  with assms show ?thesis unfolding dsi_command_def dsi_write_def
    by (auto intro!: wp_intros simp: cmd_event_def)
next
  case Pps
  with assms show ?thesis unfolding dsi_command_def dsi_write_def
    by (auto intro!: wp_intros simp: cmd_event_def)
qed

lemma wp_multi:
  assumes "\<And>new. map fst new = rev (map (cmd_event (lpm (dev w))) cs) \<Longrightarrow>
      (\<forall>x \<in> set new. transfers (fst x) \<longrightarrow> 0 \<le> fst (snd x)) \<Longrightarrow> Q 0 (w\<lparr>hist := new @ hist w\<rparr>)"
    and "\<And>ret new. ret \<noteq> 0 \<Longrightarrow> \<not> faultless (new @ hist w) \<Longrightarrow> Q ret (w\<lparr>hist := new @ hist w\<rparr>)"
  shows "wp (multi cs 0) Q w"
  using assms
proof (induction cs arbitrary: w)
  case Nil
  then show ?case using Nil(1) [of "[]"] by (auto intro: wp_intros)
next
  case (Cons c cs)
  have stop: "wp (multi cs ret) Q w'" if "ret < 0" "Q ret w'" for ret w'
    using that by (cases cs) (auto intro: wp_intros)
  show ?case
    unfolding multi.simps
  proof (simp, intro wp_bindI wp_command)
    fix a :: panel_answer
    let ?x = "(cmd_event (lpm (dev w)) c, a)"
    assume ok: "case c of Msleep ms \<Rightarrow> True | _ \<Rightarrow> 0 \<le> fst a"
    show "wp (multi cs 0) Q (w\<lparr>hist := ?x # hist w\<rparr>)"
    proof (rule Cons.IH)
      fix new :: panel_history
      assume new: "map fst new = rev (map (cmd_event (lpm (dev (w\<lparr>hist := ?x # hist w\<rparr>)))) cs)"
        "\<forall>x \<in> set new. transfers (fst x) \<longrightarrow> 0 \<le> fst (snd x)"
      moreover from ok have "transfers (fst ?x) \<longrightarrow> 0 \<le> fst (snd ?x)"
        by (cases c) (auto simp: cmd_event_def)
      ultimately show "Q 0 (w\<lparr>hist := ?x # hist w, hist := new @ hist (w\<lparr>hist := ?x # hist w\<rparr>)\<rparr>)"
        using Cons.prems(1) [of "new @ [?x]"] by auto
    next
      fix ret :: int and new :: panel_history
      assume "ret \<noteq> 0" "\<not> faultless (new @ hist (w\<lparr>hist := ?x # hist w\<rparr>))"
      then show "Q ret (w\<lparr>hist := ?x # hist w, hist := new @ hist (w\<lparr>hist := ?x # hist w\<rparr>)\<rparr>)"
        using Cons.prems(2) [of ret "new @ [?x]"] by simp
    qed
  next
    fix a :: panel_answer and ret :: int
    assume "ret < 0" "\<not> faultless ((cmd_event (lpm (dev w)) c, a) # hist w)"
    then show "wp (multi cs ret) Q (w\<lparr>hist := (cmd_event (lpm (dev w)) c, a) # hist w\<rparr>)"
      using Cons.prems(2) [of ret "[(cmd_event (lpm (dev w)) c, a)]"] by (intro stop) auto
  qed
qed

text \<open>What a successful sequence has set last.\<close>

fun last_set :: "(u8 list \<Rightarrow> 'v option) \<Rightarrow> dsi_cmd list \<Rightarrow> 'v option \<Rightarrow> 'v option" where
  "last_set f [] v = v"
| "last_set f (Write bs # cs) v = last_set f cs (case f bs of Some u \<Rightarrow> Some u | None \<Rightarrow> v)"
| "last_set f (c # cs) v = last_set f cs v"

lemma last_set_append [simp]: "last_set f (cs @ ds) v = last_set f ds (last_set f cs v)"
  by (induction f cs v rule: last_set.induct) simp_all

lemma latest_sent:
  assumes "map fst new = rev (map (cmd_event m) cs)" "\<forall>x \<in> set new. transfers (fst x) \<longrightarrow> 0 \<le> fst (snd x)"
  shows "latest f (new @ h) = last_set f cs (latest f h)"
  using assms
proof (induction cs arbitrary: new rule: rev_induct)
  case Nil
  then show ?case by simp
next
  case (snoc c cs)
  then obtain x new' where "new = x # new'" "fst x = cmd_event m c" "map fst new' = rev (map (cmd_event m) cs)"
    by (cases new) auto
  with snoc show ?case
    by (cases x; cases c) (auto simp: cmd_event_def split: option.splits)
qed

lemma wp_multi_shown:
  assumes "\<And>w'. dev w' = dev w \<Longrightarrow>
      shown (last_set brightness_of cs (level (hist w))) (last_set mode_of cs (hbm (hist w))) w' \<Longrightarrow> Q 0 w'"
    and "\<And>ret w'. ret \<noteq> 0 \<Longrightarrow> dev w' = dev w \<Longrightarrow> \<not> faultless (hist w') \<Longrightarrow> Q ret w'"
  shows "wp (multi cs 0) Q w"
proof (rule wp_multi)
  fix new :: panel_history
  assume sent: "map fst new = rev (map (cmd_event (lpm (dev w))) cs)"
    "\<forall>x \<in> set new. transfers (fst x) \<longrightarrow> 0 \<le> fst (snd x)"
  show "Q 0 (w\<lparr>hist := new @ hist w\<rparr>)"
    using latest_sent [OF sent, of brightness_of "hist w"] latest_sent [OF sent, of mode_of "hist w"]
    by (intro assms(1)) (simp_all add: shown_def level_def hbm_def)
qed (simp add: assms(2))

subsection \<open>What the parts keep\<close>

fun link :: "panel_event \<Rightarrow> bool" where
  "link (Sleep n) = True"
| "link e = transfers e"

lemma link_neutral [simp]:
  "link e \<Longrightarrow> delta_panel_rail r (e, a) = 0" "link e \<Longrightarrow> work_pending ((e, a) # h) = work_pending h"
  by (cases e; simp)+

lemma core_link: "core True w \<Longrightarrow> link e \<Longrightarrow> in_range e \<Longrightarrow> core True (w\<lparr>hist := (e, a) # hist w\<rparr>)"
  using core_powered [of w] by (simp add: core_def panel_policy_def)

lemma core_lpm [keeps_rules]: "keeps (core on) (set_lpm b)" "keeps (shown v m) (set_lpm b)"
  unfolding set_lpm_def by (intro keepsI wp_intros; simp add: core_def shown_def)+

lemma core_write [keeps_rules]:
  "(\<And>m. link (e m) \<and> in_range (e m)) \<Longrightarrow> keeps (core True) (dsi_write e)"
  unfolding dsi_write_def by (intro keepsI wp_intros) (simp add: core_link)

lemma core_sleep [keeps_rules]: "keeps (core True) (tell (Sleep n))" "keeps (shown v m) (tell (Sleep n))"
  by (intro keepsI wp_intros; simp add: core_link shown_def level_def hbm_def)+

lemma core_command: "in_range (cmd_event True c) \<Longrightarrow> keeps (core True) (dsi_command c)"
  unfolding dsi_command_def by (cases c) (auto intro!: keeps_rules simp: cmd_event_def)

definition sane :: "dsi_cmd list \<Rightarrow> bool" where
  "sane cs = list_all (\<lambda>c. in_range (cmd_event True c)) cs"

lemma core_multi [keeps_rules]: "sane cs \<Longrightarrow> keeps (core True) (multi cs err)"
  by (intro keeps_multi core_command) (simp add: sane_def list_all_iff)

text \<open>Commands that set neither brightness nor mode.\<close>

fun plain :: "dsi_cmd \<Rightarrow> bool" where
  "plain (Write bs) = (brightness_of bs = None \<and> mode_of bs = None)"
| "plain _ = True"

lemma shown_step:
  "shown v m (w\<lparr>hist := (Dcs l bs, a) # hist w\<rparr>) = shown v m w" if "brightness_of bs = None" "mode_of bs = None"
  using that by (simp add: shown_def level_def hbm_def)

lemma shown_other [simp]:
  "shown v m (w\<lparr>hist := (Sleep n, a) # hist w\<rparr>) = shown v m w"
  "shown v m (w\<lparr>hist := (Generic l bs, a) # hist w\<rparr>) = shown v m w"
  "shown v m (w\<lparr>hist := (Compression_Mode l, a) # hist w\<rparr>) = shown v m w"
  "shown v m (w\<lparr>hist := (Picture_Parameter_Set l, a) # hist w\<rparr>) = shown v m w"
  by (simp_all add: shown_def level_def hbm_def)

lemma shown_command: "plain c \<Longrightarrow> keeps (shown v m) (dsi_command c)"
  unfolding dsi_command_def dsi_write_def
  by (cases c) (auto intro!: keepsI wp_intros simp: shown_step)

lemma shown_multi [keeps_rules]: "list_all plain cs \<Longrightarrow> keeps (shown v m) (multi cs err)"
  by (intro keeps_multi shown_command) (simp add: list_all_iff)

lemma shown_generic [keeps_rules]: "keeps (shown v m) (ana38407_generic_write bs)"
  unfolding ana38407_generic_write_def dsi_write_def by (intro keepsI wp_intros) simp

lemma core_generic [keeps_rules]: "keeps (core True) (ana38407_generic_write bs)"
  unfolding ana38407_generic_write_def by (intro keeps_rules) simp

lemma circle_keeps [keeps_rules]:
  "keeps (core True) (ana38407_write_fod_circle_locked b)" "keeps (shown v m) (ana38407_write_fod_circle_locked b)"
  unfolding ana38407_write_fod_circle_locked_def by (intro keeps_rules)+

text \<open>The flags and the setting, which the sequences leave alone.\<close>

definition same_setting :: "ana38407 \<Rightarrow> ana38407 \<Rightarrow> bool" where
  "same_setting s t = (user_brightness t = user_brightness s \<and> prepared t = prepared s \<and> enabled t = enabled s \<and>
     fod_mode t = fod_mode s \<and> fod_circle t = fod_circle s)"

lemma same_setting_refl [simp]: "same_setting s s"
  by (simp add: same_setting_def)

lemma setting_lpm [keeps_rules]: "keeps (\<lambda>w. same_setting s (dev w)) (set_lpm b)"
  unfolding set_lpm_def by (intro keepsI wp_intros) (simp add: same_setting_def)

lemma setting_write [keeps_rules]: "keeps (\<lambda>w. same_setting s (dev w)) (dsi_write e)"
  unfolding dsi_write_def by (intro keeps_rules)

lemma setting_multi [keeps_rules]: "keeps (\<lambda>w. same_setting s (dev w)) (multi cs err)"
proof (rule keeps_multi)
  fix c show "keeps (\<lambda>w. same_setting s (dev w)) (dsi_command c)"
    unfolding dsi_command_def by (cases c) (auto intro!: keeps_rules)
qed

lemma setting_parts [keeps_rules]:
  "keeps (\<lambda>w. same_setting s (dev w)) (ana38407_write_fod_locked b)"
  "keeps (\<lambda>w. same_setting s (dev w)) (ana38407_write_fod_circle_locked b)"
  "keeps (\<lambda>w. same_setting s (dev w)) (ana38407_write_brightness_locked v)"
  unfolding ana38407_write_fod_locked_def ana38407_write_fod_circle_locked_def ana38407_generic_write_def
    ana38407_write_brightness_locked_def
  by (intro keeps_rules)+

text \<open>History only grows, so a failure is not forgotten, and the link does not touch the watchdog.\<close>

lemma link_multi [emits_rules]: "emits link (multi cs err)"
proof (induction cs arbitrary: err)
  case (Cons c cs)
  have "emits link (dsi_command c)"
    unfolding dsi_command_def dsi_write_def by (cases c) (auto intro!: emits_rules)
  with Cons show ?case by (auto intro!: emits_rules)
qed (auto intro: emits_rules)

lemma link_parts [emits_rules]:
  "emits link (set_lpm b)" "emits link (ana38407_write_fod_locked b)"
  "emits link (ana38407_write_fod_circle_locked b)" "emits link (ana38407_write_brightness_locked v)"
  unfolding set_lpm_def ana38407_write_fod_locked_def ana38407_write_fod_circle_locked_def
    ana38407_write_brightness_locked_def ana38407_generic_write_def dsi_write_def
  by (intro emits_rules; simp)+

lemma link_pending: "\<forall>x \<in> set new. link (fst x) \<Longrightarrow> work_pending (new @ h) = work_pending h"
  by (induction new) (auto simp: link_neutral)

lemma keeps_watched:
  assumes "emits link m" "\<And>s. keeps (\<lambda>w. same_setting s (dev w)) m"
  shows "keeps watched m"
  unfolding keeps_def
proof (intro allI impI)
  fix w assume ok: "watched w"
  have "same_setting (dev w) (dev (exec m w))"
    by (rule keepsD [OF assms(2)]) (simp add: same_setting_def)
  moreover obtain new where "hist (exec m w) = new @ hist w" "\<forall>x \<in> set new. link (fst x)"
    using assms(1) by (rule emitsD)
  ultimately show "watched (exec m w)" using ok by (simp add: watched_def same_setting_def link_pending)
qed

lemma faultless_before:
  assumes "emits E m" "faultless (hist (exec m w))"
  shows "faultless (hist w)"
proof -
  from assms(1) obtain new where "hist (exec m w) = new @ hist w" by (rule emitsD)
  with assms(2) show ?thesis by (simp add: faultless_def)
qed

lemma keeps_right:
  assumes "\<And>v b. keeps (shown v b) m" "emits link m" "\<And>s. keeps (\<lambda>w. same_setting s (dev w)) m"
  shows "keeps right m"
  unfolding keeps_def
proof (intro allI impI)
  fix w assume ok: "right w"
  have "same_setting (dev w) (dev (exec m w))"
    by (rule keepsD [OF assms(3)]) (simp add: same_setting_def)
  moreover have "shown (level (hist w)) (hbm (hist w)) (exec m w)"
    by (rule keepsD [OF assms(1)]) (simp add: shown_def)
  moreover note faultless_before [OF assms(2), of w]
  ultimately show "right (exec m w)" using ok by (auto simp: right_def shown_def same_setting_def)
qed

subsection \<open>The operations\<close>

text \<open>The fingerprint sequence: on success the mode and the brightness it was to set.\<close>

lemma sane_fod: "v \<le> 0x7FF \<Longrightarrow> sane (fod_sequence v b)"
  by (simp add: sane_def fod_sequence_def cmd_event_def bytes_of_brightness)

lemma last_fod:
  "last_set brightness_of (fod_sequence v b) l = Some (if b then 1623 else v)"
  "last_set mode_of (fod_sequence v b) m = Some b"
  by (simp_all add: fod_sequence_def bytes_of_brightness)

lemma fod_outcome:
  assumes "core True w"
  shows "wp (ana38407_write_fod_locked b) (\<lambda>ret w'. core True w' \<and> same_setting (dev w) (dev w') \<and>
    (ret = 0 \<longrightarrow> shown (Some (if b then 1623 else user_brightness (dev w))) (Some b) w') \<and>
    (ret \<noteq> 0 \<longrightarrow> \<not> faultless (hist w'))) w"
proof -
  have "sane (fod_sequence (user_brightness (dev w)) b)"
    using assms by (intro sane_fod) (simp add: core_def)
  with assms have "wp (ana38407_write_fod_locked b) (\<lambda>_. core True) w"
    unfolding ana38407_write_fod_locked_def
    by - (rule wp_bindI, rule wp_getsI, intro keeps_wp keeps_rules, simp_all)
  moreover have "wp (ana38407_write_fod_locked b) (\<lambda>_ w'. same_setting (dev w) (dev w')) w"
    by (rule keeps_wp [OF setting_parts(1)]) (simp add: same_setting_def)
  moreover have "wp (ana38407_write_fod_locked b) (\<lambda>ret w'.
    (ret = 0 \<longrightarrow> shown (Some (if b then 1623 else user_brightness (dev w))) (Some b) w') \<and>
    (ret \<noteq> 0 \<longrightarrow> \<not> faultless (hist w'))) w"
    unfolding ana38407_write_fod_locked_def set_lpm_def
    by (intro wp_intros wp_multi_shown) (simp_all add: last_fod shown_def)
  ultimately show ?thesis by (simp add: wp_conj)
qed

text \<open>Leaving the fingerprint mode.\<close>

lemma circle_right: "keeps right (ana38407_write_fod_circle_locked b)"
  by (intro keeps_right keeps_rules emits_rules)

definition clean :: "panel_world \<Rightarrow> panel_world \<Rightarrow> bool" where
  "clean w w' = (core True w' \<and> right w' \<and> prepared (dev w') \<and> enabled (dev w') = enabled (dev w) \<and>
     user_brightness (dev w') = user_brightness (dev w) \<and> \<not> fod_mode (dev w') \<and> \<not> fod_circle (dev w'))"

lemma cleanup_outcome:
  assumes "core True w" "right w" "prepared (dev w)"
  shows "wp ana38407_fod_cleanup_locked (\<lambda>_. clean w) w"
proof -
  let ?circle_off = "\<lambda>w'. core True w' \<and> right w' \<and> same_setting ((dev w)\<lparr>fod_circle := False\<rparr>) (dev w')"
  have one: "wp (ana38407_write_fod_circle_locked False)
      (\<lambda>_ w'. core True w' \<and> right w' \<and> same_setting (dev w) (dev w')) w"
    unfolding wp_conj using assms
    by (intro conjI keeps_wp [OF circle_keeps(1)] keeps_wp [OF circle_right] keeps_wp [OF setting_parts(2)])
       (simp_all add: same_setting_def)
  have two: "wp (ana38407_write_fod_locked False) (\<lambda>_ w''. clean w (w''\<lparr>dev := (dev w'')\<lparr>fod_mode := False\<rparr>\<rparr>)) w'"
    if "?circle_off w'" for w'
    using that assms(3)
    by (intro wp_mono [OF fod_outcome])
       (auto simp: clean_def right_def core_def same_setting_def shown_def)
  show ?thesis
    unfolding ana38407_fod_cleanup_locked_def
    by (intro wp_bindI wp_getsI wp_ifI wp_mono [OF one] wp_modifyI wp_returnI wp_mono [OF two])
       (use assms in \<open>auto simp: clean_def core_def right_def same_setting_def\<close>)
qed

text \<open>Switching on: with the supplies on, and setting brightness and mode last.\<close>

lemma sane_sequences:
  "sane before_sleep_out" "sane sleep_out" "sane after_cell_id" "sane before_display_on"
  "v \<le> 0x7FF \<Longrightarrow> sane (compression_and_brightness v)"
  by (simp_all add: sane_def cmd_event_def before_sleep_out_def sleep_out_def after_cell_id_def
    before_display_on_def compression_and_brightness_def bytes_of_brightness)

lemma sane_append [simp]: "sane (cs @ ds) = (sane cs \<and> sane ds)"
  by (simp add: sane_def)

lemma sane_last: "v \<le> 0x7FF \<Longrightarrow> sane (last_sequence v)"
  by (simp add: last_sequence_def sane_sequences) (simp add: sane_def cmd_event_def)

lemma last_on:
  "last_set brightness_of (last_sequence v) l = Some v" "last_set mode_of (last_sequence v) m = Some False"
  by (simp_all add: last_sequence_def after_cell_id_def before_display_on_def compression_and_brightness_def
    bytes_of_brightness)

lemma core_read [keeps_rules]: "keeps (core True) (dcs_read c n)"
  unfolding dcs_read_def by (intro keepsI wp_intros) (simp add: core_link)

lemma core_ids [keeps_rules]:
  "keeps (core on) (modify (\<lambda>s. s\<lparr>panel_id := f s\<rparr>))" "keeps (core on) (modify (\<lambda>s. s\<lparr>cell_id := g s\<rparr>))"
  by (intro keepsI wp_intros; simp add: core_def)+

lemma core_cell [keeps_rules]: "keeps (core True) (read_cell_id err)"
  unfolding read_cell_id_def by (intro keeps_rules) (simp_all add: sane_def cmd_event_def)

lemma setting_reads [keeps_rules]:
  "keeps (\<lambda>w. same_setting s (dev w)) (dcs_read c n)" "keeps (\<lambda>w. same_setting s (dev w)) (read_cell_id err)"
  unfolding read_cell_id_def dcs_read_def by (intro keeps_rules; simp add: same_setting_def)+

lemma on_outcome:
  assumes "core True w"
  shows "wp ana38407_on (\<lambda>ret w'. core True w' \<and> same_setting (dev w) (dev w') \<and>
    (ret = 0 \<longrightarrow> shown (Some (user_brightness (dev w))) (Some False) w')) w"
proof -
  let ?kept = "\<lambda>w'. core True w' \<and> same_setting (dev w) (dev w')"
  have first: "wp on_first (\<lambda>_. ?kept) w"
    unfolding wp_conj on_first_def using assms
    by (intro conjI keeps_wp keeps_rules) (simp_all add: sane_sequences same_setting_def)
  have rest: "wp (multi (last_sequence (user_brightness (dev w'))) err) (\<lambda>ret w'. ?kept w' \<and>
      (ret = 0 \<longrightarrow> shown (Some (user_brightness (dev w'))) (Some False) w')) w'" if "?kept w'" for err w'
    unfolding wp_conj
  proof (intro conjI)
    show "wp (multi (last_sequence (user_brightness (dev w'))) err) (\<lambda>_. core True) w'"
      using that by (intro keeps_wp keeps_rules sane_last) (simp_all add: core_def)
    show "wp (multi (last_sequence (user_brightness (dev w'))) err) (\<lambda>_ w'. same_setting (dev w) (dev w')) w'"
      using that by (intro keeps_wp keeps_rules) simp
    show "wp (multi (last_sequence (user_brightness (dev w'))) err)
      (\<lambda>ret w'. ret = 0 \<longrightarrow> shown (Some (user_brightness (dev w'))) (Some False) w') w'"
    proof (cases "err = 0")
      case True
      then show ?thesis by (auto intro!: wp_multi_shown simp: last_on)
    next
      case False
      then show ?thesis by (cases "last_sequence (user_brightness (dev w'))") (auto intro: wp_intros)
    qed
  qed
  show ?thesis
    unfolding ana38407_on_def
    by (rule wp_bindI, rule wp_mono [OF first], rule wp_bindI, rule wp_getsI, simp, rule wp_mono [OF rest])
       (auto simp: same_setting_def)
qed

definition panel_inv :: "panel_world \<Rightarrow> bool" where
  "panel_inv w = (core (prepared (dev w)) w \<and> right w \<and> watched w)"

lemma all_panel_rails: "(\<forall>r. P r) = (P Vddio \<and> P Vdd \<and> P Vci \<and> P Avdd)"
  by (metis panel_rail.exhaust)

text \<open>Switching the supplies on and off.\<close>

lemma power_on_outcome:
  assumes "core False w"
  shows "wp ana38407_power_on (\<lambda>ret w'. dev w' = dev w \<and> core (ret = 0) w' \<and> work_pending (hist w') = work_pending (hist w)) w"
  using assms unfolding ana38407_power_on_def
  by (intro wp_intros) (auto simp: core_def all_panel_rails panel_policy_def)

lemma core_reset [keeps_rules]: "keeps (core on) ana38407_reset"
  unfolding ana38407_reset_def by (intro keepsI wp_intros) (simp add: core_def panel_policy_def)

lemma reset_outcome:
  assumes "core True w"
  shows "wp ana38407_reset (\<lambda>_ w'. core True w' \<and> dev w' = dev w \<and> work_pending (hist w') = work_pending (hist w)) w"
  using assms unfolding ana38407_reset_def by (intro wp_intros) (simp add: core_def panel_policy_def)

lemma supplies_off:
  assumes "core True w"
  shows "core False (w\<lparr>hist := (Bulk_Disable, a) # (Reset_Gpio False, b) # hist w\<rparr>)"
  using assms by (simp add: core_def panel_policy_def)

lemma prepare_inv: "keeps panel_inv ana38407_prepare"
proof (rule keepsI)
  fix w assume inv: "panel_inv w"
  show "wp ana38407_prepare (\<lambda>_. panel_inv) w"
  proof (cases "prepared (dev w)")
    case True
    with inv show ?thesis by (simp add: ana38407_prepare_def wp_def)
  next
    case False
    let ?off = "\<lambda>w'. core True w' \<and> same_setting (dev w) (dev w')"
    from inv False have off: "core False w" "\<not> fod_mode (dev w)" by (auto simp: panel_inv_def core_def)
    have on: "wp ana38407_on (\<lambda>ret w'. ?off w' \<and> (ret = 0 \<longrightarrow> shown (Some (user_brightness (dev w'))) (Some False) w')) w'"
      if "core True w'" "dev w' = dev w" for w'
      using on_outcome [OF that(1)] that(2) by (elim wp_mono) (auto simp: same_setting_def)
    show ?thesis
      unfolding ana38407_prepare_def
      by (intro wp_bindI wp_getsI wp_ifI wp_returnI wp_mono [OF power_on_outcome [OF off(1)]]
          wp_mono [OF reset_outcome] wp_mono [OF on] wp_tellI wp_modifyI)
         (use False off(2) in \<open>auto simp: panel_inv_def right_def watched_def same_setting_def shown_def core_def panel_policy_def\<close>)
  qed
qed

lemma cleanup_ok:
  assumes "panel_inv w" "prepared (dev w)"
  shows "wp ana38407_fod_cleanup_locked (\<lambda>_. clean w) w"
  using assms by (intro cleanup_outcome) (simp_all add: panel_inv_def)

lemma sleep_in_keeps: "keeps (core True) ana38407_sleep_in" "keeps (\<lambda>w. same_setting s (dev w)) ana38407_sleep_in"
  unfolding ana38407_sleep_in_def by (intro keeps_rules; simp add: sane_def cmd_event_def)+

lemma unprepare_inv: "keeps panel_inv ana38407_unprepare"
proof (rule keepsI)
  fix w assume inv: "panel_inv w"
  have sleep: "wp ana38407_sleep_in (\<lambda>_ w''. core True w'' \<and> same_setting (dev w') (dev w'')) w'" if "clean w w'" for w'
    unfolding wp_conj using that
    by (intro conjI keeps_wp [OF sleep_in_keeps(1)] keeps_wp [OF sleep_in_keeps(2)])
       (simp_all add: clean_def same_setting_def)
  show "wp ana38407_unprepare (\<lambda>_. panel_inv) w"
    unfolding ana38407_unprepare_def
    by (intro wp_bindI wp_getsI wp_ifI wp_returnI wp_mono [OF cleanup_ok [OF inv]] wp_mono [OF sleep] wp_tellI wp_modifyI)
       (use inv in \<open>auto simp: clean_def panel_inv_def right_def watched_def same_setting_def core_def panel_policy_def\<close>)
qed

text \<open>Sequences that set neither brightness nor mode.\<close>

lemma plain_multi:
  assumes "sane cs" "list_all plain cs" "core True w" "right w" "watched w"
  shows "wp (multi cs 0) (\<lambda>_ w'. core True w' \<and> right w' \<and> watched w' \<and> same_setting (dev w) (dev w')) w"
proof -
  have "keeps right (multi cs 0)" "keeps watched (multi cs 0)"
    using assms(2) by (auto intro!: keeps_right keeps_watched shown_multi link_multi setting_multi)
  with assms show ?thesis
    unfolding wp_conj
    by (auto intro!: keeps_wp [OF core_multi] keeps_wp [OF setting_multi] intro: keeps_wp)
qed

lemma lpm_irrelevant: "core on (w\<lparr>dev := (dev w)\<lparr>lpm := b\<rparr>\<rparr>) = core on w"
  "right (w\<lparr>dev := (dev w)\<lparr>lpm := b\<rparr>\<rparr>) = right w" "watched (w\<lparr>dev := (dev w)\<lparr>lpm := b\<rparr>\<rparr>) = watched w"
  by (simp_all add: core_def right_def watched_def)

lemma enable_inv: "keeps panel_inv ana38407_enable"
  unfolding ana38407_enable_def set_lpm_def
  by (intro keepsI wp_bindI wp_getsI wp_ifI wp_returnI wp_modifyI wp_mono [OF plain_multi])
     (auto simp: lpm_irrelevant sane_def cmd_event_def panel_inv_def same_setting_def core_def right_def watched_def)

lemma display_off:
  assumes "clean w w'"
  shows "wp (multi [Write [0x28], Msleep 20] 0) (\<lambda>_. clean w) (w'\<lparr>dev := (dev w')\<lparr>lpm := True\<rparr>\<rparr>)"
  using assms
  by (intro wp_mono [OF plain_multi])
     (auto simp: lpm_irrelevant sane_def cmd_event_def clean_def same_setting_def watched_def)

lemma disabled_inv:
  "clean w w' \<Longrightarrow> panel_inv (w'\<lparr>dev := (dev w')\<lparr>enabled := False\<rparr>, hist := (Cancel_Work, a) # hist w'\<rparr>)"
  by (auto simp: clean_def panel_inv_def core_def right_def watched_def panel_policy_def level_def hbm_def)

lemma cancel_inv: "panel_inv w \<Longrightarrow> \<not> fod_mode (dev w) \<Longrightarrow> panel_inv (w\<lparr>hist := (Cancel_Work, a) # hist w\<rparr>)"
  by (simp add: panel_inv_def core_def right_def watched_def panel_policy_def level_def hbm_def)

lemma disable_inv: "keeps panel_inv ana38407_disable"
proof (rule keepsI)
  fix w assume inv: "panel_inv w"
  then have prepared: "enabled (dev w) \<Longrightarrow> prepared (dev w)" "\<not> enabled (dev w) \<Longrightarrow> \<not> fod_mode (dev w)"
    by (auto simp: panel_inv_def core_def)
  show "wp ana38407_disable (\<lambda>_. panel_inv) w"
    unfolding ana38407_disable_def set_lpm_def
    by (intro wp_bindI wp_getsI wp_ifI wp_returnI wp_mono [OF cleanup_ok [OF inv prepared(1)]] wp_modifyI
        wp_mono [OF display_off] wp_tellI)
       (use inv prepared(2) in \<open>auto intro: disabled_inv cancel_inv\<close>)
qed

text \<open>The backlight.\<close>

lemma brightness_outcome:
  assumes "core True w" "v \<le> 0x7FF"
  shows "wp (ana38407_write_brightness_locked v) (\<lambda>_ w'. core True w' \<and> same_setting (dev w) (dev w') \<and>
    work_pending (hist w') = work_pending (hist w) \<and> hbm (hist w') = hbm (hist w) \<and>
    (faultless (hist w') \<longrightarrow> faultless (hist w) \<and> level (hist w') = Some v)) w"
  using assms core_powered [of w] unfolding ana38407_write_brightness_locked_def dsi_write_def set_lpm_def
  by (intro wp_intros)
     (auto simp: core_def panel_policy_def same_setting_def level_def hbm_def bytes_of_brightness)

lemma bl_update_inv: "keeps panel_inv (ana38407_bl_update b)"
proof (rule keepsI)
  fix w assume inv: "panel_inv w"
  let ?v = "min (word_of_int b) 0x7FF :: u16"
  let ?w = "w\<lparr>dev := (dev w)\<lparr>user_brightness := ?v\<rparr>\<rparr>"
  have core: "core (prepared (dev w)) ?w" using inv by (simp add: panel_inv_def core_def)
  show "wp (ana38407_bl_update b) (\<lambda>_. panel_inv) w"
  proof (cases "prepared (dev w) \<and> \<not> fod_mode (dev w)")
    case True
    with core have "wp (ana38407_write_brightness_locked ?v) (\<lambda>_. panel_inv) ?w"
      using inv by (intro wp_mono [OF brightness_outcome])
        (auto simp: panel_inv_def right_def watched_def same_setting_def)
    with True show ?thesis unfolding ana38407_bl_update_def Let_def
      by (intro wp_bindI wp_modifyI wp_getsI) simp
  next
    case False
    with core inv have "panel_inv ?w" by (auto simp: panel_inv_def right_def watched_def)
    with False show ?thesis unfolding ana38407_bl_update_def Let_def
      by (intro wp_bindI wp_modifyI wp_getsI) (auto intro: wp_returnI)
  qed
qed

text \<open>The attributes of the fingerprint mode and the watchdog.\<close>

lemma schedule_outcome:
  assumes "core (prepared (dev w)) w" "right w"
  shows "wp ana38407_update_fod_watchdog_locked (\<lambda>_ w'. panel_inv w' \<and> dev w' = dev w) w"
  using assms unfolding ana38407_update_fod_watchdog_locked_def
  by (intro wp_intros) (auto simp: panel_inv_def core_def right_def watched_def panel_policy_def level_def hbm_def)

lemma store_mode_inv: "keeps panel_inv (store_fod_mode b)"
proof (rule keepsI)
  fix w assume inv: "panel_inv w"
  have fod: "wp (ana38407_write_fod_locked c) (\<lambda>ret w''. core True w'' \<and> same_setting (dev w) (dev w'') \<and>
      work_pending (hist w'') = work_pending (hist w) \<and>
      (ret = 0 \<longrightarrow> shown (Some (if c then 1623 else user_brightness (dev w))) (Some c) w'') \<and>
      (ret \<noteq> 0 \<longrightarrow> \<not> faultless (hist w'')) \<and> (\<not> faultless (hist w') \<longrightarrow> \<not> faultless (hist w''))) w'"
    if "core True w'" "same_setting (dev w) (dev w')" "work_pending (hist w') = work_pending (hist w)" for c w'
  proof -
    obtain new where "hist (exec (ana38407_write_fod_locked c) w') = new @ hist w'" "\<forall>x \<in> set new. link (fst x)"
      using link_parts(2) by (rule emitsD)
    with fod_outcome [OF that(1), of c] that(2,3) faultless_before [OF link_parts(2), of c w'] show ?thesis
      by (auto simp: wp_def same_setting_def link_pending)
  qed
  show "wp (store_fod_mode b) (\<lambda>_. panel_inv) w"
    unfolding store_fod_mode_def
    by (intro wp_bindI wp_getsI wp_ifI wp_returnI wp_modifyI wp_mono [OF fod] wp_mono [OF schedule_outcome]
        wp_mono [OF cleanup_ok [OF inv]])
       (use inv in \<open>auto simp: panel_inv_def core_def right_def watched_def same_setting_def shown_def clean_def\<close>)
qed

lemma store_circle_inv: "keeps panel_inv (store_fod_circle b)"
proof (rule keepsI)
  fix w assume inv: "panel_inv w"
  have circle: "wp (ana38407_write_fod_circle_locked c)
      (\<lambda>_ w''. core True w'' \<and> right w'' \<and> same_setting (dev w) (dev w'')) w'"
    if "core True w'" "right w'" "same_setting (dev w) (dev w')" for c w'
    unfolding wp_conj using that
    by (intro conjI keeps_wp [OF circle_keeps(1)] keeps_wp [OF circle_right] keeps_wp [OF setting_parts(2)])
  show "wp (store_fod_circle b) (\<lambda>_. panel_inv) w"
    unfolding store_fod_circle_def
    by (intro wp_bindI wp_getsI wp_ifI wp_returnI wp_modifyI wp_mono [OF circle] wp_mono [OF schedule_outcome])
       (use inv in \<open>auto simp: panel_inv_def core_def right_def same_setting_def\<close>)
qed

lemma store_inv: "keeps panel_inv (fod_mode_store parsed n)" "keeps panel_inv (fod_circle_store parsed n)"
  unfolding fod_mode_store_def fod_circle_store_def
  by (intro keeps_rules store_mode_inv store_circle_inv)+

lemma watchdog_inv:
  assumes "panel_inv w"
  shows "wp ana38407_fod_watchdog_work (\<lambda>_ w'. panel_inv w' \<and> \<not> fod_mode (dev w') \<and> \<not> fod_circle (dev w'))
    (w\<lparr>hist := (Work_Ran, a) # hist w\<rparr>)"
proof -
  let ?w = "w\<lparr>hist := (Work_Ran, a) # hist w\<rparr>"
  have ran: "core (prepared (dev w)) ?w" "right ?w"
    using assms by (simp_all add: panel_inv_def core_def right_def panel_policy_def level_def hbm_def)
  show ?thesis
  proof (cases "prepared (dev w) \<and> enabled (dev w)")
    case True
    with ran have "wp ana38407_fod_cleanup_locked (\<lambda>_. clean ?w) ?w" by (intro cleanup_outcome) simp_all
    with True show ?thesis unfolding ana38407_fod_watchdog_work_def
      by (intro wp_bindI wp_getsI)
         (auto elim!: wp_mono intro!: wp_bindI wp_returnI simp: clean_def panel_inv_def watched_def)
  next
    case False
    with ran show ?thesis unfolding ana38407_fod_watchdog_work_def
      by (intro wp_bindI wp_getsI wp_ifI wp_modifyI) (auto simp: panel_inv_def core_def right_def watched_def)
  qed
qed

subsection \<open>All that can happen\<close>

inductive panel_step :: "panel_world \<Rightarrow> panel_world \<Rightarrow> bool" where
  prepare: "panel_step w (exec ana38407_prepare w)"
| enable: "panel_step w (exec ana38407_enable w)"
| disable: "panel_step w (exec ana38407_disable w)"
| unprepare: "panel_step w (exec ana38407_unprepare w)"
| backlight: "panel_step w (exec (ana38407_bl_update b) w)"
| mode: "panel_step w (exec (fod_mode_store parsed n) w)"
| circle: "panel_step w (exec (fod_circle_store parsed n) w)"
| watchdog: "work_pending (hist w) \<Longrightarrow>
    panel_step w (exec ana38407_fod_watchdog_work (w\<lparr>hist := (Work_Ran, a) # hist w\<rparr>))"

text \<open>The states after a probe that succeeded.\<close>

inductive panel_reached :: "panel_world \<Rightarrow> bool" where
  bound: "hist w = [] \<Longrightarrow> result ana38407_probe w = 0 \<Longrightarrow> panel_reached (exec ana38407_probe w)"
| stepped: "panel_reached w \<Longrightarrow> panel_step w w' \<Longrightarrow> panel_reached w'"

lemma probe_inv:
  assumes "hist w = []"
  shows "wp ana38407_probe (\<lambda>ret w'. ret = 0 \<longrightarrow> panel_inv w') w"
  using assms unfolding ana38407_probe_def
  by - (rule wp_state, intro wp_explicit,
    auto simp: panel_inv_def core_def right_def watched_def panel_policy_def zero_ana38407_def)

lemma panel_step_inv: "panel_step w w' \<Longrightarrow> panel_inv w \<Longrightarrow> panel_inv w'"
proof (induction rule: panel_step.induct)
  case (watchdog w a)
  with watchdog_inv [of w a] show ?case by (simp add: wp_def)
qed (blast intro: keepsD [OF prepare_inv] keepsD [OF enable_inv] keepsD [OF disable_inv] keepsD [OF unprepare_inv]
  keepsD [OF bl_update_inv] keepsD [OF store_inv(1)] keepsD [OF store_inv(2)])+

lemma panel_reached_inv: "panel_reached w \<Longrightarrow> panel_inv w"
proof (induction rule: panel_reached.induct)
  case (bound w)
  with probe_inv [of w] show ?case by (simp add: wp_def)
qed (blast intro: panel_step_inv)

end
