(* ===== verification/Panel_Contracts.thy ===== *)
theory Panel_Contracts
  imports Panel_Invariant
begin

text \<open>
  What the panel driver promises: the panel is talked to only under power, the fingerprint mode never lasts
  without its watchdog, what the panel shows is what was set, no brightness leaves the panel's range, and
  the cell id is the panel's module information.
\<close>

subsection \<open>The cell id\<close>

definition hex_value :: "char \<Rightarrow> u8" where
  "hex_value c = (let n = of_char c in if n < 97 then n - 48 else n - 87)"

fun unhex :: "string \<Rightarrow> u8 list" where
  "unhex (a # b # cs) = (push_bit 4 (hex_value a) OR hex_value b) # unhex cs"
| "unhex _ = []"

lemma hex_value_digit:
  assumes "d < 16"
  shows "hex_value (hex_digit d) = d"
proof -
  have all: "list_all (\<lambda>n. hex_value (hex_digit (of_nat n)) = of_nat n) [0..<16]" by code_simp
  from assms have "unat d < 16" by (simp add: word_less_nat_alt)
  from all have "hex_value (hex_digit (of_nat (unat d))) = of_nat (unat d)"
    unfolding list_all_iff by (rule bspec) (use \<open>unat d < 16\<close> in simp)
  then show ?thesis by simp
qed

lemma unhex_byte: "push_bit 4 (drop_bit 4 b) OR (b AND 0x0F) = (b :: u8)"
proof -
  have "b AND 0x0F = take_bit 4 b" by (simp add: take_bit_eq_mask mask_eq_exp_minus_1)
  then show ?thesis by (intro bit_word_eqI) (auto simp: bit_simps)
qed

lemma nibbles: "drop_bit 4 b < (16 :: u8)" "b AND 0x0F < (16 :: u8)"
proof -
  show "drop_bit 4 b < (16 :: u8)"
    by (simp add: word_less_nat_alt drop_bit_eq_div unat_div) (use unsigned_less [of b, where ?'a = nat] in simp)
  show "b AND 0x0F < (16 :: u8)"
    by (rule le_less_trans [OF word_and_le1]) simp
qed

lemma unhex_hex: "unhex (concat (map hex_byte bs)) = bs"
  by (induction bs) (simp_all add: hex_byte_def hex_value_digit nibbles unhex_byte)

subsection \<open>Properties\<close>

text \<open>
  C18. The panel is talked to only under power: in every reachable state, under every behaviour of the link
  and the regulators, every transfer was made with all four supplies enabled exactly once, and every
  brightness sent was one of the panel's eleven bits; the supplies are enabled exactly while the panel
  is prepared.
\<close>

theorem panel_powered_traffic:
  assumes "panel_reached w"
  shows "obeys panel_policy (hist w) \<and> (\<forall>r. panel_rail_use r (hist w) = of_bool (prepared (dev w)))"
  using panel_reached_inv [OF assms] by (simp add: panel_inv_def core_def)

text \<open>A panel with working supplies and a working link.\<close>

definition panel_world0 :: panel_world where
  "panel_world0 = \<lparr>dev = zero_ana38407, hist = [], env = \<lambda>h e. (0, [])\<rparr>"

definition panel_lit :: panel_world where
  "panel_lit = exec ana38407_enable (exec ana38407_prepare (exec ana38407_probe panel_world0))"

definition panel_fod :: panel_world where
  "panel_fod = exec (fod_mode_store (Inr True) 1) panel_lit"

lemma reached_lit: "panel_reached panel_lit"
proof -
  have "result ana38407_probe panel_world0 = 0" by code_simp
  then have "panel_reached (exec ana38407_probe panel_world0)"
    by (intro panel_reached.bound) (simp_all add: panel_world0_def)
  then show ?thesis unfolding panel_lit_def
    by (blast intro: panel_reached.stepped panel_step.prepare panel_step.enable)
qed

lemma reached_fod: "panel_reached panel_fod"
  unfolding panel_fod_def by (rule panel_reached.stepped [OF reached_lit panel_step.mode])

lemma prepared_fod: "prepared (dev panel_fod)"
  by code_simp

lemma mode_fod: "fod_mode (dev panel_fod)"
  by code_simp

theorem panel_powered_traffic_witness: "panel_rail_use Avdd (hist panel_fod) = 1 \<and> obeys panel_policy (hist panel_fod)"
  using panel_powered_traffic [OF reached_fod] prepared_fod by simp



text \<open>
  C17. What the panel shows is what was set: as long as no transfer has failed, in every reachable state in
  which the panel is prepared, its last mode setting is the fingerprint mode exactly if that is on, and
  its last brightness is the fingerprint brightness then and the user's latest setting otherwise. (A
  setting made during the fingerprint mode is not sent, and is restored afterwards.)
\<close>

theorem panel_shows_setting:
  assumes "panel_reached w" "faultless (hist w)" "prepared (dev w)"
  shows "hbm (hist w) = Some (fod_mode (dev w)) \<and>
    level (hist w) = Some (if fod_mode (dev w) then 1623 else user_brightness (dev w))"
  using panel_reached_inv [OF assms(1)] assms(2,3) by (simp add: panel_inv_def right_def)

theorem panel_shows_setting_witness: "level (hist panel_fod) = Some 1623"
proof -
  have "faultless (hist panel_fod)" by code_simp
  with panel_shows_setting [OF reached_fod] prepared_fod mode_fod show ?thesis by simp
qed

text \<open>
  The cell id is the module information: for the eleven bytes read from the panel the id has 22
  characters, so that it fits its buffer of 23, and reading them back as hexadecimal numbers gives the
  bytes from the fifth on, followed by the first four.
\<close>

lemma cell_id_roundtrip:
  assumes "length info = 11"
  shows "length (cell_id_of info) = 22 \<and> unhex (cell_id_of info) = drop 4 info @ take 4 info"
proof -
  have "length (concat (map hex_byte bs)) = 2 * length bs" for bs
    by (induction bs) (simp_all add: hex_byte_def)
  moreover have "take 7 (drop 4 info) = drop 4 info" using assms by simp
  ultimately show ?thesis using assms
    by (simp add: cell_id_of_def unhex_hex del: map_append concat_append)
qed

end
