(* ===== verification/Redriver.thy ===== *)
theory Redriver
  imports Calls
begin

text \<open>
  The Type-C redriver (\<open>kernel/files/ps5169.c\<close>): it turns the orientation and the mode of the port into the
  lane configuration of the chip, between an upstream port and the switch and multiplexer downstream.
\<close>

subsection \<open>Calls\<close>

datatype typec_orientation = TYPEC_ORIENTATION_NONE | TYPEC_ORIENTATION_NORMAL | TYPEC_ORIENTATION_REVERSE

text \<open>The modes the driver knows by name, and all others.\<close>

datatype typec_mode = TYPEC_STATE_SAFE | TYPEC_STATE_USB | TYPEC_DP_STATE_C | TYPEC_DP_STATE_D
  | TYPEC_DP_STATE_E | TYPEC_DP_STATE_F | Other_Mode nat

text \<open>A request to a retimer: the SVID of the alternate mode if there is one, its data and the mode.\<close>

record typec_retimer_state =
  alt :: "int option"
  data :: int
  requested :: typec_mode

datatype ps_object = Downstream_Switch | Downstream_Mux | Role_Switch | Orientation_Switch | Retimer

datatype ps_event =
  Regmap_Write u8 u8
| Multi_Reg_Write "(u8 \<times> u8) list"
| Regmap_Read u8
| Usleep int
| Get_Role
| Typec_Switch_Set typec_orientation
| Typec_Mux_Set typec_retimer_state
| Alloc_Data
| Init_Regmap
| Property_Read string
| Acquire ps_object
| Release ps_object

type_synonym ps_answer = "int \<times> int"
type_synonym ps_history = "(ps_event \<times> ps_answer) list"

abbreviation PS5169_REG_MODE :: u8 where "PS5169_REG_MODE \<equiv> 0x40"
abbreviation PS5169_REG_USB_DIRECTION :: u8 where "PS5169_REG_USB_DIRECTION \<equiv> 0x04"
abbreviation PS5169_REG_EQ0 :: u8 where "PS5169_REG_EQ0 \<equiv> 0x52"
abbreviation PS5169_REG_EQ1 :: u8 where "PS5169_REG_EQ1 \<equiv> 0x5E"
abbreviation PS5169_REG_CHIP_ID2 :: u8 where "PS5169_REG_CHIP_ID2 \<equiv> 0xAC"
abbreviation PS5169_REG_CHIP_ID1 :: u8 where "PS5169_REG_CHIP_ID1 \<equiv> 0xAD"

abbreviation (input) USB_ROLE_NONE :: int where "USB_ROLE_NONE \<equiv> 0"
abbreviation (input) USB_ROLE_HOST :: int where "USB_ROLE_HOST \<equiv> 1"
abbreviation (input) USB_TYPEC_DP_SID :: int where "USB_TYPEC_DP_SID \<equiv> 0xFF01"

subsection \<open>State\<close>

text \<open>\<open>role_switch\<close> says whether the pointer is set.\<close>

record ps5169 =
  role_switch :: bool
  orientation :: typec_orientation
  mode :: typec_mode
  svid :: int
  reg50 :: u8
  reg51 :: u8
  reg54 :: u8
  reg5d :: u8

type_synonym ps_world = "(ps5169, ps_event, ps_answer) world"
type_synonym 'a ps_io = "(ps_world, 'a) state"

subsection \<open>Programming the chip\<close>

definition ps5169_write_sequence :: "(u8 \<times> u8) list \<Rightarrow> int ps_io" where
  "ps5169_write_sequence sequence = ask (Multi_Reg_Write sequence)"

definition ps5169_set_safe :: "int ps_io" where
  "ps5169_set_safe = ps5169_write_sequence [
     (PS5169_REG_EQ0, 0x20), (PS5169_REG_EQ1, 0x06), (PS5169_REG_MODE, 0x80), (0xA0, 0x02), (0xA1, 0x00),
     (PS5169_REG_USB_DIRECTION, 0x00), (0x8D, 0x00), (0x90, 0x00)]"

text \<open>Register writes one after the other, up to the first error.\<close>

primrec write_regs :: "(u8 \<times> u8) list \<Rightarrow> int ps_io" where
  "write_regs [] = return 0"
| "write_regs (x # xs) = do {
     ret \<leftarrow> ask (Regmap_Write (fst x) (snd x));
     if ret \<noteq> 0 then return ret else write_regs xs
   }"

definition usb_regs :: "bool \<Rightarrow> int \<Rightarrow> (u8 \<times> u8) list" where
  "usb_regs reverse role = [
     (PS5169_REG_MODE, if reverse then 0xD0 else 0xC0), (0xA0, 0x02),
     (PS5169_REG_USB_DIRECTION, if role = USB_ROLE_HOST then 0x00 else 0x44), (0x8D, 0x01), (0x90, 0x01)]"

definition dp4_regs :: "bool \<Rightarrow> (u8 \<times> u8) list" where
  "dp4_regs reverse = [(PS5169_REG_MODE, if reverse then 0xB0 else 0xA0), (0xA0, 0x00), (0xA1, 0x04)]"

definition dp2_regs :: "bool \<Rightarrow> (u8 \<times> u8) list" where
  "dp2_regs reverse = [(PS5169_REG_MODE, if reverse then 0xF0 else 0xE0), (0xA0, 0x00), (0xA1, 0x04),
     (PS5169_REG_USB_DIRECTION, 0x00), (0x8D, 0x01), (0x90, 0x01)]"

text \<open>The lanes of a connected port, by its mode.\<close>

definition program_mode :: "ps5169 \<Rightarrow> int \<Rightarrow> int ps_io" where
  "program_mode ps role =
     (let reverse = (orientation ps = TYPEC_ORIENTATION_REVERSE) in
      if mode ps = TYPEC_STATE_USB then write_regs (usb_regs reverse role)
      else if mode ps = TYPEC_DP_STATE_C \<or> mode ps = TYPEC_DP_STATE_E then
        (if svid ps \<noteq> USB_TYPEC_DP_SID then return (- EINVAL) else write_regs (dp4_regs reverse))
      else if mode ps = TYPEC_DP_STATE_D \<or> mode ps = TYPEC_DP_STATE_F then
        (if svid ps \<noteq> USB_TYPEC_DP_SID then return (- EINVAL) else write_regs (dp2_regs reverse))
      else return (- EOPNOTSUPP))"

definition ps5169_program :: "int ps_io" where
  "ps5169_program = do {
     ps \<leftarrow> gets id;
     if orientation ps = TYPEC_ORIENTATION_NONE \<or> mode ps = TYPEC_STATE_SAFE then ps5169_set_safe
     else do {
       role \<leftarrow> (if role_switch ps then ask Get_Role else return USB_ROLE_NONE);
       program_mode ps role
     }
   }"

definition ps5169_switch_set :: "typec_orientation \<Rightarrow> int ps_io" where
  "ps5169_switch_set orient = do {
     ret \<leftarrow> ask (Typec_Switch_Set orient);
     if ret \<noteq> 0 then return ret
     else do {
       modify (\<lambda>ps. ps\<lparr>orientation := orient\<rparr>);
       ps5169_program
     }
   }"

definition ps5169_retimer_set :: "typec_retimer_state \<Rightarrow> int ps_io" where
  "ps5169_retimer_set st = do {
     modify (\<lambda>ps. ps\<lparr>mode := requested st, svid := (case alt st of Some v \<Rightarrow> v | None \<Rightarrow> 0)\<rparr>);
     ret \<leftarrow> ps5169_program;
     if ret \<noteq> 0 then return ret else ask (Typec_Mux_Set st)
   }"

subsection \<open>Binding\<close>

definition init_regs :: "ps5169 \<Rightarrow> (u8 \<times> u8) list" where
  "init_regs ps = [
     (PS5169_REG_MODE, 0x80), (0xA0, 0x02), (0x51, reg51 ps), (0x50, reg50 ps), (0x54, reg54 ps), (0x5D, reg5d ps),
     (0x55, 0x00), (0x56, 0x00), (0x57, 0x00), (0x58, 0x00), (0x59, 0x00), (0x5A, 0x00), (0x5B, 0x00),
     (0x5F, 0x00), (0x60, 0x00), (0x61, 0x03), (0x65, 0x40), (0x66, 0x00), (0x67, 0x03),
     (PS5169_REG_EQ0, 0x20), (PS5169_REG_EQ1, 0x06), (PS5169_REG_USB_DIRECTION, 0x00)]"

text \<open>The chip ids are only logged.\<close>

definition ps5169_hw_init :: "int ps_io" where
  "ps5169_hw_init = do {
     ps \<leftarrow> gets id;
     tell (Usleep 10000);
     ret \<leftarrow> ask (Regmap_Write 0x9D 0x80);
     if ret \<noteq> 0 then return ret
     else do {
       tell (Usleep 10000);
       ret \<leftarrow> ask (Regmap_Write 0x9D 0x00);
       if ret \<noteq> 0 then return ret
       else do {
         ret \<leftarrow> ps5169_write_sequence (init_regs ps);
         if ret \<noteq> 0 then return ret
         else do {
           tell (Usleep 10000);
           ret \<leftarrow> ask (Regmap_Read PS5169_REG_CHIP_ID1);
           if ret \<noteq> 0 then return ret else ask (Regmap_Read PS5169_REG_CHIP_ID2)
         }
       }
     }
   }"

definition property_u8 :: "string \<Rightarrow> u8 \<Rightarrow> u8 ps_io" where
  "property_u8 name v = do {
     a \<leftarrow> call (Property_Read name);
     return (if fst a = 0 then word_of_int (snd a) else v)
   }"

text \<open>The labels at the end of the probe, each falling through to the next.\<close>

definition put_switch :: "int \<Rightarrow> int ps_io" where
  "put_switch ret = do { tell (Release Downstream_Switch); return ret }"

definition put_mux :: "int \<Rightarrow> int ps_io" where
  "put_mux ret = do { tell (Release Downstream_Mux); put_switch ret }"

definition put_role :: "int \<Rightarrow> int ps_io" where
  "put_role ret = do { tell (Release Role_Switch); put_mux ret }"

definition unregister_switch :: "int \<Rightarrow> int ps_io" where
  "unregister_switch ret = do { tell (Release Orientation_Switch); put_role ret }"

definition zero_ps5169 :: ps5169 where
  "zero_ps5169 = \<lparr>role_switch = False, orientation = TYPEC_ORIENTATION_NONE, mode = TYPEC_STATE_SAFE, svid = 0,
     reg50 = 0x10, reg51 = 0x70, reg54 = 0x02, reg5d = 0x40\<rparr>"

text \<open>From the hardware on.\<close>

definition probe_chip :: "int ps_io" where
  "probe_chip = do {
     ret \<leftarrow> ps5169_hw_init;
     if ret \<noteq> 0 then put_role ret
     else do {
       ret \<leftarrow> ask (Acquire Orientation_Switch);
       if ret < 0 then put_role ret
       else do {
         ret \<leftarrow> ask (Acquire Retimer);
         if ret < 0 then unregister_switch ret else return 0
       }
     }
   }"

definition probe_links :: "int ps_io" where
  "probe_links = do {
     ret \<leftarrow> ask (Acquire Downstream_Switch);
     if ret < 0 then return ret
     else do {
       ret \<leftarrow> ask (Acquire Downstream_Mux);
       if ret < 0 then put_switch ret
       else do {
         ret \<leftarrow> ask (Acquire Role_Switch);
         if ret < 0 then put_mux ret
         else do {
           modify (\<lambda>ps. ps\<lparr>role_switch := 0 < ret\<rparr>);
           probe_chip
         }
       }
     }
   }"

definition ps5169_probe :: "int ps_io" where
  "ps5169_probe = do {
     ret \<leftarrow> ask Alloc_Data;
     if ret < 0 then return (- ENOMEM)
     else do {
       ret \<leftarrow> ask Init_Regmap;
       if ret < 0 then return ret
       else do {
         v50 \<leftarrow> property_u8 ''parade,reg50'' 0x10;
         v51 \<leftarrow> property_u8 ''parade,reg51'' 0x70;
         v54 \<leftarrow> property_u8 ''parade,reg54'' 0x02;
         v5d \<leftarrow> property_u8 ''parade,reg5d'' 0x40;
         modify (\<lambda>_. zero_ps5169\<lparr>reg50 := v50, reg51 := v51, reg54 := v54, reg5d := v5d\<rparr>);
         probe_links
       }
     }
   }"

definition ps5169_remove :: "unit ps_io" where
  "ps5169_remove = do {
     tell (Release Retimer);
     tell (Release Orientation_Switch);
     tell (Release Role_Switch);
     tell (Release Downstream_Mux);
     tell (Release Downstream_Switch)
   }"

subsection \<open>What the chip was told\<close>

text \<open>The value of a register as far as it is known: a write that failed leaves it unknown.\<close>

fun chip :: "ps_history \<Rightarrow> u8 \<Rightarrow> u8 option" where
  "chip [] r = None"
| "chip ((Regmap_Write r' v, a) # h) r = (if r' = r then if fst a = 0 then Some v else None else chip h r)"
| "chip ((Multi_Reg_Write xs, a) # h) r = (if r \<in> fst ` set xs then if fst a = 0 then map_of (rev xs) r else None
     else chip h r)"
| "chip (x # h) r = chip h r"

text \<open>No register write has failed.\<close>

fun good_write :: "ps_event \<times> ps_answer \<Rightarrow> bool" where
  "good_write (Regmap_Write r v, a) = (fst a = 0)"
| "good_write (Multi_Reg_Write xs, a) = (fst a = 0)"
| "good_write _ = True"

definition all_good :: "ps_history \<Rightarrow> bool" where
  "all_good h = list_all good_write h"

text \<open>What the port asks for: SuperSpeed lanes, DisplayPort lanes, and both turned around.\<close>

definition connected :: "ps5169 \<Rightarrow> bool" where
  "connected ps = (orientation ps \<noteq> TYPEC_ORIENTATION_NONE \<and> mode ps \<noteq> TYPEC_STATE_SAFE)"

definition wants_usb :: "ps5169 \<Rightarrow> bool" where
  "wants_usb ps = (connected ps \<and> mode ps \<in> {TYPEC_STATE_USB, TYPEC_DP_STATE_D, TYPEC_DP_STATE_F})"

definition wants_dp :: "ps5169 \<Rightarrow> bool" where
  "wants_dp ps = (connected ps \<and> mode ps \<in> {TYPEC_DP_STATE_C, TYPEC_DP_STATE_D, TYPEC_DP_STATE_E, TYPEC_DP_STATE_F})"

definition wants_turned :: "ps5169 \<Rightarrow> bool" where
  "wants_turned ps = (connected ps \<and> orientation ps = TYPEC_ORIENTATION_REVERSE)"

text \<open>A request the driver accepts.\<close>

definition supported :: "ps5169 \<Rightarrow> bool" where
  "supported ps = (\<not> connected ps \<or> mode ps = TYPEC_STATE_USB \<or> (wants_dp ps \<and> svid ps = USB_TYPEC_DP_SID))"

text \<open>
  In the mode register bit 6 switches the SuperSpeed lanes on, bit 5 the DisplayPort lanes, and bit 4 turns
  them around; \<open>0xA0\<close> is zero exactly if the auxiliary channel is in use, and \<open>0x8D\<close>, \<open>0x90\<close> enable the
  SuperSpeed receivers.
\<close>

definition carries :: "ps_history \<Rightarrow> ps5169 \<Rightarrow> bool" where
  "carries h ps = ((\<exists>v. chip h PS5169_REG_MODE = Some v \<and> bit v 7 \<and> (bit v 6 = wants_usb ps) \<and>
       (bit v 5 = wants_dp ps) \<and> (bit v 4 = wants_turned ps)) \<and>
     chip h 0xA0 = Some (if wants_dp ps then 0 else 2) \<and>
     (wants_usb ps \<longrightarrow> chip h 0x8D = Some 1 \<and> chip h 0x90 = Some 1) \<and>
     (wants_dp ps \<longrightarrow> chip h 0xA1 = Some 4))"

text \<open>The requests passed on to the multiplexer downstream.\<close>

fun passes_on :: "ps_event \<Rightarrow> bool" where
  "passes_on (Typec_Mux_Set st) = True"
| "passes_on _ = False"


text \<open>How many references to a device of the Type-C framework the driver holds.\<close>

fun delta_object :: "ps_object \<Rightarrow> ps_event \<times> ps_answer \<Rightarrow> int" where
  "delta_object x (Acquire y, a) = of_bool (y = x \<and> 0 \<le> fst a)"
| "delta_object x (Release y, a) = - of_bool (y = x)"
| "delta_object x _ = 0"

definition held_objects :: "ps_object \<Rightarrow> ps_history \<Rightarrow> int" where
  "held_objects x h = sum_list (map (delta_object x) h)"


subsection \<open>What the operations do\<close>

lemma all_good_step [simp]: "all_good [] = True" "all_good (x # h) = (good_write x \<and> all_good h)"
  by (simp_all add: all_good_def)

lemma held_objects_step [simp]: "held_objects x [] = 0" "held_objects x (e # h) = delta_object x e + held_objects x h"
  by (simp_all add: held_objects_def)

text \<open>Acknowledged writes as they stand in the history.\<close>

definition writes :: "(u8 \<times> u8) list \<Rightarrow> ps_answer list \<Rightarrow> ps_history" where
  "writes xs as = rev (zip (map (\<lambda>x. Regmap_Write (fst x) (snd x)) xs) as)"

lemma writes_step [simp]: "writes [] as = []"
  "writes (x # xs) (a # as) = writes xs as @ [(Regmap_Write (fst x) (snd x), a)]"
  by (simp_all add: writes_def)

lemma writes_writes: "e \<in> set (writes xs as) \<Longrightarrow> \<exists>r v. fst e = Regmap_Write r v"
  by (auto simp: writes_def set_zip)

text \<open>Writes up to the first error: either all of them, or a failed one.\<close>

lemma wp_write_regs:
  assumes "\<And>as. length as = length xs \<Longrightarrow> \<forall>a \<in> set as. fst a = 0 \<Longrightarrow>
      Q 0 (w\<lparr>hist := writes xs as @ hist w\<rparr>)"
    and "\<And>new ret. ret \<noteq> 0 \<Longrightarrow> \<not> all_good (new @ hist w) \<Longrightarrow>
      \<forall>e \<in> set new. \<exists>r v. fst e = Regmap_Write r v \<Longrightarrow> Q ret (w\<lparr>hist := new @ hist w\<rparr>)"
  shows "wp (write_regs xs) Q w"
  using assms
proof (induction xs arbitrary: Q w)
  case Nil
  then show ?case by (auto intro!: wp_intros)
next
  case (Cons x xs)
  show ?case unfolding write_regs.simps
  proof (intro wp_intros)
    fix a :: ps_answer
    assume "fst a \<noteq> 0"
    then show "Q (fst a) (w\<lparr>hist := (Regmap_Write (fst x) (snd x), a) # hist w\<rparr>)"
      using Cons.prems(2) [of "fst a" "[(Regmap_Write (fst x) (snd x), a)]"] by simp
  next
    fix a :: ps_answer
    assume ok: "\<not> fst a \<noteq> 0"
    show "wp (write_regs xs) Q (w\<lparr>hist := (Regmap_Write (fst x) (snd x), a) # hist w\<rparr>)"
    proof (rule Cons.IH)
      fix as :: "ps_answer list"
      assume "length as = length xs" "\<forall>a \<in> set as. fst a = 0"
      with ok show "Q 0 (w\<lparr>hist := (Regmap_Write (fst x) (snd x), a) # hist w,
        hist := writes xs as @
          hist (w\<lparr>hist := (Regmap_Write (fst x) (snd x), a) # hist w\<rparr>)\<rparr>)"
        using Cons.prems(1) [of "a # as"] by simp
    next
      fix new :: ps_history and ret :: int
      assume "ret \<noteq> 0" "\<not> all_good (new @ hist (w\<lparr>hist := (Regmap_Write (fst x) (snd x), a) # hist w\<rparr>))"
        "\<forall>e \<in> set new. \<exists>r v. fst e = Regmap_Write r v"
      then show "Q ret (w\<lparr>hist := (Regmap_Write (fst x) (snd x), a) # hist w,
        hist := new @ hist (w\<lparr>hist := (Regmap_Write (fst x) (snd x), a) # hist w\<rparr>)\<rparr>)"
        using Cons.prems(2) [of ret "new @ [(Regmap_Write (fst x) (snd x), a)]"] by simp
    qed
  qed
qed


lemma zip_writes: "length as = 3 \<Longrightarrow> \<exists>a b c. as = [a, b, c]" "length as = 5 \<Longrightarrow> \<exists>a b c d e. as = [a, b, c, d, e]"
  "length as = 6 \<Longrightarrow> \<exists>a b c d e f. as = [a, b, c, d, e, f]"
  by (auto simp: numeral_eq_Suc length_Suc_conv)

lemmas wants_defs = connected_def wants_usb_def wants_dp_def wants_turned_def

text \<open>Programming the lanes of one mode.\<close>

definition told :: "ps_world \<Rightarrow> int \<Rightarrow> ps_world \<Rightarrow> bool" where
  "told w ret w' = (dev w' = dev w \<and> (\<forall>x. held_objects x (hist w') = held_objects x (hist w)) \<and>
     (all_good (hist w') \<longrightarrow> all_good (hist w) \<and> (ret = 0 \<longleftrightarrow> supported (dev w))) \<and>
     (ret = 0 \<longrightarrow> carries (hist w') (dev w)) \<and>
     (\<not> supported (dev w) \<longrightarrow> ret \<in> {- EINVAL, - EOPNOTSUPP} \<and> chip (hist w') = chip (hist w)))"

lemma held_writes:
  "\<forall>e \<in> set new. \<exists>r v. fst e = Regmap_Write r v \<Longrightarrow> held_objects x (new @ h) = held_objects x h"
  by (induction new) auto

lemma all_good_append: "all_good (new @ h) = (all_good new \<and> all_good h)"
  by (simp add: all_good_def)

lemma told_writes:
  assumes "supported (dev w)" and "dev w1 = dev w" "hist w1 = ev @ hist w" "ev = [] \<or> (\<exists>a. ev = [(Get_Role, a)])"
    and "\<And>as. length as = length xs \<Longrightarrow> \<forall>a \<in> set as. fst a = 0 \<Longrightarrow>
      carries (writes xs as @ hist w1) (dev w)"
  shows "wp (write_regs xs) (told w) w1"
proof (rule wp_write_regs)
  fix as :: "ps_answer list"
  assume as: "length as = length xs" "\<forall>a \<in> set as. fst a = 0"
  have "held_objects x (writes xs as @ hist w1) = held_objects x (hist w)" for x
    using assms(3,4) by (subst held_writes) (auto dest: writes_writes)
  with assms as show "told w 0 (w1\<lparr>hist := writes xs as @ hist w1\<rparr>)"
    by (auto simp: told_def all_good_append)
next
  fix new :: ps_history and ret :: int
  assume "ret \<noteq> 0" "\<not> all_good (new @ hist w1)" "\<forall>e \<in> set new. \<exists>r v. fst e = Regmap_Write r v"
  with assms show "told w ret (w1\<lparr>hist := new @ hist w1\<rparr>)"
    by (auto simp: told_def held_writes all_good_append)
qed

lemma carries_writes:
  assumes "orientation ps \<noteq> TYPEC_ORIENTATION_NONE" "rv = (orientation ps = TYPEC_ORIENTATION_REVERSE)"
    "\<forall>a \<in> set as. fst a = 0"
  shows "mode ps = TYPEC_STATE_USB \<Longrightarrow> length as = length (usb_regs rv role) \<Longrightarrow> carries (writes (usb_regs rv role) as @ h) ps"
    "mode ps = TYPEC_DP_STATE_C \<or> mode ps = TYPEC_DP_STATE_E \<Longrightarrow> length as = length (dp4_regs rv) \<Longrightarrow>
      carries (writes (dp4_regs rv) as @ h) ps"
    "mode ps = TYPEC_DP_STATE_D \<or> mode ps = TYPEC_DP_STATE_F \<Longrightarrow> length as = length (dp2_regs rv) \<Longrightarrow>
      carries (writes (dp2_regs rv) as @ h) ps"
proof -
  assume "mode ps = TYPEC_STATE_USB" and n: "length as = length (usb_regs rv role)"
  moreover from n have "length as = 5" by (simp add: usb_regs_def)
  ultimately show "carries (writes (usb_regs rv role) as @ h) ps"
    using zip_writes(2) [of as] assms by (auto simp: usb_regs_def carries_def wants_defs bit_simps)
next
  assume "mode ps = TYPEC_DP_STATE_C \<or> mode ps = TYPEC_DP_STATE_E" and n: "length as = length (dp4_regs rv)"
  moreover from n have "length as = 3" by (simp add: dp4_regs_def)
  ultimately show "carries (writes (dp4_regs rv) as @ h) ps"
    using zip_writes(1) [of as] assms by (auto simp: dp4_regs_def carries_def wants_defs bit_simps)
next
  assume "mode ps = TYPEC_DP_STATE_D \<or> mode ps = TYPEC_DP_STATE_F" and n: "length as = length (dp2_regs rv)"
  moreover from n have "length as = 6" by (simp add: dp2_regs_def)
  ultimately show "carries (writes (dp2_regs rv) as @ h) ps"
    using zip_writes(3) [of as] assms by (auto simp: dp2_regs_def carries_def wants_defs bit_simps)
qed

lemma told_safe:
  assumes "\<not> connected (dev w)"
  shows "wp ps5169_set_safe (told w) w"
  unfolding ps5169_set_safe_def ps5169_write_sequence_def
  using assms by (intro wp_intros) (auto simp: told_def supported_def carries_def wants_defs)

lemma told_refusal:
  assumes "\<not> supported (dev w)" "dev w1 = dev w" "hist w1 = ev @ hist w" "ev = [] \<or> (\<exists>a. ev = [(Get_Role, a)])"
    "ret \<in> {- EINVAL, - EOPNOTSUPP}"
  shows "told w ret w1"
  using assms by (auto simp: told_def fun_eq_iff)

lemma told_mode:
  assumes "connected (dev w)" "dev w1 = dev w" "hist w1 = ev @ hist w" "ev = [] \<or> (\<exists>a. ev = [(Get_Role, a)])"
  shows "wp (program_mode (dev w) role) (told w) w1"
  unfolding program_mode_def Let_def
  using assms
  by (auto intro!: wp_ifI wp_returnI told_refusal told_writes carries_writes
      simp: supported_def wants_dp_def connected_def split: typec_mode.splits)

lemma program_outcome: "wp ps5169_program (told w) w"
  unfolding ps5169_program_def
proof (intro wp_bindI wp_getsI wp_ifI wp_askI wp_returnI, goal_cases)
  case 1
  then show ?case by (intro told_safe) (auto simp: connected_def)
next
  case (2 a)
  then show ?case using told_mode [of w _ "[(Get_Role, a)]"] by (simp add: connected_def)
next
  case 3
  then show ?case using told_mode [of w _ "[]"] by (simp add: connected_def)
qed

lemma emits_write_regs [emits_rules]: "emits (\<lambda>e. \<not> passes_on e) (write_regs xs)"
  by (induction xs) (auto intro!: emits_rules)



text \<open>The invariant of a bound driver, and what it does with a request.\<close>

definition ps_inv :: "ps_world \<Rightarrow> bool" where
  "ps_inv w = ((\<forall>x. held_objects x (hist w) = 1) \<and>
     (all_good (hist w) \<and> supported (dev w) \<longrightarrow> carries (hist w) (dev w)))"

lemma told_inv:
  assumes "told w1 ret w2" "\<forall>x. held_objects x (hist w1) = 1"
  shows "ps_inv w2"
  using assms by (auto simp: told_def ps_inv_def)

lemma switch_set_inv: "keeps ps_inv (ps5169_switch_set orient)"
  unfolding ps5169_switch_set_def
proof (rule keepsI, intro wp_bindI wp_askI wp_ifI wp_returnI wp_modifyI, goal_cases)
  case (1 w a)
  then show ?case by (simp add: ps_inv_def carries_def)
next
  case (2 w a)
  then show ?case by (intro wp_mono [OF program_outcome]) (erule told_inv, simp add: ps_inv_def)
qed

lemma retimer_set_inv: "keeps ps_inv (ps5169_retimer_set st)"
  unfolding ps5169_retimer_set_def
proof (rule keepsI, intro wp_bindI wp_modifyI, rule wp_mono [OF program_outcome], goal_cases)
  case (1 w ret w')
  then have "ps_inv w'" by (intro told_inv [OF 1(2)]) (simp add: ps_inv_def)
  then show ?case by (intro wp_ifI wp_returnI wp_askI) (simp_all add: ps_inv_def carries_def)
qed

lemma all_ps_objects: "(\<forall>x. P x) =
    (P Downstream_Switch \<and> P Downstream_Mux \<and> P Role_Switch \<and> P Orientation_Switch \<and> P Retimer)"
  by (metis ps_object.exhaust)

lemma hw_init_outcome:
  "\<not> connected (dev w) \<Longrightarrow> wp ps5169_hw_init (\<lambda>ret w'. dev w' = dev w \<and>
     (\<forall>x. held_objects x (hist w') = held_objects x (hist w)) \<and> (ret = 0 \<longrightarrow> carries (hist w') (dev w))) w"
  unfolding ps5169_hw_init_def ps5169_write_sequence_def
  by (intro wp_intros) (auto simp: carries_def init_regs_def wants_defs)

text \<open>What a probe leaves behind: everything held and the lanes off, or nothing held.\<close>

definition ps_settled :: "int \<Rightarrow> ps_world \<Rightarrow> bool" where
  "ps_settled ret w = (if ret = 0 then ps_inv w else \<forall>x. held_objects x (hist w) = 0)"

lemma probe_chip_outcome:
  assumes "\<not> connected (dev w)"
    "\<forall>x. held_objects x (hist w) = of_bool (x \<in> {Downstream_Switch, Downstream_Mux, Role_Switch})"
  shows "wp probe_chip ps_settled w"
  unfolding probe_chip_def put_role_def put_mux_def put_switch_def unregister_switch_def
proof (rule wp_bindI, rule wp_mono [OF hw_init_outcome], rule assms(1), goal_cases)
  case (1 ret w')
  then show ?case using assms(2)
    by (intro wp_intros) (auto simp: ps_settled_def ps_inv_def all_ps_objects carries_def)
qed

lemma probe_links_outcome:
  assumes "\<not> connected (dev w)" "\<forall>x. held_objects x (hist w) = 0"
  shows "wp probe_links ps_settled w"
  unfolding probe_links_def put_mux_def put_switch_def
  using assms
  by (intro wp_bindI wp_askI wp_ifI wp_returnI wp_tellI wp_modifyI probe_chip_outcome)
    (auto simp: ps_settled_def connected_def all_ps_objects)

lemma probe_settled:
  assumes "hist w = []"
  shows "wp ps5169_probe ps_settled w"
  unfolding ps5169_probe_def property_u8_def
  using assms
  by (intro wp_bindI wp_askI wp_ifI wp_returnI wp_modifyI wp_callI probe_links_outcome)
    (auto simp: ps_settled_def connected_def zero_ps5169_def)

inductive ps_reached :: "ps_world \<Rightarrow> bool" where
  bound: "hist w = [] \<Longrightarrow> result ps5169_probe w = 0 \<Longrightarrow> ps_reached (exec ps5169_probe w)"
| turned: "ps_reached w \<Longrightarrow> ps_reached (exec (ps5169_switch_set orient) w)"
| retimed: "ps_reached w \<Longrightarrow> ps_reached (exec (ps5169_retimer_set st) w)"

lemma ps_reached_inv: "ps_reached w \<Longrightarrow> ps_inv w"
proof (induction rule: ps_reached.induct)
  case (bound w)
  with probe_settled [of w] show ?case by (simp add: wp_def ps_settled_def)
qed (blast intro: keepsD [OF switch_set_inv] keepsD [OF retimer_set_inv])+

subsection \<open>Properties\<close>

text \<open>
  C22. The lanes follow the port: in every reachable state, as long as no register write has failed and the
  driver supports what the port asks for, the chip carries SuperSpeed, DisplayPort or both exactly as
  the mode says, turned around exactly for a reversed plug, and nothing while the port is open or in the
  safe state.
\<close>

theorem redriver_follows_port:
  assumes "ps_reached w" "all_good (hist w)" "supported (dev w)"
  shows "carries (hist w) (dev w)"
  using ps_reached_inv [OF assms(1)] assms(2,3) by (simp add: ps_inv_def)

definition ps_world0 :: ps_world where
  "ps_world0 = \<lparr>dev = zero_ps5169, hist = [], env = \<lambda>h e. (0, 0)\<rparr>"

definition dp_request :: typec_retimer_state where
  "dp_request = \<lparr>alt = Some 0xFF01, data = 0, requested = TYPEC_DP_STATE_D\<rparr>"

definition ps_world1 :: ps_world where
  "ps_world1 = exec (ps5169_retimer_set dp_request)
     (exec (ps5169_switch_set TYPEC_ORIENTATION_REVERSE) (exec ps5169_probe ps_world0))"

lemma reached_world1: "ps_reached ps_world1"
proof -
  have "result ps5169_probe ps_world0 = 0" by code_simp
  then have "ps_reached (exec ps5169_probe ps_world0)"
    by (intro ps_reached.bound) (simp_all add: ps_world0_def)
  then show ?thesis unfolding ps_world1_def by (blast intro: ps_reached.intros)
qed

theorem redriver_follows_port_witness:
  "chip (hist ps_world1) 0x40 \<noteq> None \<and> chip (hist ps_world1) 0x8D = Some 1 \<and> chip (hist ps_world1) 0xA0 = Some 0"
proof -
  have "all_good (hist ps_world1)" by code_simp
  moreover have "supported (dev ps_world1)" by code_simp
  moreover have "wants_usb (dev ps_world1)" by code_simp
  moreover have "wants_dp (dev ps_world1)" by code_simp
  ultimately show ?thesis using redriver_follows_port [OF reached_world1] by (auto simp: carries_def)
qed



text \<open>
  The driver gives back what it takes: while it is bound it holds exactly one reference to each of the two
  downstream devices and the role switch and has registered one switch and one retimer; after a probe
  that failed, and after its removal, it holds none.
\<close>

lemma redriver_balanced:
  "(ps_reached w \<longrightarrow> (\<forall>x. held_objects x (hist w) = 1) \<and> (\<forall>x. held_objects x (hist (exec ps5169_remove w)) = 0)) \<and>
   (hist w = [] \<and> result ps5169_probe w \<noteq> 0 \<longrightarrow> (\<forall>x. held_objects x (hist (exec ps5169_probe w)) = 0))"
proof (intro conjI impI)
  assume "ps_reached w"
  then have held: "\<forall>x. held_objects x (hist w) = 1" using ps_reached_inv [of w] by (simp add: ps_inv_def)
  then show "\<forall>x. held_objects x (hist w) = 1" .
  from held have "wp ps5169_remove (\<lambda>_ w'. \<forall>x. held_objects x (hist w') = 0) w"
    unfolding ps5169_remove_def by (intro wp_intros) (simp add: all_ps_objects)
  then show "\<forall>x. held_objects x (hist (exec ps5169_remove w)) = 0" by (simp add: wp_def)
next
  assume "hist w = [] \<and> result ps5169_probe w \<noteq> 0"
  then show "\<forall>x. held_objects x (hist (exec ps5169_probe w)) = 0"
    using probe_settled [of w] by (simp add: wp_def ps_settled_def)
qed

end
