(* ===== verification/Lens.thy ===== *)
theory Lens
  imports Calls
begin

text \<open>
  The focus motor of the rear camera (\<open>kernel/files/dw9808_vcm.c\<close>): its position over the I2C bus, the rail
  it shares with the sensor, and the ramps that move it softly when it is switched on and off.
\<close>

subsection \<open>Calls\<close>

datatype lens_event =
  Smbus_Read u8
| Smbus_Write u8 u8
| Master_Send "u8 list"
| Past_Timeout
| Lens_Sleep int
| Rail_Is_Enabled
| Rail_Enable
| Rail_Disable
| Pm_Get_If_In_Use
| Pm_Put
| Pm_Resume_And_Get
| Pm_Set_Suspended
| Pm_Enable
| Pm_Disable
| Alloc_Lens
| Get_Rail
| Init_Controls
| Free_Controls
| Init_Pads
| Cleanup_Entity
| Register_Subdev
| Unregister_Subdev

type_synonym lens_answer = "int \<times> unit"
type_synonym lens_history = "(lens_event \<times> lens_answer) list"

abbreviation (input) EIO :: int where "EIO \<equiv> 5"

abbreviation (input) DW9808_MAX_FOCUS_POS :: int where "DW9808_MAX_FOCUS_POS \<equiv> 1023"
abbreviation (input) DW9808_CTRL_STEPS :: int where "DW9808_CTRL_STEPS \<equiv> 16"
abbreviation (input) DW9808_CTRL_DELAY_US :: int where "DW9808_CTRL_DELAY_US \<equiv> 1000"
abbreviation (input) DW9808_REG_CONTROL :: u8 where "DW9808_REG_CONTROL \<equiv> 0x02"
abbreviation (input) DW9808_REG_POSITION_MSB :: u8 where "DW9808_REG_POSITION_MSB \<equiv> 0x03"
abbreviation (input) DW9808_REG_STATUS :: u8 where "DW9808_REG_STATUS \<equiv> 0x05"

subsection \<open>State\<close>

record dw9808_device =
  position :: u16
  inited :: bool

type_synonym lens_world = "(dw9808_device, lens_event, lens_answer) world"
type_synonym 'a lens_io = "(lens_world, 'a) state"

subsection \<open>The chip\<close>

definition dw9808_status :: "int lens_io" where
  "dw9808_status = ask (Smbus_Read DW9808_REG_STATUS)"

definition dw9808_write :: "u8 \<Rightarrow> u8 \<Rightarrow> int lens_io" where
  "dw9808_write reg value = ask (Smbus_Write reg value)"

definition init_sequence :: "(u8 \<times> u8) list" where
  "init_sequence = [
     (0x02, 0x01), (0x02, 0x00), (0x06, 0x60), (0x07, 0x05), (0x03, 0x00), (0x04, 0xAF), (0x03, 0x00), (0x04, 0xFA),
     (0x03, 0x01), (0x04, 0x18), (0x03, 0x01), (0x04, 0x2B), (0x02, 0x02)]"

primrec init_loop :: "(u8 \<times> u8) list \<Rightarrow> int lens_io" where
  "init_loop [] = do { tell (Lens_Sleep 5000); return 0 }"
| "init_loop (x # xs) = do {
     ret \<leftarrow> dw9808_write (fst x) (snd x);
     if ret \<noteq> 0 then return ret else init_loop xs
   }"

definition dw9808_init :: "int lens_io" where
  "dw9808_init = init_loop init_sequence"

text \<open>
  \<open>readx_poll_timeout\<close> with a delay of 1 ms and a timeout of 10 ms: the result and the last status. Each round sleeps
  for at least a quarter of the delay, so that the timeout is over after forty of them.
\<close>

primrec poll_status :: "nat \<Rightarrow> (int \<times> int) lens_io" where
  "poll_status 0 = do {
     status \<leftarrow> dw9808_status;
     return (if status \<le> 0 then 0 else - ETIMEDOUT, status)
   }"
| "poll_status (Suc n) = do {
     expired \<leftarrow> ask Past_Timeout;
     status \<leftarrow> dw9808_status;
     if status \<le> 0 then return (0, status)
     else if expired \<noteq> 0 then return (- ETIMEDOUT, status)
     else do { tell (Lens_Sleep DW9808_CTRL_DELAY_US); poll_status n }
   }"

definition position_bytes :: "u16 \<Rightarrow> u8 list" where
  "position_bytes p = [DW9808_REG_POSITION_MSB, ucast (drop_bit 8 p) AND 0x03, ucast (p AND 0xFF)]"

definition dw9808_set_position :: "u16 \<Rightarrow> int lens_io" where
  "dw9808_set_position p = do {
     (ret, status) \<leftarrow> poll_status 40;
     if ret \<noteq> 0 \<or> status < 0 then return (if ret \<noteq> 0 then - EBUSY else status)
     else do {
       ret \<leftarrow> ask (Master_Send (position_bytes p));
       if ret < 0 then return ret else return (if ret = 3 then 0 else - EIO)
     }
   }"

definition dw9808_ensure_ready :: "int lens_io" where
  "dw9808_ensure_ready = do {
     on \<leftarrow> ask Rail_Is_Enabled;
     if on = 0 then do { modify (\<lambda>s. s\<lparr>inited := False\<rparr>); return (- EAGAIN) }
     else do {
       s \<leftarrow> gets id;
       if inited s then return 0
       else do {
         ret \<leftarrow> dw9808_init;
         if ret \<noteq> 0 then return ret
         else do { modify (\<lambda>s. s\<lparr>inited := True\<rparr>); return 0 }
       }
     }
   }"

subsection \<open>The control and the files\<close>

text \<open>\<open>focus\<close> says whether the control is \<open>V4L2_CID_FOCUS_ABSOLUTE\<close>.\<close>

definition dw9808_set_control :: "bool \<Rightarrow> int \<Rightarrow> int lens_io" where
  "dw9808_set_control focus val =
     (if \<not> focus then return (- EINVAL)
      else do {
        modify (\<lambda>s. s\<lparr>position := word_of_int val\<rparr>);
        ret \<leftarrow> ask Pm_Get_If_In_Use;
        if ret \<le> 0 then return (if ret < 0 then ret else 0)
        else do {
          ret \<leftarrow> dw9808_ensure_ready;
          if ret = - EAGAIN then do { tell Pm_Put; return 0 }
          else do {
            s \<leftarrow> gets id;
            ret \<leftarrow> (if ret = 0 then dw9808_set_position (position s) else return ret);
            tell Pm_Put;
            return ret
          }
        }
      })"

definition dw9808_open :: "int lens_io" where
  "dw9808_open = ask Pm_Resume_And_Get"

definition dw9808_close :: "int lens_io" where
  "dw9808_close = do { tell Pm_Put; return 0 }"

subsection \<open>Ramps\<close>

text \<open>Down to zero whatever fails; the first error is the result.\<close>

function park_loop :: "int \<Rightarrow> int \<Rightarrow> int lens_io" where
  "park_loop pos ret = (if pos < 0 then return ret
     else do {
       step_ret \<leftarrow> dw9808_set_position (word_of_int pos);
       tell (Lens_Sleep DW9808_CTRL_DELAY_US);
       park_loop (pos - DW9808_CTRL_STEPS) (if step_ret \<noteq> 0 \<and> ret = 0 then step_ret else ret)
     })"
  by auto
termination
  by (relation "measure (\<lambda>(pos, ret). nat (pos + 16))") auto

definition dw9808_suspend :: "int lens_io" where
  "dw9808_suspend = do {
     on \<leftarrow> ask Rail_Is_Enabled;
     if on = 0 then do { modify (\<lambda>s. s\<lparr>inited := False\<rparr>); return 0 }
     else do {
       s \<leftarrow> gets id;
       ret \<leftarrow> park_loop (uint (position s AND NOT 15)) 0;
       err \<leftarrow> dw9808_write DW9808_REG_CONTROL 0x01;
       tell Rail_Disable;
       modify (\<lambda>s. s\<lparr>inited := False\<rparr>);
       return (if err \<noteq> 0 \<and> ret = 0 then - EIO else ret)
     }
   }"

text \<open>Up to the position; an error ends the ramp.\<close>

function raise_loop :: "int \<Rightarrow> int \<Rightarrow> unit lens_io" where
  "raise_loop target pos = (if pos < target + DW9808_CTRL_STEPS then do {
       ret \<leftarrow> dw9808_set_position (word_of_int (min pos target));
       if ret \<noteq> 0 then return ()
       else do { tell (Lens_Sleep DW9808_CTRL_DELAY_US); raise_loop target (pos + DW9808_CTRL_STEPS) }
     } else return ())"
  by auto
termination
  by (relation "measure (\<lambda>(target, pos). nat (target + 16 - pos))") auto

declare park_loop.simps [simp del] raise_loop.simps [simp del]

definition dw9808_resume :: "int lens_io" where
  "dw9808_resume = do {
     ret \<leftarrow> ask Rail_Enable;
     if ret \<noteq> 0 then return ret
     else do {
       tell (Lens_Sleep 1000);
       ret \<leftarrow> dw9808_ensure_ready;
       if ret \<noteq> 0 then do { tell Rail_Disable; return 0 }
       else do {
         s \<leftarrow> gets id;
         raise_loop (uint (position s)) (uint (position s) mod DW9808_CTRL_STEPS);
         return 0
       }
     }
   }"

subsection \<open>Binding\<close>

definition zero_dw9808 :: dw9808_device where
  "zero_dw9808 = \<lparr>position = 0, inited = False\<rparr>"

definition free_controls :: "int \<Rightarrow> int lens_io" where
  "free_controls ret = do { tell Free_Controls; return ret }"

definition dw9808_probe :: "int lens_io" where
  "dw9808_probe = do {
     ret \<leftarrow> ask Alloc_Lens;
     if ret < 0 then return (- ENOMEM)
     else do {
       modify (\<lambda>_. zero_dw9808);
       ret \<leftarrow> ask Get_Rail;
       if ret < 0 then return ret
       else do {
         ret \<leftarrow> ask Init_Controls;
         if ret \<noteq> 0 then free_controls ret
         else do {
           modify (\<lambda>s. s\<lparr>position := 512\<rparr>);
           ret \<leftarrow> ask Init_Pads;
           if ret \<noteq> 0 then free_controls ret
           else do {
             ret \<leftarrow> ask Register_Subdev;
             if ret \<noteq> 0 then do { tell Cleanup_Entity; free_controls ret }
             else do { tell Pm_Set_Suspended; tell Pm_Enable; return 0 }
           }
         }
       }
     }
   }"

definition dw9808_remove :: "unit lens_io" where
  "dw9808_remove = do {
     tell Pm_Disable;
     tell Unregister_Subdev;
     tell Free_Controls;
     tell Cleanup_Entity
   }"

subsection \<open>What the history says\<close>

text \<open>The positions the motor has been sent to and has acknowledged, the latest first.\<close>

fun moves :: "lens_history \<Rightarrow> nat list" where
  "moves [] = []"
| "moves ((Master_Send [c, hi, lo], a) # h) = (if fst a = 3 then [256 * unat hi + unat lo] else []) @ moves h"
| "moves (x # h) = moves h"

text \<open>A motor that answers and is never busy.\<close>

fun answers :: "lens_event \<Rightarrow> lens_answer \<Rightarrow> bool" where
  "answers (Smbus_Read r) a = (fst a = 0)"
| "answers (Smbus_Write r v) a = (fst a = 0)"
| "answers (Master_Send bs) a = (fst a = int (length bs))"
| "answers _ a = True"

definition responsive :: "lens_history \<Rightarrow> bool" where
  "responsive h = list_all (\<lambda>x. answers (fst x) (snd x)) h"

text \<open>The driver's own share in keeping the rail on.\<close>

fun delta_vote :: "lens_event \<times> lens_answer \<Rightarrow> int" where
  "delta_vote (Rail_Enable, a) = of_bool (fst a = 0)"
| "delta_vote (Rail_Disable, a) = - 1"
| "delta_vote _ = 0"

definition votes :: "lens_history \<Rightarrow> int" where
  "votes h = sum_list (map delta_vote h)"

lemma history_step [simp]: "responsive [] = True"
  "responsive (x # h) = (answers (fst x) (snd x) \<and> responsive h)"
  "votes [] = 0" "votes (x # h) = delta_vote x + votes h"
  by (simp_all add: responsive_def votes_def)

text \<open>What a computation that does not concern the rail leaves behind.\<close>

definition moved :: "lens_world \<Rightarrow> nat list \<Rightarrow> lens_world \<Rightarrow> bool" where
  "moved w ps w' = (position (dev w') = position (dev w) \<and> votes (hist w') = votes (hist w) \<and>
     (responsive (hist w') \<longrightarrow> responsive (hist w) \<and> moves (hist w') = ps @ moves (hist w)))"

lemma moved_refl [simp]: "moved w [] w"
  by (simp add: moved_def)

lemma moved_trans: "moved w ps w' \<Longrightarrow> moved w' qs w'' \<Longrightarrow> moved w (qs @ ps) w''"
  by (auto simp: moved_def)

lemma poll_outcome:
  "wp (poll_status n) (\<lambda>r w'. moved w [] w' \<and> dev w' = dev w \<and> (responsive (hist w') \<longrightarrow> r = (0, 0))) w"
proof (induction n arbitrary: w)
  case 0
  show ?case unfolding poll_status.simps dw9808_status_def
    by (intro wp_intros) (simp add: moved_def)
next
  case (Suc n)
  show ?case unfolding poll_status.simps dw9808_status_def
    by (intro wp_bindI wp_askI wp_ifI wp_returnI wp_tellI; (rule wp_mono [OF Suc])?) (auto simp: moved_def)
qed

lemma position_roundtrip:
  "p \<le> 1023 \<Longrightarrow> 256 * unat (ucast (drop_bit 8 p) AND 0x03 :: u8) + unat (ucast (p AND 0xFF) :: u8) = unat (p :: u16)"
proof -
  assume "p \<le> 1023"
  then have "unat p \<le> 1023" by (simp add: word_le_nat_alt)
  have "ucast (drop_bit 8 p) AND 0x03 = (take_bit 2 (ucast (drop_bit 8 p)) :: u8)"
    "p AND 0xFF = take_bit 8 p"
    by (simp_all add: take_bit_eq_mask mask_eq_exp_minus_1)
  then show ?thesis using \<open>unat p \<le> 1023\<close>
    by (simp add: unsigned_ucast_eq take_bit_eq_mod drop_bit_eq_div unat_mod unat_div)
qed

lemma small_position:
  assumes "n < 1024"
  shows "unat (word_of_int (int n) :: u16) = n" "(word_of_int (int n) :: u16) \<le> 1023"
proof -
  show *: "unat (word_of_int (int n) :: u16) = n"
    using assms by (simp add: unsigned_of_nat take_bit_nat_eq_self)
  then show "(word_of_int (int n) :: u16) \<le> 1023"
    using assms by (simp add: word_le_nat_alt)
qed

lemma set_position_outcome:
  assumes "p \<le> 1023"
  shows "wp (dw9808_set_position p) (\<lambda>ret w'. dev w' = dev w \<and> moved w [unat p] w' \<and>
    (responsive (hist w') \<longrightarrow> ret = 0)) w"
  unfolding dw9808_set_position_def
proof (rule wp_bindI, rule wp_mono [OF poll_outcome], goal_cases)
  case (1 r w')
  then show ?case
    by (intro wp_prodI wp_bindI wp_askI wp_ifI wp_returnI)
      (auto simp: moved_def position_bytes_def position_roundtrip [OF assms])
qed

lemma park_outcome:
  assumes "k \<le> 64"
  shows "wp (park_loop (int (16 * k) - 16) ret) (\<lambda>r w'. dev w' = dev w \<and> moved w (map ((*) 16) [0..<k]) w' \<and>
    (responsive (hist w') \<and> ret = 0 \<longrightarrow> r = 0)) w"
  using assms
proof (induction k arbitrary: w ret)
  case 0
  show ?case by (subst park_loop.simps) (auto intro!: wp_intros)
next
  case (Suc k)
  then have u: "16 * k < 1024" and k: "int (16 * Suc k) - 16 = int (16 * k)" by simp_all
  have "wp (park_loop (int (16 * k)) ret) (\<lambda>r w'. dev w' = dev w \<and> moved w (map ((*) 16) [0..<Suc k]) w' \<and>
    (responsive (hist w') \<and> ret = 0 \<longrightarrow> r = 0)) w"
  proof (subst park_loop.simps, intro wp_ifI wp_returnI wp_bindI, simp,
      rule wp_mono [OF set_position_outcome [OF small_position(2) [OF u]]], intro wp_bindI wp_tellI, rule wp_mono [OF Suc.IH], goal_cases)
    case (2 r w' a r' w'')
    then show ?case using small_position(1) [OF u] by (auto simp: moved_def)
  qed (use Suc.prems in simp)
  then show ?case unfolding k .
qed

lemma raise_outcome:
  assumes "t < 1024" "k \<le> t div 16 + 1"
  shows "wp (raise_loop (int t) (int (t mod 16 + 16 * k)))
    (\<lambda>_ w'. dev w' = dev w \<and> moved w (rev (map (\<lambda>j. t mod 16 + 16 * j) [k..<t div 16 + 1])) w') w"
  using assms(2)
proof (induction "t div 16 + 1 - k" arbitrary: w k)
  case 0
  then have "k = t div 16 + 1" by simp
  then show ?case by (subst raise_loop.simps) (auto intro!: wp_intros)
next
  case (Suc d)
  then have k: "k \<le> t div 16" by simp
  then have "16 * k \<le> 16 * (t div 16)" by simp
  then have le: "t mod 16 + 16 * k \<le> t" using div_mult_mod_eq [of t 16] by linarith
  then have u: "t mod 16 + 16 * k < 1024" using assms(1) by simp
  have m: "min (int (t mod 16 + 16 * k)) (int t) = int (t mod 16 + 16 * k)" using le by simp
  have nxt: "int (t mod 16 + 16 * k) + 16 = int (t mod 16 + 16 * Suc k)" by simp
  have ls: "[k..<t div 16 + 1] = k # [Suc k..<t div 16 + 1]" using k by (simp add: upt_conv_Cons)
  note IH = Suc.hyps(1) [of "Suc k"]
  show ?case
  proof (subst raise_loop.simps, unfold m nxt, intro wp_ifI wp_returnI wp_bindI,
      rule wp_mono [OF set_position_outcome [OF small_position(2) [OF u]]], intro wp_ifI wp_returnI wp_bindI wp_tellI, goal_cases)
    case (1 r w')
    then show ?case by (simp add: moved_def)
  next
    case (2 r w' a)
    show ?case
    proof (rule wp_mono [OF IH])
      show "d = t div 16 + 1 - Suc k" "Suc k \<le> t div 16 + 1" using Suc.hyps(2) k by simp_all
      fix w''
      assume "dev w'' = dev (w'\<lparr>hist := (Lens_Sleep 1000, a) # hist w'\<rparr>) \<and>
        moved (w'\<lparr>hist := (Lens_Sleep 1000, a) # hist w'\<rparr>) (rev (map (\<lambda>j. t mod 16 + 16 * j) [Suc k..<t div 16 + 1])) w''"
      with 2 small_position(1) [OF u] show "dev w'' = dev w \<and> moved w (rev (map (\<lambda>j. t mod 16 + 16 * j) [k..<t div 16 + 1])) w''"
        unfolding ls by (simp add: moved_def)
    qed
  next
    case 3
    with le show ?case by simp
  qed
qed

lemma init_outcome: "wp (init_loop xs) (\<lambda>ret w'. dev w' = dev w \<and> moved w [] w') w"
proof (induction xs arbitrary: w)
  case Nil
  show ?case by (auto intro!: wp_intros simp: moved_def)
next
  case (Cons x xs)
  show ?case unfolding init_loop.simps dw9808_write_def
    by (intro wp_bindI wp_askI wp_ifI wp_returnI; (rule wp_mono [OF Cons])?) (auto simp: moved_def)
qed

lemma ready_outcome:
  "wp dw9808_ensure_ready (\<lambda>ret w'. moved w [] w' \<and> (ret = 0 \<longleftrightarrow> inited (dev w'))) w"
  unfolding dw9808_ensure_ready_def dw9808_init_def
  by (intro wp_bindI wp_askI wp_getsI wp_modifyI wp_ifI wp_returnI; (rule wp_mono [OF init_outcome])?)
    (auto simp: moved_def intro!: wp_intros)

lemma down_to_step: "uint (p AND NOT 15) = int (16 * (unat p div 16 + 1)) - 16" for p :: u16
proof -
  have "(15 :: u16) = mask 4" by (simp add: mask_eq_exp_minus_1)
  moreover have "p AND NOT (mask 4) = push_bit 4 (drop_bit 4 p)"
    by (rule bit_word_eqI) (auto simp: bit_simps)
  ultimately have "p AND NOT 15 = push_bit 4 (drop_bit 4 p)" by simp
  moreover have "unat p < 65536" using unsigned_less [of p, where ?'a = nat] by simp
  then have "16 * (unat p div 16) < 65536" by simp
  then have "unat (push_bit 4 (drop_bit 4 p)) = 16 * (unat p div 16)"
    by (simp add: push_bit_eq_mult drop_bit_eq_div unat_div unat_word_ariths mult.commute)
  ultimately show ?thesis by (simp add: uint_nat)
qed

lemma suspend_outcome:
  assumes "position (dev w) \<le> 1023"
  shows "wp dw9808_suspend (\<lambda>ret w'. \<not> inited (dev w') \<and> position (dev w') = position (dev w) \<and>
    votes (hist w') = votes (hist w) - of_bool (fst (env w (hist w) Rail_Is_Enabled) \<noteq> 0) \<and>
    (responsive (hist w') \<and> votes (hist w') < votes (hist w) \<longrightarrow> ret = 0 \<and>
      moves (hist w') = map ((*) 16) [0..<unat (position (dev w)) div 16 + 1] @ moves (hist w))) w"
proof -
  have k: "unat (position (dev w)) div 16 + 1 \<le> 64" using assms by (simp add: word_le_nat_alt)
  have d: "dev (w\<lparr>hist := h\<rparr>) = dev w" for h by simp
  define a where "a = env w (hist w) Rail_Is_Enabled"
  have first: "run_state (ask Rail_Is_Enabled) w = (fst a, w\<lparr>hist := (Rail_Is_Enabled, a) # hist w\<rparr>)"
    by (simp add: ask_def a_def)
  show ?thesis unfolding dw9808_suspend_def dw9808_write_def a_def [symmetric]
  proof (rule wp_bindI, unfold wp_def [of "ask Rail_Is_Enabled"] first fst_conv snd_conv, intro wp_ifI wp_bindI wp_modifyI wp_returnI wp_getsI, goal_cases)
    case 2
    show ?case unfolding id_apply d down_to_step
      by (rule wp_mono [OF park_outcome [OF k]]) (use 2 in \<open>auto simp: moved_def intro!: wp_intros\<close>)
  qed simp
qed

lemma resume_outcome:
  assumes "position (dev w) \<le> 1023"
  shows "wp dw9808_resume (\<lambda>ret w'. position (dev w') = position (dev w) \<and>
    votes (hist w') = votes (hist w) + of_bool (ret = 0 \<and> inited (dev w')) \<and>
    (responsive (hist w') \<and> votes (hist w') > votes (hist w) \<longrightarrow> ret = 0 \<and>
      moves (hist w') = rev (map (\<lambda>k. unat (position (dev w)) mod 16 + 16 * k)
        [0..<unat (position (dev w)) div 16 + 1]) @ moves (hist w))) w"
proof -
  let ?t = "unat (position (dev w))"
  have t: "?t < 1024" using assms by (simp add: word_le_nat_alt)
  have r: "raise_loop (uint (position (dev w))) (uint (position (dev w)) mod 16) =
      raise_loop (int ?t) (int (?t mod 16 + 16 * 0))"
    by (simp add: zmod_int)
  show ?thesis unfolding dw9808_resume_def
  proof (intro wp_bindI wp_askI wp_ifI wp_returnI wp_tellI, simp, rule wp_mono [OF ready_outcome],
      intro wp_bindI wp_ifI wp_returnI wp_tellI wp_getsI, goal_cases)
    case (1 a a' ret w' a'')
    then show ?case by (auto simp: moved_def)
  next
    case (2 a a' ret w')
    then have p: "position (id (dev w')) = position (dev w)" by (simp add: moved_def)
    show ?case unfolding p r
      by (rule wp_mono [OF raise_outcome [OF t]]) (use 2 in \<open>auto simp: moved_def intro!: wp_intros\<close>)
  qed
qed

lemma control_outcome:
  assumes "0 \<le> val" "val \<le> 1023" "position (dev w) \<le> 1023"
  shows "wp (dw9808_set_control focus val) (\<lambda>ret w'. position (dev w') \<le> 1023 \<and> votes (hist w') = votes (hist w)) w"
proof -
  have v: "(word_of_int val :: u16) \<le> 1023"
    using small_position(2) [of "nat val"] assms by simp
  show ?thesis unfolding dw9808_set_control_def
  proof (intro wp_ifI wp_bindI wp_returnI wp_modifyI wp_askI, use assms in simp, use v in simp,
      rule wp_mono [OF ready_outcome], intro wp_ifI wp_bindI wp_returnI wp_tellI wp_getsI, goal_cases)
    case (2 a ret w')
    then have "position (id (dev w')) \<le> 1023" using v by (simp add: moved_def)
    then show ?case
      by (rule wp_mono [OF set_position_outcome]) (use 2 v in \<open>auto simp: moved_def intro!: wp_intros\<close>)
  qed (use v in \<open>auto simp: moved_def\<close>)
qed


subsection \<open>The life of the driver\<close>

text \<open>
  \<open>lens_run w active d\<close>: the driver may be in \<open>w\<close>, \<open>active\<close> after a resume that the power management counts as
  successful and not after a suspend; \<open>d\<close> counts the suspends that found the rail off and takes away the
  resumes that could not bring up the motor.
\<close>

inductive lens_run :: "lens_world \<Rightarrow> bool \<Rightarrow> int \<Rightarrow> bool" where
  bound: "hist w = [] \<Longrightarrow> result dw9808_probe w = 0 \<Longrightarrow> lens_run (exec dw9808_probe w) False 0"
| resumed: "lens_run w False d \<Longrightarrow> result dw9808_resume w = 0 \<Longrightarrow>
    lens_run (exec dw9808_resume w) True (d - of_bool (\<not> inited (dev (exec dw9808_resume w))))"
| resume_failed: "lens_run w False d \<Longrightarrow> result dw9808_resume w \<noteq> 0 \<Longrightarrow> lens_run (exec dw9808_resume w) False d"
| suspended: "lens_run w True d \<Longrightarrow>
    lens_run (exec dw9808_suspend w) False (d + of_bool (fst (env w (hist w) Rail_Is_Enabled) = 0))"
| focused: "lens_run w active d \<Longrightarrow> 0 \<le> val \<Longrightarrow> val \<le> 1023 \<Longrightarrow>
    lens_run (exec (dw9808_set_control focus val) w) active d"

lemma probe_lens: "hist w = [] \<Longrightarrow> wp dw9808_probe (\<lambda>ret w'. votes (hist w') = 0 \<and> (ret = 0 \<longrightarrow> position (dev w') = 512)) w"
  unfolding dw9808_probe_def free_controls_def by (intro wp_intros) simp_all

lemma lens_run_inv: "lens_run w active d \<Longrightarrow> votes (hist w) = of_bool active + d \<and> position (dev w) \<le> 1023"
proof (induction rule: lens_run.induct)
  case (bound w)
  with probe_lens [of w] show ?case by (simp add: wp_def)
next
  case (resumed w d)
  with resume_outcome [of w] show ?case by (auto simp: wp_def)
next
  case (resume_failed w d)
  with resume_outcome [of w] show ?case by (auto simp: wp_def)
next
  case (suspended w d)
  with suspend_outcome [of w] show ?case by (auto simp: wp_def)
next
  case (focused w active d val focus)
  with control_outcome [of val w focus] show ?case by (auto simp: wp_def)
qed

subsection \<open>Properties\<close>

text \<open>
  C36. The motor is moved softly: switching it off with the rail on sends it, as long as it answers, from the
  multiple of sixteen below its position down to zero in steps of sixteen, and switching it on sends it
  back up in such steps to end exactly at its position.
\<close>

theorem lens_moves_softly:
  assumes "position (dev w) \<le> 1023" "p = unat (position (dev w))"
  shows "wp dw9808_suspend (\<lambda>ret w'. responsive (hist w') \<and> votes (hist w') < votes (hist w) \<longrightarrow>
      ret = 0 \<and> moves (hist w') = map ((*) 16) [0..<p div 16 + 1] @ moves (hist w)) w \<and>
    wp dw9808_resume (\<lambda>ret w'. responsive (hist w') \<and> votes (hist w') > votes (hist w) \<longrightarrow>
      ret = 0 \<and> hd (moves (hist w')) = p \<and>
      moves (hist w') = rev (map (\<lambda>k. p mod 16 + 16 * k) [0..<p div 16 + 1]) @ moves (hist w)) w"
  using suspend_outcome [OF assms(1)] resume_outcome [OF assms(1)] by (auto simp: wp_def assms(2))

definition lens_world0 :: lens_world where
  "lens_world0 = \<lparr>dev = zero_dw9808, hist = [], env = \<lambda>h e. (case e of Master_Send bs \<Rightarrow> 3 | Rail_Is_Enabled \<Rightarrow> 1 |
     Pm_Get_If_In_Use \<Rightarrow> 1 | _ \<Rightarrow> 0, ())\<rparr>"

theorem lens_moves_softly_witness:
  "moves (hist (exec dw9808_resume (lens_world0\<lparr>dev := \<lparr>position = 40, inited = False\<rparr>\<rparr>))) = [40, 24, 8]"
proof -
  let ?w = "lens_world0\<lparr>dev := \<lparr>position = 40, inited = False\<rparr>\<rparr>"
  have "responsive (hist (exec dw9808_resume ?w))" by code_simp
  moreover have "votes (hist ?w) < votes (hist (exec dw9808_resume ?w))" by code_simp
  ultimately show ?thesis using lens_moves_softly [of ?w 40] by (simp add: wp_def lens_world0_def upt_rec)
qed

text \<open>
  C37. The driver's share in the rail: over any life of the driver it holds the rail once while active and not
  otherwise, but one time less for every resume that could not bring up the motor and one time more for
  every suspend that found the rail off. A resume that cannot bring up the motor (it gives the rail back
  and reports success) followed by a suspend with the rail on (the sensor streams) therefore disables
  a rail the driver does not hold.
\<close>

theorem lens_rail_share:
  assumes "lens_run w active d"
  shows "votes (hist w) = of_bool active + d"
  using lens_run_inv [OF assms] by simp

text \<open>The motor does not answer while it is initialised, and the rail is on.\<close>

definition lens_world1 :: lens_world where
  "lens_world1 = exec dw9808_probe (lens_world0\<lparr>env := \<lambda>h e. (case e of Smbus_Write r v \<Rightarrow> - 6 | Rail_Is_Enabled \<Rightarrow> 1 | _ \<Rightarrow> 0, ())\<rparr>)"

theorem lens_rail_share_witness: "votes (hist (exec dw9808_suspend (exec dw9808_resume lens_world1))) = - 1"
proof -
  have "lens_run lens_world1 False 0" unfolding lens_world1_def
    by (rule lens_run.bound) (simp add: lens_world0_def, code_simp)
  moreover have "result dw9808_resume lens_world1 = 0" by code_simp
  moreover have "\<not> inited (dev (exec dw9808_resume lens_world1))" by code_simp
  ultimately have "lens_run (exec dw9808_resume lens_world1) True (- 1)"
    using lens_run.resumed [of lens_world1 0] by simp
  moreover have "fst (env (exec dw9808_resume lens_world1) (hist (exec dw9808_resume lens_world1)) Rail_Is_Enabled) \<noteq> 0"
    by code_simp
  ultimately have "lens_run (exec dw9808_suspend (exec dw9808_resume lens_world1)) False (- 1)"
    using lens_run.suspended [of "exec dw9808_resume lens_world1" "- 1"] by simp
  from lens_rail_share [OF this] show ?thesis by simp
qed

end
