(* ===== verification/Camera.thy ===== *)
theory Camera
  imports Calls Camera_Tables
begin

text \<open>
  The camera sensor (\<open>kernel/files/hi1337_gts9u.c\<close>): power and identity, controls, formats, streaming, the
  lenses that belong to it, and binding.
\<close>

subsection \<open>Calls\<close>

datatype cam_line = Enable_Line | Reset_Line

text \<open>What the driver takes and has to give back.\<close>

datatype cam_object = Supplies | Clock | Line cam_line | Handler | Entity | Subdev | Notifier | Node | Endpoint

text \<open>The controls; \<open>Other_Ctrl\<close> stands for those without an effect on the sensor.\<close>

datatype cam_ctrl = VBLANK | EXPOSURE | ANALOGUE_GAIN | Other_Ctrl

datatype cam_event =
  Take cam_object
| Give cam_object
| Set_Line cam_line bool
| Cam_Sleep int
| Send "u8 list"
| Transfer_Read u16
| Exposure_Value
| Modify_Range int int int
| Handler_Setup
| New_Ctrl string int int int
| Device_Parse
| New_Fwnode_Properties
| Handler_Error
| Alloc_Sensor
| Match_Data
| Get_Clock
| Clock_Rate
| Get_Supplies
| References string
| Get_Reference
| Add_Fwnode
| Register_Notifier
| Unregister_Notifier

text \<open>
  What an answer carries besides its number: a register, control values, the lanes and frequencies of an
  endpoint, or a count.
\<close>

datatype cam_data = Nothing | Value u16 | Settings "(cam_ctrl \<times> int) list" | Lanes int "int list" | Count nat

type_synonym cam_answer = "int \<times> cam_data"
type_synonym cam_history = "(cam_event \<times> cam_answer) list"

abbreviation (input) EIO :: int where "EIO \<equiv> 5"
abbreviation (input) ENXIO :: int where "ENXIO \<equiv> 6"
abbreviation (input) EEXIST :: int where "EEXIST \<equiv> 17"
abbreviation (input) ENOENT :: int where "ENOENT \<equiv> 2"

abbreviation (input) HI1337_MCLK :: int where "HI1337_MCLK \<equiv> 19200000"
abbreviation (input) HI1337_LINK_FREQ :: int where "HI1337_LINK_FREQ \<equiv> 360200000"
abbreviation (input) HI1337_PIXEL_RATE :: int where "HI1337_PIXEL_RATE \<equiv> 288160000"
abbreviation (input) HI1337_DATA_LANES :: int where "HI1337_DATA_LANES \<equiv> 4"
abbreviation (input) HI1337_REG_MODEL_ID :: u16 where "HI1337_REG_MODEL_ID \<equiv> 0x0716"
abbreviation (input) HI1337_REG_VENDOR_ID :: u16 where "HI1337_REG_VENDOR_ID \<equiv> 0x0714"
abbreviation (input) HI1337_MODEL_ID :: u16 where "HI1337_MODEL_ID \<equiv> 0x1336"
abbreviation (input) HI1337_VENDOR_ID :: u16 where "HI1337_VENDOR_ID \<equiv> 0x2000"
abbreviation (input) HI1337_REG_MODE_SELECT :: u16 where "HI1337_REG_MODE_SELECT \<equiv> 0x0B00"
abbreviation (input) HI1337_MODE_STANDBY :: u16 where "HI1337_MODE_STANDBY \<equiv> 0x0000"
abbreviation (input) HI1337_MODE_STREAMING :: u16 where "HI1337_MODE_STREAMING \<equiv> 0x0100"
abbreviation (input) HI1337_REG_FRAME_LENGTH :: u16 where "HI1337_REG_FRAME_LENGTH \<equiv> 0x020E"
abbreviation (input) HI1337_REG_EXPOSURE :: u16 where "HI1337_REG_EXPOSURE \<equiv> 0x020A"
abbreviation (input) HI1337_REG_ANALOGUE_GAIN :: u16 where "HI1337_REG_ANALOGUE_GAIN \<equiv> 0x0213"
abbreviation (input) HI1337_FRAME_LENGTH_MAX :: int where "HI1337_FRAME_LENGTH_MAX \<equiv> 0x7FFF"
abbreviation (input) HI1337_EXPOSURE_MIN :: int where "HI1337_EXPOSURE_MIN \<equiv> 4"
abbreviation (input) HI1337_EXPOSURE_MARGIN :: int where "HI1337_EXPOSURE_MARGIN \<equiv> 4"

subsection \<open>State\<close>

record hi1337_mode =
  width :: int
  height :: int
  frame_length :: int
  regs :: "(u16 \<times> u16) list"
  name :: string

definition hi1337_rear :: hi1337_mode where
  "hi1337_rear = \<lparr>width = 4128, height = 3096, frame_length = 0x0CC0, regs = hi1337_rear_4128x3096_regs, name = ''rear-main''\<rparr>"

definition hi1337_front :: hi1337_mode where
  "hi1337_front = \<lparr>width = 3408, height = 2556, frame_length = 0x0A96, regs = hi1337_front_3408x2556_regs, name = ''front-main''\<rparr>"

definition hi1337_front_uw :: hi1337_mode where
  "hi1337_front_uw = \<lparr>width = 4000, height = 3000, frame_length = 0x0C54, regs = hi1337_front_uw_4000x3000_regs,
     name = ''front-ultrawide''\<rparr>"

text \<open>\<open>enable_gpio\<close> and \<open>reset_gpio\<close> say whether the pointers are set.\<close>

record hi1337 =
  enable_gpio :: bool
  reset_gpio :: bool
  variant :: hi1337_mode
  streaming :: bool

type_synonym cam_world = "(hi1337, cam_event, cam_answer) world"
type_synonym 'a cam_io = "(cam_world, 'a) state"

subsection \<open>Registers\<close>

definition be16 :: "u16 \<Rightarrow> u8 list" where
  "be16 v = [ucast (drop_bit 8 v), ucast v]"

text \<open>The result and the value read, zero if there is none.\<close>

definition hi1337_read_reg :: "u16 \<Rightarrow> (int \<times> u16) cam_io" where
  "hi1337_read_reg reg = do {
     a \<leftarrow> call (Transfer_Read reg);
     return (if fst a \<noteq> 2 then (if fst a < 0 then fst a else - EIO, 0)
       else (0, case snd a of Value v \<Rightarrow> v | _ \<Rightarrow> 0))
   }"

definition hi1337_write_reg :: "u16 \<Rightarrow> u16 \<Rightarrow> int cam_io" where
  "hi1337_write_reg reg value = do {
     ret \<leftarrow> ask (Send (be16 reg @ be16 value));
     return (if ret = 4 then 0 else if ret < 0 then ret else - EIO)
   }"

primrec hi1337_write_table :: "(u16 \<times> u16) list \<Rightarrow> int cam_io" where
  "hi1337_write_table [] = return 0"
| "hi1337_write_table (x # xs) = do {
     ret \<leftarrow> hi1337_write_reg (fst x) (snd x);
     if ret \<noteq> 0 then return ret else hi1337_write_table xs
   }"

subsection \<open>Power\<close>

text \<open>The labels at the end of \<open>hi1337_power_on\<close>, each falling through to the next.\<close>

definition disable_regulators :: "int \<Rightarrow> int cam_io" where
  "disable_regulators ret = do { tell (Give Supplies); return ret }"

definition release_enable :: "int \<Rightarrow> int cam_io" where
  "release_enable ret = do {
     s \<leftarrow> gets id;
     (if enable_gpio s then tell (Give (Line Enable_Line)) else return ());
     modify (\<lambda>s. s\<lparr>enable_gpio := False\<rparr>);
     disable_regulators ret
   }"

definition disable_module :: "int \<Rightarrow> int cam_io" where
  "disable_module ret = do {
     s \<leftarrow> gets id;
     (if enable_gpio s then tell (Set_Line Enable_Line False) else return ());
     tell (Give (Line Reset_Line));
     modify (\<lambda>s. s\<lparr>reset_gpio := False\<rparr>);
     release_enable ret
   }"

text \<open>With the lines held.\<close>

definition power_module :: "int cam_io" where
  "power_module = do {
     s \<leftarrow> gets id;
     (if enable_gpio s then tell (Set_Line Enable_Line True) else return ());
     tell (Cam_Sleep 1000);
     ret \<leftarrow> ask (Take Clock);
     if ret \<noteq> 0 then disable_module ret
     else do {
       tell (Cam_Sleep 10000);
       tell (Set_Line Reset_Line False);
       tell (Cam_Sleep 12000);
       return 0
     }
   }"

definition hi1337_power_on :: "int cam_io" where
  "hi1337_power_on = do {
     ret \<leftarrow> ask (Take Supplies);
     if ret \<noteq> 0 then return ret
     else do {
       tell (Cam_Sleep 2000);
       ret \<leftarrow> ask (Take (Line Enable_Line));
       modify (\<lambda>s. s\<lparr>enable_gpio := 0 < ret\<rparr>);
       if ret < 0 then disable_regulators ret
       else do {
         ret \<leftarrow> ask (Take (Line Reset_Line));
         modify (\<lambda>s. s\<lparr>reset_gpio := 0 \<le> ret\<rparr>);
         if ret < 0 then release_enable ret else power_module
       }
     }
   }"

definition hi1337_power_off :: "unit cam_io" where
  "hi1337_power_off = do {
     s \<leftarrow> gets id;
     if \<not> reset_gpio s then return ()
     else do {
       tell (Set_Line Reset_Line True);
       tell (Give Clock);
       (if enable_gpio s then tell (Set_Line Enable_Line False) else return ());
       tell (Give (Line Reset_Line));
       modify (\<lambda>s. s\<lparr>reset_gpio := False\<rparr>);
       (if enable_gpio s then tell (Give (Line Enable_Line)) else return ());
       modify (\<lambda>s. s\<lparr>enable_gpio := False\<rparr>);
       tell (Give Supplies)
     }
   }"

definition hi1337_identify :: "int cam_io" where
  "hi1337_identify = do {
     (model_ret, model) \<leftarrow> hi1337_read_reg HI1337_REG_MODEL_ID;
     (vendor_ret, vendor) \<leftarrow> hi1337_read_reg HI1337_REG_VENDOR_ID;
     return (if model_ret \<noteq> 0 \<and> vendor_ret \<noteq> 0 then model_ret
       else if model \<noteq> HI1337_MODEL_ID \<and> model \<noteq> 0x1337 \<and> vendor \<noteq> HI1337_VENDOR_ID then - ENXIO
       else 0)
   }"

subsection \<open>Controls\<close>

text \<open>A value of 32 bits without sign.\<close>

definition u32_of :: "int \<Rightarrow> int" where
  "u32_of v = v mod 2 ^ 32"

text \<open>What a control does to a sensor that streams.\<close>

definition apply_ctrl :: "cam_ctrl \<Rightarrow> int \<Rightarrow> int cam_io" where
  "apply_ctrl c val = do {
     s \<leftarrow> gets id;
     if \<not> streaming s then return 0
     else if c = EXPOSURE then hi1337_write_reg HI1337_REG_EXPOSURE (word_of_int val)
     else if c = ANALOGUE_GAIN then hi1337_write_reg HI1337_REG_ANALOGUE_GAIN (word_of_int val AND 0xFF)
     else if c = VBLANK then hi1337_write_reg HI1337_REG_FRAME_LENGTH (word_of_int (u32_of (height (variant s) + val)))
     else return 0
   }"

text \<open>
  The blanking bounds the exposure. The control framework answers a new range with the exposure it had to
  change, if any, and sets it.
\<close>

definition exposure_max :: "hi1337_mode \<Rightarrow> int \<Rightarrow> int" where
  "exposure_max mode val = u32_of (height mode + val - HI1337_EXPOSURE_MARGIN)"

definition modify_range :: "int \<Rightarrow> unit cam_io" where
  "modify_range val = do {
     s \<leftarrow> gets id;
     let mx = exposure_max (variant s) val;
     cur \<leftarrow> ask Exposure_Value;
     a \<leftarrow> call (Modify_Range HI1337_EXPOSURE_MIN mx (min cur mx));
     case snd a of
       Settings [(c, v)] \<Rightarrow> do { _ \<leftarrow> apply_ctrl EXPOSURE v; return () }
     | _ \<Rightarrow> return ()
   }"

definition hi1337_set_ctrl :: "cam_ctrl \<Rightarrow> int \<Rightarrow> int cam_io" where
  "hi1337_set_ctrl c val = do {
     (if c = VBLANK then modify_range val else return ());
     apply_ctrl c val
   }"

text \<open>The controls with their least and greatest value and default.\<close>

definition hi1337_init_controls :: "int cam_io" where
  "hi1337_init_controls = do {
     s \<leftarrow> gets id;
     let mode = variant s;
     let vblank = u32_of (frame_length mode - height mode);
     ret \<leftarrow> ask (Take Handler);
     if ret \<noteq> 0 then return ret
     else do {
       tell (New_Ctrl ''link_freq'' 0 0 HI1337_LINK_FREQ);
       tell (New_Ctrl ''pixel_rate'' HI1337_PIXEL_RATE HI1337_PIXEL_RATE HI1337_PIXEL_RATE);
       tell (New_Ctrl ''vblank'' vblank (u32_of (HI1337_FRAME_LENGTH_MAX - height mode)) vblank);
       tell (New_Ctrl ''hblank'' 0 0 0);
       tell (New_Ctrl ''exposure'' HI1337_EXPOSURE_MIN (u32_of (frame_length mode - HI1337_EXPOSURE_MARGIN))
         (u32_of (frame_length mode - HI1337_EXPOSURE_MARGIN)));
       tell (New_Ctrl ''analogue_gain'' 0 240 0);
       ret \<leftarrow> ask Device_Parse;
       if ret \<noteq> 0 then return ret
       else do {
         ret \<leftarrow> ask New_Fwnode_Properties;
         if ret \<noteq> 0 then return ret else ask Handler_Error
       }
     }
   }"

subsection \<open>Streaming\<close>

text \<open>The framework sets the controls again, in an order of its own, up to the first error.\<close>

primrec setup_loop :: "(cam_ctrl \<times> int) list \<Rightarrow> int \<Rightarrow> int cam_io" where
  "setup_loop [] ret = return ret"
| "setup_loop (x # xs) ret = do {
     err \<leftarrow> hi1337_set_ctrl (fst x) (snd x);
     if err \<noteq> 0 then return err else setup_loop xs ret
   }"

definition handler_setup :: "int cam_io" where
  "handler_setup = do {
     a \<leftarrow> call Handler_Setup;
     setup_loop (case snd a of Settings xs \<Rightarrow> xs | _ \<Rightarrow> []) (fst a)
   }"

definition clear_streaming :: "int \<Rightarrow> int cam_io" where
  "clear_streaming ret = do { modify (\<lambda>s. s\<lparr>streaming := False\<rparr>); return ret }"

text \<open>The registers that are read are only logged.\<close>

definition hi1337_start_streaming :: "int cam_io" where
  "hi1337_start_streaming = do {
     s \<leftarrow> gets id;
     ret \<leftarrow> hi1337_write_table hi1337_global_regs;
     if ret \<noteq> 0 then return ret
     else do {
       ret \<leftarrow> hi1337_write_table (regs (variant s));
       if ret \<noteq> 0 then return ret
       else do {
         _ \<leftarrow> hi1337_read_reg HI1337_REG_MODE_SELECT;
         _ \<leftarrow> hi1337_read_reg HI1337_REG_MODEL_ID;
         _ \<leftarrow> hi1337_read_reg HI1337_REG_FRAME_LENGTH;
         modify (\<lambda>s. s\<lparr>streaming := True\<rparr>);
         ret \<leftarrow> handler_setup;
         if ret \<noteq> 0 then clear_streaming ret
         else do {
           ret \<leftarrow> hi1337_write_reg HI1337_REG_MODE_SELECT HI1337_MODE_STREAMING;
           if ret \<noteq> 0 then clear_streaming ret
           else do {
             _ \<leftarrow> hi1337_read_reg HI1337_REG_MODE_SELECT;
             tell (Cam_Sleep 500000);
             _ \<leftarrow> hi1337_read_reg HI1337_REG_MODE_SELECT;
             return 0
           }
         }
       }
     }
   }"

definition hi1337_set_stream :: "bool \<Rightarrow> int cam_io" where
  "hi1337_set_stream enable = do {
     s \<leftarrow> gets id;
     if streaming s = enable then return 0
     else if enable then do {
       ret \<leftarrow> hi1337_power_on;
       if ret \<noteq> 0 then return ret
       else do {
         ret \<leftarrow> hi1337_start_streaming;
         (if ret \<noteq> 0 then hi1337_power_off else return ());
         return ret
       }
     }
     else do {
       ret \<leftarrow> hi1337_write_reg HI1337_REG_MODE_SELECT HI1337_MODE_STANDBY;
       modify (\<lambda>s. s\<lparr>streaming := False\<rparr>);
       hi1337_power_off;
       return ret
     }
   }"

subsection \<open>Formats\<close>

text \<open>A format of the bus; its code, field and colour space are the same in all of them.\<close>

record mbus_format =
  fmt_width :: int
  fmt_height :: int

definition hi1337_fill_format :: "hi1337 \<Rightarrow> mbus_format" where
  "hi1337_fill_format s = \<lparr>fmt_width = width (variant s), fmt_height = height (variant s)\<rparr>"

text \<open>\<open>tried\<close> says whether the format is one that is only tried; \<open>state\<close> is the one tried last.\<close>

definition hi1337_get_format :: "hi1337 \<Rightarrow> mbus_format \<Rightarrow> bool \<Rightarrow> mbus_format" where
  "hi1337_get_format s st tried = (if tried then st else hi1337_fill_format s)"

definition hi1337_set_format :: "hi1337 \<Rightarrow> mbus_format \<Rightarrow> bool \<Rightarrow> mbus_format \<times> mbus_format" where
  "hi1337_set_format s st tried = (hi1337_fill_format s, if tried then hi1337_fill_format s else st)"

definition hi1337_enum_mbus_code :: "nat \<Rightarrow> int" where
  "hi1337_enum_mbus_code index = (if index \<noteq> 0 then - EINVAL else 0)"

text \<open>Least and greatest width and height. \<open>bayer\<close> says whether the code is the one the sensor has.\<close>

definition hi1337_enum_frame_size :: "hi1337 \<Rightarrow> nat \<Rightarrow> bool \<Rightarrow> int + (int \<times> int) \<times> (int \<times> int)" where
  "hi1337_enum_frame_size s index bayer = (if index \<noteq> 0 \<or> \<not> bayer then Inl (- EINVAL)
     else Inr ((width (variant s), width (variant s)), (height (variant s), height (variant s))))"

datatype sel_target = SEL_CROP | SEL_CROP_DEFAULT | SEL_CROP_BOUNDS | SEL_NATIVE_SIZE | SEL_OTHER

definition hi1337_get_selection :: "hi1337 \<Rightarrow> nat \<Rightarrow> sel_target \<Rightarrow> int + int \<times> int \<times> int \<times> int" where
  "hi1337_get_selection s pad target = (if pad \<noteq> 0 then Inl (- EINVAL)
     else if target = SEL_OTHER then Inl (- EINVAL)
     else Inr (0, 0, width (variant s), height (variant s)))"

definition hi1337_open :: "hi1337 \<Rightarrow> mbus_format" where
  "hi1337_open s = hi1337_fill_format s"

subsection \<open>Binding\<close>

text \<open>
  The references of a property of the device tree: how many there are, and the error that ends their
  enumeration.
\<close>

primrec reference_loop :: "nat \<Rightarrow> int \<Rightarrow> int cam_io" where
  "reference_loop 0 ret = return (if ret \<noteq> - ENOENT then ret else 0)"
| "reference_loop (Suc n) ret = do {
     tell Get_Reference;
     asc \<leftarrow> ask Add_Fwnode;
     tell (Give Node);
     if asc < 0 \<and> asc \<noteq> - EEXIST then return asc else reference_loop n ret
   }"

definition parse_property :: "string \<Rightarrow> int cam_io" where
  "parse_property prop_name = do {
     a \<leftarrow> call (References prop_name);
     reference_loop (case snd a of Count n \<Rightarrow> n | _ \<Rightarrow> 0) (fst a)
   }"

definition hi1337_parse_lenses :: "int cam_io" where
  "hi1337_parse_lenses = do {
     ret \<leftarrow> parse_property ''lens-focus'';
     if ret \<noteq> 0 then return ret else parse_property ''mipi-img-lens-focus''
   }"

definition hi1337_check_hwcfg :: "int cam_io" where
  "hi1337_check_hwcfg = do {
     ep \<leftarrow> ask (Take Node);
     if ep \<noteq> 0 then return (- ENXIO)
     else do {
       a \<leftarrow> call (Take Endpoint);
       tell (Give Node);
       if fst a \<noteq> 0 then return (fst a)
       else do {
         tell (Give Endpoint);
         return (case snd a of
           Lanes n fs \<Rightarrow> if n \<noteq> HI1337_DATA_LANES then - EINVAL
             else if HI1337_LINK_FREQ \<in> set fs then 0 else - EINVAL
         | _ \<Rightarrow> - EINVAL)
       }
     }
   }"

definition match_data :: "int \<Rightarrow> hi1337_mode option" where
  "match_data n = (if n = 1 then Some hi1337_rear else if n = 2 then Some hi1337_front
     else if n = 3 then Some hi1337_front_uw else None)"

text \<open>The labels at the end of the probe.\<close>

definition probe_power_off :: "int \<Rightarrow> int cam_io" where
  "probe_power_off ret = do { hi1337_power_off; return ret }"

definition probe_free_controls :: "int \<Rightarrow> int cam_io" where
  "probe_free_controls ret = do { tell (Give Handler); probe_power_off ret }"

definition probe_cleanup_entity :: "int \<Rightarrow> int cam_io" where
  "probe_cleanup_entity ret = do { tell (Give Entity); probe_free_controls ret }"

definition probe_unregister :: "int \<Rightarrow> int cam_io" where
  "probe_unregister ret = do {
     tell Unregister_Notifier;
     tell (Give Notifier);
     tell (Give Subdev);
     probe_cleanup_entity ret
   }"

definition probe_lenses :: "int cam_io" where
  "probe_lenses = do {
     tell (Take Notifier);
     ret \<leftarrow> hi1337_parse_lenses;
     if ret \<noteq> 0 then probe_unregister ret
     else do {
       ret \<leftarrow> ask Register_Notifier;
       if ret \<noteq> 0 then probe_unregister ret
       else do { hi1337_power_off; return 0 }
     }
   }"

definition probe_sensor :: "int cam_io" where
  "probe_sensor = do {
     ret \<leftarrow> hi1337_identify;
     if ret \<noteq> 0 then probe_power_off ret
     else do {
       ret \<leftarrow> hi1337_init_controls;
       if ret \<noteq> 0 then probe_power_off ret
       else do {
         ret \<leftarrow> ask (Take Entity);
         if ret \<noteq> 0 then probe_free_controls ret
         else do {
           ret \<leftarrow> ask (Take Subdev);
           if ret \<noteq> 0 then probe_cleanup_entity ret else probe_lenses
         }
       }
     }
   }"

definition probe_hardware :: "int cam_io" where
  "probe_hardware = do {
     ret \<leftarrow> ask Get_Clock;
     if ret < 0 then return ret
     else do {
       clock_rate \<leftarrow> ask Clock_Rate;
       if clock_rate \<noteq> HI1337_MCLK then return (- EINVAL)
       else do {
         ret \<leftarrow> ask Get_Supplies;
         if ret \<noteq> 0 then return ret
         else do {
           ret \<leftarrow> hi1337_check_hwcfg;
           if ret \<noteq> 0 then return ret
           else do {
             ret \<leftarrow> hi1337_power_on;
             if ret \<noteq> 0 then return ret else probe_sensor
           }
         }
       }
     }
   }"

definition hi1337_probe :: "int cam_io" where
  "hi1337_probe = do {
     ret \<leftarrow> ask Alloc_Sensor;
     if ret < 0 then return (- ENOMEM)
     else do {
       n \<leftarrow> ask Match_Data;
       case match_data n of
         None \<Rightarrow> return (- EINVAL)
       | Some mode \<Rightarrow> do {
           modify (\<lambda>_. \<lparr>enable_gpio = False, reset_gpio = False, variant = mode, streaming = False\<rparr>);
           probe_hardware
         }
     }
   }"

definition hi1337_remove :: "unit cam_io" where
  "hi1337_remove = do {
     tell (Give Subdev);
     tell Unregister_Notifier;
     tell (Give Notifier);
     tell (Give Entity);
     tell (Give Handler);
     s \<leftarrow> gets id;
     if streaming s then hi1337_power_off else return ()
   }"

end
