(* ===== verification/Camera_Contracts.thy ===== *)
theory Camera_Contracts
  imports Camera
begin

text \<open>
  What the camera driver promises: the sensor is powered exactly while it streams and talked to only then, a
  frame is always longer than its exposure, and binding gives back what it takes.
\<close>

subsection \<open>What the history says\<close>

text \<open>How often something is held.\<close>

definition taken :: "cam_object \<Rightarrow> int \<Rightarrow> bool" where
  "taken x ret = (case x of Line Enable_Line \<Rightarrow> 0 < ret | Line Reset_Line \<Rightarrow> 0 \<le> ret | Notifier \<Rightarrow> True | _ \<Rightarrow> ret = 0)"

fun delta_held :: "cam_object \<Rightarrow> cam_event \<times> cam_answer \<Rightarrow> int" where
  "delta_held x (Take y, a) = of_bool (y = x \<and> taken x (fst a))"
| "delta_held x (Give y, a) = - of_bool (y = x)"
| "delta_held x (Get_Reference, a) = of_bool (x = Node)"
| "delta_held x _ = 0"

definition holds :: "cam_object \<Rightarrow> cam_history \<Rightarrow> int" where
  "holds x h = sum_list (map (delta_held x) h)"

lemma holds_step [simp]: "holds x [] = 0" "holds x (e # h) = delta_held x e + holds x h"
  by (simp_all add: holds_def)

text \<open>The level of a line; the reset line is taken asserted, the enable line low.\<close>

fun line_level :: "cam_line \<Rightarrow> cam_history \<Rightarrow> bool" where
  "line_level l [] = False"
| "line_level l ((Set_Line k b, a) # h) = (if k = l then b else line_level l h)"
| "line_level l ((Take (Line k), a) # h) = (if k = l then l = Reset_Line else line_level l h)"
| "line_level l (x # h) = line_level l h"

text \<open>The sensor answers: supplies and clock on, its module enabled if it has a line for that, out of reset.\<close>

definition awake :: "cam_history \<Rightarrow> bool" where
  "awake h = (holds Supplies h = 1 \<and> holds Clock h = 1 \<and> holds (Line Reset_Line) h = 1 \<and> \<not> line_level Reset_Line h \<and>
     (holds (Line Enable_Line) h = 1 \<longrightarrow> line_level Enable_Line h))"

fun talks :: "cam_event \<Rightarrow> bool" where
  "talks (Send bs) = True"
| "talks (Transfer_Read r) = True"
| "talks _ = False"

definition cam_policy :: "cam_history \<Rightarrow> cam_event \<Rightarrow> bool" where
  "cam_policy h e = (talks e \<longrightarrow> awake h)"

text \<open>Setting up a control failed after their handler had been made.\<close>

definition ctrl_failed :: "cam_history \<Rightarrow> bool" where
  "ctrl_failed h = list_ex (\<lambda>x. fst x \<in> {Device_Parse, New_Fwnode_Properties, Handler_Error} \<and> fst (snd x) \<noteq> 0) h"

lemma ctrl_failed_step [simp]: "ctrl_failed [] = False"
  "ctrl_failed (x # h) = (fst x \<in> {Device_Parse, New_Fwnode_Properties, Handler_Error} \<and> fst (snd x) \<noteq> 0 \<or> ctrl_failed h)"
  by (simp_all add: ctrl_failed_def)

text \<open>Everything that does not belong to the power supply.\<close>

definition others :: "cam_history \<Rightarrow> int list" where
  "others h = map (\<lambda>x. holds x h) [Handler, Entity, Subdev, Notifier, Node, Endpoint] @ [of_bool (ctrl_failed h)]"

subsection \<open>Power\<close>

definition cam_core :: "bool \<Rightarrow> cam_world \<Rightarrow> bool" where
  "cam_core on w = (holds Supplies (hist w) = of_bool on \<and> holds Clock (hist w) = of_bool on \<and>
     holds (Line Reset_Line) (hist w) = of_bool on \<and> reset_gpio (dev w) = on \<and>
     holds (Line Enable_Line) (hist w) = of_bool (enable_gpio (dev w)) \<and> (enable_gpio (dev w) \<longrightarrow> on) \<and>
     (on \<longrightarrow> \<not> line_level Reset_Line (hist w) \<and> (enable_gpio (dev w) \<longrightarrow> line_level Enable_Line (hist w))) \<and>
     obeys cam_policy (hist w))"

text \<open>The power state, whether it streams, and what else it holds.\<close>

definition in_state :: "bool \<Rightarrow> bool \<Rightarrow> hi1337_mode \<Rightarrow> int list \<Rightarrow> cam_world \<Rightarrow> bool" where
  "in_state on strm v xs w = (cam_core on w \<and> streaming (dev w) = strm \<and> variant (dev w) = v \<and> others (hist w) = xs)"

lemmas state_defs = in_state_def cam_core_def others_def cam_policy_def awake_def taken_def

text \<open>Between the lines and the clock.\<close>

definition half :: "bool \<Rightarrow> hi1337_mode \<Rightarrow> int list \<Rightarrow> cam_world \<Rightarrow> bool" where
  "half b v xs w = (holds Supplies (hist w) = 1 \<and> holds Clock (hist w) = 0 \<and> holds (Line Reset_Line) (hist w) = 1 \<and>
     reset_gpio (dev w) \<and> holds (Line Enable_Line) (hist w) = of_bool (enable_gpio (dev w)) \<and>
     obeys cam_policy (hist w) \<and> streaming (dev w) = b \<and> variant (dev w) = v \<and> others (hist w) = xs)"

lemma power_module_outcome:
  assumes "half b v xs w"
  shows "wp power_module (\<lambda>ret. in_state (ret = 0) b v xs) w"
  unfolding power_module_def disable_module_def release_enable_def disable_regulators_def
  using assms
  by - (rule wp_state, intro wp_explicit, simp_all add: state_defs half_def)

lemma cam_power_on_outcome:
  assumes "in_state False b v xs w"
  shows "wp hi1337_power_on (\<lambda>ret. in_state (ret = 0) b v xs) w"
  unfolding hi1337_power_on_def release_enable_def disable_regulators_def
  using assms
  by - (rule wp_state, intro wp_explicit power_module_outcome, simp_all add: state_defs half_def)

lemma power_off_outcome:
  assumes "in_state on b v xs w"
  shows "wp hi1337_power_off (\<lambda>_. in_state False b v xs) w"
  unfolding hi1337_power_off_def
  using assms by - (rule wp_state, intro wp_explicit, simp_all add: state_defs)

lemma read_keeps [keeps_rules]: "keeps (in_state True b v xs) (hi1337_read_reg r)"
  unfolding hi1337_read_reg_def
  by (rule keepsI, intro wp_intros) (auto simp: state_defs)

lemma write_keeps [keeps_rules]: "keeps (in_state True b v xs) (hi1337_write_reg r x)"
  unfolding hi1337_write_reg_def
  by (rule keepsI, intro wp_intros) (auto simp: state_defs)

lemma table_keeps [keeps_rules]: "keeps (in_state True b v xs) (hi1337_write_table t)"
  by (induction t) (auto intro!: keeps_rules)

lemma identify_keeps [keeps_rules]: "keeps (in_state True b v xs) hi1337_identify"
  unfolding hi1337_identify_def by (intro keeps_rules)

lemma other_calls [keeps_rules]:
  "keeps (in_state on b v xs) (tell (Cam_Sleep n))" "keeps (in_state on b v xs) (ask Exposure_Value)"
  "keeps (in_state on b v xs) (call (Modify_Range lo hi df))" "keeps (in_state on b v xs) (call Handler_Setup)"
  by (rule keepsI, intro wp_intros, simp add: state_defs)+

lemma apply_keeps [keeps_rules]:
  assumes "b \<longrightarrow> on"
  shows "keeps (in_state on b v xs) (apply_ctrl c val)"
proof (rule keepsI)
  fix w
  assume w: "in_state on b v xs w"
  have "streaming (dev w) \<Longrightarrow> wp (hi1337_write_reg r x) (\<lambda>_. in_state on b v xs) w" for r x
    using assms w keeps_wp [OF write_keeps [of b v xs r x]] by (simp add: in_state_def)
  with w show "wp (apply_ctrl c val) (\<lambda>_. in_state on b v xs) w"
    unfolding apply_ctrl_def by (auto intro!: wp_bindI wp_getsI wp_ifI wp_returnI)
qed

lemma range_keeps [keeps_rules]: "b \<longrightarrow> on \<Longrightarrow> keeps (in_state on b v xs) (modify_range val)"
  unfolding modify_range_def
  by (intro keeps_rules) (auto split: cam_data.splits list.splits prod.splits intro!: keeps_rules)

lemma set_ctrl_keeps [keeps_rules]: "b \<longrightarrow> on \<Longrightarrow> keeps (in_state on b v xs) (hi1337_set_ctrl c val)"
  unfolding hi1337_set_ctrl_def by (intro keeps_rules) auto

lemma setup_loop_keeps [keeps_rules]: "keeps (in_state True b v xs) (setup_loop ys ret)"
  by (induction ys) (auto intro!: keeps_rules)

lemma setup_keeps [keeps_rules]: "keeps (in_state True b v xs) handler_setup"
  unfolding handler_setup_def by (intro keeps_rules)

lemma flag_outcome: "in_state on b v xs w \<Longrightarrow> in_state on b' v xs (w\<lparr>dev := (dev w)\<lparr>streaming := b'\<rparr>\<rparr>)"
  by (simp add: in_state_def cam_core_def)

lemma start_outcome:
  assumes "in_state True False v xs w"
  shows "wp hi1337_start_streaming (\<lambda>ret. in_state True (ret = 0) v xs) w"
  unfolding hi1337_start_streaming_def clear_streaming_def
  apply (intro wp_bindI wp_getsI)
  apply (rule wp_keeps [OF table_keeps assms])
  apply (intro wp_ifI wp_returnI, simp)
  apply (intro wp_bindI, erule wp_keeps [OF table_keeps])
  apply (intro wp_ifI wp_returnI, simp)
  apply (intro wp_bindI, erule wp_keeps [OF read_keeps])
  apply (intro wp_bindI, erule wp_keeps [OF read_keeps])
  apply (intro wp_bindI, erule wp_keeps [OF read_keeps])
  apply (intro wp_bindI wp_modifyI, drule flag_outcome [where b' = True], erule wp_keeps [OF setup_keeps])
  apply (intro wp_ifI wp_returnI)
   apply (intro wp_bindI wp_modifyI wp_returnI, simp add: flag_outcome)
  apply (intro wp_bindI, erule wp_keeps [OF write_keeps])
  apply (intro wp_ifI wp_returnI)
   apply (intro wp_bindI wp_modifyI wp_returnI, simp add: flag_outcome)
  apply (intro wp_bindI, erule wp_keeps [OF read_keeps])
  apply (intro wp_bindI, erule wp_keeps [OF other_calls(1)])
  apply (intro wp_bindI, erule wp_keeps [OF read_keeps])
  apply (intro wp_returnI, simp)
  done

text \<open>The invariant between two operations.\<close>

definition cam_inv :: "cam_world \<Rightarrow> bool" where
  "cam_inv w = (\<exists>b v. in_state b b v [1, 1, 1, 1, 0, 0, 0] w)"

lemma stream_on:
  assumes "in_state False False v xs w"
  shows "wp (hi1337_set_stream True) (\<lambda>_ w'. \<exists>b. in_state b b v xs w') w"
proof -
  have "wp (do { ret \<leftarrow> hi1337_start_streaming; (if ret \<noteq> 0 then hi1337_power_off else return ()); return ret })
      (\<lambda>_ w'. \<exists>b. in_state b b v xs w') w'" if "in_state True False v xs w'" for w'
    by (intro wp_bindI, rule wp_mono [OF start_outcome [OF that]], intro wp_bindI wp_ifI wp_returnI)
      (rule wp_mono [OF power_off_outcome], assumption, auto intro!: wp_returnI)
  then have "wp (do { ret \<leftarrow> hi1337_power_on; if ret \<noteq> 0 then return ret else do {
      ret \<leftarrow> hi1337_start_streaming; (if ret \<noteq> 0 then hi1337_power_off else return ()); return ret } })
      (\<lambda>_ w'. \<exists>b. in_state b b v xs w') w"
    by (intro wp_bindI, intro wp_mono [OF cam_power_on_outcome [OF assms]] wp_ifI wp_returnI) auto
  moreover have "\<not> streaming (dev w)" using assms by (simp add: in_state_def)
  ultimately show ?thesis unfolding hi1337_set_stream_def
    by (intro wp_bindI wp_getsI) (simp add: wp_bind)
qed

lemma stream_off:
  assumes "in_state True True v xs w"
  shows "wp (hi1337_set_stream False) (\<lambda>_. in_state False False v xs) w"
  unfolding hi1337_set_stream_def
proof (intro wp_bindI wp_getsI wp_ifI wp_returnI, goal_cases)
  case 1
  with assms show ?case by (simp add: in_state_def)
next
  case 3
  show ?case
    by (rule wp_keeps [OF write_keeps assms], intro wp_bindI wp_modifyI, drule flag_outcome [where b' = False],
      rule wp_mono [OF power_off_outcome], assumption, intro wp_returnI)
qed simp

lemma set_stream_inv: "keeps cam_inv (hi1337_set_stream enable)"
proof (rule keepsI)
  fix w
  assume "cam_inv w"
  then obtain b v where st: "in_state b b v [1, 1, 1, 1, 0, 0, 0] w" by (auto simp: cam_inv_def)
  consider "enable = b" | "enable" "\<not> b" | "\<not> enable" "b" by blast
  then have "wp (hi1337_set_stream enable) (\<lambda>_ w'. \<exists>b. in_state b b v [1, 1, 1, 1, 0, 0, 0] w') w"
  proof cases
    case 1
    with st show ?thesis unfolding hi1337_set_stream_def
      by (intro wp_bindI wp_getsI wp_ifI wp_returnI) (auto simp: in_state_def)
  next
    case 2
    with st stream_on show ?thesis by simp
  next
    case 3
    with st stream_off show ?thesis by (auto intro: wp_mono)
  qed
  then show "wp (hi1337_set_stream enable) (\<lambda>_. cam_inv) w"
    by (rule wp_mono) (auto simp: cam_inv_def)
qed

lemma ctrl_inv: "keeps cam_inv (hi1337_set_ctrl c val)"
proof (rule keepsI)
  fix w
  assume "cam_inv w"
  then obtain b v where "in_state b b v [1, 1, 1, 1, 0, 0, 0] w" by (auto simp: cam_inv_def)
  from keeps_wp [OF set_ctrl_keeps this] show "wp (hi1337_set_ctrl c val) (\<lambda>_. cam_inv) w"
    by (rule wp_mono) (auto simp: cam_inv_def)
qed

subsection \<open>Binding\<close>

text \<open>What is held between the steps of the probe, apart from the power supply.\<close>

lemma reference_loop_outcome:
  "in_state on b v [ha, en, su, no, nd, ep, cf] w \<Longrightarrow>
   wp (reference_loop n ret) (\<lambda>_. in_state on b v [ha, en, su, no, nd, ep, cf]) w"
proof (induction n arbitrary: w)
  case 0
  then show ?case by (auto intro!: wp_intros)
next
  case (Suc n)
  show ?case unfolding reference_loop.simps
    by (intro wp_bindI wp_tellI wp_askI wp_ifI wp_returnI; (rule Suc.IH)?) (use Suc.prems in \<open>simp_all add: state_defs\<close>)
qed

lemma parse_outcome:
  assumes "in_state on b v [ha, en, su, no, nd, ep, cf] w"
  shows "wp hi1337_parse_lenses (\<lambda>_. in_state on b v [ha, en, su, no, nd, ep, cf]) w"
proof -
  have "wp (parse_property p) (\<lambda>_. in_state on b v [ha, en, su, no, nd, ep, cf]) w'"
    if "in_state on b v [ha, en, su, no, nd, ep, cf] w'" for p w'
    unfolding parse_property_def
    by (intro wp_bindI wp_callI reference_loop_outcome) (use that in \<open>simp add: state_defs\<close>)
  note one = this
  show ?thesis unfolding hi1337_parse_lenses_def
    by (intro wp_bindI, rule wp_mono [OF one [OF assms]], intro wp_ifI wp_returnI one)
qed

lemma hwcfg_outcome:
  assumes "in_state on b v [ha, en, su, no, nd, ep, cf] w"
  shows "wp hi1337_check_hwcfg (\<lambda>_. in_state on b v [ha, en, su, no, nd, ep, cf]) w"
  unfolding hi1337_check_hwcfg_def
  using assms by (intro wp_bindI wp_tellI wp_askI wp_callI wp_ifI wp_returnI) (auto simp: state_defs)

text \<open>Giving up: everything is released.\<close>

lemma give_up_outcomes:
  "in_state on b v xs w \<Longrightarrow> wp (probe_power_off ret) (\<lambda>r w'. r = ret \<and> in_state False b v xs w') w"
  "in_state on b v [1, en, su, no, nd, ep, cf] w \<Longrightarrow>
   wp (probe_free_controls ret) (\<lambda>r w'. r = ret \<and> in_state False b v [0, en, su, no, nd, ep, cf] w') w"
  "in_state on b v [1, 1, su, no, nd, ep, cf] w \<Longrightarrow>
   wp (probe_cleanup_entity ret) (\<lambda>r w'. r = ret \<and> in_state False b v [0, 0, su, no, nd, ep, cf] w') w"
  "in_state on b v [1, 1, 1, 1, nd, ep, cf] w \<Longrightarrow>
   wp (probe_unregister ret) (\<lambda>r w'. r = ret \<and> in_state False b v [0, 0, 0, 0, nd, ep, cf] w') w"
proof -
  show off: "in_state on b v xs w \<Longrightarrow> wp (probe_power_off ret) (\<lambda>r w'. r = ret \<and> in_state False b v xs w') w" for xs w ret
    unfolding probe_power_off_def by (intro wp_bindI, rule wp_mono [OF power_off_outcome]) (auto intro!: wp_returnI)
  show free: "in_state on b v [1, en, su, no, nd, ep, cf] w \<Longrightarrow>
   wp (probe_free_controls ret) (\<lambda>r w'. r = ret \<and> in_state False b v [0, en, su, no, nd, ep, cf] w') w" for en su no nd ep cf w ret
    unfolding probe_free_controls_def by (intro wp_bindI wp_tellI off) (simp add: state_defs)
  show clean: "in_state on b v [1, 1, su, no, nd, ep, cf] w \<Longrightarrow>
   wp (probe_cleanup_entity ret) (\<lambda>r w'. r = ret \<and> in_state False b v [0, 0, su, no, nd, ep, cf] w') w" for su no nd ep cf w ret
    unfolding probe_cleanup_entity_def by (intro wp_bindI wp_tellI free) (simp add: state_defs)
  show "in_state on b v [1, 1, 1, 1, nd, ep, cf] w \<Longrightarrow>
   wp (probe_unregister ret) (\<lambda>r w'. r = ret \<and> in_state False b v [0, 0, 0, 0, nd, ep, cf] w') w"
    unfolding probe_unregister_def by (intro wp_bindI wp_tellI clean) (simp add: state_defs)
qed

text \<open>After a probe: bound and switched off, or nothing held but what \<open>hi1337_init_controls\<close> leaves behind.\<close>

definition probed :: "int \<Rightarrow> cam_world \<Rightarrow> bool" where
  "probed ret w = (if ret = 0 then \<exists>v. in_state False False v [1, 1, 1, 1, 0, 0, 0] w
     else \<exists>v cf. cf \<in> {0, 1} \<and> in_state False False v [cf, 0, 0, 0, 0, 0, cf] w)"

lemma probe_lenses_outcome:
  assumes "in_state True False v [1, 1, 1, 0, 0, 0, 0] w"
  shows "wp probe_lenses probed w"
  unfolding probe_lenses_def
proof (intro wp_bindI wp_tellI, goal_cases)
  case (1 a)
  from assms have "in_state True False v [1, 1, 1, 1, 0, 0, 0] (w\<lparr>hist := (Take Notifier, a) # hist w\<rparr>)"
    by (simp add: state_defs)
  note parse_outcome [OF this]
  then show ?case
  proof (rule wp_mono, intro wp_ifI wp_bindI wp_askI wp_returnI, goal_cases)
    case (1 ret w')
    then show ?case by (intro wp_mono [OF give_up_outcomes(4)]) (auto simp: probed_def)
  next
    case (2 ret w' a')
    then show ?case by (intro wp_mono [OF give_up_outcomes(4)]) (auto simp: state_defs probed_def)
  next
    case (3 ret w' a')
    then have "in_state True False v [1, 1, 1, 1, 0, 0, 0] (w'\<lparr>hist := (Register_Notifier, a') # hist w'\<rparr>)"
      by (simp add: state_defs)
    from power_off_outcome [OF this] show ?case by (rule wp_mono) (auto intro!: wp_returnI simp: probed_def)
  qed
qed

lemma init_controls_outcome:
  assumes "in_state on False v [0, en, su, no, nd, ep, 0] w"
  shows "wp hi1337_init_controls (\<lambda>ret w'. if ret = 0 then in_state on False v [1, en, su, no, nd, ep, 0] w'
    else \<exists>cf. cf \<in> {0, 1} \<and> in_state on False v [cf, en, su, no, nd, ep, cf] w') w"
  unfolding hi1337_init_controls_def
  using assms by - (rule wp_state, intro wp_explicit, simp_all add: state_defs)

lemma probe_sensor_outcome:
  assumes "in_state True False v [0, 0, 0, 0, 0, 0, 0] w"
  shows "wp probe_sensor probed w"
  unfolding probe_sensor_def
proof (intro wp_bindI, rule wp_keeps [OF identify_keeps assms], intro wp_ifI wp_bindI, goal_cases)
  case (1 ret w')
  then show ?case by (intro wp_mono [OF give_up_outcomes(1)]) (auto simp: probed_def)
next
  case (2 ret w')
  from init_controls_outcome [OF 2(1)] show ?case
  proof (rule wp_mono, intro wp_ifI wp_bindI wp_askI, goal_cases)
    case (1 ret' w'')
    then obtain cf where "cf \<in> {0, 1}" "in_state True False v [cf, 0, 0, 0, 0, 0, cf] w''" by auto
    with 1 show ?case by (intro wp_mono [OF give_up_outcomes(1)]) (auto simp: probed_def)
  next
    case (2 ret' w'' a)
    then show ?case by (intro wp_mono [OF give_up_outcomes(2)]) (auto simp: state_defs probed_def)
  next
    case (3 ret' w'' a a')
    then show ?case by (intro wp_mono [OF give_up_outcomes(3)]) (auto simp: state_defs probed_def)
  next
    case (4 ret' w'' a a')
    then show ?case by (intro probe_lenses_outcome) (auto simp: state_defs)
  qed
qed

lemma probe_hardware_outcome:
  assumes "in_state False False v [0, 0, 0, 0, 0, 0, 0] w"
  shows "wp probe_hardware probed w"
proof -
  have on: "wp (do { ret \<leftarrow> hi1337_power_on; if ret \<noteq> 0 then return ret else probe_sensor }) probed w'"
    if "in_state False False v [0, 0, 0, 0, 0, 0, 0] w'" for w'
    by (intro wp_bindI, rule wp_mono [OF cam_power_on_outcome [OF that]], intro wp_ifI wp_returnI probe_sensor_outcome)
      (auto simp: probed_def)
  have cfg: "wp (do { ret \<leftarrow> hi1337_check_hwcfg; if ret \<noteq> 0 then return ret else do {
      ret \<leftarrow> hi1337_power_on; if ret \<noteq> 0 then return ret else probe_sensor } }) probed w'"
    if "in_state False False v [0, 0, 0, 0, 0, 0, 0] w'" for w'
    by (intro wp_bindI, rule wp_mono [OF hwcfg_outcome [OF that]], intro wp_ifI wp_returnI on)
      (auto simp: probed_def)
  show ?thesis unfolding probe_hardware_def
    by (intro wp_bindI [of "ask Get_Clock"] wp_bindI [of "ask Clock_Rate"] wp_bindI [of "ask Get_Supplies"]
        wp_askI wp_ifI wp_returnI cfg)
      (use assms in \<open>auto simp: probed_def state_defs\<close>)
qed

definition unheld :: "int \<Rightarrow> cam_world \<Rightarrow> bool" where
  "unheld ret w = (if ret = 0 then cam_inv w else \<forall>x. holds x (hist w) = of_bool (x = Handler \<and> ctrl_failed (hist w)))"

lemma all_held: "(\<forall>x. P x) = (P Supplies \<and> P Clock \<and> P (Line Enable_Line) \<and> P (Line Reset_Line) \<and> P Handler \<and>
    P Entity \<and> P Subdev \<and> P Notifier \<and> P Node \<and> P Endpoint)"
proof
  assume r: "P Supplies \<and> P Clock \<and> P (Line Enable_Line) \<and> P (Line Reset_Line) \<and> P Handler \<and>
    P Entity \<and> P Subdev \<and> P Notifier \<and> P Node \<and> P Endpoint"
  show "\<forall>x. P x"
  proof
    fix x
    show "P x"
    proof (cases x)
      case (Line l)
      with r show ?thesis by (cases l) simp_all
    qed (use r in simp_all)
  qed
qed simp

lemma off_holds_nothing:
  assumes "in_state False False v [cf, 0, 0, 0, 0, 0, cf] w"
  shows "\<forall>x. holds x (hist w) = of_bool (x = Handler \<and> ctrl_failed (hist w))"
  unfolding all_held using assms by (auto simp: state_defs)

lemma probed_unheld: "probed ret w \<Longrightarrow> unheld ret w"
  by (auto simp: probed_def unheld_def cam_inv_def dest: off_holds_nothing split: if_splits)

lemma probe_unheld:
  assumes "hist w = []"
  shows "wp hi1337_probe unheld w"
  unfolding hi1337_probe_def
  using assms
  by (intro wp_bindI wp_askI wp_ifI wp_optionI wp_returnI wp_modifyI wp_mono [OF probe_hardware_outcome probed_unheld])
    (auto simp: unheld_def state_defs)

inductive cam_reached :: "cam_world \<Rightarrow> bool" where
  bound: "hist w = [] \<Longrightarrow> result hi1337_probe w = 0 \<Longrightarrow> cam_reached (exec hi1337_probe w)"
| streamed: "cam_reached w \<Longrightarrow> cam_reached (exec (hi1337_set_stream enable) w)"
| controlled: "cam_reached w \<Longrightarrow> cam_reached (exec (hi1337_set_ctrl c val) w)"

lemma cam_reached_inv: "cam_reached w \<Longrightarrow> cam_inv w"
proof (induction rule: cam_reached.induct)
  case (bound w)
  with probe_unheld [of w] show ?case by (simp add: wp_def unheld_def)
qed (blast intro: keepsD [OF set_stream_inv] keepsD [OF ctrl_inv])+

lemma remove_outcome:
  assumes "cam_inv w"
  shows "wp hi1337_remove (\<lambda>_ w'. \<forall>x. holds x (hist w') = 0) w"
proof -
  from assms obtain b v where st: "in_state b b v [1, 1, 1, 1, 0, 0, 0] w" by (auto simp: cam_inv_def)
  have off: "wp hi1337_power_off (\<lambda>_ w'. \<forall>x. holds x (hist w') = 0) w'"
    if "in_state b b v [0, 0, 0, 0, 0, 0, 0] w'" for w'
    using power_off_outcome [OF that] by (rule wp_mono) (simp add: all_held state_defs)
  show ?thesis unfolding hi1337_remove_def
    by (intro wp_bindI wp_tellI wp_getsI wp_ifI wp_returnI off) (use st in \<open>auto simp: state_defs all_held\<close>)
qed

subsection \<open>Exposure\<close>

text \<open>The range of the exposure as last set, and the number of lines of a frame as last written.\<close>

fun exposure_range :: "cam_history \<Rightarrow> (int \<times> int) option" where
  "exposure_range [] = None"
| "exposure_range ((Modify_Range lo hi df, a) # h) = Some (lo, hi)"
| "exposure_range (x # h) = exposure_range h"

definition lines_of :: "u8 list \<Rightarrow> int option" where
  "lines_of bs = (case bs of [rh, rl, vh, vl] \<Rightarrow> if rh = 0x02 \<and> rl = 0x0E then Some (256 * uint vh + uint vl) else None
     | _ \<Rightarrow> None)"

fun frame_lines :: "cam_history \<Rightarrow> int option" where
  "frame_lines [] = None"
| "frame_lines ((Send bs, a) # h) = (case lines_of bs of Some n \<Rightarrow> if fst a = 4 then Some n else None | None \<Rightarrow> frame_lines h)"
| "frame_lines (x # h) = frame_lines h"

lemma be16_value:
  assumes "0 \<le> v" "v < 65536"
  shows "256 * uint (ucast (drop_bit 8 (word_of_int v :: u16)) :: u8) + uint (ucast (word_of_int v :: u16) :: u8) = v"
  using assms
  by (simp add: unsigned_ucast_eq uint_word_of_int take_bit_eq_mod drop_bit_eq_div uint_div)

definition modules :: "hi1337_mode list" where
  "modules = [hi1337_rear, hi1337_front, hi1337_front_uw]"

lemma apply_exposure:
  "wp (apply_ctrl EXPOSURE x) (\<lambda>_ w'. exposure_range (hist w') = exposure_range (hist w) \<and> dev w' = dev w) w"
  unfolding apply_ctrl_def hi1337_write_reg_def
  by (intro wp_bindI wp_getsI wp_ifI wp_returnI wp_askI) simp_all

lemma modify_range_outcome:
  "wp (modify_range val) (\<lambda>_ w'. exposure_range (hist w') = Some (4, exposure_max (variant (dev w)) val) \<and> dev w' = dev w) w"
  unfolding modify_range_def
  by (intro wp_bindI wp_getsI wp_LetI wp_askI wp_callI)
    (auto split: cam_data.splits list.splits prod.splits intro!: wp_bindI wp_returnI wp_mono [OF apply_exposure])

lemma frame_length_outcome:
  assumes "0 \<le> height (variant (dev w)) + val" "height (variant (dev w)) + val \<le> 0x7FFF"
  shows "wp (apply_ctrl VBLANK val) (\<lambda>ret w'. exposure_range (hist w') = exposure_range (hist w) \<and>
    (streaming (dev w) \<and> ret = 0 \<longrightarrow> frame_lines (hist w') = Some (height (variant (dev w)) + val))) w"
  unfolding apply_ctrl_def hi1337_write_reg_def
  using assms be16_value [of "height (variant (dev w)) + val"]
  by (intro wp_bindI wp_getsI wp_ifI wp_returnI wp_askI)
    (auto simp: be16_def lines_of_def u32_of_def)

text \<open>No table touches the register that starts the sensor.\<close>

definition quiet_table :: "(u16 \<times> u16) list \<Rightarrow> bool" where
  "quiet_table t = list_all (\<lambda>x. fst x \<noteq> HI1337_REG_MODE_SELECT) t"

lemma quiet_global: "quiet_table hi1337_global_regs"
  unfolding hi1337_global_regs_def quiet_table_def list_all_append
  by (intro conjI; code_simp)

lemma quiet_modules: "list_all (\<lambda>m. quiet_table (regs m)) modules"
  by code_simp

subsection \<open>Properties\<close>

text \<open>
  C21. Power follows the stream: in every reachable state, under every behaviour of the bus, the regulators and
  the control framework, supplies, clock and reset line are held exactly while the sensor streams (and
  then it is out of reset), the enable line at most then, and every transfer was made to a sensor that
  was powered, clocked and out of reset.
\<close>

theorem camera_power_follows_stream:
  assumes "cam_reached w"
  shows "obeys cam_policy (hist w) \<and> list_all (\<lambda>x. holds x (hist w) = of_bool (streaming (dev w))) [Supplies, Clock, Line Reset_Line] \<and>
    holds (Line Enable_Line) (hist w) = of_bool (enable_gpio (dev w)) \<and> (enable_gpio (dev w) \<longrightarrow> streaming (dev w)) \<and>
    (streaming (dev w) \<longrightarrow> awake (hist w))"
  using cam_reached_inv [OF assms] by (auto simp: cam_inv_def in_state_def cam_core_def awake_def)

definition cam_world0 :: cam_world where
  "cam_world0 = \<lparr>dev = \<lparr>enable_gpio = False, reset_gpio = False, variant = hi1337_rear, streaming = False\<rparr>, hist = [],
     env = \<lambda>h e. (case e of Take (Line k) \<Rightarrow> (1, Nothing) | Take Endpoint \<Rightarrow> (0, Lanes 4 [360200000])
       | Send bs \<Rightarrow> (4, Nothing) | Transfer_Read r \<Rightarrow> (2, Value 0x1336) | Match_Data \<Rightarrow> (1, Nothing)
       | Clock_Rate \<Rightarrow> (19200000, Nothing) | References x \<Rightarrow> (- 2, Count 1) | _ \<Rightarrow> (0, Nothing))\<rparr>"

lemmas probe_defs = hi1337_probe_def probe_hardware_def hi1337_check_hwcfg_def hi1337_power_on_def power_module_def
  probe_sensor_def hi1337_identify_def hi1337_read_reg_def hi1337_init_controls_def probe_lenses_def
  hi1337_parse_lenses_def parse_property_def hi1337_power_off_def probe_power_off_def match_data_def ask_def tell_def
  Let_def

lemma reached_cam: "cam_reached (exec hi1337_probe cam_world0)"
proof (rule cam_reached.bound)
  show "result hi1337_probe cam_world0 = 0" by (simp add: probe_defs cam_world0_def)
qed (simp add: cam_world0_def)

theorem camera_power_follows_stream_witness:
  "obeys cam_policy (hist (exec (hi1337_set_stream True) (exec hi1337_probe cam_world0)))"
  using camera_power_follows_stream [OF cam_reached.streamed [OF reached_cam]] by blast

text \<open>
  C38. Binding gives back what it takes: after its removal, from any reachable state, the driver holds nothing;
  and after a probe that failed it holds nothing either, with one exception, the handler of the controls,
  which it still holds exactly if making the controls failed after the handler had been made.
\<close>

theorem camera_binding_balanced:
  "(cam_reached w \<longrightarrow> (\<forall>x. holds x (hist (exec hi1337_remove w)) = 0)) \<and>
   (hist w = [] \<and> result hi1337_probe w \<noteq> 0 \<longrightarrow>
     (\<forall>x. holds x (hist (exec hi1337_probe w)) = of_bool (x = Handler \<and> ctrl_failed (hist (exec hi1337_probe w)))))"
proof (intro conjI impI)
  assume "cam_reached w"
  from remove_outcome [OF cam_reached_inv [OF this]] show "\<forall>x. holds x (hist (exec hi1337_remove w)) = 0"
    by (simp add: wp_def)
next
  assume "hist w = [] \<and> result hi1337_probe w \<noteq> 0"
  then show "\<forall>x. holds x (hist (exec hi1337_probe w)) = of_bool (x = Handler \<and> ctrl_failed (hist (exec hi1337_probe w)))"
    using probe_unheld [of w] by (simp add: wp_def unheld_def)
qed

text \<open>A device tree whose properties of the camera cannot be read.\<close>

definition cam_world1 :: cam_world where
  "cam_world1 = cam_world0\<lparr>env := \<lambda>h e. if e = Device_Parse then (- 22, Nothing) else env cam_world0 h e\<rparr>"

theorem camera_binding_balanced_witness:
  "holds Supplies (hist (exec hi1337_probe cam_world1)) = 0 \<and> holds Handler (hist (exec hi1337_probe cam_world1)) = 1"
proof -
  have "result hi1337_probe cam_world1 \<noteq> 0" by (simp add: probe_defs cam_world1_def cam_world0_def)
  moreover have "ctrl_failed (hist (exec hi1337_probe cam_world1))" by (simp add: probe_defs cam_world1_def cam_world0_def)
  moreover have "hist cam_world1 = []" by (simp add: cam_world1_def cam_world0_def)
  ultimately show ?thesis using camera_binding_balanced [of cam_world1] by simp
qed

text \<open>
  C39. An exposure is shorter than its frame: setting the vertical blanking, for any of the three modules and any
  value in the range of that control, in any state, limits the exposure to at least four lines and at
  most four lines less than the frame; and on a sensor that streams the frame length written, if
  the write succeeds, is that of the limit, whole and at most \<open>0x7FFF\<close>.
\<close>

theorem exposure_fits_frame:
  assumes "m \<in> set modules" "variant (dev w) = m" "frame_length m - height m \<le> val" "val \<le> 0x7FFF - height m"
  shows "wp (hi1337_set_ctrl VBLANK val) (\<lambda>ret w'. exposure_range (hist w') = Some (4, height m + val - 4) \<and>
    4 \<le> height m + val - 4 \<and> height m + val \<le> 0x7FFF \<and>
    (streaming (dev w) \<and> ret = 0 \<longrightarrow> frame_lines (hist w') = Some (height m + val))) w"
proof -
  have m: "4 \<le> frame_length m - 4" "0 \<le> height m" "frame_length m \<le> height m + val" "height m + val \<le> 0x7FFF"
    using assms by (auto simp: modules_def hi1337_rear_def hi1337_front_def hi1337_front_uw_def)
  then have e: "exposure_max m val = height m + val - 4" by (simp add: exposure_max_def u32_of_def)
  have "wp (apply_ctrl VBLANK val) (\<lambda>ret w''. exposure_range (hist w'') = Some (4, height m + val - 4) \<and>
      (streaming (dev w) \<and> ret = 0 \<longrightarrow> frame_lines (hist w'') = Some (height m + val))) w'"
    if "exposure_range (hist w') = Some (4, exposure_max (variant (dev w)) val) \<and> dev w' = dev w" for w'
    using that m assms(2) by (intro wp_mono [OF frame_length_outcome]) (auto simp: e)
  note step = this
  show ?thesis unfolding hi1337_set_ctrl_def
    by (intro wp_bindI, simp, rule wp_mono [OF modify_range_outcome], rule wp_mono [OF step]) (use m in auto)
qed

theorem exposure_fits_frame_witness:
  "wp (hi1337_set_ctrl VBLANK 200) (\<lambda>ret w'. exposure_range (hist w') = Some (4, 3292)) cam_world0"
  using exposure_fits_frame [of hi1337_rear cam_world0 200]
  by (auto simp: modules_def cam_world0_def hi1337_rear_def wp_def)

text \<open>
  The register tables agree with the driver's figures: for each module the table sets the frame length and the
  exposure to the defaults of the blanking and exposure controls, and neither it nor the shared table
  touches the register that starts the sensor.
\<close>

lemma tables_agree:
  "quiet_table hi1337_global_regs \<and> list_all (\<lambda>m. quiet_table (regs m) \<and>
     map_of (rev (regs m)) HI1337_REG_FRAME_LENGTH = Some (word_of_int (frame_length m)) \<and>
     map_of (rev (regs m)) HI1337_REG_EXPOSURE = Some (word_of_int (frame_length m - HI1337_EXPOSURE_MARGIN))) modules"
proof
  have "list_all (\<lambda>m. map_of (rev (regs m)) HI1337_REG_FRAME_LENGTH = Some (word_of_int (frame_length m)) \<and>
     map_of (rev (regs m)) HI1337_REG_EXPOSURE = Some (word_of_int (frame_length m - HI1337_EXPOSURE_MARGIN))) modules"
    by code_simp
  with quiet_modules show "list_all (\<lambda>m. quiet_table (regs m) \<and>
     map_of (rev (regs m)) HI1337_REG_FRAME_LENGTH = Some (word_of_int (frame_length m)) \<and>
     map_of (rev (regs m)) HI1337_REG_EXPOSURE = Some (word_of_int (frame_length m - HI1337_EXPOSURE_MARGIN))) modules"
    by (simp add: list_all_iff)
qed (rule quiet_global)

end
