(* ===== verification/Autofocus.thy ===== *)
theory Autofocus
  imports Complex_Main Calls
begin

text \<open>
  The focus tool of the rear camera (\<open>tools/gts9wifi-autofocus.c\<close>): the sharpness and brightness of a frame, the
  capture of frames, a small exposure control, and the search for the sharpest position of the lens.

  A \<open>double\<close> is a rational number here. Sums of squares stay below \<open>2 ^ 53\<close> and are exact in both; quotients
  are rounded by the program and not here.
\<close>

subsection \<open>Frames\<close>

abbreviation (input) WIDTH :: nat where "WIDTH \<equiv> 4128"
abbreviation (input) HEIGHT :: nat where "HEIGHT \<equiv> 3096"
abbreviation (input) STRIDE :: nat where "STRIDE \<equiv> 5168"
abbreviation (input) VALID :: nat where "VALID \<equiv> 5160"
abbreviation (input) NUM_BUFS :: nat where "NUM_BUFS \<equiv> 4"
abbreviation (input) FOCUS_MIN :: int where "FOCUS_MIN \<equiv> 0"
abbreviation (input) FOCUS_MAX :: int where "FOCUS_MAX \<equiv> 1023"
abbreviation (input) SETTLE_FRAMES :: nat where "SETTLE_FRAMES \<equiv> 3"
abbreviation (input) MEASURE_FRAMES :: nat where "MEASURE_FRAMES \<equiv> 2"
abbreviation (input) GW :: nat where "GW \<equiv> 8"
abbreviation (input) GH :: nat where "GH \<equiv> 6"
abbreviation (input) GW_TOP :: nat where "GW_TOP \<equiv> 12"

text \<open>The bytes of a frame by their offset.\<close>

type_synonym frame = "nat \<Rightarrow> u8"

text \<open>The rows of a block, and the offsets of the left one of two neighbours in it.\<close>

definition every :: "nat \<Rightarrow> nat \<Rightarrow> nat \<Rightarrow> nat list" where
  "every d lo n = map (\<lambda>k. lo + d * k) [0..<(n + d - 1) div d]"

definition block_offsets :: "nat \<Rightarrow> nat \<Rightarrow> nat \<Rightarrow> nat \<Rightarrow> nat list" where
  "block_offsets x0 y0 w h = concat (map (\<lambda>y. map (\<lambda>x. y * STRIDE + x) [x0..<x0 + w - 1]) (every 4 y0 h))"

definition gradient :: "frame \<Rightarrow> nat \<Rightarrow> int" where
  "gradient data i = (uint (data (i + 1)) - uint (data i)) ^ 2"

definition mean :: "int list \<Rightarrow> rat" where
  "mean xs = (if xs = [] then 0 else of_int (sum_list xs) / of_nat (length xs))"

definition block_fv :: "frame \<Rightarrow> nat \<Rightarrow> nat \<Rightarrow> nat \<Rightarrow> nat \<Rightarrow> rat" where
  "block_fv data x0 y0 w h = mean (map (gradient data) (block_offsets x0 y0 w h))"

definition blocks :: "(nat \<times> nat) list" where
  "blocks = concat (map (\<lambda>gy. map (\<lambda>gx. (gx * (WIDTH div GW), gy * (HEIGHT div GH))) [0..<GW]) [0..<GH])"

definition focus_value :: "frame \<Rightarrow> rat" where
  "focus_value data =
     (let fvs = map (\<lambda>(x, y). block_fv data x y (WIDTH div GW) (HEIGHT div GH)) blocks
      in sum_list (take GW_TOP (rev (sort fvs))) / of_nat GW_TOP)"

text \<open>Four samples of ten bits in five bytes.\<close>

definition samples :: "frame \<Rightarrow> nat \<Rightarrow> int list" where
  "samples data i = [
     uint (data i) OR push_bit 8 (uint (data (i + 4)) AND 0x03),
     uint (data (i + 1)) OR push_bit 6 (uint (data (i + 4)) AND 0x0C),
     uint (data (i + 2)) OR push_bit 4 (uint (data (i + 4)) AND 0x30),
     uint (data (i + 3)) OR push_bit 2 (uint (data (i + 4)) AND 0xC0)]"

definition luma_offsets :: "nat list" where
  "luma_offsets = concat (map (\<lambda>y. map (\<lambda>g. y * STRIDE + g * 5) [0..<VALID div 5]) (every 24 0 HEIGHT))"

definition mean_luma :: "frame \<Rightarrow> rat" where
  "mean_luma data = mean (concat (map (samples data) luma_offsets))"

subsection \<open>Calls\<close>

datatype af_ctrl = Focus_Absolute | Exposure | Analogue_Gain

datatype af_event =
  Open_File string
| Close_File
| S_Ctrl af_ctrl int
| S_Fmt
| Reqbufs
| Querybuf nat
| Mmap nat
| Munmap nat
| Qbuf
| Dqbuf
| Stream_On
| Stream_Off

text \<open>An answer is a result and, for a buffer that is dequeued, its frame. Interrupted calls are repeated.\<close>

type_synonym af_answer = "int \<times> frame"
type_synonym af_history = "(af_event \<times> af_answer) list"

record camera =
  exposure :: int
  gain :: int

type_synonym af_world = "(camera, af_event, af_answer) world"
type_synonym 'a af_io = "(af_world, 'a) state"

definition ctrl_set :: "af_ctrl \<Rightarrow> int \<Rightarrow> int af_io" where
  "ctrl_set c v = ask (S_Ctrl c v)"

subsection \<open>Capture\<close>

primrec map_buffers :: "nat list \<Rightarrow> int af_io" where
  "map_buffers [] = return 0"
| "map_buffers (i # is) = do {
     ret \<leftarrow> ask (Querybuf i);
     if ret < 0 then return (- 1)
     else do {
       ret \<leftarrow> ask (Mmap i);
       if ret < 0 then return (- 1)
       else do {
         ret \<leftarrow> ask Qbuf;
         if ret < 0 then return (- 1) else map_buffers is
       }
     }
   }"

definition camera_start :: "int af_io" where
  "camera_start = do {
     fd \<leftarrow> ask (Open_File ''/dev/video0'');
     if fd < 0 then return (- 1)
     else do {
       ret \<leftarrow> ask S_Fmt;
       if ret < 0 then return (- 1)
       else do {
         ret \<leftarrow> ask Reqbufs;
         if ret < 0 then return (- 1)
         else do {
           ret \<leftarrow> map_buffers [0..<NUM_BUFS];
           if ret < 0 then return (- 1)
           else do {
             ret \<leftarrow> ask Stream_On;
             return (if ret < 0 then - 1 else 0)
           }
         }
       }
     }
   }"

primrec unmap_buffers :: "nat list \<Rightarrow> unit af_io" where
  "unmap_buffers [] = return ()"
| "unmap_buffers (i # is) = do { tell (Munmap i); unmap_buffers is }"

definition camera_stop :: "unit af_io" where
  "camera_stop = do { tell Stream_Off; unmap_buffers [0..<NUM_BUFS]; tell Close_File }"

text \<open>The result and what the function makes of the frame.\<close>

definition camera_frame :: "(frame \<Rightarrow> rat) \<Rightarrow> (int \<times> rat) af_io" where
  "camera_frame fn = do {
     a \<leftarrow> call Dqbuf;
     if fst a < 0 then return (- 1, 0)
     else do {
       ret \<leftarrow> ask Qbuf;
       return (if ret < 0 then - 1 else 0, fn (snd a))
     }
   }"

primrec discard :: "nat \<Rightarrow> int af_io" where
  "discard 0 = return 0"
| "discard (Suc n) = do {
     (ret, _) \<leftarrow> camera_frame (\<lambda>_. 0);
     if ret < 0 then return (- 1) else discard n
   }"

primrec measure_loop :: "nat \<Rightarrow> (frame \<Rightarrow> rat) \<Rightarrow> rat \<Rightarrow> rat af_io" where
  "measure_loop 0 fn acc = return (acc / of_nat MEASURE_FRAMES)"
| "measure_loop (Suc n) fn acc = do {
     (ret, v) \<leftarrow> camera_frame fn;
     if ret < 0 then return (- 1) else measure_loop n fn (acc + v)
   }"

definition measure_value :: "(frame \<Rightarrow> rat) \<Rightarrow> rat af_io" where
  "measure_value fn = do {
     ret \<leftarrow> discard SETTLE_FRAMES;
     if ret < 0 then return (- 1) else measure_loop MEASURE_FRAMES fn 0
   }"

subsection \<open>Exposure\<close>

text \<open>The next exposure and gain for a mean outside the band, or none if there is nothing left to change.\<close>

definition adjust :: "rat \<Rightarrow> camera \<Rightarrow> camera option" where
  "adjust m cam =
     (if m < 300 then
        (if exposure cam < 3260 then Some (cam\<lparr>exposure := min (exposure cam + exposure cam sdiv 4 + 16) 3260\<rparr>)
         else if gain cam < 240 then Some (cam\<lparr>gain := min (gain cam + 24) 240\<rparr>)
         else None)
      else
        (if 4 < exposure cam then Some (cam\<lparr>exposure := max (exposure cam - exposure cam sdiv 4) 4\<rparr>)
         else if 0 < gain cam then Some (cam\<lparr>gain := max (gain cam - 24) 0\<rparr>)
         else None))"

primrec exposure_loop :: "nat \<Rightarrow> int af_io" where
  "exposure_loop 0 = return 0"
| "exposure_loop (Suc n) = do {
     m \<leftarrow> measure_value mean_luma;
     if m < 0 then return (- 1)
     else if 300 \<le> m \<and> m \<le> 700 then return 0
     else do {
       cam \<leftarrow> gets id;
       case adjust m cam of
         None \<Rightarrow> return 0
       | Some cam' \<Rightarrow> do {
           modify (\<lambda>_. cam');
           _ \<leftarrow> ctrl_set Exposure (exposure cam');
           _ \<leftarrow> ctrl_set Analogue_Gain (gain cam');
           exposure_loop n
         }
     }
   }"

definition auto_exposure :: "int af_io" where
  "auto_exposure = exposure_loop 10"

subsection \<open>Search\<close>

definition set_focus :: "int \<Rightarrow> int af_io" where
  "set_focus pos = ctrl_set Focus_Absolute (min (max pos FOCUS_MIN) FOCUS_MAX)"

record sample =
  pos :: int
  fv :: rat

definition probe :: "int \<Rightarrow> sample af_io" where
  "probe p = do {
     ret \<leftarrow> set_focus p;
     if ret < 0 then return \<lparr>pos = p, fv = - 1\<rparr>
     else do {
       v \<leftarrow> measure_value focus_value;
       return \<lparr>pos = p, fv = v\<rparr>
     }
   }"

function coarse_loop :: "int \<Rightarrow> sample \<Rightarrow> rat \<Rightarrow> (sample \<times> rat) af_io" where
  "coarse_loop p best worst = (if p > FOCUS_MAX then return (best, worst)
     else do {
       s \<leftarrow> probe p;
       coarse_loop (p + 128) (if fv s > fv best then s else best) (if fv s < worst then fv s else worst)
     })"
  by auto
termination
  by (relation "measure (\<lambda>(p, best, worst). nat (1024 - p))") auto

text \<open>One pass over the bracket. Its step is at least two.\<close>

function bracket_loop :: "int \<Rightarrow> int \<Rightarrow> sample \<Rightarrow> int \<Rightarrow> sample \<Rightarrow> sample af_io" where
  "bracket_loop half hi best p here = (if p > hi \<or> half \<le> 0 then return here
     else if p < FOCUS_MIN \<or> p > FOCUS_MAX \<or> p = pos best then bracket_loop half hi best (p + half) here
     else do {
       s \<leftarrow> probe p;
       bracket_loop half hi best (p + half) (if fv s > fv here then s else here)
     })"
  by auto
termination
  by (relation "measure (\<lambda>(half, hi, best, p, here). nat (hi + 1 - p))") auto

declare coarse_loop.simps [simp del] bracket_loop.simps [simp del]

text \<open>The refinement, with fuel for its rounds.\<close>

primrec refine :: "nat \<Rightarrow> int \<Rightarrow> sample \<Rightarrow> sample option af_io" where
  "refine 0 step best = return None"
| "refine (Suc n) step best = (if step < 4 then return (Some best)
     else do {
       here \<leftarrow> bracket_loop (step div 2) (pos best + step) best (pos best - step) best;
       if fv here > fv best then refine n step here else refine n (step div 2) best
     })"

text \<open>
  \<open>best.fv / worst < 1.05\<close>. A quotient by zero is infinite or not a number, and below the bound only if it is
  negative.
\<close>

definition flat :: "rat \<Rightarrow> rat \<Rightarrow> bool" where
  "flat best worst = (if worst = 0 then best < 0 else best / worst < 105 / 100)"

definition search :: "nat \<Rightarrow> int option af_io" where
  "search n = do {
     (best, worst) \<leftarrow> coarse_loop FOCUS_MIN \<lparr>pos = - 1, fv = - 1\<rparr> (10 ^ 30);
     if flat (fv best) worst then do { _ \<leftarrow> set_focus (pos best); return (Some 0) }
     else do {
       r \<leftarrow> refine n 128 best;
       case r of
         None \<Rightarrow> return None
       | Some best \<Rightarrow> do { _ \<leftarrow> set_focus (pos best); return (Some 0) }
     }
   }"

subsection \<open>The program\<close>

text \<open>\<open>atoi\<close>: blanks, a sign, and as many digits as there are.\<close>

definition is_digit :: "char \<Rightarrow> bool" where
  "is_digit c = (48 \<le> (of_char c :: nat) \<and> (of_char c :: nat) \<le> 57)"

definition number_of :: "string \<Rightarrow> int" where
  "number_of cs = foldl (\<lambda>n c. 10 * n + (of_char c - 48)) 0 (takeWhile is_digit cs)"

definition is_blank :: "char \<Rightarrow> bool" where
  "is_blank c = ((of_char c :: nat) = 32 \<or> (9 \<le> (of_char c :: nat) \<and> (of_char c :: nat) \<le> 13))"

definition atoi :: "string \<Rightarrow> int" where
  "atoi str = (case dropWhile is_blank str of
     [] \<Rightarrow> 0
   | c # cs \<Rightarrow> if c = CHR ''-'' then - number_of cs else if c = CHR ''+'' then number_of cs else number_of (c # cs))"

record options =
  only_pos :: int
  opt_exposure :: int
  opt_gain :: int

fun parse_args :: "string list \<Rightarrow> options \<Rightarrow> options option" where
  "parse_args [] opts = Some opts"
| "parse_args [x] opts = None"
| "parse_args (x # y # args) opts =
     (if x = ''-p'' then parse_args args (opts\<lparr>only_pos := atoi y\<rparr>)
      else if x = ''-g'' then parse_args args (opts\<lparr>opt_gain := atoi y\<rparr>)
      else if x = ''-e'' then parse_args args (opts\<lparr>opt_exposure := atoi y\<rparr>)
      else None)"

text \<open>The exit status; none if the fuel of the search does not suffice.\<close>

definition run_camera :: "nat \<Rightarrow> int option af_io" where
  "run_camera n = do {
     cam \<leftarrow> gets id;
     _ \<leftarrow> ctrl_set Exposure (exposure cam);
     _ \<leftarrow> ctrl_set Analogue_Gain (gain cam);
     ret \<leftarrow> camera_start;
     if ret < 0 then return (Some 1)
     else do {
       ret \<leftarrow> auto_exposure;
       r \<leftarrow> (if ret < 0 then return (Some 1) else search n);
       camera_stop;
       return r
     }
   }"

definition main :: "nat \<Rightarrow> string list \<Rightarrow> int option af_io" where
  "main n args = (case parse_args args \<lparr>only_pos = - 1, opt_exposure = 3260, opt_gain = 64\<rparr> of
     None \<Rightarrow> return (Some 1)
   | Some opts \<Rightarrow> do {
       modify (\<lambda>_. \<lparr>exposure = opt_exposure opts, gain = opt_gain opts\<rparr>);
       ret \<leftarrow> ask (Open_File ''/dev/v4l-subdev31'');
       if ret < 0 then return (Some 1)
       else do {
         ret \<leftarrow> ask (Open_File ''/dev/v4l-subdev30'');
         if ret < 0 then return (Some 1)
         else if 0 \<le> only_pos opts then do {
           ret \<leftarrow> set_focus (only_pos opts);
           return (Some (if ret < 0 then 1 else 0))
         }
         else run_camera n
       }
     })"

end
