(* ===== verification/Autofocus_Contracts.thy ===== *)
theory Autofocus_Contracts
  imports Autofocus
begin

text \<open>
  What the focus tool promises: its measures stay in their ranges and in the frame, exposure and gain stay in
  the sensor's ranges, and over a scene that does not move the search ends at a position sharper than
  every coarse one and than its neighbours.
\<close>

subsection \<open>Measures\<close>

lemma byte_range: "0 \<le> uint (b :: u8)" "uint (b :: u8) \<le> 255"
  using unsigned_less [of b, where ?'a = int] by simp_all

lemma gradient_range: "0 \<le> gradient data i" "gradient data i \<le> 65025"
proof -
  have "\<bar>uint (data (i + 1)) - uint (data i)\<bar> \<le> 255"
    using byte_range [of "data (i + 1)"] byte_range [of "data i"] by linarith
  then have "\<bar>uint (data (i + 1)) - uint (data i)\<bar> ^ 2 \<le> 255 ^ 2" by (intro power_mono) simp_all
  then show "gradient data i \<le> 65025" by (simp add: gradient_def)
qed (simp add: gradient_def)

lemma sum_list_range:
  fixes xs :: "'a::linordered_semidom list"
  assumes "\<And>x. x \<in> set xs \<Longrightarrow> 0 \<le> x \<and> x \<le> m"
  shows "0 \<le> sum_list xs \<and> sum_list xs \<le> of_nat (length xs) * m"
  using assms
proof (induction xs)
  case (Cons x xs)
  then have "0 \<le> sum_list xs \<and> sum_list xs \<le> of_nat (length xs) * m" "0 \<le> x \<and> x \<le> m" by auto
  then show ?case by (auto simp: algebra_simps add_mono)
qed simp

lemma mean_range:
  assumes "\<And>x. x \<in> set xs \<Longrightarrow> 0 \<le> x \<and> x \<le> m" "0 \<le> m"
  shows "0 \<le> mean xs \<and> mean xs \<le> of_int m"
proof (cases "xs = []")
  case False
  have "0 \<le> sum_list xs \<and> sum_list xs \<le> int (length xs) * m"
    using sum_list_range [of xs m] assms(1) by simp
  then have "0 \<le> (of_int (sum_list xs) :: rat) \<and> (of_int (sum_list xs) :: rat) \<le> of_int (int (length xs) * m)"
    by (metis of_int_0_le_iff of_int_le_iff)
  with False show ?thesis by (simp add: mean_def field_simps)
qed (use assms(2) in \<open>simp add: mean_def\<close>)

lemma block_fv_range: "0 \<le> block_fv data x y w h" "block_fv data x y w h \<le> 65025"
  using mean_range [of "map (gradient data) (block_offsets x y w h)" 65025] gradient_range [of data]
  by (auto simp: block_fv_def)

lemma length_blocks: "length blocks = 48"
  by (simp add: blocks_def length_concat comp_def sum_list_triv)

lemma focus_value_range: "0 \<le> focus_value data" "focus_value data \<le> 65025"
proof -
  let ?vs = "map (\<lambda>(x, y). block_fv data x y (WIDTH div GW) (HEIGHT div GH)) blocks"
  have len: "length (take 12 (rev (sort ?vs))) = 12" using length_blocks by simp
  have "v \<in> set (take 12 (rev (sort ?vs))) \<Longrightarrow> 0 \<le> v \<and> v \<le> 65025" for v
    using set_take_subset [of 12 "rev (sort ?vs)"] block_fv_range [of data] by auto
  from sum_list_range [OF this] len
  have "0 \<le> sum_list (take 12 (rev (sort ?vs))) \<and> sum_list (take 12 (rev (sort ?vs))) \<le> 12 * 65025"
    by (metis of_nat_numeral)
  then show "0 \<le> focus_value data" "focus_value data \<le> 65025"
    unfolding focus_value_def Let_def by (auto simp: field_simps)
qed

lemma sample_range:
  assumes "v \<in> set (samples data i)"
  shows "0 \<le> v \<and> v \<le> 1023"
proof -
  have "0 \<le> uint a OR push_bit k (uint e AND m) \<and> uint a OR push_bit k (uint e AND m) < 2 ^ 10"
    if "0 \<le> m" "m * 2 ^ k < 1024" for a e :: u8 and m :: int and k
  proof -
    have "(uint e AND m) * 2 ^ k \<le> m * 2 ^ k" using that(1) by (simp add: AND_upper2)
    from this that(2) have "(uint e AND m) * 2 ^ k < 1024" by (rule le_less_trans)
    then have "push_bit k (uint e AND m) < 2 ^ 10" by (simp add: push_bit_eq_mult)
    moreover have "0 \<le> push_bit k (uint e AND m)" using that(1) by (simp add: push_bit_eq_mult)
    moreover have "uint a < 2 ^ 10" using byte_range(2) [of a] by simp
    ultimately show ?thesis by (intro conjI OR_upper) simp_all
  qed
  note range = this
  show ?thesis
    using assms range [where m = "0x03" and k = 8 and a = "data i" and e = "data (i + 4)"] range [where m = "0x0C" and k = 6 and a = "data (i + 1)" and e = "data (i + 4)"]
      range [where m = "0x30" and k = 4 and a = "data (i + 2)" and e = "data (i + 4)"] range [where m = "0xC0" and k = 2 and a = "data (i + 3)" and e = "data (i + 4)"]
    unfolding samples_def by fastforce
qed

lemma mean_luma_range: "0 \<le> mean_luma data" "mean_luma data \<le> 1023"
  using mean_range [of "concat (map (samples data) luma_offsets)" 1023] sample_range [of _ data]
  by (auto simp: mean_luma_def)

lemma every_bound: "0 < d \<Longrightarrow> y \<in> set (every d lo n) \<Longrightarrow> y < lo + n"
proof -
  assume "0 < d" "y \<in> set (every d lo n)"
  then obtain k where y: "y = lo + d * k" and k: "k < (n + d - 1) div d" by (auto simp: every_def)
  from k have "d * (k + 1) \<le> d * ((n + d - 1) div d)" by (intro mult_le_mono2) simp
  also have "\<dots> \<le> n + d - 1" by simp
  finally show ?thesis using y \<open>0 < d\<close> by (simp add: algebra_simps)
qed

lemma block_in_frame:
  assumes "(x, y) \<in> set blocks" "i \<in> set (block_offsets x y (WIDTH div GW) (HEIGHT div GH))"
  shows "i + 1 < STRIDE * HEIGHT"
proof -
  from assms(1) have b: "x \<le> 7 * 516" "y \<le> 5 * 516" by (auto simp: blocks_def)
  from assms(2) obtain r where i: "i < 515 + x + r * STRIDE" "r \<in> set (every 4 y 516)"
    by (auto simp: block_offsets_def)
  from every_bound [OF _ i(2)] b have "r \<le> 3095" by simp
  then have "r * STRIDE \<le> 3095 * STRIDE" by (rule mult_le_mono1)
  with i(1) b show ?thesis by simp
qed

lemma luma_in_frame:
  assumes "i \<in> set luma_offsets"
  shows "i + 4 < STRIDE * HEIGHT"
proof -
  from assms obtain r g where i: "i = r * STRIDE + g * 5" "r \<in> set (every 24 0 HEIGHT)" "g < VALID div 5"
    by (auto simp: luma_offsets_def)
  from every_bound [OF _ i(2)] have "r \<le> 3095" by simp
  then have "r * STRIDE \<le> 3095 * STRIDE" by (rule mult_le_mono1)
  with i(1,3) show ?thesis by simp
qed


text \<open>
  The measures of a frame: whatever its bytes, the sharpness lies between 0 and 65025 and the brightness between
  0 and 1023, so that neither can be mistaken for the \<open>- 1\<close> that reports a failure, and no byte beyond
  the frame's 3096 rows is looked at.
\<close>

lemma measures_in_range:
  "0 \<le> focus_value data \<and> focus_value data \<le> 65025 \<and> 0 \<le> mean_luma data \<and> mean_luma data \<le> 1023 \<and>
   list_all (\<lambda>(x, y). list_all (\<lambda>i. i + 1 < STRIDE * HEIGHT) (block_offsets x y (WIDTH div GW) (HEIGHT div GH))) blocks \<and>
   list_all (\<lambda>i. i + 4 < STRIDE * HEIGHT) luma_offsets"
  using focus_value_range [of data] mean_luma_range [of data] block_in_frame luma_in_frame
  unfolding list_all_iff by blast

subsection \<open>Exposure\<close>

text \<open>A camera in the ranges of its sensor, and a setting that is.\<close>

definition in_limits :: "camera \<Rightarrow> bool" where
  "in_limits cam = (4 \<le> exposure cam \<and> exposure cam \<le> 3260 \<and> 0 \<le> gain cam \<and> gain cam \<le> 240)"

fun fair :: "af_event \<Rightarrow> bool" where
  "fair (S_Ctrl Exposure v) = (4 \<le> v \<and> v \<le> 3260)"
| "fair (S_Ctrl Analogue_Gain v) = (0 \<le> v \<and> v \<le> 240)"
| "fair (S_Ctrl Focus_Absolute v) = (0 \<le> v \<and> v \<le> 1023)"
| "fair _ = True"

definition frames_taken :: "af_history \<Rightarrow> nat" where
  "frames_taken h = length (filter (\<lambda>x. fst x = Dqbuf) h)"

lemma adjust_limits: "in_limits cam \<Longrightarrow> adjust m cam = Some cam' \<Longrightarrow> in_limits cam'"
  by (auto simp: adjust_def in_limits_def split: if_splits)

text \<open>What taking frames leaves behind.\<close>

definition took :: "nat \<Rightarrow> af_world \<Rightarrow> af_world \<Rightarrow> bool" where
  "took n w w' = (dev w' = dev w \<and> frames_taken (hist w') \<le> frames_taken (hist w) + n \<and>
     (list_all (\<lambda>x. fair (fst x)) (hist w) \<longrightarrow> list_all (\<lambda>x. fair (fst x)) (hist w')))"

lemma took_trans: "took n w w' \<Longrightarrow> took k w' w'' \<Longrightarrow> took (n + k) w w''"
  by (auto simp: took_def)

lemma took_mono: "took n w w' \<Longrightarrow> n \<le> k \<Longrightarrow> took k w w'"
  by (auto simp: took_def)

lemma took_refl [simp]: "took n w w"
  by (simp add: took_def)

lemma frame_took: "wp (camera_frame fn) (\<lambda>_. took 1 w) w"
  unfolding camera_frame_def by (intro wp_intros) (auto simp: took_def frames_taken_def)

lemma discard_took: "wp (discard n) (\<lambda>_. took n w) w"
proof (induction n arbitrary: w)
  case (Suc n)
  have "wp (discard n) (\<lambda>_. took (Suc n) w) w'" if "took 1 w w'" for w'
    by (rule wp_mono [OF Suc]) (use took_trans [OF that] in simp)
  then show ?case unfolding discard.simps
    by (intro wp_bindI, intro wp_mono [OF frame_took] wp_prodI wp_ifI wp_returnI) (auto intro: took_mono)
qed (auto intro!: wp_intros)

lemma measure_loop_took: "wp (measure_loop n fn acc) (\<lambda>_. took n w) w"
proof (induction n arbitrary: w acc)
  case (Suc n)
  have "wp (measure_loop n fn acc) (\<lambda>_. took (Suc n) w) w'" if "took 1 w w'" for w' acc
    by (rule wp_mono [OF Suc]) (use took_trans [OF that] in simp)
  then show ?case unfolding measure_loop.simps
    by (intro wp_bindI, intro wp_mono [OF frame_took] wp_prodI wp_ifI wp_returnI) (auto intro: took_mono)
qed (auto intro!: wp_intros)

lemma measure_took: "wp (measure_value fn) (\<lambda>_. took 5 w) w"
proof -
  have "wp (measure_loop 2 fn 0) (\<lambda>_. took 5 w) w'" if "took 3 w w'" for w'
    by (rule wp_mono [OF measure_loop_took]) (use took_trans [OF that, of 2] in simp)
  then show ?thesis unfolding measure_value_def
    by (intro wp_bindI, intro wp_mono [OF discard_took] wp_ifI wp_returnI) (auto intro: took_mono)
qed


text \<open>The exposure control.\<close>

definition exposed :: "nat \<Rightarrow> af_world \<Rightarrow> af_world \<Rightarrow> bool" where
  "exposed n w w' = (in_limits (dev w') \<and> frames_taken (hist w') \<le> frames_taken (hist w) + n \<and>
     (list_all (\<lambda>x. fair (fst x)) (hist w) \<longrightarrow> list_all (\<lambda>x. fair (fst x)) (hist w')))"

lemma exposed_took: "in_limits (dev w) \<Longrightarrow> took n w w' \<Longrightarrow> n \<le> k \<Longrightarrow> exposed k w w'"
  by (auto simp: exposed_def took_def)

lemma exposure_loop_outcome: "in_limits (dev w) \<Longrightarrow> wp (exposure_loop n) (\<lambda>_. exposed (5 * n) w) w"
proof (induction n arbitrary: w)
  case 0
  then show ?case by (auto intro!: wp_intros exposed_took)
next
  case (Suc n)
  have step: "wp (exposure_loop n) (\<lambda>_. exposed (5 * Suc n) w)
      (w'\<lparr>dev := cam', hist := (S_Ctrl Analogue_Gain (gain cam'), b) # (S_Ctrl Exposure (exposure cam'), a) # hist w'\<rparr>)"
    if "took 5 w w'" "in_limits cam'" for w' cam' a b
    by (rule wp_mono [OF Suc.IH]) (use that in \<open>auto simp: exposed_def took_def in_limits_def frames_taken_def\<close>)
  show ?case unfolding exposure_loop.simps ctrl_set_def
  proof (intro wp_bindI, rule wp_mono [OF measure_took], intro wp_ifI wp_bindI wp_returnI wp_getsI wp_optionI wp_modifyI wp_askI, goal_cases)
    case (4 m w' cam' a b)
    then have "in_limits cam'" using Suc.prems adjust_limits [of "dev w'" m cam'] by (simp add: took_def)
    with 4(1) step show ?case by simp
  qed (use Suc.prems in \<open>auto intro: exposed_took\<close>)
qed

subsection \<open>A scene that does not move\<close>

text \<open>The position of the lens.\<close>

fun lens_at :: "af_history \<Rightarrow> int" where
  "lens_at [] = 0"
| "lens_at ((S_Ctrl Focus_Absolute v, a) # h) = (if fst a < 0 then lens_at h else v)"
| "lens_at (x # h) = lens_at h"

text \<open>Every call succeeds, and what the camera sees depends on the position of the lens only.\<close>

definition still :: "(int \<Rightarrow> frame) \<Rightarrow> af_world \<Rightarrow> bool" where
  "still scene w = (\<forall>h e. 0 \<le> fst (env w h e) \<and> (e = Dqbuf \<longrightarrow> snd (env w h e) = scene (lens_at h)))"

lemma wp_ask_still:
  assumes "still scene w"
    and "\<And>a. 0 \<le> fst a \<Longrightarrow> still scene (w\<lparr>hist := (e, a) # hist w\<rparr>) \<Longrightarrow> Q (fst a) (w\<lparr>hist := (e, a) # hist w\<rparr>)"
  shows "wp (ask e) Q w"
  using assms by (simp add: wp_def ask_def still_def)

definition seen :: "(int \<Rightarrow> frame) \<Rightarrow> int \<Rightarrow> af_world \<Rightarrow> bool" where
  "seen scene p w = (still scene w \<and> lens_at (hist w) = p)"

lemma frame_seen:
  "seen scene p w \<Longrightarrow> wp (camera_frame fn) (\<lambda>r w'. r = (0, fn (scene p)) \<and> seen scene p w') w"
  by (auto simp: camera_frame_def wp_def ask_def seen_def still_def not_less)

lemma discard_seen: "seen scene p w \<Longrightarrow> wp (discard n) (\<lambda>r w'. r = 0 \<and> seen scene p w') w"
proof (induction n arbitrary: w)
  case (Suc n)
  show ?case unfolding discard.simps
    by (intro wp_bindI, rule wp_mono [OF frame_seen [OF Suc.prems]]) (auto intro: Suc.IH)
qed (auto intro!: wp_intros)

lemma measure_loop_seen:
  "seen scene p w \<Longrightarrow> wp (measure_loop n fn acc) (\<lambda>r w'. r = (acc + of_nat n * fn (scene p)) / 2 \<and> seen scene p w') w"
proof (induction n arbitrary: w acc)
  case (Suc n)
  show ?case unfolding measure_loop.simps
    by (intro wp_bindI, rule wp_mono [OF frame_seen [OF Suc.prems]])
      (auto intro!: wp_mono [OF Suc.IH] simp: algebra_simps)
qed (auto intro!: wp_intros)

lemma measure_seen:
  "seen scene p w \<Longrightarrow> wp (measure_value fn) (\<lambda>r w'. r = fn (scene p) \<and> seen scene p w') w"
  unfolding measure_value_def
  by (intro wp_bindI, rule wp_mono [OF discard_seen]) (auto intro!: wp_mono [OF measure_loop_seen])

lemma focus_seen:
  assumes "still scene w" "0 \<le> p" "p \<le> 1023"
  shows "wp (set_focus p) (\<lambda>r w'. 0 \<le> r \<and> seen scene p w') w"
  unfolding set_focus_def ctrl_set_def
  by (rule wp_ask_still [OF assms(1)]) (use assms(2,3) in \<open>simp add: seen_def\<close>)

text \<open>The sharpness at a position.\<close>

abbreviation (input) sharp :: "(int \<Rightarrow> frame) \<Rightarrow> int \<Rightarrow> rat" where
  "sharp scene p \<equiv> focus_value (scene p)"

lemma probe_seen:
  assumes "still scene w" "0 \<le> p" "p \<le> 1023"
  shows "wp (probe p) (\<lambda>s w'. s = \<lparr>pos = p, fv = sharp scene p\<rparr> \<and> still scene w') w"
  unfolding probe_def
  by (intro wp_bindI, rule wp_mono [OF focus_seen [OF assms]])
    (auto intro!: wp_bindI wp_returnI wp_mono [OF measure_seen] simp: seen_def)


subsection \<open>Search\<close>

text \<open>A sample that says how sharp the scene is at its position.\<close>

definition right_sample :: "(int \<Rightarrow> frame) \<Rightarrow> sample \<Rightarrow> bool" where
  "right_sample scene s = (0 \<le> pos s \<and> pos s \<le> 1023 \<and> fv s = sharp scene (pos s))"

text \<open>What a sweep over every 128th position from \<open>p\<close> on makes of the best and the worst value so far.\<close>

definition swept :: "(int \<Rightarrow> frame) \<Rightarrow> int \<Rightarrow> sample \<Rightarrow> rat \<Rightarrow> sample \<times> rat \<Rightarrow> bool" where
  "swept scene p best worst r = (fv best \<le> fv (fst r) \<and> (fst r = best \<or> right_sample scene (fst r)) \<and>
     0 \<le> snd r \<and> snd r \<le> worst \<and>
     (\<forall>j. p + 128 * int j \<le> 1023 \<longrightarrow> sharp scene (p + 128 * int j) \<le> fv (fst r) \<and> snd r \<le> sharp scene (p + 128 * int j)))"

lemma swept_step:
  assumes "0 \<le> p" "p \<le> 1023" "s = \<lparr>pos = p, fv = sharp scene p\<rparr>"
    and "swept scene (p + 128) (if fv s > fv best then s else best) (if fv s < worst then fv s else worst) r"
  shows "swept scene p best worst r"
proof -
  have "sharp scene (p + 128 * int j) \<le> fv (fst r) \<and> snd r \<le> sharp scene (p + 128 * int j)"
    if "p + 128 * int j \<le> 1023" for j
  proof (cases j)
    case 0
    with assms(3,4) show ?thesis by (auto simp: swept_def split: if_splits)
  next
    case (Suc i)
    then have eq: "p + 128 * int j = p + 128 + 128 * int i" by simp
    from assms(4) have "p + 128 + 128 * int i \<le> 1023 \<longrightarrow> sharp scene (p + 128 + 128 * int i) \<le> fv (fst r) \<and>
        snd r \<le> sharp scene (p + 128 + 128 * int i)" unfolding swept_def by blast
    with that show ?thesis unfolding eq by blast
  qed
  with assms show ?thesis by (auto simp: swept_def right_sample_def split: if_splits)
qed

lemma coarse_outcome:
  assumes "still scene w" "0 \<le> p" "0 \<le> worst"
  shows "wp (coarse_loop p best worst) (\<lambda>r w'. still scene w' \<and> swept scene p best worst r) w"
  using assms
proof (induction p best worst arbitrary: w rule: coarse_loop.induct)
  case (1 p best worst)
  show ?case
  proof (cases "p > 1023")
    case True
    with 1 show ?thesis by (subst coarse_loop.simps) (auto intro!: wp_returnI simp: swept_def)
  next
    case False
    let ?s = "\<lparr>pos = p, fv = sharp scene p\<rparr>"
    have w: "0 \<le> (if fv ?s < worst then fv ?s else worst)" using 1 focus_value_range by simp
    have "wp (coarse_loop (p + 128) (if fv ?s > fv best then ?s else best) (if fv ?s < worst then fv ?s else worst))
        (\<lambda>r w'. still scene w' \<and> swept scene p best worst r) w'" if "still scene w'" for w'
      by (rule wp_mono [OF 1(1) [OF False that _ w]]) (use False 1(3) swept_step [OF 1(3) _ refl] in auto)
    then show ?thesis
      using False 1(3) by (subst coarse_loop.simps) (auto intro!: wp_bindI wp_mono [OF probe_seen [OF 1(2)]])
  qed
qed

text \<open>What a pass over a bracket makes of the best sample so far.\<close>

definition passed :: "(int \<Rightarrow> frame) \<Rightarrow> int \<Rightarrow> int \<Rightarrow> sample \<Rightarrow> int \<Rightarrow> sample \<Rightarrow> sample \<Rightarrow> bool" where
  "passed scene half hi best p here s = (fv here \<le> fv s \<and> (s = here \<or> right_sample scene s) \<and>
     (\<forall>j. p + half * int j \<le> hi \<and> 0 \<le> p + half * int j \<and> p + half * int j \<le> 1023 \<and> p + half * int j \<noteq> pos best \<longrightarrow>
       sharp scene (p + half * int j) \<le> fv s))"

lemma passed_step:
  assumes "passed scene half hi best (p + half) here' s" "fv here \<le> fv here'" "here' = here \<or> right_sample scene here'"
    and "0 \<le> p \<Longrightarrow> p \<le> 1023 \<Longrightarrow> p \<noteq> pos best \<Longrightarrow> sharp scene p \<le> fv here'"
  shows "passed scene half hi best p here s"
proof -
  have "sharp scene (p + half * int j) \<le> fv s"
    if j: "p + half * int j \<le> hi" "0 \<le> p + half * int j" "p + half * int j \<le> 1023" "p + half * int j \<noteq> pos best" for j
  proof (cases j)
    case 0
    with j assms(1,4) show ?thesis by (auto simp: passed_def)
  next
    case (Suc i)
    then have eq: "p + half * int j = p + half + half * int i" by (simp add: algebra_simps)
    from assms(1) j show ?thesis unfolding eq passed_def by blast
  qed
  with assms(1-3) show ?thesis by (auto simp: passed_def)
qed

lemma bracket_outcome:
  assumes "still scene w" "0 < half"
  shows "wp (bracket_loop half hi best p here) (\<lambda>s w'. still scene w' \<and> passed scene half hi best p here s) w"
  using assms
proof (induction half hi best p here arbitrary: w rule: bracket_loop.induct)
  case (1 half hi best p here)
  consider "p > hi" | "p \<le> hi" "p < 0 \<or> p > 1023 \<or> p = pos best" | "p \<le> hi" "0 \<le> p" "p \<le> 1023" "p \<noteq> pos best"
    by linarith
  then show ?case
  proof cases
    case 1
    have "\<not> p + half * int j \<le> hi" for j
      using 1 "1.prems"(2) by (metis add_increasing2 less_le_trans mult_nonneg_nonneg not_less of_nat_0_le_iff order_less_imp_le order_trans)
    with 1 "1.prems" show ?thesis by (subst bracket_loop.simps) (auto intro!: wp_returnI simp: passed_def)
  next
    case 2
    with "1.IH"(1) [OF _ _ "1.prems"] "1.prems"(2) have
      "wp (bracket_loop half hi best (p + half) here) (\<lambda>s w'. still scene w' \<and> passed scene half hi best (p + half) here s) w" by simp
    then have "wp (bracket_loop half hi best (p + half) here) (\<lambda>s w'. still scene w' \<and> passed scene half hi best p here s) w"
      by (rule wp_mono) (use 2 passed_step [of scene half hi best p here _ here] in auto)
    with 2 "1.prems"(2) show ?thesis by (subst bracket_loop.simps) simp
  next
    case 3
    let ?s = "\<lparr>pos = p, fv = sharp scene p\<rparr>"
    let ?here = "if fv ?s > fv here then ?s else here"
    have h: "fv here \<le> fv ?here" "?here = here \<or> right_sample scene ?here" "sharp scene p \<le> fv ?here"
      using 3 by (auto simp: right_sample_def)
    have "wp (bracket_loop half hi best (p + half) ?here) (\<lambda>s w'. still scene w' \<and> passed scene half hi best p here s) w'"
      if "still scene w'" for w'
    proof (rule wp_mono)
      show "wp (bracket_loop half hi best (p + half) ?here)
          (\<lambda>s w'. still scene w' \<and> passed scene half hi best (p + half) ?here s) w'"
        using 3 "1.prems"(2) by (intro "1.IH"(2) that) auto
    qed (use passed_step [OF _ h(1,2)] h(3) in auto)
    then show ?thesis
      using 3 "1.prems" by (subst bracket_loop.simps) (auto intro!: wp_bindI wp_mono [OF probe_seen])
  qed
qed

text \<open>No sharper position among the next two on either side, two steps apart.\<close>

definition peak :: "(int \<Rightarrow> frame) \<Rightarrow> int \<Rightarrow> bool" where
  "peak scene p = list_all (\<lambda>q. 0 \<le> q \<and> q \<le> 1023 \<longrightarrow> sharp scene q \<le> sharp scene p) [p - 4, p - 2, p + 2, p + 4]"

lemma passed_peak:
  assumes "passed scene 2 (pos best + 4) best (pos best - 4) best here" "\<not> fv here > fv best" "right_sample scene best"
  shows "peak scene (pos best)"
proof -
  have le: "fv here \<le> sharp scene (pos best)" using assms(2,3) by (simp add: right_sample_def)
  have all: "sharp scene (pos best - 4 + 2 * int j) \<le> fv here"
    if "pos best - 4 + 2 * int j \<le> pos best + 4" "0 \<le> pos best - 4 + 2 * int j" "pos best - 4 + 2 * int j \<le> 1023"
      "pos best - 4 + 2 * int j \<noteq> pos best" for j
    using assms(1) that unfolding passed_def by blast
  from all [of 0] all [of 1] all [of 3] all [of 4] le show ?thesis
    by (auto simp: peak_def algebra_simps)
qed

text \<open>The positions sharper than a sample; each round of the refinement loses one of them or halves its step.\<close>

definition sharper :: "(int \<Rightarrow> frame) \<Rightarrow> sample \<Rightarrow> int set" where
  "sharper scene s = {q \<in> {0..1023}. sharp scene q > fv s}"

lemma finite_sharper [simp]: "finite (sharper scene s)"
  by (rule finite_subset [of _ "{0..1023}"]) (auto simp: sharper_def)

lemma sharper_less:
  assumes "right_sample scene s" "fv s > fv best"
  shows "card (sharper scene s) < card (sharper scene best)"
proof (rule psubset_card_mono)
  have "pos s \<in> sharper scene best" "pos s \<notin> sharper scene s" using assms by (simp_all add: sharper_def right_sample_def)
  moreover have "sharper scene s \<subseteq> sharper scene best" using assms(2) by (auto simp: sharper_def)
  ultimately show "sharper scene s \<subset> sharper scene best" by blast
qed simp

lemma card_sharper: "card (sharper scene s) \<le> 1024"
proof -
  have "card (sharper scene s) \<le> card {0..1023 :: int}" by (rule card_mono) (auto simp: sharper_def)
  then show ?thesis by simp
qed

lemma refine_outcome:
  assumes "still scene w" "right_sample scene best" "1 \<le> k" "k = 1 \<longrightarrow> peak scene (pos best)"
    "card (sharper scene best) + k < n + 1"
  shows "wp (refine n (2 ^ k) best) (\<lambda>r w'. still scene w' \<and>
    (\<exists>s. r = Some s \<and> right_sample scene s \<and> peak scene (pos s) \<and> fv best \<le> fv s)) w"
  using assms
proof (induction n arbitrary: w best k)
  case (Suc n)
  show ?case
  proof (cases "k = 1")
    case True
    with Suc.prems show ?thesis by (auto intro!: wp_returnI)
  next
    case False
    then have k: "2 \<le> k" using Suc.prems(3) by simp
    then obtain i where i: "k = Suc i" "1 \<le> i" by (cases k) auto
    have step: "(4 :: int) \<le> 2 ^ k" using power_increasing [of 2 k "2 :: int"] k by simp
    have half: "(2 :: int) ^ k div 2 = 2 ^ i" using i by simp
    have "wp (do { here \<leftarrow> bracket_loop (2 ^ i) (pos best + 2 ^ k) best (pos best - 2 ^ k) best;
        if fv here > fv best then refine n (2 ^ k) here else refine n (2 ^ i) best }) (\<lambda>r w'. still scene w' \<and>
        (\<exists>s. r = Some s \<and> right_sample scene s \<and> peak scene (pos s) \<and> fv best \<le> fv s)) w"
    proof (intro wp_bindI, rule wp_mono [OF bracket_outcome [OF Suc.prems(1)]], simp, intro wp_ifI, goal_cases)
      case (1 here w')
      then have h: "still scene w'" "right_sample scene here" by (auto simp: passed_def)
      from sharper_less [OF h(2) 1(2)] show ?case
        by (intro wp_mono [OF Suc.IH [OF h]]) (use Suc.prems False 1(2) in auto)
    next
      case (2 here w')
      have "i = 1 \<longrightarrow> peak scene (pos best)"
        using 2 i(1) passed_peak [OF _ 2(2) Suc.prems(2)] by auto
      with 2 i Suc.prems show ?case
        by (intro Suc.IH) auto
    qed
    with step show ?thesis unfolding refine.simps half by simp
  qed
qed simp

lemma search_outcome:
  assumes "still scene w" "1031 \<le> n"
  shows "wp (search n) (\<lambda>r w'. r = Some 0 \<and> (\<exists>p. seen scene p w' \<and> 0 \<le> p \<and> p \<le> 1023 \<and>
    (\<forall>j < 8. sharp scene (128 * int j) \<le> sharp scene p) \<and>
    (peak scene p \<or> (\<forall>j < 8. 100 * sharp scene p < 105 * sharp scene (128 * int j))))) w"
    (is "wp _ ?Q w")
  unfolding search_def
proof (intro wp_bindI, rule wp_mono [OF coarse_outcome [OF assms(1)]], simp, simp, rule wp_prodI, goal_cases)
  case (1 r w' best worst)
  then have st: "still scene w'" and sw: "swept scene 0 \<lparr>pos = - 1, fv = - 1\<rparr> (10 ^ 30) (best, worst)" by simp_all
  have all: "sharp scene (128 * int j) \<le> fv best \<and> worst \<le> sharp scene (128 * int j)" if "j < 8" for j
    using sw that unfolding swept_def by (auto dest!: spec [of _ j])
  have "fv best \<noteq> - 1" using all [of 0] focus_value_range(1) [of "scene 0"] by simp
  with sw have best: "right_sample scene best" by (auto simp: swept_def)
  have worst: "0 \<le> worst" using sw by (simp add: swept_def)
  have set: "wp (do { _ \<leftarrow> set_focus (pos s); return (Some 0) }) ?Q w''"
    if "still scene w''" "right_sample scene s" "fv best \<le> fv s"
      "peak scene (pos s) \<or> (\<forall>j < 8. 100 * sharp scene (pos s) < 105 * sharp scene (128 * int j))" for s w''
    using that all
    by (intro wp_bindI wp_mono [OF focus_seen [OF that(1)]] wp_returnI) (force simp: right_sample_def)+
  show ?case
  proof (intro wp_ifI wp_bindI)
    assume "flat (fv best) worst"
    then have "worst > 0" "fv best / worst < 105 / 100"
      using worst best focus_value_range(1) [of "scene (pos best)"] by (auto simp: flat_def right_sample_def split: if_splits)
    then have "100 * fv best < 105 * worst" by (simp add: field_simps)
    with all have "\<forall>j < 8. 100 * sharp scene (pos best) < 105 * sharp scene (128 * int j)"
      using best by (force simp: right_sample_def)
    from set [OF st best order_refl] this show "wp (set_focus (pos best)) (\<lambda>r. wp (return (Some 0)) ?Q) w'"
      by (simp add: wp_bind)
  next
    have fuel: "card (sharper scene best) + 7 < n + 1" using card_sharper [of scene best] assms(2) by simp
    have "wp (refine n (2 ^ 7) best) (\<lambda>r w'. still scene w' \<and>
      (\<exists>s. r = Some s \<and> right_sample scene s \<and> peak scene (pos s) \<and> fv best \<le> fv s)) w'"
      by (rule refine_outcome [OF st best _ _ fuel]) simp_all
    then show "wp (refine n 128 best) (\<lambda>r. wp (case r of None \<Rightarrow> return None
        | Some best \<Rightarrow> do { _ \<leftarrow> set_focus (pos best); return (Some 0) }) ?Q) w'"
      by simp (rule wp_mono, assumption, use set in auto)
  qed
qed


subsection \<open>The whole program over a still scene\<close>

lemma still_dev [simp]: "still scene (w\<lparr>dev := c\<rparr>) = still scene w"
  by (simp add: still_def)

lemma buffers_still: "still scene w \<Longrightarrow> wp (map_buffers xs) (\<lambda>r w'. r = 0 \<and> still scene w') w"
proof (induction xs arbitrary: w)
  case Nil
  then show ?case by (auto intro!: wp_returnI)
next
  case (Cons x xs)
  show ?case unfolding map_buffers.simps
    by (intro wp_bindI wp_ask_still [OF Cons.prems] wp_ifI wp_returnI wp_ask_still Cons.IH) auto
qed

lemma start_still:
  assumes "still scene w"
  shows "wp camera_start (\<lambda>r w'. r = 0 \<and> still scene w') w"
  unfolding camera_start_def
  by (intro wp_bindI wp_ask_still [OF assms] wp_ifI wp_returnI wp_ask_still wp_mono [OF buffers_still]; force)

lemma exposure_still: "still scene w \<Longrightarrow> wp (exposure_loop n) (\<lambda>r w'. r = 0 \<and> still scene w') w"
proof (induction n arbitrary: w)
  case 0
  then show ?case by (auto intro!: wp_returnI)
next
  case (Suc n)
  then have sn: "seen scene (lens_at (hist w)) w" by (simp add: seen_def)
  have nn: "\<not> mean_luma d < 0" for d using mean_luma_range(1) [of d] by simp
  show ?case unfolding exposure_loop.simps ctrl_set_def
    by (intro wp_bindI, rule wp_mono [OF measure_seen [OF sn]],
        intro wp_ifI wp_returnI wp_bindI wp_getsI wp_optionI wp_modifyI wp_ask_still Suc.IH)
      (auto simp: seen_def nn)
qed

lemma stop_keeps_lens: "wp camera_stop (\<lambda>_ w'. lens_at (hist w') = lens_at (hist w)) w"
proof -
  have "wp (unmap_buffers xs) (\<lambda>_ w'. lens_at (hist w') = lens_at (hist w)) w" for xs and w :: af_world
  proof (induction xs arbitrary: w)
    case (Cons x xs)
    show ?case unfolding unmap_buffers.simps by (intro wp_bindI wp_tellI, rule wp_mono [OF Cons]) simp
  qed (auto intro!: wp_returnI)
  then show ?thesis unfolding camera_stop_def
    by (intro wp_bindI wp_tellI) (rule wp_mono, assumption, auto intro!: wp_tellI)
qed

subsection \<open>A lens that cannot be moved\<close>

definition lost :: "af_world \<Rightarrow> bool" where
  "lost w = (\<forall>h p. fst (env w h (S_Ctrl Focus_Absolute p)) < 0)"

lemma probe_lost: "lost w \<Longrightarrow> wp (probe p) (\<lambda>s w'. s = \<lparr>pos = p, fv = - 1\<rparr> \<and> lost w') w"
  by (simp add: probe_def set_focus_def ctrl_set_def ask_def wp_def lost_def)

lemma coarse_lost:
  assumes "lost w" "fv best = - 1" "- 1 \<le> worst"
  shows "wp (coarse_loop p best worst) (\<lambda>r w'. r = (best, if p > 1023 then worst else - 1) \<and> lost w') w"
  using assms
proof (induction p best worst arbitrary: w rule: coarse_loop.induct)
  case (1 p best worst)
  show ?case
  proof (cases "p > 1023")
    case True
    with 1 show ?thesis by (subst coarse_loop.simps) (auto intro!: wp_returnI)
  next
    case False
    have "wp (coarse_loop (p + 128) best (- 1)) (\<lambda>r w'. r = (best, - 1) \<and> lost w') w'" if "lost w'" for w'
    proof (rule wp_mono)
      have m: "(if fv \<lparr>pos = p, fv = - 1\<rparr> < worst then fv \<lparr>pos = p, fv = - 1\<rparr> else worst) = - 1" using 1(4) by simp
      show "wp (coarse_loop (p + 128) best (- 1)) (\<lambda>r w'. r = (best, if p + 128 > 1023 then - 1 else - 1) \<and> lost w') w'"
        using "1.IH" [OF False that, of "\<lparr>pos = p, fv = - 1\<rparr>", unfolded m] 1(3) by simp
    qed simp
    with False 1(3,4) show ?thesis
      by (subst coarse_loop.simps) (auto intro!: wp_bindI wp_mono [OF probe_lost [OF 1(2)]] simp: less_le)
  qed
qed

text \<open>
  A defect: when every attempt to move the lens fails, the program reports success nevertheless. The failures count
  as a sharpness of \<open>- 1\<close> both for the best and for the worst position, and their quotient looks like a
  scene without contrast.
\<close>

lemma lost_lens_reported_as_success:
  assumes "lost w"
  shows "wp (search n) (\<lambda>r w'. r = Some 0) w"
  unfolding search_def
  by (rule wp_bindI, rule wp_mono [OF coarse_lost [OF assms]])
    (auto simp: flat_def set_focus_def ctrl_set_def intro!: wp_bindI wp_askI wp_returnI)

subsection \<open>Properties\<close>

text \<open>
  C40. Exposure and gain stay in the sensor's ranges: started inside them, the exposure control, whatever frames it
  sees and whatever fails, ends inside them, has sent no setting outside them, and has taken at most
  fifty frames.
\<close>

theorem auto_exposure_in_limits:
  assumes "in_limits (dev w)" "list_all (\<lambda>x. fair (fst x)) (hist w)"
  shows "wp auto_exposure (\<lambda>_ w'. in_limits (dev w') \<and> list_all (\<lambda>x. fair (fst x)) (hist w') \<and>
    frames_taken (hist w') \<le> frames_taken (hist w) + 50) w"
  using exposure_loop_outcome [OF assms(1), of 10] assms(2)
  unfolding auto_exposure_def by (auto simp: exposed_def elim: wp_mono)

definition af_world0 :: af_world where
  "af_world0 = \<lparr>dev = \<lparr>exposure = 3260, gain = 64\<rparr>, hist = [], env = \<lambda>h e. (0, \<lambda>i. 0)\<rparr>"

theorem auto_exposure_in_limits_witness: "in_limits (dev (exec auto_exposure af_world0))"
  using auto_exposure_in_limits [of af_world0] by (simp add: wp_def af_world0_def in_limits_def)

text \<open>
  C20. The search finds a peak: over any scene that does not move, with working devices, the program run without
  arguments ends (1031 rounds suffice for the refinement), reports success, and leaves the lens at a
  position of its range at least as sharp as all eight of the coarse sweep; and it is a peak, with no
  sharper position two or four steps away, unless it is less than five percent sharper than each of
  the eight.
\<close>

theorem autofocus_finds_peak:
  assumes "still scene w" "1031 \<le> n"
  shows "wp (main n []) (\<lambda>r w'. r = Some 0 \<and> 0 \<le> lens_at (hist w') \<and> lens_at (hist w') \<le> 1023 \<and>
    (\<forall>j < 8. focus_value (scene (128 * int j)) \<le> focus_value (scene (lens_at (hist w')))) \<and>
    (peak scene (lens_at (hist w')) \<or>
      (\<forall>j < 8. 100 * focus_value (scene (lens_at (hist w'))) < 105 * focus_value (scene (128 * int j))))) w"
    (is "wp _ ?Q w")
proof -
  have stop: "wp (do { camera_stop; return r }) ?Q w'" if "r = Some 0 \<and> (\<exists>p. seen scene p w' \<and> 0 \<le> p \<and> p \<le> 1023 \<and>
      (\<forall>j < 8. sharp scene (128 * int j) \<le> sharp scene p) \<and>
      (peak scene p \<or> (\<forall>j < 8. 100 * sharp scene p < 105 * sharp scene (128 * int j))))" for r w'
    by (intro wp_bindI, rule wp_mono [OF stop_keeps_lens]) (use that in \<open>auto intro!: wp_returnI simp: seen_def\<close>)
  have srch: "wp (do { r \<leftarrow> search n; camera_stop; return r }) ?Q w'" if "still scene w'" for w'
    by (rule wp_bindI, rule wp_mono [OF search_outcome [OF that assms(2)] stop])
  have expo: "wp (do { ret \<leftarrow> auto_exposure; r \<leftarrow> (if ret < 0 then return (Some 1) else search n); camera_stop; return r }) ?Q w'"
    if "still scene w'" for w'
    unfolding auto_exposure_def
    by (rule wp_bindI, rule wp_mono [OF exposure_still [OF that]]) (use srch in auto)
  have run: "wp (run_camera n) ?Q w'" if "still scene w'" for w'
    unfolding run_camera_def ctrl_set_def
    by (intro wp_bindI wp_getsI wp_ask_still [OF that] wp_ask_still, assumption, rule wp_mono [OF start_still], assumption)
      (use expo in auto)
  show ?thesis unfolding main_def parse_args.simps option.case
    by (intro wp_bindI wp_modifyI wp_ask_still wp_ifI wp_returnI run) (use assms(1) in \<open>auto simp: not_less\<close>)
qed

text \<open>A scene that is sharpest at 300: a frame with one bright byte, the brighter the nearer the lens is.\<close>

definition demo_scene :: "int \<Rightarrow> frame" where
  "demo_scene p = (\<lambda>i. if i = 100 then word_of_int (max 0 (250 - \<bar>p - 300\<bar> div 4)) else 0)"

definition af_world1 :: af_world where
  "af_world1 = af_world0\<lparr>env := \<lambda>h e. (0, demo_scene (lens_at h))\<rparr>"

theorem autofocus_finds_peak_witness:
  "result (main 1031 []) af_world1 = Some 0 \<and> lens_at (hist (exec (main 1031 []) af_world1)) \<le> 1023"
  using autofocus_finds_peak [of demo_scene af_world1 1031] by (simp add: wp_def still_def af_world1_def)

end
