(* ===== verification/Spec2Isabelle.thy ===== *)
theory Spec2Isabelle
  imports Pump_Contracts Usbpd_Contracts Ese_Board_Contracts Touch_Contracts Fingerprint_Contracts
    Panel_Contracts Redriver Lens Camera_Contracts Autofocus_Contracts
begin

text \<open>
  A verification library for the kernel drivers of the Galaxy Tab S9 mainline port
  (\<open>src/kernel/files\<close>).

  \<^bold>\<open>The program.\<close> The repository carries out-of-tree drivers for the tablet's hardware. Three of them
  share the battery: the SM5714 charger and fuel gauge (\<open>sm5714_battery.c\<close>), the SM5440 charge pump for
  direct charging (\<open>sm5440_direct.c\<close>) and the SM5714 Type-C and power-delivery controller
  (\<open>sm5714_usbpd.c\<close>). They call each other (the pump takes the pack from the charger and gives it back, the
  port switches the charger's boost converter) and are driven by the kernel's timers, interrupts,
  power-supply core and Type-C state machine. The secure element is reached through a character device
  (\<open>snvm/sec_star.c\<close>), board code that powers it and brings up its bus (\<open>snvm/sec_k250a.c\<close>), an
  ISO 7816 T=1 stack (\<open>snvm/protocol\<close>) and a transport (\<open>snvm/hal\<close>). The pen digitizer
  (\<open>wacom-wez01.c\<close>) tells the touch screen (\<open>fts1ba90a.c\<close>) when to ignore fingers. The companion
  driver of the fingerprint sensor (\<open>egis_el721.c\<close>) powers the sensor for the secure world and implements the
  ioctl interface without sensor data; the display panel (\<open>panel-samsung-ana38407.c\<close>) lights the finger for it. The camera has
  a sensor (\<open>hi1337_gts9u.c\<close> with its register tables) and a focus motor (\<open>dw9808_vcm.c\<close>) that shares a rail with
  it; a user-space tool (\<open>tools/gts9wifi-autofocus.c\<close>) moves the motor and measures frames. The redriver
  (\<open>ps5169.c\<close>) carries USB and DisplayPort through the Type-C port.

  \<^bold>\<open>The model.\<close> \<open>Prelude\<close> has the monad the drivers are written in: a world holds the drivers' own state,
  the history of calls into code that is not in the repository, each with its answer, and an
  environment that answers the next call. The environment is an arbitrary function of the
  history and the call, so that a theorem about all worlds is one about every behaviour of hardware and
  kernel: failing transfers, any register contents, any interleaving of answers. What a theorem says
  about hardware it says about the history (\<open>obeys\<close> of a policy) or about functions that read it.
  Definitions carry the names of the C functions. Values are kept at the width the code gives them
  (\<open>u8\<close>, \<open>u16\<close>, \<open>u32\<close>, or \<open>int\<close> with the wrap written out); error codes are negative integers as in the
  code; an access outside an object is an event of its own in the secure-element model.
  A loop with a bound in the code is a recursion on that bound; \<open>receive_loop\<close> and the \<open>again\<close> loop of
  \<open>star_transceive\<close>, which have none, take fuel and return \<open>None\<close> when it does not suffice:
  \<open>receive_gives_up\<close> shows that twelve rounds suffice on a dead line, \<open>wtx_unbounded\<close> that no fuel
  suffices against an element that keeps asking for time. The refinement of the focus search takes fuel too:
  \<open>autofocus_finds_peak\<close> shows that 1031 rounds suffice over a still scene, one for each position of the lens
  and one for each halving of the step. The poll of the motor's status makes at most forty rounds, as each of them
  sleeps for at least a fortieth of the timeout. Floating-point numbers of the focus tool are rational numbers.

  \<^bold>\<open>Theories.\<close>
  \<^item> \<open>Prelude\<close>: C arithmetic, the world, weakest preconditions (\<open>wp\<close>), invariants (\<open>keeps\<close>), the events a
    computation can issue (\<open>emits\<close>, \<open>observer\<close>), policies; one rule collection for each. \<open>Calls\<close>: calls that answer with a number, and the
    rules for worlds written out.
  \<^item> \<open>Board\<close>: the state of the three charging drivers together and their register access; the locale
    \<open>board_invariant\<close> of invariants that harmless calls cannot break.
  \<^item> \<open>Sm5714_Battery\<close>, \<open>Sm5440_Direct\<close>, \<open>Sm5714_Usbpd\<close>: the three drivers, function by function.
  \<^item> \<open>Sm5714_Charging\<close>, \<open>Sm5440_Safety\<close>, \<open>Usbpd_Protocol\<close>: each operation keeps the charging invariants;
    the locales say which driver is indifferent to which invariant, and are interpreted for both.
  \<^item> \<open>Charge_System\<close>: the step relation of the three drivers and the safety of all reachable states.
  \<^item> \<open>Charging_Contracts\<close>, \<open>Pump_Contracts\<close>, \<open>Usbpd_Contracts\<close>: what the single operations achieve.
  \<^item> \<open>Ese_Data\<close>, \<open>Ese_T1\<close>: packet list, transport and the T=1 protocol; \<open>Ese_Frames\<close>: blocks, chains and
    checksums; \<open>Ese_Session\<close>: the invariant of the protocol over any sequence of calls;
    \<open>Ese_Exchange\<close>: what one context sends another receives, termination, memory safety.
  \<^item> \<open>Ese_Star\<close>: the character device and the board code; \<open>Ese_Star_Contracts\<close>: power, mailbox refinement,
    malformed chains, an APDU and its answer; the locale \<open>transport_invariant\<close> carries any invariant that
    the protocol's traffic cannot break through a whole chain; \<open>Ese_Board_Contracts\<close>: bring-up gives back
    what it takes.
  \<^item> \<open>Pen_Digitizer\<close>, \<open>Touch_Screen\<close>: the two input drivers; \<open>Pen_Contracts\<close>: the proximity flag, frames
    and the silence timer; \<open>Touch_Contracts\<close>: fingers and pen, event decoding, the event
    buffer, suspend and resume.
  \<^item> \<open>Fingerprint\<close>: the fingerprint driver; \<open>Fingerprint_Ledger\<close>: the kernel objects it holds, the lines
    and the references, kept by every operation; the locale \<open>transfer_invariant\<close> carries what the single
    operations keep to a batch of transfers; \<open>Fingerprint_Contracts\<close>: its properties.
  \<^item> \<open>Panel\<close>: the panel driver with its command sequences; \<open>Panel_Invariant\<close>: supplies, watchdog and what the
    panel was last told, kept by every operation; \<open>Panel_Contracts\<close>: its properties.
  \<^item> \<open>Redriver\<close>: the redriver, the registers its chip was told and what the port asks for. \<open>Lens\<close>: the focus motor,
    its ramps and its share in the rail.
  \<^item> \<open>Camera_Tables\<close>, \<open>Camera\<close>: the sensor and its register tables; \<open>Camera_Contracts\<close>: power, exposure,
    binding, and that the tables agree with the driver's figures.
  \<^item> \<open>Autofocus\<close>: the focus tool; \<open>Autofocus_Contracts\<close>: the ranges of its measures and settings, and the search
    over a scene that does not move.

  \<^bold>\<open>What the theorems show.\<close> Charging: no reachable state violates the current limits or closes the
  battery switch under the boost converter, and the pump runs only over a settled bus at its recorded
  operating point; the source is out of its programmable contract whenever the pump is idle.
  Secure element: only well-formed blocks reach the line, receiving stays in bounds and ends on
  a dead line, the element is talked to only under power, a response is handed over at most once. Input:
  touch is suppressed exactly while user space sees the pen, and then no finger is reported. Fingerprint: supply
  and lines are on only while the sensor is powered, the structure outlives its last user, unloading gives
  everything back, and a batch of transfers is one ioctl per transfer. Panel: it is talked to only under power,
  shows the latest setting, and the fingerprint mode never outlasts its watchdog. Camera: the sensor is powered exactly while it streams, an exposure
  is shorter than its frame, the motor moves in small steps, and the focus search ends at a peak. Redriver: the lanes
  follow the port.
  Several properties state defects that the model made visible; they are listed as findings with the
  source line, among them a fast-charge switch that closes the battery switch behind the pump, a
  command that is sent in place of the next one after a failed transfer, and a timer that cannot be
  started again after its first stop.

  \<^bold>\<open>Modelling decisions.\<close> An operation runs to its end: locks are not modelled, with the exception that
  the pen driver may run between any two of the touch screen's questions to it. Sleeps and delays are
  calls with their duration. Probe functions are split where the kernel may call back into the
  driver. The order of fields in a structure, log output and the release of plain memory are left out.
  Reads return as many bytes as asked for, padded with zeros where an answer is
  shorter; an operation whose transfer failed does not look at them unless the code does.

  \<^bold>\<open>Not modelled.\<close> The secure processor's drivers (\<open>spu/\<close>: \<open>spcom.c\<close>, \<open>qcom_spss.c\<close> and others), the shim that stands in for Android's
  system libraries (\<open>tools/gts9u-android-shim.c\<close>), and the scripts that
  build the image. The I2C and SPI back ends of the secure element's transport are one
  kernel call each and part of the environment; its allocation tracker and wake lock are compiled out.
\<close>

end
